(* ===== verification/Go_Prelude.thy ===== *)
theory Go_Prelude
  imports Complex_Main "HOL-Library.Word"
begin

text \<open>
  Shared vocabulary of the development: the named collections the component proofs use, Go's
  \<^verbatim>\<open>int\<close> as a 64-bit word, decimal printing (\<^verbatim>\<open>%d\<close>), Go error values, and the generic facts on
  lists and strings several components rely on.

  Strings are byte lists, as Go strings are. Numbers of type \<^verbatim>\<open>int\<close> are 64-bit two's complement
  words; comparisons of the source are signed, so they are written with \<open>sint\<close>.
\<close>

section \<open>Named collections\<close>

named_theorems go_consts \<open>constants of the sources, unfolded to their literal values\<close>
named_theorems handler_defs \<open>the handlers of a controller, unfolded together\<close>
named_theorems decode_simps \<open>decoding of response bodies into structs\<close>
named_theorems float_exact \<open>float64 operations whose operands keep them exact\<close>
named_theorems frame_simps \<open>what an operation leaves untouched\<close>

section \<open>Go integers\<close>

type_synonym goint = "64 word"

definition int_inc :: "goint \<Rightarrow> goint" where
  "int_inc n = n + 1"

lemma sint_range_goint: "- (2 ^ 63) \<le> sint (n :: goint) \<and> sint n < 2 ^ 63"
  using sint_range_size [of n] by (simp add: word_size)

text \<open>An increment below another value of the same width cannot wrap around.\<close>

lemma sint_int_inc:
  assumes "sint n < sint (m :: goint)"
  shows "sint (int_inc n) = sint n + 1"
proof -
  have "sint n + 1 < 2 ^ 63" and "- (2 ^ 63) \<le> sint n + 1"
    using assms sint_range_goint [of n] sint_range_goint [of m] by auto
  then show ?thesis
    by (simp add: int_inc_def sint_word_ariths signed_take_bit_int_eq_self)
qed

section \<open>Decimal printing\<close>

fun digit_char :: "nat \<Rightarrow> char" where
  "digit_char d = char_of (48 + d)"

fun show_nat :: "nat \<Rightarrow> string" where
  "show_nat n = (if n < 10 then [digit_char n] else show_nat (n div 10) @ [digit_char (n mod 10)])"

declare show_nat.simps [simp del]

definition show_int :: "int \<Rightarrow> string" where
  "show_int i = (if i < 0 then CHR ''-'' # show_nat (nat (- i)) else show_nat (nat i))"

definition show_goint :: "goint \<Rightarrow> string" where
  "show_goint n = show_int (sint n)"

text \<open>Reading a decimal back: the reference inverse of \<^const>\<open>show_int\<close>.\<close>

definition char_digit :: "char \<Rightarrow> nat" where
  "char_digit c = of_char c - 48"

definition read_nat :: "string \<Rightarrow> nat" where
  "read_nat s = foldl (\<lambda>acc c. 10 * acc + char_digit c) 0 s"

definition read_int :: "string \<Rightarrow> int" where
  "read_int s = (case s of [] \<Rightarrow> 0 | c # cs \<Rightarrow> if c = CHR ''-'' then - int (read_nat cs) else int (read_nat s))"

lemma char_digit_char: "d < 10 \<Longrightarrow> char_digit (digit_char d) = d"
  by (simp add: char_digit_def)

lemma read_nat_snoc: "read_nat (s @ [c]) = 10 * read_nat s + char_digit c"
  by (simp add: read_nat_def)

lemma read_show_nat: "read_nat (show_nat n) = n"
proof (induction n rule: show_nat.induct)
  case (1 n)
  show ?case
  proof (cases "n < 10")
    case True
    then show ?thesis
      by (simp add: show_nat.simps [of n] read_nat_def char_digit_char del: digit_char.simps)
  next
    case False
    with 1 show ?thesis
      by (simp add: show_nat.simps [of n] read_nat_snoc char_digit_char del: digit_char.simps)
  qed
qed

lemma digit_not_minus: "d < 10 \<Longrightarrow> digit_char d \<noteq> CHR ''-''"
proof
  assume d: "d < 10" and "digit_char d = CHR ''-''"
  then have "(of_char (digit_char d) :: nat) = of_char (CHR ''-'')" by (simp only:)
  with d show False by simp
qed

lemma show_nat_hd: "\<exists>d s. d < 10 \<and> show_nat n = digit_char d # s"
proof (induction n rule: show_nat.induct)
  case (1 n)
  show ?case
  proof (cases "n < 10")
    case True
    then show ?thesis by (subst show_nat.simps) (auto simp del: digit_char.simps)
  next
    case False
    with 1 obtain d s where "d < 10" "show_nat (n div 10) = digit_char d # s" by blast
    with False show ?thesis by (subst show_nat.simps) (auto simp del: digit_char.simps)
  qed
qed

lemma read_show_int: "read_int (show_int i) = i"
proof (cases "i < 0")
  case True
  then show ?thesis by (simp add: read_int_def show_int_def read_show_nat)
next
  case False
  obtain d s where hd: "d < 10" "show_nat (nat i) = digit_char d # s"
    using show_nat_hd by blast
  then have "read_int (show_nat (nat i)) = int (read_nat (show_nat (nat i)))"
    using digit_not_minus [of d] by (simp add: read_int_def del: digit_char.simps)
  with False show ?thesis by (simp add: show_int_def read_show_nat)
qed

section \<open>Go error values\<close>

text \<open>
  An error is a status error of the Kubernetes API with its reason, a plain error, or an error
  wrapped with a prefix (\<^verbatim>\<open>fmt.Errorf("prefix: %w", err)\<close>, \<^verbatim>\<open>errors.Wrap(err, "prefix")\<close>).
\<close>

datatype go_error =
    StatusError (err_reason: string) (err_message: string)
  | PlainError string
  | WrapError string go_error

fun error_text :: "go_error \<Rightarrow> string" where
  "error_text (StatusError r m) = m"
| "error_text (PlainError m) = m"
| "error_text (WrapError p e) = p @ '': '' @ error_text e"

section \<open>Lists and strings\<close>

text \<open>Two strings joined by a separator that the first of them cannot hold are told apart.\<close>

lemma append_sep_inject:
  assumes "a @ c # b = a' @ c # b'" and "c \<notin> set a" and "c \<notin> set a'"
  shows "a = a' \<and> b = b'"
  using assms
proof (induction a arbitrary: a')
  case Nil
  then show ?case by (cases a') auto
next
  case (Cons x a)
  then obtain y ys where a': "a' = y # ys" by (cases a') auto
  with Cons.prems have "a @ c # b = ys @ c # b'" "c \<notin> set a" "c \<notin> set ys" "x = y" by auto
  with Cons.IH [of ys] a' show ?case by auto
qed

end
