(* ===== verification/Go_Float64.thy ===== *)
theory Go_Float64
  imports Go_Prelude "HOL-Library.Log_Nat"
begin

text \<open>
  Go's \<^verbatim>\<open>float64\<close>: IEEE 754 binary64 values as rationals with the two infinities and NaN, each
  operation computed exactly and rounded to the nearest value of 53 significant bits (ties to
  even, gradual underflow, overflow to infinity). The sign of zero is not kept: no code of the
  repository can observe it. The conversion to \<^verbatim>\<open>int\<close> truncates towards zero; outside the range of
  \<^verbatim>\<open>int\<close> its result depends on the Go implementation and is a parameter.

  The lemmas show when the arithmetic is exact: a value \<open>m / 2^k\<close> with \<open>\<bar>m\<bar> < 2^53\<close> and
  \<open>k \<le> 1074\<close> is representable, so rounding leaves it alone.
\<close>

datatype float64 = Fin rat | PInf | NInf | NaN

section \<open>Rounding\<close>

definition round_half_even :: "rat \<Rightarrow> int" where
  "round_half_even x =
     (let f = \<lfloor>x\<rfloor>; d = x - of_int f
      in if d < 1 / 2 then f else if 1 / 2 < d then f + 1 else if even f then f else f + 1)"

text \<open>The binary exponent of a positive rational: \<open>2 powi e \<le> x < 2 powi (e + 1)\<close>.\<close>

definition ilog2 :: "rat \<Rightarrow> int" where
  "ilog2 x =
     (let (n, d) = quotient_of x;
          e = int (floorlog 2 (nat n)) - int (floorlog 2 (nat d))
      in if 2 powi e \<le> x then e else e - 1)"

definition f64_round :: "rat \<Rightarrow> float64" where
  "f64_round x =
     (if x = 0 then Fin 0
      else let q = max (ilog2 \<bar>x\<bar> - 52) (- 1074);
               r = of_int (round_half_even (x / 2 powi q)) * 2 powi q
           in if 2 ^ 1024 \<le> \<bar>r\<bar> then (if 0 < x then PInf else NInf) else Fin r)"

section \<open>Arithmetic and conversions\<close>

fun f64_add :: "float64 \<Rightarrow> float64 \<Rightarrow> float64" where
  "f64_add (Fin a) (Fin b) = f64_round (a + b)"
| "f64_add NaN _ = NaN"
| "f64_add _ NaN = NaN"
| "f64_add PInf NInf = NaN"
| "f64_add NInf PInf = NaN"
| "f64_add PInf _ = PInf"
| "f64_add _ PInf = PInf"
| "f64_add NInf _ = NInf"
| "f64_add _ NInf = NInf"

definition f64_inf :: "bool \<Rightarrow> float64" where
  "f64_inf pos = (if pos then PInf else NInf)"

fun f64_mul :: "float64 \<Rightarrow> float64 \<Rightarrow> float64" where
  "f64_mul (Fin a) (Fin b) = f64_round (a * b)"
| "f64_mul NaN _ = NaN"
| "f64_mul _ NaN = NaN"
| "f64_mul (Fin a) PInf = (if a = 0 then NaN else f64_inf (0 < a))"
| "f64_mul (Fin a) NInf = (if a = 0 then NaN else f64_inf (a < 0))"
| "f64_mul PInf (Fin b) = (if b = 0 then NaN else f64_inf (0 < b))"
| "f64_mul NInf (Fin b) = (if b = 0 then NaN else f64_inf (b < 0))"
| "f64_mul PInf PInf = PInf"
| "f64_mul PInf NInf = NInf"
| "f64_mul NInf PInf = NInf"
| "f64_mul NInf NInf = PInf"

text \<open>A zero divisor is read as positive zero; the sources divide by constants only.\<close>

fun f64_div :: "float64 \<Rightarrow> float64 \<Rightarrow> float64" where
  "f64_div (Fin a) (Fin b) =
     (if b = 0 then (if a = 0 then NaN else f64_inf (0 < a)) else f64_round (a / b))"
| "f64_div NaN _ = NaN"
| "f64_div _ NaN = NaN"
| "f64_div (Fin a) _ = Fin 0"
| "f64_div PInf (Fin b) = f64_inf (0 \<le> b)"
| "f64_div NInf (Fin b) = f64_inf (b < 0)"
| "f64_div _ _ = NaN"

definition f64_of_int :: "goint \<Rightarrow> float64" where
  "f64_of_int n = f64_round (of_int (sint n))"

definition trunc_rat :: "rat \<Rightarrow> int" where
  "trunc_rat x = (if 0 \<le> x then \<lfloor>x\<rfloor> else \<lceil>x\<rceil>)"

definition int_of_f64 :: "(float64 \<Rightarrow> goint) \<Rightarrow> float64 \<Rightarrow> goint" where
  "int_of_f64 conv f =
     (case f of
        Fin x \<Rightarrow> (if - (2 ^ 63) \<le> trunc_rat x \<and> trunc_rat x < 2 ^ 63
                  then word_of_int (trunc_rat x) else conv f)
      | _ \<Rightarrow> conv f)"

text \<open>\<^verbatim>\<open>%.0f\<close>: the nearest integer (ties to even) in decimal.\<close>

fun show_f64_0 :: "float64 \<Rightarrow> string" where
  "show_f64_0 (Fin x) = show_int (round_half_even x)"
| "show_f64_0 PInf = ''+Inf''"
| "show_f64_0 NInf = ''-Inf''"
| "show_f64_0 NaN = ''NaN''"

section \<open>Exactness\<close>

lemma round_half_even_of_int [simp]: "round_half_even (of_int i) = i"
  by (simp add: round_half_even_def)

lemma nat_pow_bounds:
  assumes "0 < n"
  shows "2 powi (int (floorlog 2 (nat n)) - 1) \<le> (of_int n :: rat)
       \<and> (of_int n :: rat) < 2 powi int (floorlog 2 (nat n))"
proof -
  let ?k = "floorlog 2 (nat n)"
  have b: "2 ^ (?k - 1) \<le> nat n" "nat n < 2 ^ ?k"
    using floorlog_bounds [of "nat n" 2] assms by auto
  have pos: "0 < ?k" using assms by (simp add: floorlog_def)
  have "(of_nat (2 ^ (?k - 1)) :: rat) \<le> of_nat (nat n)" "(of_nat (nat n) :: rat) < of_nat (2 ^ ?k)"
    using b by (auto simp only: of_nat_le_iff of_nat_less_iff)
  moreover have "(2 :: rat) powi (int ?k - 1) = 2 ^ (?k - 1)"
    using pos by (simp add: power_int_def nat_diff_distrib)
  ultimately show ?thesis using assms by (simp add: of_nat_nat)
qed

lemma ilog2_upper:
  assumes "0 < x"
  shows "x < 2 powi (ilog2 x + 1)"
proof -
  obtain n d where q: "quotient_of x = (n, d)" by (cases "quotient_of x")
  have d: "0 < d" using quotient_of_denom_pos [OF q] .
  have x: "x = of_int n / of_int d" using quotient_of_div [OF q] .
  have n: "0 < n" using assms d x by (simp add: zero_less_divide_iff)
  let ?e = "int (floorlog 2 (nat n)) - int (floorlog 2 (nat d))"
  have "x < 2 powi int (floorlog 2 (nat n)) / 2 powi (int (floorlog 2 (nat d)) - 1)"
    unfolding x using nat_pow_bounds [OF n] nat_pow_bounds [OF d] d n
    by (intro frac_less) auto
  also have "\<dots> = 2 powi (?e + 1)"
    by (subst power_int_diff [symmetric]) (simp_all add: algebra_simps)
  finally have up: "x < 2 powi (?e + 1)" .
  show ?thesis
  proof (cases "2 powi ?e \<le> x")
    case True
    with up q show ?thesis by (simp add: ilog2_def)
  next
    case False
    with q show ?thesis by (simp add: ilog2_def)
  qed
qed

lemma ilog2_lower:
  assumes "0 < x"
  shows "2 powi ilog2 x \<le> x"
proof -
  obtain n d where q: "quotient_of x = (n, d)" by (cases "quotient_of x")
  have d: "0 < d" using quotient_of_denom_pos [OF q] .
  have x: "x = of_int n / of_int d" using quotient_of_div [OF q] .
  have n: "0 < n" using assms d x by (simp add: zero_less_divide_iff)
  let ?e = "int (floorlog 2 (nat n)) - int (floorlog 2 (nat d))"
  have "2 powi (?e - 1) = (2 :: rat) powi (int (floorlog 2 (nat n)) - 1) / 2 powi int (floorlog 2 (nat d))"
    by (subst power_int_diff [symmetric]) (simp_all add: algebra_simps)
  also have "\<dots> \<le> x"
    unfolding x using nat_pow_bounds [OF n] nat_pow_bounds [OF d] d n
    by (intro frac_le) auto
  finally have "2 powi (?e - 1) \<le> x" .
  with q show ?thesis by (simp add: ilog2_def Let_def)
qed

text \<open>A dyadic rational with a 53-bit numerator is a float64, so rounding keeps it.\<close>

lemma f64_round_exact:
  fixes m :: int and k :: nat
  assumes m: "\<bar>m\<bar> < 2 ^ 53" and k: "k \<le> 1074"
  shows "f64_round (of_int m / 2 ^ k) = Fin (of_int m / 2 ^ k)"
proof (cases "m = 0")
  case True
  then show ?thesis by (simp add: f64_round_def)
next
  case False
  define x :: rat where "x = of_int m / 2 ^ k"
  have x0: "x \<noteq> 0" using False by (simp add: x_def)
  have ax: "\<bar>x\<bar> = of_int \<bar>m\<bar> / 2 ^ k" by (simp add: x_def abs_divide)
  have m': "(of_int \<bar>m\<bar> :: rat) < 2 ^ 53"
  proof -
    have "(of_int \<bar>m\<bar> :: rat) < of_int (2 ^ 53)" using m by (simp only: of_int_less_iff)
    then show ?thesis by simp
  qed
  have "2 powi ilog2 \<bar>x\<bar> \<le> \<bar>x\<bar>" using ilog2_lower x0 by simp
  also have "\<bar>x\<bar> < 2 ^ 53 / 2 ^ k" unfolding ax using m' by (intro divide_strict_right_mono) auto
  also have "(2 :: rat) ^ 53 / 2 ^ k = 2 powi (53 - int k)" by (simp add: power_int_diff)
  finally have lt: "2 powi ilog2 \<bar>x\<bar> < (2 :: rat) powi (53 - int k)" .
  have "ilog2 \<bar>x\<bar> < 53 - int k"
    using lt power_int_increasing [of "53 - int k" "ilog2 \<bar>x\<bar>" "2 :: rat"] by force
  define q where "q = max (ilog2 \<bar>x\<bar> - 52) (- 1074)"
  have qk: "q \<le> - int k" using \<open>ilog2 \<bar>x\<bar> < 53 - int k\<close> k by (simp add: q_def)
  define j where "j = nat (- int k - q)"
  have "x / 2 powi q = of_int m * (2 powi (- int k) / 2 powi q)"
    by (simp add: x_def power_int_minus divide_inverse)
  also have "2 powi (- int k) / 2 powi q = (2 :: rat) ^ j"
    using qk by (subst power_int_diff [symmetric]) (simp_all add: j_def power_int_def)
  finally have e: "x / 2 powi q = of_int (m * 2 ^ j)" by simp
  have r: "of_int (round_half_even (x / 2 powi q)) * 2 powi q = x"
  proof -
    have "of_int (round_half_even (x / 2 powi q)) = x / 2 powi q" unfolding e by (simp only: round_half_even_of_int)
    then show ?thesis by simp
  qed
  have "\<bar>x\<bar> \<le> of_int \<bar>m\<bar>" unfolding ax by (simp add: divide_le_eq mult_le_cancel_left1)
  also have "\<dots> < 2 ^ 1024" using m' by (rule less_trans) simp
  finally have "\<not> 2 ^ 1024 \<le> \<bar>x\<bar>" by simp
  then have "f64_round x = Fin x" using x0 r by (simp add: f64_round_def q_def [symmetric] Let_def)
  then show ?thesis by (simp add: x_def)
qed

lemma f64_round_int [float_exact]: "\<bar>m\<bar> < 2 ^ 53 \<Longrightarrow> f64_round (of_int m) = Fin (of_int m)"
  using f64_round_exact [of m 0] by simp

lemma f64_round_numeral [float_exact]:
  "(numeral w :: int) < 2 ^ 53 \<Longrightarrow> f64_round (numeral w) = Fin (numeral w)"
  using f64_round_int [of "numeral w"] by simp

lemma f64_of_int_exact [float_exact]:
  "\<bar>sint n\<bar> < 2 ^ 53 \<Longrightarrow> f64_of_int n = Fin (of_int (sint n))"
  unfolding f64_of_int_def by (rule f64_round_int)

lemma sint_word_of_int_goint:
  "- (2 ^ 63) \<le> i \<Longrightarrow> i < 2 ^ 63 \<Longrightarrow> sint (word_of_int i :: goint) = i"
  by (simp add: signed_of_int signed_take_bit_int_eq_self)

lemma int_of_f64_in_range:
  "- (2 ^ 63) \<le> trunc_rat x \<Longrightarrow> trunc_rat x < 2 ^ 63 \<Longrightarrow> sint (int_of_f64 conv (Fin x)) = trunc_rat x"
  by (simp add: int_of_f64_def signed_of_int signed_take_bit_int_eq_self)

end
