(* ===== verification/Sizing.thy ===== *)
theory Sizing
  imports Go_Float64
begin

text \<open>
  The composition function (\<^verbatim>\<open>crossplane/functions/benchmark-sizing/main.go\<close>): it validates the GPU
  model and the workload of a composite resource, estimates the runtime in \<^verbatim>\<open>float64\<close> arithmetic and
  writes the estimate into the annotations.

  Annotations are a Go map, a reference: the desired state of the response is the very observed
  state of the request, so a write through one is seen through the other, and a map that is created
  on the way is seen by nobody unless it is stored somewhere. The maps therefore live in a heap of
  cells, and a metadata struct holds the address of its map or nil. The messages of the request are
  pointers with nil-safe getters, hence options.
\<close>

section \<open>Requests and responses\<close>

type_synonym annotations = "string \<rightharpoonup> string"
type_synonym annotation_heap = "annotations list"

datatype go_any = AnyString string | AnyFloat64 float64 | AnyOther

record xr_metadata =
  xrName :: string
  xrAnnotations :: "nat option"

record xr_resource =
  xrMetadata :: "xr_metadata option"
  xrSpec :: "(string \<rightharpoonup> go_any) option"

record xr_composite =
  Resource :: "xr_resource option"

record xr_state =
  Composite :: "xr_composite option"

record RunFunctionRequest =
  Observed :: "xr_state option"

datatype Severity = SEVERITY_FATAL | SEVERITY_NORMAL

record fn_result =
  resSeverity :: Severity
  resMessage :: string

record RunFunctionResponse =
  Desired :: "xr_state option"
  Results :: "fn_result list"

text \<open>
  The getter chains. \<^verbatim>\<open>GetComposite().GetResource()\<close>: the composite and its resource may each be
  nil; every getter of a nil message returns the zero value of the field. The message types are those the
  source uses: a resource with metadata and spec getters.
\<close>

definition getResource :: "xr_state option \<Rightarrow> xr_resource option" where
  "getResource s = (case s of None \<Rightarrow> None | Some st \<Rightarrow> (case Composite st of None \<Rightarrow> None | Some c \<Rightarrow> Resource c))"

definition getFields :: "xr_state option \<Rightarrow> string \<rightharpoonup> go_any" where
  "getFields s = (case getResource s of None \<Rightarrow> Map.empty
                  | Some r \<Rightarrow> (case xrSpec r of None \<Rightarrow> Map.empty | Some fs \<Rightarrow> fs))"

definition getAnnotations :: "xr_state option \<Rightarrow> nat option" where
  "getAnnotations s = (case getResource s of None \<Rightarrow> None
                       | Some r \<Rightarrow> (case xrMetadata r of None \<Rightarrow> None | Some m \<Rightarrow> xrAnnotations m))"

section \<open>Tables\<close>

record gpuBenchmarkTier =
  estimatedRuntimeSec :: goint
  peakThroughput :: float64
  memoryBandwidthGbps :: float64

definition tierTable :: "string \<rightharpoonup> gpuBenchmarkTier" where
  "tierTable = map_of
     [(''T4'', \<lparr>estimatedRuntimeSec = 120, peakThroughput = Fin 400, memoryBandwidthGbps = Fin 300\<rparr>),
      (''V100'', \<lparr>estimatedRuntimeSec = 90, peakThroughput = Fin 900, memoryBandwidthGbps = Fin 900\<rparr>),
      (''A100'', \<lparr>estimatedRuntimeSec = 60, peakThroughput = Fin 2000, memoryBandwidthGbps = Fin 2000\<rparr>),
      (''H100'', \<lparr>estimatedRuntimeSec = 30, peakThroughput = Fin 3500, memoryBandwidthGbps = Fin 3350\<rparr>),
      (''L40S'', \<lparr>estimatedRuntimeSec = 45, peakThroughput = Fin 1800, memoryBandwidthGbps = Fin 864\<rparr>),
      (''RTX4090'', \<lparr>estimatedRuntimeSec = 75, peakThroughput = Fin 1200, memoryBandwidthGbps = Fin 1008\<rparr>)]"

definition validWorkloads :: "string \<Rightarrow> bool" where
  "validWorkloads w = (case map_of [(''inference'', True), (''training'', True)] w of None \<Rightarrow> False | Some b \<Rightarrow> b)"

section \<open>Helpers\<close>

definition strField :: "(string \<rightharpoonup> go_any) \<Rightarrow> string \<Rightarrow> string \<Rightarrow> string" where
  "strField flds key def = (case flds key of Some (AnyString s) \<Rightarrow> s | _ \<Rightarrow> def)"

definition numField :: "(string \<rightharpoonup> go_any) \<Rightarrow> string \<Rightarrow> float64 \<Rightarrow> float64" where
  "numField flds key def = (case flds key of Some (AnyFloat64 n) \<Rightarrow> n | _ \<Rightarrow> def)"

definition fatalResponse :: "string \<Rightarrow> RunFunctionResponse \<times> go_error option" where
  "fatalResponse msg =
     (\<lparr>Desired = None, Results = [\<lparr>resSeverity = SEVERITY_FATAL, resMessage = msg\<rparr>]\<rparr>, None)"

text \<open>
  The verb \<^verbatim>\<open>%q\<close>. ASCII text is quoted as \<^verbatim>\<open>strconv.Quote\<close> does; which other runes count as printable
  is a table of the Unicode standard, so the quoting of a text with non-ASCII bytes is the
  parameter \<open>quote\<close>.
\<close>

definition hex_digit :: "nat \<Rightarrow> char" where
  "hex_digit d = ''0123456789abcdef'' ! d"

definition quote_char :: "char \<Rightarrow> string" where
  "quote_char c =
     (let n = (of_char c :: nat)
      in if c = CHR 0x22 \<or> c = CHR 0x5C then [CHR 0x5C, c]
         else if 32 \<le> n \<and> n < 127 then [c]
         else if n = 7 then CHR 0x5C # ''a'' else if n = 8 then CHR 0x5C # ''b''
         else if n = 9 then CHR 0x5C # ''t'' else if n = 10 then CHR 0x5C # ''n''
         else if n = 11 then CHR 0x5C # ''v'' else if n = 12 then CHR 0x5C # ''f''
         else if n = 13 then CHR 0x5C # ''r''
         else CHR 0x5C # CHR ''x'' # [hex_digit (n div 16), hex_digit (n mod 16)])"

definition go_quote :: "(string \<Rightarrow> string) \<Rightarrow> string \<Rightarrow> string" where
  "go_quote quote s =
     (if list_all (\<lambda>c. (of_char c :: nat) < 128) s
      then CHR 0x22 # concat (map quote_char s) @ [CHR 0x22] else quote s)"

section \<open>The function\<close>

definition runtimeMultiplier :: "string \<Rightarrow> float64" where
  "runtimeMultiplier workload = (if workload = ''training'' then Fin 3 else Fin 1)"

definition batchMultiplier :: "goint \<Rightarrow> float64" where
  "batchMultiplier batchSize =
     (if 64 < sint batchSize then f64_add (Fin 1) (f64_div (f64_of_int (batchSize - 64)) (Fin 256)) else Fin 1)"

definition estimatedSec :: "(float64 \<Rightarrow> goint) \<Rightarrow> gpuBenchmarkTier \<Rightarrow> string \<Rightarrow> goint \<Rightarrow> goint" where
  "estimatedSec conv tier workload batchSize =
     int_of_f64 conv
       (f64_mul (f64_mul (f64_of_int (estimatedRuntimeSec tier)) (runtimeMultiplier workload))
         (batchMultiplier batchSize))"

definition estimatedRuntimeKey :: string where
  "estimatedRuntimeKey = ''platform.gpu-platform.io/estimated-runtime-sec''"
definition peakThroughputKey :: string where
  "peakThroughputKey = ''platform.gpu-platform.io/peak-throughput''"
definition costCenterKey :: string where
  "costCenterKey = ''platform.gpu-platform.io/cost-center''"

definition RunFunction ::
  "(float64 \<Rightarrow> goint) \<Rightarrow> (string \<Rightarrow> string) \<Rightarrow> annotation_heap \<Rightarrow> RunFunctionRequest
    \<Rightarrow> annotation_heap \<times> RunFunctionResponse \<times> go_error option" where
  "RunFunction conv quote heap req =
     (let specFields = getFields (Observed req);
          gpuModel = strField specFields ''gpuModel'' '''';
          workload = strField specFields ''workloadType'' '''';
          batchSize = int_of_f64 conv (numField specFields ''batchSize'' (Fin 32));
          costCenter = strField specFields ''costCenter'' ''CC-0000''
      in case tierTable gpuModel of
           None \<Rightarrow>
             (heap, fatalResponse (''unsupported gpuModel '' @ go_quote quote gpuModel
                                   @ ''; allowed: T4, V100, A100, H100, L40S, RTX4090''))
         | Some tier \<Rightarrow>
             if \<not> validWorkloads workload then
               (heap, fatalResponse (''unsupported workloadType '' @ go_quote quote workload
                                     @ ''; allowed: inference, training''))
             else
               (let est = estimatedSec conv tier workload batchSize;
                    resp = \<lparr>Desired = Observed req,
                            Results = [\<lparr>resSeverity = SEVERITY_NORMAL,
                                        resMessage = ''benchmark sizing: '' @ gpuModel @ ''/'' @ workload
                                          @ '' batch='' @ show_goint batchSize
                                          @ '' est='' @ show_goint est @ ''s''\<rparr>]\<rparr>;
                    (a, heap) = (case getAnnotations (Desired resp) of
                                   None \<Rightarrow> (length heap, heap @ [Map.empty])
                                 | Some a \<Rightarrow> (a, heap));
                    heap = heap[a := (heap ! a)(estimatedRuntimeKey \<mapsto> show_goint est)];
                    heap = heap[a := (heap ! a)(peakThroughputKey \<mapsto> show_f64_0 (peakThroughput tier))];
                    heap = heap[a := (heap ! a)(costCenterKey \<mapsto> costCenter)]
                in (heap, resp, None)))"

end
