(* ===== verification/Sizing_Properties.thy ===== *)
theory Sizing_Properties
  imports Sizing
begin

text \<open>
  Correctness of the sizing function: the floating-point estimate equals an integer formula, it is
  bounded and monotone, an accepted request is annotated, a request without an annotation map is
  not, and the requests that are refused are exactly those outside the two tables.
\<close>

section \<open>The estimate in integer arithmetic\<close>

definition workload_factor :: "string \<Rightarrow> int" where
  "workload_factor w = (if w = ''training'' then 3 else 1)"

text \<open>The reference: with \<open>t\<close> seconds for the tier and factor \<open>m\<close>, a batch above 64 adds \<open>(b - 64) / 256\<close>.\<close>

definition estimate :: "int \<Rightarrow> int \<Rightarrow> int \<Rightarrow> int" where
  "estimate t m b = (if 64 < b then t * m * (b + 192) div 256 else t * m)"

lemma tierTable_runtime:
  "tierTable g = Some tier \<Longrightarrow> 30 \<le> sint (estimatedRuntimeSec tier) \<and> sint (estimatedRuntimeSec tier) \<le> 120"
  by (auto simp: tierTable_def split: if_splits)

lemma batchMultiplier_exact:
  assumes "64 < sint b" and "sint b < 2 ^ 44"
  shows "batchMultiplier b = Fin (of_int (sint b + 192) / 2 ^ 8)"
proof -
  have d: "sint (b - 64) = sint b - 64"
    using assms sint_word_of_int_goint [of "sint b - 64"] by simp
  have "f64_of_int (b - 64) = Fin (of_int (sint b - 64))"
    using f64_of_int_exact [of "b - 64"] assms unfolding d by simp
  moreover have "f64_round (of_int (sint b - 64) / 2 ^ 8) = Fin (of_int (sint b - 64) / 2 ^ 8)"
    using assms by (intro f64_round_exact) auto
  ultimately have "batchMultiplier b = f64_round (1 + of_int (sint b - 64) / 2 ^ 8)"
    using assms(1) by (simp add: batchMultiplier_def)
  also have "1 + of_int (sint b - 64) / 2 ^ 8 = (of_int (sint b + 192) / 2 ^ 8 :: rat)"
    by (simp add: field_simps)
  also have "f64_round \<dots> = Fin (of_int (sint b + 192) / 2 ^ 8)"
    using assms by (intro f64_round_exact) auto
  finally show ?thesis .
qed

lemma runtime_product:
  assumes "30 \<le> sint t" and "sint t \<le> 120"
  shows "f64_mul (f64_of_int t) (runtimeMultiplier w) = Fin (of_int (sint t * workload_factor w))"
proof -
  have "f64_of_int t = Fin (of_int (sint t))"
    using f64_of_int_exact [of t] assms by simp
  moreover have "runtimeMultiplier w = Fin (of_int (workload_factor w))"
    by (simp add: runtimeMultiplier_def workload_factor_def)
  moreover have "f64_round (of_int (sint t * workload_factor w)) = Fin (of_int (sint t * workload_factor w))"
    using assms by (intro f64_round_int) (simp add: workload_factor_def)
  ultimately show ?thesis by (simp only: f64_mul.simps of_int_mult)
qed

lemma trunc_rat_of_int [simp]: "trunc_rat (of_int i) = i"
  by (simp add: trunc_rat_def)

lemma trunc_rat_dyadic: "0 \<le> n \<Longrightarrow> trunc_rat (of_int n / 2 ^ 8) = n div 256"
  using floor_divide_of_int_eq [of n 256, where 'a = rat] by (simp add: trunc_rat_def)

lemma estimate_large:
  assumes "30 \<le> t" and "t \<le> 120" and "64 < b" and "b < 2 ^ 44"
  shows "0 \<le> t * workload_factor w * (b + 192) \<and> t * workload_factor w * (b + 192) < 2 ^ 53"
proof -
  have m: "1 \<le> workload_factor w" "workload_factor w \<le> 3" by (simp_all add: workload_factor_def)
  have "t * workload_factor w \<le> 120 * 3" using assms m by (intro mult_mono) auto
  then have "t * workload_factor w * (b + 192) \<le> 360 * (2 ^ 44 + 192)"
    using assms m by (intro mult_mono) auto
  then show ?thesis using assms m by simp
qed

lemma estimatedSec_int:
  assumes "30 \<le> sint (estimatedRuntimeSec tier)" and "sint (estimatedRuntimeSec tier) \<le> 120" and "sint b < 2 ^ 44"
  shows "sint (estimatedSec conv tier w b) = estimate (sint (estimatedRuntimeSec tier)) (workload_factor w) (sint b)"
proof (cases "64 < sint b")
  case True
  let ?p = "sint (estimatedRuntimeSec tier) * workload_factor w" and ?n = "sint b + 192"
  have n: "0 \<le> ?p * ?n" "?p * ?n < 2 ^ 53" using estimate_large assms True by auto
  then have "f64_round (of_int (?p * ?n) / 2 ^ 8) = Fin (of_int (?p * ?n) / 2 ^ 8)"
    by (intro f64_round_exact) auto
  then have "estimatedSec conv tier w b = int_of_f64 conv (Fin (of_int (?p * ?n) / 2 ^ 8))"
    using runtime_product [OF assms(1,2)] batchMultiplier_exact [OF True assms(3)]
    by (simp only: estimatedSec_def f64_mul.simps of_int_mult times_divide_eq_right)
  moreover have "- (2 ^ 63) \<le> ?p * ?n div 256" "?p * ?n div 256 < 2 ^ 63" using n by auto
  ultimately show ?thesis
    using True n int_of_f64_in_range [of "of_int (?p * ?n) / 2 ^ 8" conv] trunc_rat_dyadic [of "?p * ?n"]
    by (simp only: estimate_def if_True)
next
  case False
  let ?p = "sint (estimatedRuntimeSec tier) * workload_factor w"
  have p: "\<bar>?p\<bar> < 2 ^ 53" using assms by (simp add: workload_factor_def)
  have "f64_mul (Fin (of_int ?p)) (Fin 1) = Fin (of_int ?p)"
    using f64_round_int [OF p] by (simp only: f64_mul.simps mult_1_right)
  then have "estimatedSec conv tier w b = int_of_f64 conv (Fin (of_int ?p))"
    using False runtime_product [OF assms(1,2)] by (simp only: estimatedSec_def batchMultiplier_def if_False)
  moreover have "- (2 ^ 63) \<le> ?p" "?p < 2 ^ 63" using p by auto
  ultimately show ?thesis
    using False int_of_f64_in_range [of "of_int ?p" conv]
    by (simp only: estimate_def if_False trunc_rat_of_int)
qed

lemma div_mono256: "(a :: int) \<le> b \<Longrightarrow> a div 256 \<le> b div 256"
  by (rule zdiv_mono1) auto

lemma estimate_training: "3 * estimate t 1 c \<le> estimate t 3 c"
proof -
  let ?x = "t * 1 * (c + 192)"
  have "3 * (?x div 256) * 256 \<le> 3 * ?x" by (simp add: minus_mod_eq_div_mult [symmetric])
  then have "3 * (?x div 256) \<le> 3 * ?x div 256" using div_mono256 [of "3 * (?x div 256) * 256"] by simp
  moreover have "3 * ?x = t * 3 * (c + 192)" by simp
  ultimately show ?thesis unfolding estimate_def by (simp only: split: if_split) simp
qed

lemma estimate_mono:
  assumes "0 \<le> t" and "0 \<le> m" and "b \<le> c"
  shows "estimate t m b \<le> estimate t m c"
proof -
  have "t * m * 256 \<le> t * m * (c + 192)" if "64 < c" using assms that by (intro mult_left_mono) auto
  then have "t * m \<le> t * m * (c + 192) div 256" if "64 < c"
    using div_mono256 [of "t * m * 256" "t * m * (c + 192)"] that by simp
  moreover have "t * m * (b + 192) \<le> t * m * (c + 192)" using assms by (intro mult_left_mono) auto
  ultimately show ?thesis using assms(3) div_mono256 by (auto simp: estimate_def)
qed

text \<open>
  C16. For every GPU model of the table, every workload and every batch size below \<open>2^44\<close>, the estimate
  that the code computes in floating point is the integer
  \<open>t * m * (b + 192) div 256\<close> for a batch \<open>b\<close> above 64 and \<open>t * m\<close> otherwise, where \<open>t\<close> is the runtime of
  the tier and \<open>m\<close> is 3 for training and 1 for inference: no rounding happens before the truncation.
\<close>

theorem estimatedSec_exact:
  assumes "tierTable g = Some tier" and "sint b < 2 ^ 44"
  shows "sint (estimatedSec conv tier w b) =
           estimate (sint (estimatedRuntimeSec tier)) (workload_factor w) (sint b)"
  using tierTable_runtime [OF assms(1)] assms(2) estimatedSec_int by blast

theorem estimatedSec_exact_witness:
  "\<exists>tier. tierTable ''A100'' = Some tier \<and> sint (estimatedSec (\<lambda>_. 0) tier ''training'' 100) = 205"
proof -
  let ?tier = "\<lparr>estimatedRuntimeSec = 60, peakThroughput = Fin 2000, memoryBandwidthGbps = Fin 2000\<rparr>"
  have t: "tierTable ''A100'' = Some ?tier" by (simp add: tierTable_def)
  have "sint (estimatedSec (\<lambda>_. 0) ?tier ''training'' 100) = 205"
    using estimatedSec_exact [OF t, of 100 "\<lambda>_. 0" "''training''"] by (simp add: estimate_def workload_factor_def)
  with t show ?thesis by blast
qed

lemma estimate_bounds:
  assumes "30 \<le> t" and "t \<le> 120" and "c \<le> 1024"
  shows "30 \<le> estimate t (workload_factor w) c \<and> estimate t (workload_factor w) c \<le> 1710"
proof -
  have m: "1 \<le> workload_factor w" "workload_factor w \<le> 3" by (simp_all add: workload_factor_def)
  have tm: "30 * 1 \<le> t * workload_factor w" "t * workload_factor w \<le> 120 * 3"
    using assms m by (intro mult_mono; simp)+
  have "30 \<le> estimate t (workload_factor w) (min c 64)" using tm by (simp add: estimate_def)
  also have "\<dots> \<le> estimate t (workload_factor w) c" using assms m by (intro estimate_mono) auto
  finally have lo: "30 \<le> estimate t (workload_factor w) c" .
  have "estimate t (workload_factor w) c \<le> estimate t (workload_factor w) 1024"
    using assms m by (intro estimate_mono) auto
  also have "\<dots> = t * workload_factor w * 1216 div 256" by (simp add: estimate_def)
  also have "\<dots> \<le> 360 * 1216 div 256" using tm by (intro div_mono256) simp
  finally show ?thesis using lo by simp
qed

text \<open>
  For the batch sizes the schemas admit (at most 1024) the estimate lies between the 30 seconds of
  the fastest tier and 1710 seconds, it does not decrease when the batch grows, and training is
  estimated at no less than three times inference.
\<close>

theorem estimatedSec_bounds:
  assumes "tierTable g = Some tier" and "sint b \<le> sint c" and "sint c \<le> 1024"
  shows "30 \<le> sint (estimatedSec conv tier w b) \<and>
         sint (estimatedSec conv tier w b) \<le> sint (estimatedSec conv tier w c) \<and>
         sint (estimatedSec conv tier w c) \<le> 1710 \<and>
         3 * sint (estimatedSec conv tier ''inference'' c) \<le> sint (estimatedSec conv tier ''training'' c)"
proof -
  let ?t = "sint (estimatedRuntimeSec tier)"
  have t: "30 \<le> ?t" "?t \<le> 120" using tierTable_runtime [OF assms(1)] by auto
  have m: "0 \<le> workload_factor w" by (simp add: workload_factor_def)
  have e: "sint (estimatedSec conv tier w' x) = estimate ?t (workload_factor w') (sint x)" if "sint x \<le> sint c" for w' x
    using t that assms(3) by (intro estimatedSec_int) auto
  have "3 * estimate ?t (workload_factor ''inference'') (sint c) \<le> estimate ?t (workload_factor ''training'') (sint c)"
    using estimate_training [of ?t "sint c"] by (simp add: workload_factor_def)
  then show ?thesis
    using estimate_bounds [OF t, of "sint b" w] estimate_bounds [OF t, of "sint c" w] assms t m
      estimate_mono [of ?t "workload_factor w" "sint b" "sint c"]
    by (simp add: e)
qed

theorem estimatedSec_bounds_witness:
  "\<exists>tier. tierTable ''T4'' = Some tier \<and> sint (1 :: goint) \<le> sint (1024 :: goint) \<and>
     30 \<le> sint (estimatedSec (\<lambda>_. 0) tier ''training'' 1) \<and> sint (estimatedSec (\<lambda>_. 0) tier ''training'' 1024) \<le> 1710"
proof -
  let ?tier = "\<lparr>estimatedRuntimeSec = 120, peakThroughput = Fin 400, memoryBandwidthGbps = Fin 300\<rparr>"
  have t: "tierTable ''T4'' = Some ?tier" by (simp add: tierTable_def)
  then show ?thesis
    using estimatedSec_bounds [OF t, of 1 1024 "\<lambda>_. 0" "''training''"] by simp
qed

section \<open>Annotations\<close>

text \<open>What the request asks for, read off its spec the way the function does.\<close>

definition req_model :: "RunFunctionRequest \<Rightarrow> string" where
  "req_model req = strField (getFields (Observed req)) ''gpuModel'' ''''"
definition req_workload :: "RunFunctionRequest \<Rightarrow> string" where
  "req_workload req = strField (getFields (Observed req)) ''workloadType'' ''''"
definition req_batch :: "(float64 \<Rightarrow> goint) \<Rightarrow> RunFunctionRequest \<Rightarrow> goint" where
  "req_batch conv req = int_of_f64 conv (numField (getFields (Observed req)) ''batchSize'' (Fin 32))"
definition req_cost_center :: "RunFunctionRequest \<Rightarrow> string" where
  "req_cost_center req = strField (getFields (Observed req)) ''costCenter'' ''CC-0000''"

lemma key_distinct:
  "estimatedRuntimeKey \<noteq> peakThroughputKey" "estimatedRuntimeKey \<noteq> costCenterKey" "peakThroughputKey \<noteq> costCenterKey"
  by (simp_all add: estimatedRuntimeKey_def peakThroughputKey_def costCenterKey_def)

lemmas key_neq [simp] = key_distinct key_distinct [symmetric]

lemma RunFunction_accepted:
  assumes "tierTable (req_model req) = Some tier" and "validWorkloads (req_workload req)"
    and "getAnnotations (Observed req) = Some a" and "a < length heap"
  shows "RunFunction conv quote heap req =
     (let est = estimatedSec conv tier (req_workload req) (req_batch conv req) in
      (heap[a := (heap ! a)(estimatedRuntimeKey \<mapsto> show_goint est,
                            peakThroughputKey \<mapsto> show_f64_0 (peakThroughput tier),
                            costCenterKey \<mapsto> req_cost_center req)],
       \<lparr>Desired = Observed req,
        Results = [\<lparr>resSeverity = SEVERITY_NORMAL,
                    resMessage = ''benchmark sizing: '' @ req_model req @ ''/'' @ req_workload req
                      @ '' batch='' @ show_goint (req_batch conv req) @ '' est='' @ show_goint est @ ''s''\<rparr>]\<rparr>, None))"
  using assms
  by (simp add: RunFunction_def Let_def req_model_def req_workload_def req_batch_def req_cost_center_def)

lemma RunFunction_no_map:
  assumes "tierTable (req_model req) = Some tier" and "validWorkloads (req_workload req)"
    and "getAnnotations (Observed req) = None"
  shows "\<exists>m msg. RunFunction conv quote heap req =
     (heap @ [m], \<lparr>Desired = Observed req, Results = [\<lparr>resSeverity = SEVERITY_NORMAL, resMessage = msg\<rparr>]\<rparr>, None)"
  using assms by (simp add: RunFunction_def Let_def req_model_def req_workload_def)

lemma RunFunction_refused:
  assumes "tierTable (req_model req) = None \<or> \<not> validWorkloads (req_workload req)"
  shows "\<exists>msg. RunFunction conv quote heap req = (heap, fatalResponse msg)"
  using assms by (auto simp: RunFunction_def Let_def req_model_def req_workload_def split: option.split)

text \<open>A concrete request: an L40S for training with a batch of 128, with or without an annotation map.\<close>

definition example_request :: "nat option \<Rightarrow> RunFunctionRequest" where
  "example_request a =
     \<lparr>Observed = Some \<lparr>Composite = Some \<lparr>Resource = Some
        \<lparr>xrMetadata = Some \<lparr>xrName = ''env'', xrAnnotations = a\<rparr>,
         xrSpec = Some [''gpuModel'' \<mapsto> AnyString ''L40S'', ''workloadType'' \<mapsto> AnyString ''training'',
                        ''batchSize'' \<mapsto> AnyFloat64 (Fin 128)]\<rparr>\<rparr>\<rparr>\<rparr>"

definition example_tier :: gpuBenchmarkTier where
  "example_tier = \<lparr>estimatedRuntimeSec = 45, peakThroughput = Fin 1800, memoryBandwidthGbps = Fin 864\<rparr>"

lemma example_request_facts:
  "tierTable (req_model (example_request a)) = Some example_tier"
  "validWorkloads (req_workload (example_request a))"
  "getAnnotations (Observed (example_request a)) = a"
  "req_workload (example_request a) = ''training''"
  "req_batch conv (example_request a) = 128"
  "req_cost_center (example_request a) = ''CC-0000''"
  by (simp_all add: req_model_def req_workload_def req_batch_def req_cost_center_def example_request_def
      example_tier_def getFields_def getResource_def getAnnotations_def strField_def numField_def tierTable_def
      validWorkloads_def int_of_f64_def trunc_rat_def)

lemma example_estimate: "sint (estimatedSec conv example_tier ''training'' 128) = 168"
  using estimatedSec_int [of example_tier 128 conv "''training''"]
  by (simp add: example_tier_def estimate_def workload_factor_def)

text \<open>
  C30. A request for a known GPU model and workload whose resource has an annotation map gets its
  observed state back as the desired one, with three entries written into that map: the estimate,
  which reads back as the integer that was computed, the peak throughput of the tier as a whole
  number, and the cost center of the spec. Every other annotation, and every other map, stays.
\<close>

theorem RunFunction_annotates:
  assumes "tierTable (req_model req) = Some tier" and "validWorkloads (req_workload req)"
    and "getAnnotations (Observed req) = Some a" and "a < length heap"
    and "RunFunction conv quote heap req = (heap', resp, err)"
  shows "err = None \<and> Desired resp = Observed req \<and> length heap' = length heap \<and>
         map_option read_int ((heap' ! a) estimatedRuntimeKey) =
           Some (sint (estimatedSec conv tier (req_workload req) (req_batch conv req))) \<and>
         (heap' ! a) peakThroughputKey = Some (show_f64_0 (peakThroughput tier)) \<and>
         (heap' ! a) costCenterKey = Some (req_cost_center req) \<and>
         (\<forall>k. k \<notin> {estimatedRuntimeKey, peakThroughputKey, costCenterKey} \<longrightarrow> (heap' ! a) k = (heap ! a) k) \<and>
         (\<forall>i. i \<noteq> a \<longrightarrow> heap' ! i = heap ! i)"
  using RunFunction_accepted [OF assms(1-4), of conv quote] assms(4,5)
  by (auto simp: Let_def show_goint_def read_show_int)

theorem RunFunction_annotates_witness:
  "\<exists>heap' resp. RunFunction (\<lambda>_. 0) id [[''owner'' \<mapsto> ''ml'']] (example_request (Some 0)) = (heap', resp, None) \<and>
     map_option read_int ((heap' ! 0) estimatedRuntimeKey) = Some 168 \<and>
     (heap' ! 0) costCenterKey = Some ''CC-0000''"
proof -
  obtain heap' resp err where r:
    "RunFunction (\<lambda>_. 0) id [[''owner'' \<mapsto> ''ml'']] (example_request (Some 0)) = (heap', resp, err)"
    by (cases "RunFunction (\<lambda>_. 0) id [[''owner'' \<mapsto> ''ml'']] (example_request (Some 0))") auto
  show ?thesis
    using RunFunction_annotates [OF example_request_facts(1-3) _ r] r
    by (simp add: example_request_facts example_estimate)
qed

text \<open>
  C39. A resource without annotations is not annotated: the entries go into a new map that the response
  does not refer to, so every map reachable from the request or the response is as before, although
  the function reports success.
\<close>

theorem RunFunction_without_annotations_loses_them:
  assumes "tierTable (req_model req) = Some tier" and "validWorkloads (req_workload req)"
    and "getAnnotations (Observed req) = None"
    and "RunFunction conv quote heap req = (heap', resp, err)"
  shows "err = None \<and> map resSeverity (Results resp) = [SEVERITY_NORMAL] \<and>
         Desired resp = Observed req \<and> getAnnotations (Desired resp) = None \<and>
         (\<forall>i < length heap. heap' ! i = heap ! i)"
  using RunFunction_no_map [OF assms(1-3), of conv quote heap] assms(3,4) by (auto simp: nth_append)

theorem RunFunction_without_annotations_loses_them_witness:
  "\<exists>heap' resp. RunFunction (\<lambda>_. 0) id [] (example_request None) = (heap', resp, None) \<and>
     map resSeverity (Results resp) = [SEVERITY_NORMAL] \<and> getAnnotations (Desired resp) = None"
proof -
  obtain heap' resp err where r: "RunFunction (\<lambda>_. 0) id [] (example_request None) = (heap', resp, err)"
    by (cases "RunFunction (\<lambda>_. 0) id [] (example_request None)") auto
  show ?thesis
    using RunFunction_without_annotations_loses_them [OF example_request_facts(1,2,3) r] r
    by (simp add: example_request_facts)
qed

text \<open>
  C37. The function answers with a fatal result exactly for the requests whose GPU model is not in the
  table or whose workload is unknown; it then returns no desired state and writes no annotation.
  It never returns an error.
\<close>

theorem RunFunction_fatal_iff:
  "case RunFunction conv quote heap req of (heap', resp, err) \<Rightarrow>
     err = None \<and>
     (map resSeverity (Results resp) = [SEVERITY_FATAL] \<longleftrightarrow>
        \<not> (req_model req \<in> dom tierTable \<and> validWorkloads (req_workload req))) \<and>
     (map resSeverity (Results resp) = [SEVERITY_FATAL] \<longleftrightarrow> heap' = heap \<and> Desired resp = None)"
proof (cases "tierTable (req_model req) = None \<or> \<not> validWorkloads (req_workload req)")
  case True
  then show ?thesis using RunFunction_refused [OF True, of conv quote heap] by (auto simp: fatalResponse_def)
next
  case False
  then obtain tier where "tierTable (req_model req) = Some tier" by auto
  with False show ?thesis
    by (auto simp: RunFunction_def Let_def req_model_def req_workload_def getAnnotations_def getResource_def
        split: option.split)
qed

end
