(* ===== verification/Go_Memory.thy ===== *)
theory Go_Memory
  imports Main
begin

text \<open>
  Memory for the generated deep-copy code: a list of cells, an address is an index and allocation
  appends. A copier reads an object and returns the extended memory with the copy. The locale states
  what a deep copy promises, for any kind of cell; the lemmas below it build copiers of structs from
  copiers of their fields.
\<close>

lemma update_other: "a \<notin> A \<Longrightarrow> b \<in> A \<Longrightarrow> xs[a := x] ! b = xs ! b"
  by (cases "b = a") auto

type_synonym ('c, 'a) copier = "'c list \<Rightarrow> 'a \<Rightarrow> 'c list \<times> 'a"

text \<open>
  \<open>val\<close> is the value of an object with every pointer followed, \<open>refs\<close> the addresses it reaches. A
  deep copy leaves the memory there was, has the value of the original and reaches only memory that
  was allocated for it; \<open>val\<close> and \<open>refs\<close> depend on reached memory only.
\<close>

locale deep_copier =
  fixes copy :: "('c, 'a) copier"
    and val :: "'c list \<Rightarrow> 'a \<Rightarrow> 'v"
    and refs :: "'c list \<Rightarrow> 'a \<Rightarrow> nat set"
  assumes extends: "take (length h) (fst (copy h x)) = h"
    and value_kept: "refs h x \<subseteq> {..<length h} \<Longrightarrow> val (fst (copy h x)) (snd (copy h x)) = val h x"
    and refs_fresh: "refs h x \<subseteq> {..<length h} \<Longrightarrow>
                     refs (fst (copy h x)) (snd (copy h x)) \<subseteq> {length h..<length (fst (copy h x))}"
    and frame: "refs h x \<subseteq> {..<length h} \<Longrightarrow> (\<And>a. a \<in> refs h x \<Longrightarrow> a < length g \<and> g ! a = h ! a) \<Longrightarrow>
                val g x = val h x \<and> refs g x = refs h x"
begin

lemma length_grows: "length h \<le> length (fst (copy h x))"
  using extends [of h x] by (metis length_take min.cobounded1 min.commute)

lemma old_cells: "a < length h \<Longrightarrow> fst (copy h x) ! a = h ! a"
  using extends [of h x] by (metis nth_take)

text \<open>What was reachable keeps its value when memory grows.\<close>

lemma frame_grow:
  assumes "refs h x \<subseteq> {..<length h}" and "take (length h) g = h"
  shows "val g x = val h x \<and> refs g x = refs h x"
proof (rule frame [OF assms(1)])
  fix a assume "a \<in> refs h x"
  with assms(1) have "a < length h" by auto
  with assms(2) show "a < length g \<and> g ! a = h ! a"
    by (metis length_take min_less_iff_conj nth_take)
qed

lemma original_kept:
  "refs h x \<subseteq> {..<length h} \<Longrightarrow>
   val (fst (copy h x)) x = val h x \<and> refs (fst (copy h x)) x = refs h x"
  using frame_grow extends by blast

text \<open>The original and the copy share nothing, so a write through one is not seen through the other.\<close>

lemma copy_disjoint:
  "refs h x \<subseteq> {..<length h} \<Longrightarrow> refs h x \<inter> refs (fst (copy h x)) (snd (copy h x)) = {}"
  using refs_fresh [of h x] by fastforce

lemma write_through_copy:
  assumes "refs h x \<subseteq> {..<length h}" and "a \<in> refs (fst (copy h x)) (snd (copy h x))"
  shows "val ((fst (copy h x))[a := c]) x = val h x"
proof -
  have "a \<notin> refs h x" using copy_disjoint [OF assms(1)] assms(2) by blast
  then have "val ((fst (copy h x))[a := c]) x = val h x \<and> refs ((fst (copy h x))[a := c]) x = refs h x"
    using assms(1) length_grows [of h x] old_cells [of _ h x]
    by (intro frame) (auto simp: update_other)
  then show ?thesis ..
qed

lemma write_through_original:
  assumes "refs h x \<subseteq> {..<length h}" and "a \<in> refs h x"
  shows "val ((fst (copy h x))[a := c]) (snd (copy h x)) = val h x"
proof -
  let ?g = "fst (copy h x)" and ?y = "snd (copy h x)"
  have fresh: "refs ?g ?y \<subseteq> {length h..<length ?g}" by (rule refs_fresh [OF assms(1)])
  have "a \<notin> refs ?g ?y" using copy_disjoint [OF assms(1)] assms(2) by blast
  moreover have "refs ?g ?y \<subseteq> {..<length ?g}" using fresh by auto
  ultimately have "val (?g[a := c]) ?y = val ?g ?y \<and> refs (?g[a := c]) ?y = refs ?g ?y"
    by (intro frame) (auto simp: update_other)
  then show ?thesis using value_kept [OF assms(1)] by simp
qed

end

text \<open>The result of a deep copy, spelled out: \<open>y\<close> in memory \<open>g\<close> is a deep copy of \<open>x\<close> in memory \<open>h\<close>.\<close>

definition deep_copied ::
  "('c list \<Rightarrow> 'a \<Rightarrow> 'v) \<Rightarrow> ('c list \<Rightarrow> 'a \<Rightarrow> nat set) \<Rightarrow> 'c list \<Rightarrow> 'a \<Rightarrow> 'c list \<Rightarrow> 'a \<Rightarrow> bool" where
  "deep_copied val refs h x g y \<longleftrightarrow>
     take (length h) g = h \<and> val g y = val h x \<and> refs g y \<subseteq> {length h..<length g}"

context deep_copier
begin

lemma copy_deep: "refs h x \<subseteq> {..<length h} \<Longrightarrow> copy h x = (g, y) \<Longrightarrow> deep_copied val refs h x g y"
  using extends [of h x] value_kept [of h x] refs_fresh [of h x] by (simp add: deep_copied_def)

end

section \<open>Building copiers\<close>

text \<open>A struct without pointers: \<^verbatim>\<open>*out = *in\<close>.\<close>

definition copy_plain :: "('c, 'a) copier" where
  "copy_plain h x = (h, x)"

interpretation plain: deep_copier copy_plain "\<lambda>h x. x" "\<lambda>h x. {}"
  by unfold_locales (simp_all add: copy_plain_def)

text \<open>A field that is a pointer: nil stays nil.\<close>

fun copy_option :: "('c, 'a) copier \<Rightarrow> ('c, 'a option) copier" where
  "copy_option c h None = (h, None)"
| "copy_option c h (Some x) = (let (g, y) = c h x in (g, Some y))"

definition option_refs :: "('c list \<Rightarrow> 'a \<Rightarrow> nat set) \<Rightarrow> 'c list \<Rightarrow> 'a option \<Rightarrow> nat set" where
  "option_refs r h p = (case p of None \<Rightarrow> {} | Some x \<Rightarrow> r h x)"

context deep_copier
begin

lemma option_copier: "deep_copier (copy_option copy) (\<lambda>h. map_option (val h)) (option_refs refs)"
proof
  fix h x
  show "take (length h) (fst (copy_option copy h x)) = h"
    by (cases x) (simp_all add: split_beta extends)
  assume wf: "option_refs refs h x \<subseteq> {..<length h}"
  show "map_option (val (fst (copy_option copy h x))) (snd (copy_option copy h x)) = map_option (val h) x"
    using wf by (cases x) (simp_all add: split_beta option_refs_def value_kept)
  show "option_refs refs (fst (copy_option copy h x)) (snd (copy_option copy h x))
          \<subseteq> {length h..<length (fst (copy_option copy h x))}"
    using wf refs_fresh by (cases x) (simp_all add: split_beta option_refs_def)
  fix g assume "\<And>a. a \<in> option_refs refs h x \<Longrightarrow> a < length g \<and> g ! a = h ! a"
  then show "map_option (val g) x = map_option (val h) x \<and> option_refs refs g x = option_refs refs h x"
    using wf frame by (cases x) (simp_all add: option_refs_def)
qed

end

text \<open>Two fields, copied one after the other.\<close>

definition copy_pair :: "('c, 'a) copier \<Rightarrow> ('c, 'b) copier \<Rightarrow> ('c, 'a \<times> 'b) copier" where
  "copy_pair c d h p = (let (h1, y) = c h (fst p); (h2, z) = d h1 (snd p) in (h2, y, z))"

lemma take_trans:
  assumes "take (length xs) ys = xs" and "take (length ys) zs = ys"
  shows "take (length xs) zs = xs"
  using assms by (metis length_take min.cobounded1 min.commute min_absorb1 nle_le take_take)

lemma deep_copier_pair:
  fixes c :: "('c, 'a) copier" and d :: "('c, 'b) copier"
  assumes c: "deep_copier c v r" and d: "deep_copier d w s"
  shows "deep_copier (copy_pair c d) (\<lambda>h p. (v h (fst p), w h (snd p))) (\<lambda>h p. r h (fst p) \<union> s h (snd p))"
proof
  fix h :: "'c list" and p :: "'a \<times> 'b"
  define h1 y where "h1 = fst (c h (fst p))" and "y = snd (c h (fst p))"
  define h2 z where "h2 = fst (d h1 (snd p))" and "z = snd (d h1 (snd p))"
  have eq: "copy_pair c d h p = (h2, y, z)"
    by (simp add: copy_pair_def split_beta h1_def y_def h2_def z_def)
  have e1: "take (length h) h1 = h" using deep_copier.extends [OF c] by (simp add: h1_def)
  have e2: "take (length h1) h2 = h1" using deep_copier.extends [OF d] by (simp add: h2_def)
  have l: "length h \<le> length h1" "length h1 \<le> length h2"
    using deep_copier.length_grows [OF c] deep_copier.length_grows [OF d] by (simp_all add: h1_def h2_def)
  show "take (length h) (fst (copy_pair c d h p)) = h"
    using take_trans [OF e1 e2] by (simp add: eq)
  assume "r h (fst p) \<union> s h (snd p) \<subseteq> {..<length h}"
  then have wr: "r h (fst p) \<subseteq> {..<length h}" and ws: "s h (snd p) \<subseteq> {..<length h}" by auto
  have s1: "w h1 (snd p) = w h (snd p)" "s h1 (snd p) = s h (snd p)"
    using deep_copier.frame_grow [OF d ws e1] by auto
  have ws1: "s h1 (snd p) \<subseteq> {..<length h1}" using s1 ws l by auto
  have f1: "r h1 y \<subseteq> {length h..<length h1}" "v h1 y = v h (fst p)"
    using deep_copier.refs_fresh [OF c wr] deep_copier.value_kept [OF c wr] by (simp_all add: h1_def y_def)
  have f2: "s h2 z \<subseteq> {length h1..<length h2}" "w h2 z = w h1 (snd p)"
    using deep_copier.refs_fresh [OF d ws1] deep_copier.value_kept [OF d ws1] by (simp_all add: h2_def z_def)
  have "r h1 y \<subseteq> {..<length h1}" using f1 by auto
  then have g: "v h2 y = v h1 y" "r h2 y = r h1 y"
    using deep_copier.frame_grow [OF c _ e2, of y] by auto
  show "(v (fst (copy_pair c d h p)) (fst (snd (copy_pair c d h p))),
         w (fst (copy_pair c d h p)) (snd (snd (copy_pair c d h p)))) = (v h (fst p), w h (snd p))"
    using f1 f2 g s1 by (simp add: eq)
  show "r (fst (copy_pair c d h p)) (fst (snd (copy_pair c d h p))) \<union>
        s (fst (copy_pair c d h p)) (snd (snd (copy_pair c d h p)))
          \<subseteq> {length h..<length (fst (copy_pair c d h p))}"
    using f1 f2 g l by (auto simp: eq)
  fix g assume "\<And>a. a \<in> r h (fst p) \<union> s h (snd p) \<Longrightarrow> a < length g \<and> g ! a = h ! a"
  then show "(v g (fst p), w g (snd p)) = (v h (fst p), w h (snd p)) \<and>
      r g (fst p) \<union> s g (snd p) = r h (fst p) \<union> s h (snd p)"
    using deep_copier.frame [OF c wr, of g] deep_copier.frame [OF d ws, of g] by auto
qed

text \<open>
  A struct whose pointer-carrying fields are \<open>get\<close> and are overwritten by \<open>put\<close>: the rest is copied by
  the assignment of the struct.
\<close>

lemma deep_copier_struct:
  assumes c: "deep_copier c v r"
    and copy: "\<And>h x. copy h x = (let (g, t) = c h (get x) in (g, put t x))"
    and get_put: "\<And>t x. get (put t x) = t"
    and val: "\<And>h x. val h x = build (v h (get x)) (rest x)"
    and rest: "\<And>t x. rest (put t x) = rest x"
    and refs: "\<And>h x. refs h x = r h (get x)"
  shows "deep_copier copy val refs"
proof
  fix h x
  show "take (length h) (fst (copy h x)) = h"
    using deep_copier.extends [OF c] by (simp add: copy split_beta)
  assume wf: "refs h x \<subseteq> {..<length h}"
  show "val (fst (copy h x)) (snd (copy h x)) = val h x"
    using wf deep_copier.value_kept [OF c] by (simp add: copy split_beta val get_put rest refs)
  show "refs (fst (copy h x)) (snd (copy h x)) \<subseteq> {length h..<length (fst (copy h x))}"
    using wf deep_copier.refs_fresh [OF c] by (simp add: copy split_beta get_put refs)
  fix g assume "\<And>a. a \<in> refs h x \<Longrightarrow> a < length g \<and> g ! a = h ! a"
  then show "val g x = val h x \<and> refs g x = refs h x"
    using wf deep_copier.frame [OF c, of h "get x" g] by (simp add: val refs)
qed

end
