(* ===== verification/Go_Json.thy ===== *)
theory Go_Json
  imports Go_Float64
begin

text \<open>
  The part of \<^verbatim>\<open>encoding/json\<close> the controllers use: marshalling a \<^verbatim>\<open>map[string]interface{}\<close> of
  strings and ints (keys in sorted order), and decoding one JSON value into a struct.

  Decoding follows the package's rules for the field kinds that occur (\<^verbatim>\<open>string\<close>, \<^verbatim>\<open>float64\<close>,
  pointer to struct): an object key selects the field of exactly that name, else the first field
  equal under case folding; unknown keys are skipped; \<^verbatim>\<open>null\<close> leaves a string or number alone and
  resets a pointer; a later duplicate key overwrites or, under a pointer, merges; a value of the
  wrong kind, or a number outside the range of \<^verbatim>\<open>float64\<close>, makes \<^verbatim>\<open>Decode\<close> return an error.
  \<^verbatim>\<open>Decode\<close> goes on after such an error, but every caller discards the struct then, so the model
  stops (\<open>None\<close>). The text syntax is below this model: a body is the first JSON value it holds, or
  \<open>None\<close> when there is no well-formed one.
\<close>

datatype json =
    JNull
  | JBool bool
  | JNum rat
  | JStr string
  | JArr "json list"
  | JObj "(string \<times> json) list"

section \<open>Field names\<close>

text \<open>
  Folding a name as \<^verbatim>\<open>foldName\<close> does: ASCII letters to upper case; the long s (U+017F, bytes C5 BF)
  and the Kelvin sign (U+212A, bytes E2 84 AA) fold to the letters S and K.
\<close>

definition fold_char :: "char \<Rightarrow> char" where
  "fold_char c = (let n = (of_char c :: nat) in if 97 \<le> n \<and> n \<le> 122 then char_of (n - 32) else c)"

fun fold_name :: "string \<Rightarrow> string" where
  "fold_name [] = []"
| "fold_name (a # b # c # s) =
     (if a = CHR 0xC5 \<and> b = CHR 0xBF then CHR ''S'' # fold_name (c # s)
      else if a = CHR 0xE2 \<and> b = CHR 0x84 \<and> c = CHR 0xAA then CHR ''K'' # fold_name s
      else fold_char a # fold_name (b # c # s))"
| "fold_name [a, b] = (if a = CHR 0xC5 \<and> b = CHR 0xBF then ''S'' else [fold_char a, fold_char b])"
| "fold_name [a] = [fold_char a]"

type_synonym 'r setter = "json \<Rightarrow> 'r \<Rightarrow> 'r option"
type_synonym 'r struct_fields = "(string \<times> 'r setter) list"

definition find_field :: "'r struct_fields \<Rightarrow> string \<Rightarrow> 'r setter option" where
  "find_field fs k =
     (case map_of fs k of
        Some f \<Rightarrow> Some f
      | None \<Rightarrow> map_of (map (\<lambda>(n, f). (fold_name n, f)) fs) (fold_name k))"

section \<open>Decoding\<close>

fun decode_string :: "(string \<Rightarrow> 'r \<Rightarrow> 'r) \<Rightarrow> 'r setter" where
  "decode_string upd JNull r = Some r"
| "decode_string upd (JStr s) r = Some (upd s r)"
| "decode_string upd _ r = None"

fun decode_float64 :: "(float64 \<Rightarrow> 'r \<Rightarrow> 'r) \<Rightarrow> 'r setter" where
  "decode_float64 upd JNull r = Some r"
| "decode_float64 upd (JNum x) r = (case f64_round x of Fin y \<Rightarrow> Some (upd (Fin y) r) | _ \<Rightarrow> None)"
| "decode_float64 upd _ r = None"

fun decode_members :: "'r struct_fields \<Rightarrow> (string \<times> json) list \<Rightarrow> 'r \<Rightarrow> 'r option" where
  "decode_members fs [] r = Some r"
| "decode_members fs ((k, v) # kvs) r =
     (case find_field fs k of
        None \<Rightarrow> decode_members fs kvs r
      | Some f \<Rightarrow> (case f v r of None \<Rightarrow> None | Some r' \<Rightarrow> decode_members fs kvs r'))"

fun decode_struct :: "'r struct_fields \<Rightarrow> 'r setter" where
  "decode_struct fs JNull r = Some r"
| "decode_struct fs (JObj kvs) r = decode_members fs kvs r"
| "decode_struct fs _ r = None"

text \<open>A pointer field: \<^verbatim>\<open>null\<close> resets it; otherwise the struct it points to (a zero one if nil) is filled.\<close>

fun decode_ptr ::
  "('r \<Rightarrow> 'p option) \<Rightarrow> ('p option \<Rightarrow> 'r \<Rightarrow> 'r) \<Rightarrow> 'p \<Rightarrow> 'p struct_fields \<Rightarrow> 'r setter" where
  "decode_ptr get upd zero fs JNull r = Some (upd None r)"
| "decode_ptr get upd zero fs v r =
     map_option (\<lambda>p. upd (Some p) r)
       (decode_struct fs v (case get r of None \<Rightarrow> zero | Some p \<Rightarrow> p))"

definition Decode :: "'r struct_fields \<Rightarrow> json option \<Rightarrow> 'r \<Rightarrow> 'r option" where
  "Decode fs body r = (case body of None \<Rightarrow> None | Some v \<Rightarrow> decode_struct fs v r)"

lemmas decode_defs [decode_simps] = Decode_def find_field_def fold_char_def

section \<open>Marshalling\<close>

text \<open>
  The values a payload map can hold here: strings and ints. \<^verbatim>\<open>json.Marshal\<close> of such a map cannot
  fail and emits the keys in increasing order.
\<close>

datatype go_value = GoString string | GoInt goint

fun marshal_value :: "go_value \<Rightarrow> json" where
  "marshal_value (GoString s) = JStr s"
| "marshal_value (GoInt n) = JNum (of_int (sint n))"

fun string_less :: "string \<Rightarrow> string \<Rightarrow> bool" where
  "string_less [] [] = False"
| "string_less [] (_ # _) = True"
| "string_less (_ # _) [] = False"
| "string_less (a # s) (b # t) =
     ((of_char a :: nat) < of_char b \<or> a = b \<and> string_less s t)"

fun insert_key :: "string \<times> 'a \<Rightarrow> (string \<times> 'a) list \<Rightarrow> (string \<times> 'a) list" where
  "insert_key kv [] = [kv]"
| "insert_key kv (x # xs) = (if string_less (fst kv) (fst x) then kv # x # xs else x # insert_key kv xs)"

definition Marshal :: "(string \<times> go_value) list \<Rightarrow> json" where
  "Marshal m = JObj (foldr (\<lambda>(k, v). insert_key (k, marshal_value v)) m [])"

text \<open>Reading a member of an object back by its exact key.\<close>

fun json_member :: "json \<Rightarrow> string \<Rightarrow> json option" where
  "json_member (JObj kvs) k = map_of kvs k"
| "json_member _ k = None"

lemma map_of_insert_key:
  "k \<notin> fst ` set kvs \<Longrightarrow> map_of (insert_key (k, v) kvs) = (map_of kvs)(k \<mapsto> v)"
  by (induction kvs) (auto simp: fun_eq_iff)

lemma keys_insert_key: "fst ` set (insert_key kv kvs) = insert (fst kv) (fst ` set kvs)"
  by (induction kvs) auto

lemma marshal_members:
  "distinct (map fst m) \<Longrightarrow>
   fst ` set (foldr (\<lambda>(k, v). insert_key (k, marshal_value v)) m []) = fst ` set m \<and>
   map_of (foldr (\<lambda>(k, v). insert_key (k, marshal_value v)) m []) = map_option marshal_value \<circ> map_of m"
proof (induction m)
  case Nil
  then show ?case by (simp add: fun_eq_iff)
next
  case (Cons kv m)
  obtain k v where kv: "kv = (k, v)" by (cases kv)
  let ?r = "foldr (\<lambda>(k, v). insert_key (k, marshal_value v)) m []"
  from Cons kv have ih: "fst ` set ?r = fst ` set m" "map_of ?r = map_option marshal_value \<circ> map_of m"
    and "k \<notin> fst ` set ?r" by auto
  then show ?case by (simp add: kv keys_insert_key map_of_insert_key fun_eq_iff)
qed

text \<open>What a payload map holds under a key is what the marshalled object holds under it.\<close>

lemma json_member_Marshal:
  "distinct (map fst m) \<Longrightarrow> json_member (Marshal m) k = map_option marshal_value (map_of m k)"
  using marshal_members [of m] by (simp add: Marshal_def fun_eq_iff)

end
