(* ===== verification/Kube_Types.thy ===== *)
theory Kube_Types
  imports Go_Json
begin

text \<open>
  The values that cross the boundary between the controllers and the libraries they call:
  object metadata, reconcile results, HTTP responses. Only the fields the sources read or write
  are kept; the behaviour behind them (API server, HTTP transport) is never defined here, it is a
  parameter of the controllers.

  A \<^verbatim>\<open>metav1.Time\<close> is the number of nanoseconds since the zero time of Go's \<^verbatim>\<open>time\<close> package, a
  \<^verbatim>\<open>time.Duration\<close> a number of nanoseconds.
\<close>

type_synonym time = int
type_synonym duration = int
type_synonym NamespacedName = "string \<times> string"

definition zero_time :: time where
  "zero_time = 0"

definition Second :: duration where
  "Second = 1000000000"

record TypeMeta =
  Kind :: string
  APIVersion :: string

record ObjectMeta =
  Name :: string
  Namespace :: string
  DeletionTimestamp :: "time option"
  Finalizers :: "string list"

text \<open>\<^verbatim>\<open>IsZero\<close> of a \<^verbatim>\<open>*metav1.Time\<close>: a nil pointer or the zero time.\<close>

definition time_is_zero :: "time option \<Rightarrow> bool" where
  "time_is_zero t = (case t of None \<Rightarrow> True | Some v \<Rightarrow> v = zero_time)"

text \<open>\<^verbatim>\<open>ctrl.Result\<close>: whether and when the request is put back on the work queue.\<close>

record Result =
  Requeue :: bool
  RequeueAfter :: duration

definition emptyResult :: Result where
  "emptyResult = \<lparr>Requeue = False, RequeueAfter = 0\<rparr>"

definition requeueAfter :: "duration \<Rightarrow> Result" where
  "requeueAfter d = \<lparr>Requeue = False, RequeueAfter = d\<rparr>"

definition requeueNow :: Result where
  "requeueNow = \<lparr>Requeue = True, RequeueAfter = 0\<rparr>"

text \<open>An HTTP response: its status code and the first JSON value of its body, if well formed.\<close>

record http_response =
  StatusCode :: int
  Body :: "json option"

definition StatusOK :: int where "StatusOK = 200"
definition StatusAccepted :: int where "StatusAccepted = 202"
definition StatusNotFound :: int where "StatusNotFound = 404"

lemmas http_codes [go_consts] = StatusOK_def StatusAccepted_def StatusNotFound_def

text \<open>The URL of one job below a base URL, \<^verbatim>\<open>fmt.Sprintf("%s/benchmarks/%s", url, id)\<close>.\<close>

definition job_url :: "string \<Rightarrow> string \<Rightarrow> string" where
  "job_url base i = base @ ''/benchmarks/'' @ i"

text \<open>The idempotency key of an object, \<^verbatim>\<open>fmt.Sprintf("%s/%s", namespace, name)\<close>.\<close>

definition idempotency_key :: "string \<Rightarrow> string \<Rightarrow> string" where
  "idempotency_key ns nm = ns @ ''/'' @ nm"

lemma idempotency_key_inject:
  assumes "CHR ''/'' \<notin> set ns" and "CHR ''/'' \<notin> set ns'"
  shows "idempotency_key ns nm = idempotency_key ns' nm' \<longleftrightarrow> ns = ns' \<and> nm = nm'"
  using assms append_sep_inject [of ns "CHR ''/''" nm ns' nm'] by (auto simp: idempotency_key_def)

end
