(* ===== verification/Go_Cells.thy ===== *)
theory Go_Cells
  imports Go_Memory Kube_Types
begin

text \<open>
  The cells the deep copies of the API types allocate: a \<^verbatim>\<open>float64\<close>, a \<^verbatim>\<open>metav1.Time\<close>, the backing
  array of a slice of objects, and whatever the copiers of the library structs allocate (\<open>'x\<close>).
  Pointers and slices are typed in Go, so reading a cell of another kind does not arise; the readers
  below are total for definiteness.
\<close>

datatype ('o, 'x) cell =
    FloatCell float64
  | TimeCell time
  | ArrayCell "'o list"
  | LibCell 'x

definition float_at :: "('o, 'x) cell list \<Rightarrow> nat \<Rightarrow> float64" where
  "float_at h a = (case h ! a of FloatCell v \<Rightarrow> v | _ \<Rightarrow> Fin 0)"

definition time_at :: "('o, 'x) cell list \<Rightarrow> nat \<Rightarrow> time" where
  "time_at h a = (case h ! a of TimeCell t \<Rightarrow> t | _ \<Rightarrow> zero_time)"

definition array_at :: "('o, 'x) cell list \<Rightarrow> nat \<Rightarrow> 'o list" where
  "array_at h a = (case h ! a of ArrayCell xs \<Rightarrow> xs | _ \<Rightarrow> [])"

text \<open>\<^verbatim>\<open>x := *in.F; out.F = &x\<close>\<close>

definition copy_float :: "(('o, 'x) cell, nat) copier" where
  "copy_float h a = (h @ [FloatCell (float_at h a)], length h)"

interpretation float_copy: deep_copier copy_float float_at "\<lambda>h a. {a}"
  by unfold_locales (auto simp: copy_float_def float_at_def)

text \<open>
  \<^verbatim>\<open>*out = make([]T, len(*in)); for i := range *in { (*in)[i].DeepCopyInto(&(*out)[i]) }\<close>: the new
  backing array is filled with zero values, then element by element.
\<close>

fun copy_items ::
  "(('o, 'x) cell, 'o) copier \<Rightarrow> nat \<Rightarrow> nat \<Rightarrow> 'o list \<Rightarrow> ('o, 'x) cell list \<Rightarrow> ('o, 'x) cell list" where
  "copy_items c b i [] h = h"
| "copy_items c b i (x # xs) h =
     (let (g, y) = c h x in copy_items c b (Suc i) xs (g[b := ArrayCell ((array_at g b)[i := y])]))"

definition copy_slice :: "'o \<Rightarrow> (('o, 'x) cell, 'o) copier \<Rightarrow> (('o, 'x) cell, nat) copier" where
  "copy_slice zero c h a =
     (let xs = array_at h a; b = length h
      in (copy_items c b 0 xs (h @ [ArrayCell (replicate (length xs) zero)]), b))"

text \<open>
  The state of the loop: the array at \<open>b\<close> holds the copies made so far, \<open>ys\<close>, in front of the rest;
  memory below \<open>k\<close> is the memory before the copy, the copies live above it and outside \<open>b\<close>.
\<close>

definition items_state ::
  "(('o, 'x) cell list \<Rightarrow> 'o \<Rightarrow> nat set) \<Rightarrow> nat \<Rightarrow> nat \<Rightarrow> 'o list \<Rightarrow> 'o list \<Rightarrow> 'o list \<Rightarrow> ('o, 'x) cell list \<Rightarrow> bool" where
  "items_state r k b ys zs xs h \<longleftrightarrow>
     k \<le> b \<and> b < length h \<and> h ! b = ArrayCell (ys @ zs) \<and> length zs = length xs \<and>
     (\<forall>x\<in>set xs. r h x \<subseteq> {..<k}) \<and> (\<forall>y\<in>set ys. r h y \<subseteq> {k..<length h} - {b})"

lemma items_step:
  assumes c: "deep_copier c v r" and s: "items_state r k b ys (z # zs) (x # xs) h"
    and g: "c h x = (g, y)" and h': "h' = g[b := ArrayCell ((array_at g b)[length ys := y])]"
  shows "items_state r k b (ys @ [y]) zs xs h' \<and>
         (\<forall>a < length h. a \<noteq> b \<longrightarrow> h' ! a = h ! a) \<and> length h \<le> length h' \<and>
         v h' y = v h x \<and> (\<forall>w\<in>set xs \<union> set ys. v h' w = v h w)"
proof -
  have b: "k \<le> b" "b < length h" "h ! b = ArrayCell (ys @ z # zs)"
    using s by (auto simp: items_state_def)
  have wx: "r h x \<subseteq> {..<length h}" using s b by (auto simp: items_state_def)
  have old: "g ! a = h ! a" if "a < length h" for a
    using deep_copier.old_cells [OF c that, of x] g by simp
  have len: "length h \<le> length g" using deep_copier.length_grows [OF c, of h x] g by simp
  have fy: "r g y \<subseteq> {length h..<length g}" "v g y = v h x"
    using deep_copier.refs_fresh [OF c wx] deep_copier.value_kept [OF c wx] g by simp_all
  have cells: "h' ! a = h ! a" if "a < length h" "a \<noteq> b" for a
    using that old by (simp add: h')
  have y: "v h' y = v g y \<and> r h' y = r g y"
    using fy b by (intro deep_copier.frame [OF c]) (auto simp: h')
  have w: "v h' w = v h w \<and> r h' w = r h w" if "w \<in> set xs \<union> set ys" for w
  proof (rule deep_copier.frame [OF c])
    show "r h w \<subseteq> {..<length h}" using that s by (fastforce simp: items_state_def)
    fix a assume "a \<in> r h w"
    then have "a < length h \<and> a \<noteq> b" using that s b by (fastforce simp: items_state_def)
    then show "a < length h' \<and> h' ! a = h ! a" using cells len by (simp add: h')
  qed
  have "h' ! b = ArrayCell ((ys @ [y]) @ zs)" using b len old by (simp add: h' array_at_def list_update_append)
  then have "items_state r k b (ys @ [y]) zs xs h'"
    using s b len fy y w by (fastforce simp: items_state_def h')
  then show ?thesis using cells len y fy w by (auto simp: h')
qed

lemma items_loop:
  assumes c: "deep_copier c v r" and "items_state r k b ys zs xs h" and "g = copy_items c b (length ys) xs h"
  shows "\<exists>ws. items_state r k b (ys @ ws) [] [] g \<and> map (v g) ws = map (v h) xs \<and>
           (\<forall>y\<in>set ys. v g y = v h y) \<and> (\<forall>a < length h. a \<noteq> b \<longrightarrow> g ! a = h ! a) \<and> length h \<le> length g"
  using assms(2,3)
proof (induction xs arbitrary: ys zs h)
  case Nil
  then show ?case by (intro exI [of _ "[]"]) (simp add: items_state_def)
next
  case (Cons x xs)
  obtain z zs' where zs: "zs = z # zs'" using Cons.prems by (cases zs) (auto simp: items_state_def)
  obtain g1 y where c1: "c h x = (g1, y)" by (cases "c h x")
  define h' where "h' = g1[b := ArrayCell ((array_at g1 b)[length ys := y])]"
  note step = items_step [OF c Cons.prems(1) [unfolded zs] c1 h'_def]
  have "g = copy_items c b (length (ys @ [y])) xs h'"
    using Cons.prems(2) c1 by (simp add: h'_def)
  from Cons.IH [OF _ this, of zs'] step obtain ws where
    ws: "items_state r k b ((ys @ [y]) @ ws) [] [] g" "map (v g) ws = map (v h') xs"
      "\<forall>u\<in>set (ys @ [y]). v g u = v h' u" "\<forall>a < length h'. a \<noteq> b \<longrightarrow> g ! a = h' ! a" "length h' \<le> length g"
    by blast
  show ?case
    using ws step by (intro exI [of _ "y # ws"]) auto
qed

definition slice_refs :: "(('o, 'x) cell list \<Rightarrow> 'o \<Rightarrow> nat set) \<Rightarrow> ('o, 'x) cell list \<Rightarrow> nat \<Rightarrow> nat set" where
  "slice_refs r h a = insert a (\<Union>x\<in>set (array_at h a). r h x)"

text \<open>The copy of a slice: same length, same values, in memory of its own.\<close>

lemma slice_copied:
  assumes c: "deep_copier c v r" and wf: "slice_refs r h a \<subseteq> {..<length h}"
    and g: "g = fst (copy_slice zero c h a)"
  shows "take (length h) g = h \<and> map (v g) (array_at g (length h)) = map (v h) (array_at h a) \<and>
         slice_refs r g (length h) \<subseteq> {length h..<length g}"
proof -
  let ?xs = "array_at h a" and ?b = "length h"
  let ?h = "h @ [ArrayCell (replicate (length ?xs) zero)]"
  have ext: "v ?h x = v h x \<and> r ?h x = r h x" if "x \<in> set ?xs" for x
    using that wf by (intro deep_copier.frame_grow [OF c]) (auto simp: slice_refs_def)
  have "items_state r ?b ?b [] (replicate (length ?xs) zero) ?xs ?h"
    using wf ext by (fastforce simp: items_state_def slice_refs_def)
  from items_loop [OF c this, of g] g obtain ws where
    ws: "items_state r ?b ?b ws [] [] g" "map (v g) ws = map (v ?h) ?xs"
      "\<forall>i < length ?h. i \<noteq> ?b \<longrightarrow> g ! i = ?h ! i" "length ?h \<le> length g"
    by (auto simp: copy_slice_def Let_def)
  have "array_at g ?b = ws" using ws(1) by (simp add: items_state_def array_at_def)
  moreover have "take ?b g = h" using ws(3,4) by (intro nth_equalityI) (auto simp: nth_append)
  ultimately show ?thesis
    using ws(1,2,4) ext by (fastforce simp: items_state_def slice_refs_def cong: map_cong)
qed

lemma copy_slice_addr [simp]: "snd (copy_slice zero c h a) = length h"
  by (simp add: copy_slice_def Let_def)

lemma copy_items_below:
  assumes c: "deep_copier c v r" and "k \<le> b" and "k \<le> length h"
  shows "take k (copy_items c b i xs h) = take k h"
  using assms(3)
proof (induction xs arbitrary: i h)
  case (Cons x xs)
  obtain g y where g: "c h x = (g, y)" by (cases "c h x")
  have "take (length h) g = h" "length h \<le> length g"
    using deep_copier.extends [OF c, of h x] deep_copier.length_grows [OF c, of h x] g by simp_all
  then have "take k g = take k h" using Cons.prems by (metis min_absorb1 take_take)
  then show ?case using Cons \<open>length h \<le> length g\<close> assms(2) g by simp
qed simp

lemma deep_copier_slice:
  assumes c: "deep_copier c v r"
  shows "deep_copier (copy_slice zero c) (\<lambda>h a. map (v h) (array_at h a)) (slice_refs r)"
proof
  fix h and a
  show "take (length h) (fst (copy_slice zero c h a)) = h"
    using copy_items_below [OF c, of "length h" "length h"] by (simp add: copy_slice_def Let_def)
  assume wf: "slice_refs r h a \<subseteq> {..<length h}"
  note copied = slice_copied [OF c wf refl, of zero]
  show "map (v (fst (copy_slice zero c h a))) (array_at (fst (copy_slice zero c h a)) (snd (copy_slice zero c h a))) =
      map (v h) (array_at h a)"
    using copied by simp
  show "slice_refs r (fst (copy_slice zero c h a)) (snd (copy_slice zero c h a))
      \<subseteq> {length h..<length (fst (copy_slice zero c h a))}"
    using copied by simp
  fix g assume cells: "\<And>i. i \<in> slice_refs r h a \<Longrightarrow> i < length g \<and> g ! i = h ! i"
  have arr: "array_at g a = array_at h a" using cells [of a] by (simp add: slice_refs_def array_at_def)
  have "v g x = v h x \<and> r g x = r h x" if "x \<in> set (array_at h a)" for x
    using that wf cells by (intro deep_copier.frame [OF c]) (auto simp: slice_refs_def)
  then show "map (v g) (array_at g a) = map (v h) (array_at h a) \<and> slice_refs r g a = slice_refs r h a"
    by (simp add: arr slice_refs_def)
qed

end
