(* ===== verification/BenchmarkJob_Types.thy ===== *)
theory BenchmarkJob_Types
  imports Kube_Types
begin

text \<open>
  The API types of the operator (\<^verbatim>\<open>operator/api/v1alpha1/benchmarkjob_types.go\<close>). The pointer fields
  of the status are options; their type parameters are the values pointed to (\<open>'f\<close> and \<open>'t\<close>), so
  that the same records serve the controller (with \<open>float64\<close> and \<open>time\<close>) and the deep-copy model
  (with addresses). \<open>'m\<close> and \<open>'l\<close> stand for the embedded object and list metadata,
  \<open>'s\<close> for what the slice of a list refers to (a nil slice is \<open>None\<close>).
\<close>

record BenchmarkJobSpec =
  GPUModel :: string
  WorkloadType :: string
  BatchSize :: goint
  SchedulerAPIURL :: string
  MaxRetries :: goint

record ('f, 't) BenchmarkJobStatus =
  Phase :: string
  JobID :: string
  Message :: string
  RetryCount :: goint
  Throughput :: "'f option"
  LatencyMs :: "'f option"
  MemoryBandwidthGbps :: "'f option"
  StartTime :: "'t option"
  CompletionTime :: "'t option"

record ('m, 'f, 't) BenchmarkJob =
  JobTypeMeta :: TypeMeta
  JobMeta :: 'm
  Spec :: BenchmarkJobSpec
  Status :: "('f, 't) BenchmarkJobStatus"

record ('l, 's) BenchmarkJobList =
  jlTypeMeta :: TypeMeta
  jlListMeta :: 'l
  jlItems :: "'s option"

type_synonym job_status = "(float64, time) BenchmarkJobStatus"
type_synonym job = "(ObjectMeta, float64, time) BenchmarkJob"

text \<open>The status of an object that was just created: every field has its zero value.\<close>

definition zero_status :: job_status where
  "zero_status =
     \<lparr>Phase = '''', JobID = '''', Message = '''', RetryCount = 0, Throughput = None,
      LatencyMs = None, MemoryBandwidthGbps = None, StartTime = None, CompletionTime = None\<rparr>"

text \<open>
  The admission schema of the type (the \<^verbatim>\<open>+kubebuilder:validation\<close> markers, and the bounds of
  \<^verbatim>\<open>maxRetries\<close> in the CRD manifest).
\<close>

definition gpu_models :: "string list" where
  "gpu_models = [''T4'', ''V100'', ''A100'', ''H100'', ''L40S'', ''RTX4090'']"

definition workload_types :: "string list" where
  "workload_types = [''inference'', ''training'']"

definition spec_admitted :: "BenchmarkJobSpec \<Rightarrow> bool" where
  "spec_admitted sp \<longleftrightarrow>
     GPUModel sp \<in> set gpu_models \<and> WorkloadType sp \<in> set workload_types \<and>
     1 \<le> sint (BatchSize sp) \<and> sint (BatchSize sp) \<le> 1024 \<and>
     0 \<le> sint (MaxRetries sp) \<and> sint (MaxRetries sp) \<le> 10"

end
