(* ===== verification/GPUBenchmarkJob_Types.thy ===== *)
theory GPUBenchmarkJob_Types
  imports Kube_Types
begin

text \<open>
  The API types of the Crossplane provider (\<^verbatim>\<open>provider/api/v1alpha1\<close>) and the accessor methods that
  make them a managed resource (\<^verbatim>\<open>zz_generated.managed.go\<close>).

  The structs that come from crossplane-runtime are kept opaque: \<open>'rs\<close> is the embedded
  \<^verbatim>\<open>ResourceSpec\<close>, \<open>'cs\<close> the embedded \<^verbatim>\<open>ConditionedStatus\<close>, \<open>'us\<close> the embedded provider-config status
  and \<open>'pu\<close> the embedded usage. Where the sources read or write a field of such a struct, a record
  with just these fields stands for it. \<open>'m\<close> is the object metadata, \<open>'l\<close> the list metadata and \<open>'f\<close>
  what a \<^verbatim>\<open>*float64\<close> refers to (a value for the controller, an address for the deep copies).
\<close>

section \<open>Structs\<close>

record GPUBenchmarkJobParameters =
  forGPUModel :: string
  forWorkloadType :: string
  forBatchSize :: goint
  forMaxRetries :: goint

record 'rs GPUBenchmarkJobSpec =
  ResourceSpec :: 'rs
  ForProvider :: GPUBenchmarkJobParameters

record 'f GPUBenchmarkJobObservation =
  atJobID :: string
  atPhase :: string
  atRetryCount :: goint
  atThroughput :: "'f option"
  atLatencyMs :: "'f option"
  atMemoryBandwidthGbps :: "'f option"

record ('cs, 'f) GPUBenchmarkJobStatus =
  ConditionedStatus :: 'cs
  AtProvider :: "'f GPUBenchmarkJobObservation"

record ('m, 'rs, 'cs, 'f) GPUBenchmarkJob =
  mgTypeMeta :: TypeMeta
  mgMeta :: 'm
  mgSpec :: "'rs GPUBenchmarkJobSpec"
  mgStatus :: "('cs, 'f) GPUBenchmarkJobStatus"

record ProviderConfigSpec =
  pcSchedulerAPIURL :: string
  pcPollInterval :: duration

record 'us ProviderConfigStatus =
  pcEmbeddedStatus :: 'us

record ('m, 'us) ProviderConfig =
  pcTypeMeta :: TypeMeta
  pcMeta :: 'm
  pcSpec :: ProviderConfigSpec
  pcStatus :: "'us ProviderConfigStatus"

record ('m, 'pu) ProviderConfigUsage =
  puTypeMeta :: TypeMeta
  puMeta :: 'm
  puEmbedded :: 'pu

text \<open>The list types. \<open>'s\<close> is what a slice refers to; a nil slice is \<open>None\<close>.\<close>

record ('l, 's) GPUBenchmarkJobList =
  gjlTypeMeta :: TypeMeta
  gjlListMeta :: 'l
  gjlItems :: "'s option"

record ('l, 's) ProviderConfigList =
  pclTypeMeta :: TypeMeta
  pclListMeta :: 'l
  pclItems :: "'s option"

record ('l, 's) ProviderConfigUsageList =
  pulTypeMeta :: TypeMeta
  pulListMeta :: 'l
  pulItems :: "'s option"

text \<open>The embedded crossplane-runtime structs, as far as the sources name their fields.\<close>

record Reference =
  refName :: string

record ('dp, 'mp, 'pd, 'sr) resource_spec =
  ProviderConfigReference :: "Reference option"
  ProviderReference :: "Reference option"
  DeletionPolicy :: 'dp
  ManagementPolicies :: 'mp
  PublishConnectionDetailsTo :: "'pd option"
  WriteConnectionSecretToReference :: "'sr option"

record 'cs pc_status =
  pcConditions :: 'cs
  Users :: "64 word"

record 'tr pc_usage =
  usageConfigReference :: Reference
  usageResourceReference :: 'tr

text \<open>The observation of a resource nothing was submitted for.\<close>

definition zero_observation :: "'f GPUBenchmarkJobObservation" where
  "zero_observation =
     \<lparr>atJobID = '''', atPhase = '''', atRetryCount = 0, atThroughput = None, atLatencyMs = None,
      atMemoryBandwidthGbps = None\<rparr>"

type_synonym ('dp, 'mp, 'pd, 'sr, 'cs, 'f) managed_job =
  "(ObjectMeta, ('dp, 'mp, 'pd, 'sr) resource_spec, 'cs, 'f) GPUBenchmarkJob"

section \<open>Accessors of the managed resource\<close>

text \<open>
  The methods of \<^verbatim>\<open>ConditionedStatus\<close> belong to crossplane-runtime: they are the parameters \<open>setc\<close>
  and \<open>getc\<close> of the methods that delegate to them.
\<close>

definition SetConditions ::
  "('c list \<Rightarrow> 'cs \<Rightarrow> 'cs) \<Rightarrow> 'c list \<Rightarrow> ('m, 'rs, 'cs, 'f) GPUBenchmarkJob \<Rightarrow> ('m, 'rs, 'cs, 'f) GPUBenchmarkJob" where
  "SetConditions setc c mg =
     mg\<lparr>mgStatus := (mgStatus mg)\<lparr>ConditionedStatus := setc c (ConditionedStatus (mgStatus mg))\<rparr>\<rparr>"

definition GetCondition ::
  "('ct \<Rightarrow> 'cs \<Rightarrow> 'c) \<Rightarrow> 'ct \<Rightarrow> ('m, 'rs, 'cs, 'f) GPUBenchmarkJob \<Rightarrow> 'c" where
  "GetCondition getc ct mg = getc ct (ConditionedStatus (mgStatus mg))"

abbreviation map_resource_spec ::
  "('rs \<Rightarrow> 'rs) \<Rightarrow> ('m, 'rs, 'cs, 'f) GPUBenchmarkJob \<Rightarrow> ('m, 'rs, 'cs, 'f) GPUBenchmarkJob" where
  "map_resource_spec f mg \<equiv> mg\<lparr>mgSpec := (mgSpec mg)\<lparr>ResourceSpec := f (ResourceSpec (mgSpec mg))\<rparr>\<rparr>"

definition GetProviderConfigReference :: "('dp, 'mp, 'pd, 'sr, 'cs, 'f) managed_job \<Rightarrow> Reference option" where
  "GetProviderConfigReference mg = ProviderConfigReference (ResourceSpec (mgSpec mg))"

definition SetProviderConfigReference ::
  "Reference option \<Rightarrow> ('dp, 'mp, 'pd, 'sr, 'cs, 'f) managed_job \<Rightarrow> ('dp, 'mp, 'pd, 'sr, 'cs, 'f) managed_job" where
  "SetProviderConfigReference r mg = map_resource_spec (\<lambda>s. s\<lparr>ProviderConfigReference := r\<rparr>) mg"

definition GetProviderReference :: "('dp, 'mp, 'pd, 'sr, 'cs, 'f) managed_job \<Rightarrow> Reference option" where
  "GetProviderReference mg = ProviderReference (ResourceSpec (mgSpec mg))"

definition SetProviderReference ::
  "Reference option \<Rightarrow> ('dp, 'mp, 'pd, 'sr, 'cs, 'f) managed_job \<Rightarrow> ('dp, 'mp, 'pd, 'sr, 'cs, 'f) managed_job" where
  "SetProviderReference r mg = map_resource_spec (\<lambda>s. s\<lparr>ProviderReference := r\<rparr>) mg"

definition GetDeletionPolicy :: "('dp, 'mp, 'pd, 'sr, 'cs, 'f) managed_job \<Rightarrow> 'dp" where
  "GetDeletionPolicy mg = DeletionPolicy (ResourceSpec (mgSpec mg))"

definition SetDeletionPolicy ::
  "'dp \<Rightarrow> ('dp, 'mp, 'pd, 'sr, 'cs, 'f) managed_job \<Rightarrow> ('dp, 'mp, 'pd, 'sr, 'cs, 'f) managed_job" where
  "SetDeletionPolicy r mg = map_resource_spec (\<lambda>s. s\<lparr>DeletionPolicy := r\<rparr>) mg"

definition GetManagementPolicies :: "('dp, 'mp, 'pd, 'sr, 'cs, 'f) managed_job \<Rightarrow> 'mp" where
  "GetManagementPolicies mg = ManagementPolicies (ResourceSpec (mgSpec mg))"

definition SetManagementPolicies ::
  "'mp \<Rightarrow> ('dp, 'mp, 'pd, 'sr, 'cs, 'f) managed_job \<Rightarrow> ('dp, 'mp, 'pd, 'sr, 'cs, 'f) managed_job" where
  "SetManagementPolicies r mg = map_resource_spec (\<lambda>s. s\<lparr>ManagementPolicies := r\<rparr>) mg"

definition GetPublishConnectionDetailsTo :: "('dp, 'mp, 'pd, 'sr, 'cs, 'f) managed_job \<Rightarrow> 'pd option" where
  "GetPublishConnectionDetailsTo mg = PublishConnectionDetailsTo (ResourceSpec (mgSpec mg))"

definition SetPublishConnectionDetailsTo ::
  "'pd option \<Rightarrow> ('dp, 'mp, 'pd, 'sr, 'cs, 'f) managed_job \<Rightarrow> ('dp, 'mp, 'pd, 'sr, 'cs, 'f) managed_job" where
  "SetPublishConnectionDetailsTo r mg = map_resource_spec (\<lambda>s. s\<lparr>PublishConnectionDetailsTo := r\<rparr>) mg"

definition GetWriteConnectionSecretToReference :: "('dp, 'mp, 'pd, 'sr, 'cs, 'f) managed_job \<Rightarrow> 'sr option" where
  "GetWriteConnectionSecretToReference mg = WriteConnectionSecretToReference (ResourceSpec (mgSpec mg))"

definition SetWriteConnectionSecretToReference ::
  "'sr option \<Rightarrow> ('dp, 'mp, 'pd, 'sr, 'cs, 'f) managed_job \<Rightarrow> ('dp, 'mp, 'pd, 'sr, 'cs, 'f) managed_job" where
  "SetWriteConnectionSecretToReference r mg =
     map_resource_spec (\<lambda>s. s\<lparr>WriteConnectionSecretToReference := r\<rparr>) mg"

section \<open>Accessors of the provider configuration and its usage\<close>

definition pc_GetCondition :: "('ct \<Rightarrow> 'cs \<Rightarrow> 'c) \<Rightarrow> 'ct \<Rightarrow> ('m, 'cs pc_status) ProviderConfig \<Rightarrow> 'c" where
  "pc_GetCondition getc ct mg = getc ct (pcConditions (pcEmbeddedStatus (pcStatus mg)))"

abbreviation map_pc_status :: "('us \<Rightarrow> 'us) \<Rightarrow> ('m, 'us) ProviderConfig \<Rightarrow> ('m, 'us) ProviderConfig" where
  "map_pc_status f mg \<equiv>
     mg\<lparr>pcStatus := (pcStatus mg)\<lparr>pcEmbeddedStatus := f (pcEmbeddedStatus (pcStatus mg))\<rparr>\<rparr>"

definition pc_SetConditions ::
  "('c list \<Rightarrow> 'cs \<Rightarrow> 'cs) \<Rightarrow> 'c list \<Rightarrow> ('m, 'cs pc_status) ProviderConfig \<Rightarrow> ('m, 'cs pc_status) ProviderConfig" where
  "pc_SetConditions setc c mg = map_pc_status (\<lambda>s. s\<lparr>pcConditions := setc c (pcConditions s)\<rparr>) mg"

definition GetUsers :: "('m, 'cs pc_status) ProviderConfig \<Rightarrow> 64 word" where
  "GetUsers mg = Users (pcEmbeddedStatus (pcStatus mg))"

definition SetUsers :: "64 word \<Rightarrow> ('m, 'cs pc_status) ProviderConfig \<Rightarrow> ('m, 'cs pc_status) ProviderConfig" where
  "SetUsers u mg = map_pc_status (\<lambda>s. s\<lparr>Users := u\<rparr>) mg"

definition usage_GetProviderConfigReference :: "('m, 'tr pc_usage) ProviderConfigUsage \<Rightarrow> Reference" where
  "usage_GetProviderConfigReference mg = usageConfigReference (puEmbedded mg)"

definition usage_SetProviderConfigReference ::
  "Reference \<Rightarrow> ('m, 'tr pc_usage) ProviderConfigUsage \<Rightarrow> ('m, 'tr pc_usage) ProviderConfigUsage" where
  "usage_SetProviderConfigReference r mg = mg\<lparr>puEmbedded := (puEmbedded mg)\<lparr>usageConfigReference := r\<rparr>\<rparr>"

definition GetResourceReference :: "('m, 'tr pc_usage) ProviderConfigUsage \<Rightarrow> 'tr" where
  "GetResourceReference mg = usageResourceReference (puEmbedded mg)"

definition SetResourceReference ::
  "'tr \<Rightarrow> ('m, 'tr pc_usage) ProviderConfigUsage \<Rightarrow> ('m, 'tr pc_usage) ProviderConfigUsage" where
  "SetResourceReference r mg = mg\<lparr>puEmbedded := (puEmbedded mg)\<lparr>usageResourceReference := r\<rparr>\<rparr>"

lemmas accessor_defs =
  GetProviderConfigReference_def SetProviderConfigReference_def GetProviderReference_def
  SetProviderReference_def GetDeletionPolicy_def SetDeletionPolicy_def GetManagementPolicies_def
  SetManagementPolicies_def GetPublishConnectionDetailsTo_def SetPublishConnectionDetailsTo_def
  GetWriteConnectionSecretToReference_def SetWriteConnectionSecretToReference_def
  GetUsers_def SetUsers_def usage_GetProviderConfigReference_def usage_SetProviderConfigReference_def
  GetResourceReference_def SetResourceReference_def

section \<open>The contract of an accessor pair\<close>

text \<open>
  What crossplane-runtime relies on when it reads and writes a field through a getter and a setter:
  a read returns the last write, writing back what was read changes nothing, the last write wins.
\<close>

locale accessor =
  fixes rd :: "'o \<Rightarrow> 'v" and wr :: "'v \<Rightarrow> 'o \<Rightarrow> 'o"
  assumes rd_wr [simp]: "rd (wr v x) = v"
    and wr_rd [simp]: "wr (rd x) x = x"
    and wr_wr [simp]: "wr v (wr w x) = wr v x"
begin

lemma wr_unchanged_iff: "wr v x = x \<longleftrightarrow> rd x = v"
  by (metis rd_wr wr_rd)

lemma wr_inject: "wr v x = wr w x \<longleftrightarrow> v = w"
  by (metis rd_wr)

lemma write_then_restore: "wr (rd x) (wr v x) = x"
  by simp

end

interpretation config_ref: accessor GetProviderConfigReference SetProviderConfigReference
  by unfold_locales (simp_all add: accessor_defs)

interpretation provider_ref: accessor GetProviderReference SetProviderReference
  by unfold_locales (simp_all add: accessor_defs)

interpretation deletion_policy: accessor GetDeletionPolicy SetDeletionPolicy
  by unfold_locales (simp_all add: accessor_defs)

interpretation management_policies: accessor GetManagementPolicies SetManagementPolicies
  by unfold_locales (simp_all add: accessor_defs)

interpretation publish_details: accessor GetPublishConnectionDetailsTo SetPublishConnectionDetailsTo
  by unfold_locales (simp_all add: accessor_defs)

interpretation secret_ref: accessor GetWriteConnectionSecretToReference SetWriteConnectionSecretToReference
  by unfold_locales (simp_all add: accessor_defs)

interpretation users: accessor GetUsers SetUsers
  by unfold_locales (simp_all add: accessor_defs)

interpretation usage_config_ref: accessor usage_GetProviderConfigReference usage_SetProviderConfigReference
  by unfold_locales (simp_all add: accessor_defs)

interpretation usage_resource_ref: accessor GetResourceReference SetResourceReference
  by unfold_locales (simp_all add: accessor_defs)

end
