(* ===== verification/DeepCopy.thy ===== *)
theory DeepCopy
  imports Go_Cells BenchmarkJob_Types GPUBenchmarkJob_Types
begin

text \<open>
  The generated deep copies of both API groups
  (\<^verbatim>\<open>operator/api/v1alpha1/zz_generated.deepcopy.go\<close>, \<^verbatim>\<open>provider/api/v1alpha1/zz_generated.deepcopy.go\<close>).
  A pointer field holds an address, a slice the address of its backing array. \<^verbatim>\<open>DeepCopyInto\<close> starts
  from the assignment \<^verbatim>\<open>*out = *in\<close>, which shares every pointer, and then replaces the fields that
  carry pointers. The copiers of the library structs (\<^verbatim>\<open>ObjectMeta\<close>, \<^verbatim>\<open>ListMeta\<close>, \<^verbatim>\<open>Time\<close>,
  \<^verbatim>\<open>ResourceSpec\<close>, \<^verbatim>\<open>ConditionedStatus\<close>, \<^verbatim>\<open>ProviderConfigStatus\<close>, \<^verbatim>\<open>ProviderConfigUsage\<close>) are parameters.

  \<^verbatim>\<open>DeepCopy\<close> maps nil to nil and otherwise copies into a new struct; \<^verbatim>\<open>DeepCopyObject\<close> wraps a copy that
  is not nil in the interface \<^verbatim>\<open>runtime.Object\<close> and returns the nil interface otherwise.
\<close>

datatype 'a runtime_Object = NilObject | Object 'a

definition as_object :: "'c list \<times> 'a option \<Rightarrow> 'c list \<times> 'a runtime_Object" where
  "as_object r = (case r of (h, Some c) \<Rightarrow> (h, Object c) | (h, None) \<Rightarrow> (h, NilObject))"

text \<open>Objects whose pointers are addresses, and the cells of the memory their lists live in.\<close>

type_synonym status_ref = "(nat, nat) BenchmarkJobStatus"
type_synonym 'm job_ref = "('m, nat, nat) BenchmarkJob"
type_synonym ('m, 'x) job_cell = "('m job_ref, 'x) cell"
type_synonym ('m, 'rs, 'cs) gpu_ref = "('m, 'rs, 'cs, nat) GPUBenchmarkJob"
type_synonym ('m, 'rs, 'cs, 'x) gpu_cell = "(('m, 'rs, 'cs) gpu_ref, 'x) cell"
type_synonym ('m, 'us, 'x) config_cell = "(('m, 'us) ProviderConfig, 'x) cell"
type_synonym ('m, 'pu, 'x) usage_cell = "(('m, 'pu) ProviderConfigUsage, 'x) cell"

section \<open>Operator types\<close>

definition BenchmarkJobSpec_DeepCopyInto :: "(('o, 'x) cell, BenchmarkJobSpec) copier" where
  "BenchmarkJobSpec_DeepCopyInto h inp = (h, inp)"

definition BenchmarkJobSpec_DeepCopy :: "(('o, 'x) cell, BenchmarkJobSpec option) copier" where
  "BenchmarkJobSpec_DeepCopy h inp = copy_option BenchmarkJobSpec_DeepCopyInto h inp"

definition BenchmarkJobStatus_DeepCopyInto ::
  "(('o, 'x) cell, nat) copier \<Rightarrow> (('o, 'x) cell, status_ref) copier" where
  "BenchmarkJobStatus_DeepCopyInto copyTime h inp =
     (let out = inp;
          (h, p) = copy_option copy_float h (Throughput inp); out = out\<lparr>Throughput := p\<rparr>;
          (h, p) = copy_option copy_float h (LatencyMs inp); out = out\<lparr>LatencyMs := p\<rparr>;
          (h, p) = copy_option copy_float h (MemoryBandwidthGbps inp);
          out = out\<lparr>MemoryBandwidthGbps := p\<rparr>;
          (h, p) = copy_option copyTime h (StartTime inp); out = out\<lparr>StartTime := p\<rparr>;
          (h, p) = copy_option copyTime h (CompletionTime inp); out = out\<lparr>CompletionTime := p\<rparr>
      in (h, out))"

definition BenchmarkJobStatus_DeepCopy ::
  "(('o, 'x) cell, nat) copier \<Rightarrow> (('o, 'x) cell, status_ref option) copier" where
  "BenchmarkJobStatus_DeepCopy copyTime h inp = copy_option (BenchmarkJobStatus_DeepCopyInto copyTime) h inp"

definition BenchmarkJob_DeepCopyInto ::
  "(('o, 'x) cell, 'm) copier \<Rightarrow> (('o, 'x) cell, nat) copier
    \<Rightarrow> (('o, 'x) cell, 'm job_ref) copier" where
  "BenchmarkJob_DeepCopyInto copyMeta copyTime h inp =
     (let out = inp;
          out = out\<lparr>JobTypeMeta := JobTypeMeta inp\<rparr>;
          (h, m) = copyMeta h (JobMeta inp); out = out\<lparr>JobMeta := m\<rparr>;
          out = out\<lparr>Spec := Spec inp\<rparr>;
          (h, s) = BenchmarkJobStatus_DeepCopyInto copyTime h (Status inp); out = out\<lparr>Status := s\<rparr>
      in (h, out))"

definition BenchmarkJob_DeepCopy ::
  "(('o, 'x) cell, 'm) copier \<Rightarrow> (('o, 'x) cell, nat) copier
    \<Rightarrow> (('o, 'x) cell, 'm job_ref option) copier" where
  "BenchmarkJob_DeepCopy copyMeta copyTime h inp =
     copy_option (BenchmarkJob_DeepCopyInto copyMeta copyTime) h inp"

definition BenchmarkJob_DeepCopyObject ::
  "(('o, 'x) cell, 'm) copier \<Rightarrow> (('o, 'x) cell, nat) copier \<Rightarrow> ('o, 'x) cell list
    \<Rightarrow> 'm job_ref option \<Rightarrow> ('o, 'x) cell list \<times> 'm job_ref runtime_Object" where
  "BenchmarkJob_DeepCopyObject copyMeta copyTime h inp =
     as_object (BenchmarkJob_DeepCopy copyMeta copyTime h inp)"

definition BenchmarkJobList_DeepCopyInto ::
  "'m job_ref \<Rightarrow> (('m, 'x) job_cell, 'l) copier \<Rightarrow> (('m, 'x) job_cell, 'm) copier
    \<Rightarrow> (('m, 'x) job_cell, nat) copier
    \<Rightarrow> (('m, 'x) job_cell, ('l, nat) BenchmarkJobList) copier" where
  "BenchmarkJobList_DeepCopyInto zero copyList copyMeta copyTime h inp =
     (let out = inp;
          out = out\<lparr>jlTypeMeta := jlTypeMeta inp\<rparr>;
          (h, m) = copyList h (jlListMeta inp); out = out\<lparr>jlListMeta := m\<rparr>;
          (h, s) = copy_option (copy_slice zero (BenchmarkJob_DeepCopyInto copyMeta copyTime)) h (jlItems inp);
          out = out\<lparr>jlItems := s\<rparr>
      in (h, out))"

definition BenchmarkJobList_DeepCopy ::
  "'m job_ref \<Rightarrow> (('m, 'x) job_cell, 'l) copier \<Rightarrow> (('m, 'x) job_cell, 'm) copier
    \<Rightarrow> (('m, 'x) job_cell, nat) copier
    \<Rightarrow> (('m, 'x) job_cell, ('l, nat) BenchmarkJobList option) copier" where
  "BenchmarkJobList_DeepCopy zero copyList copyMeta copyTime h inp =
     copy_option (BenchmarkJobList_DeepCopyInto zero copyList copyMeta copyTime) h inp"

definition BenchmarkJobList_DeepCopyObject ::
  "'m job_ref \<Rightarrow> (('m, 'x) job_cell, 'l) copier \<Rightarrow> (('m, 'x) job_cell, 'm) copier
    \<Rightarrow> (('m, 'x) job_cell, nat) copier \<Rightarrow> ('m, 'x) job_cell list
    \<Rightarrow> ('l, nat) BenchmarkJobList option
    \<Rightarrow> ('m, 'x) job_cell list \<times> ('l, nat) BenchmarkJobList runtime_Object" where
  "BenchmarkJobList_DeepCopyObject zero copyList copyMeta copyTime h inp =
     as_object (BenchmarkJobList_DeepCopy zero copyList copyMeta copyTime h inp)"

section \<open>Provider types\<close>

definition GPUBenchmarkJobParameters_DeepCopyInto :: "(('o, 'x) cell, GPUBenchmarkJobParameters) copier" where
  "GPUBenchmarkJobParameters_DeepCopyInto h inp = (h, inp)"

definition GPUBenchmarkJobParameters_DeepCopy ::
  "(('o, 'x) cell, GPUBenchmarkJobParameters option) copier" where
  "GPUBenchmarkJobParameters_DeepCopy h inp = copy_option GPUBenchmarkJobParameters_DeepCopyInto h inp"

definition GPUBenchmarkJobObservation_DeepCopyInto ::
  "(('o, 'x) cell, nat GPUBenchmarkJobObservation) copier" where
  "GPUBenchmarkJobObservation_DeepCopyInto h inp =
     (let out = inp;
          (h, p) = copy_option copy_float h (atThroughput inp); out = out\<lparr>atThroughput := p\<rparr>;
          (h, p) = copy_option copy_float h (atLatencyMs inp); out = out\<lparr>atLatencyMs := p\<rparr>;
          (h, p) = copy_option copy_float h (atMemoryBandwidthGbps inp);
          out = out\<lparr>atMemoryBandwidthGbps := p\<rparr>
      in (h, out))"

definition GPUBenchmarkJobObservation_DeepCopy ::
  "(('o, 'x) cell, nat GPUBenchmarkJobObservation option) copier" where
  "GPUBenchmarkJobObservation_DeepCopy h inp = copy_option GPUBenchmarkJobObservation_DeepCopyInto h inp"

definition GPUBenchmarkJobSpec_DeepCopyInto ::
  "(('o, 'x) cell, 'rs) copier \<Rightarrow> (('o, 'x) cell, 'rs GPUBenchmarkJobSpec) copier" where
  "GPUBenchmarkJobSpec_DeepCopyInto copyRS h inp =
     (let out = inp;
          (h, r) = copyRS h (ResourceSpec inp); out = out\<lparr>ResourceSpec := r\<rparr>;
          (h, p) = GPUBenchmarkJobParameters_DeepCopyInto h (ForProvider inp);
          out = out\<lparr>ForProvider := p\<rparr>
      in (h, out))"

definition GPUBenchmarkJobSpec_DeepCopy ::
  "(('o, 'x) cell, 'rs) copier \<Rightarrow> (('o, 'x) cell, 'rs GPUBenchmarkJobSpec option) copier" where
  "GPUBenchmarkJobSpec_DeepCopy copyRS h inp = copy_option (GPUBenchmarkJobSpec_DeepCopyInto copyRS) h inp"

definition GPUBenchmarkJobStatus_DeepCopyInto ::
  "(('o, 'x) cell, 'cs) copier \<Rightarrow> (('o, 'x) cell, ('cs, nat) GPUBenchmarkJobStatus) copier" where
  "GPUBenchmarkJobStatus_DeepCopyInto copyCS h inp =
     (let out = inp;
          (h, c) = copyCS h (ConditionedStatus inp); out = out\<lparr>ConditionedStatus := c\<rparr>;
          (h, p) = GPUBenchmarkJobObservation_DeepCopyInto h (AtProvider inp);
          out = out\<lparr>AtProvider := p\<rparr>
      in (h, out))"

definition GPUBenchmarkJobStatus_DeepCopy ::
  "(('o, 'x) cell, 'cs) copier \<Rightarrow> (('o, 'x) cell, ('cs, nat) GPUBenchmarkJobStatus option) copier" where
  "GPUBenchmarkJobStatus_DeepCopy copyCS h inp = copy_option (GPUBenchmarkJobStatus_DeepCopyInto copyCS) h inp"

definition GPUBenchmarkJob_DeepCopyInto ::
  "(('o, 'x) cell, 'm) copier \<Rightarrow> (('o, 'x) cell, 'rs) copier \<Rightarrow> (('o, 'x) cell, 'cs) copier
    \<Rightarrow> (('o, 'x) cell, ('m, 'rs, 'cs) gpu_ref) copier" where
  "GPUBenchmarkJob_DeepCopyInto copyMeta copyRS copyCS h inp =
     (let out = inp;
          out = out\<lparr>mgTypeMeta := mgTypeMeta inp\<rparr>;
          (h, m) = copyMeta h (mgMeta inp); out = out\<lparr>mgMeta := m\<rparr>;
          (h, s) = GPUBenchmarkJobSpec_DeepCopyInto copyRS h (mgSpec inp); out = out\<lparr>mgSpec := s\<rparr>;
          (h, t) = GPUBenchmarkJobStatus_DeepCopyInto copyCS h (mgStatus inp);
          out = out\<lparr>mgStatus := t\<rparr>
      in (h, out))"

definition GPUBenchmarkJob_DeepCopy ::
  "(('o, 'x) cell, 'm) copier \<Rightarrow> (('o, 'x) cell, 'rs) copier \<Rightarrow> (('o, 'x) cell, 'cs) copier
    \<Rightarrow> (('o, 'x) cell, ('m, 'rs, 'cs) gpu_ref option) copier" where
  "GPUBenchmarkJob_DeepCopy copyMeta copyRS copyCS h inp =
     copy_option (GPUBenchmarkJob_DeepCopyInto copyMeta copyRS copyCS) h inp"

definition GPUBenchmarkJob_DeepCopyObject ::
  "(('o, 'x) cell, 'm) copier \<Rightarrow> (('o, 'x) cell, 'rs) copier \<Rightarrow> (('o, 'x) cell, 'cs) copier
    \<Rightarrow> ('o, 'x) cell list \<Rightarrow> ('m, 'rs, 'cs) gpu_ref option
    \<Rightarrow> ('o, 'x) cell list \<times> ('m, 'rs, 'cs) gpu_ref runtime_Object" where
  "GPUBenchmarkJob_DeepCopyObject copyMeta copyRS copyCS h inp =
     as_object (GPUBenchmarkJob_DeepCopy copyMeta copyRS copyCS h inp)"

definition GPUBenchmarkJobList_DeepCopyInto ::
  "('m, 'rs, 'cs) gpu_ref \<Rightarrow> (('m, 'rs, 'cs, 'x) gpu_cell, 'l) copier
    \<Rightarrow> (('m, 'rs, 'cs, 'x) gpu_cell, 'm) copier \<Rightarrow> (('m, 'rs, 'cs, 'x) gpu_cell, 'rs) copier
    \<Rightarrow> (('m, 'rs, 'cs, 'x) gpu_cell, 'cs) copier
    \<Rightarrow> (('m, 'rs, 'cs, 'x) gpu_cell, ('l, nat) GPUBenchmarkJobList) copier" where
  "GPUBenchmarkJobList_DeepCopyInto zero copyList copyMeta copyRS copyCS h inp =
     (let out = inp;
          out = out\<lparr>gjlTypeMeta := gjlTypeMeta inp\<rparr>;
          (h, m) = copyList h (gjlListMeta inp); out = out\<lparr>gjlListMeta := m\<rparr>;
          (h, s) = copy_option (copy_slice zero (GPUBenchmarkJob_DeepCopyInto copyMeta copyRS copyCS)) h (gjlItems inp);
          out = out\<lparr>gjlItems := s\<rparr>
      in (h, out))"

definition GPUBenchmarkJobList_DeepCopy ::
  "('m, 'rs, 'cs) gpu_ref \<Rightarrow> (('m, 'rs, 'cs, 'x) gpu_cell, 'l) copier
    \<Rightarrow> (('m, 'rs, 'cs, 'x) gpu_cell, 'm) copier \<Rightarrow> (('m, 'rs, 'cs, 'x) gpu_cell, 'rs) copier
    \<Rightarrow> (('m, 'rs, 'cs, 'x) gpu_cell, 'cs) copier
    \<Rightarrow> (('m, 'rs, 'cs, 'x) gpu_cell, ('l, nat) GPUBenchmarkJobList option) copier" where
  "GPUBenchmarkJobList_DeepCopy zero copyList copyMeta copyRS copyCS h inp =
     copy_option (GPUBenchmarkJobList_DeepCopyInto zero copyList copyMeta copyRS copyCS) h inp"

definition GPUBenchmarkJobList_DeepCopyObject ::
  "('m, 'rs, 'cs) gpu_ref \<Rightarrow> (('m, 'rs, 'cs, 'x) gpu_cell, 'l) copier
    \<Rightarrow> (('m, 'rs, 'cs, 'x) gpu_cell, 'm) copier \<Rightarrow> (('m, 'rs, 'cs, 'x) gpu_cell, 'rs) copier
    \<Rightarrow> (('m, 'rs, 'cs, 'x) gpu_cell, 'cs) copier \<Rightarrow> ('m, 'rs, 'cs, 'x) gpu_cell list
    \<Rightarrow> ('l, nat) GPUBenchmarkJobList option
    \<Rightarrow> ('m, 'rs, 'cs, 'x) gpu_cell list \<times> ('l, nat) GPUBenchmarkJobList runtime_Object" where
  "GPUBenchmarkJobList_DeepCopyObject zero copyList copyMeta copyRS copyCS h inp =
     as_object (GPUBenchmarkJobList_DeepCopy zero copyList copyMeta copyRS copyCS h inp)"

definition ProviderConfigSpec_DeepCopyInto :: "(('o, 'x) cell, ProviderConfigSpec) copier" where
  "ProviderConfigSpec_DeepCopyInto h inp =
     (let out = inp;
          out = out\<lparr>pcPollInterval := pcPollInterval inp\<rparr>
      in (h, out))"

definition ProviderConfigSpec_DeepCopy :: "(('o, 'x) cell, ProviderConfigSpec option) copier" where
  "ProviderConfigSpec_DeepCopy h inp = copy_option ProviderConfigSpec_DeepCopyInto h inp"

definition ProviderConfigStatus_DeepCopyInto ::
  "(('o, 'x) cell, 'us) copier \<Rightarrow> (('o, 'x) cell, 'us ProviderConfigStatus) copier" where
  "ProviderConfigStatus_DeepCopyInto copyUS h inp =
     (let out = inp;
          (h, u) = copyUS h (pcEmbeddedStatus inp); out = out\<lparr>pcEmbeddedStatus := u\<rparr>
      in (h, out))"

definition ProviderConfigStatus_DeepCopy ::
  "(('o, 'x) cell, 'us) copier \<Rightarrow> (('o, 'x) cell, 'us ProviderConfigStatus option) copier" where
  "ProviderConfigStatus_DeepCopy copyUS h inp = copy_option (ProviderConfigStatus_DeepCopyInto copyUS) h inp"

definition ProviderConfig_DeepCopyInto ::
  "(('o, 'x) cell, 'm) copier \<Rightarrow> (('o, 'x) cell, 'us) copier
    \<Rightarrow> (('o, 'x) cell, ('m, 'us) ProviderConfig) copier" where
  "ProviderConfig_DeepCopyInto copyMeta copyUS h inp =
     (let out = inp;
          out = out\<lparr>pcTypeMeta := pcTypeMeta inp\<rparr>;
          (h, m) = copyMeta h (pcMeta inp); out = out\<lparr>pcMeta := m\<rparr>;
          out = out\<lparr>pcSpec := pcSpec inp\<rparr>;
          (h, s) = ProviderConfigStatus_DeepCopyInto copyUS h (pcStatus inp);
          out = out\<lparr>pcStatus := s\<rparr>
      in (h, out))"

definition ProviderConfig_DeepCopy ::
  "(('o, 'x) cell, 'm) copier \<Rightarrow> (('o, 'x) cell, 'us) copier
    \<Rightarrow> (('o, 'x) cell, ('m, 'us) ProviderConfig option) copier" where
  "ProviderConfig_DeepCopy copyMeta copyUS h inp =
     copy_option (ProviderConfig_DeepCopyInto copyMeta copyUS) h inp"

definition ProviderConfig_DeepCopyObject ::
  "(('o, 'x) cell, 'm) copier \<Rightarrow> (('o, 'x) cell, 'us) copier \<Rightarrow> ('o, 'x) cell list
    \<Rightarrow> ('m, 'us) ProviderConfig option
    \<Rightarrow> ('o, 'x) cell list \<times> ('m, 'us) ProviderConfig runtime_Object" where
  "ProviderConfig_DeepCopyObject copyMeta copyUS h inp =
     as_object (ProviderConfig_DeepCopy copyMeta copyUS h inp)"

definition ProviderConfigList_DeepCopyInto ::
  "('m, 'us) ProviderConfig \<Rightarrow> (('m, 'us, 'x) config_cell, 'l) copier
    \<Rightarrow> (('m, 'us, 'x) config_cell, 'm) copier \<Rightarrow> (('m, 'us, 'x) config_cell, 'us) copier
    \<Rightarrow> (('m, 'us, 'x) config_cell, ('l, nat) ProviderConfigList) copier" where
  "ProviderConfigList_DeepCopyInto zero copyList copyMeta copyUS h inp =
     (let out = inp;
          out = out\<lparr>pclTypeMeta := pclTypeMeta inp\<rparr>;
          (h, m) = copyList h (pclListMeta inp); out = out\<lparr>pclListMeta := m\<rparr>;
          (h, s) = copy_option (copy_slice zero (ProviderConfig_DeepCopyInto copyMeta copyUS)) h (pclItems inp);
          out = out\<lparr>pclItems := s\<rparr>
      in (h, out))"

definition ProviderConfigList_DeepCopy ::
  "('m, 'us) ProviderConfig \<Rightarrow> (('m, 'us, 'x) config_cell, 'l) copier
    \<Rightarrow> (('m, 'us, 'x) config_cell, 'm) copier \<Rightarrow> (('m, 'us, 'x) config_cell, 'us) copier
    \<Rightarrow> (('m, 'us, 'x) config_cell, ('l, nat) ProviderConfigList option) copier" where
  "ProviderConfigList_DeepCopy zero copyList copyMeta copyUS h inp =
     copy_option (ProviderConfigList_DeepCopyInto zero copyList copyMeta copyUS) h inp"

definition ProviderConfigList_DeepCopyObject ::
  "('m, 'us) ProviderConfig \<Rightarrow> (('m, 'us, 'x) config_cell, 'l) copier
    \<Rightarrow> (('m, 'us, 'x) config_cell, 'm) copier \<Rightarrow> (('m, 'us, 'x) config_cell, 'us) copier
    \<Rightarrow> ('m, 'us, 'x) config_cell list \<Rightarrow> ('l, nat) ProviderConfigList option
    \<Rightarrow> ('m, 'us, 'x) config_cell list \<times> ('l, nat) ProviderConfigList runtime_Object" where
  "ProviderConfigList_DeepCopyObject zero copyList copyMeta copyUS h inp =
     as_object (ProviderConfigList_DeepCopy zero copyList copyMeta copyUS h inp)"

definition ProviderConfigUsage_DeepCopyInto ::
  "(('o, 'x) cell, 'm) copier \<Rightarrow> (('o, 'x) cell, 'pu) copier
    \<Rightarrow> (('o, 'x) cell, ('m, 'pu) ProviderConfigUsage) copier" where
  "ProviderConfigUsage_DeepCopyInto copyMeta copyPU h inp =
     (let out = inp;
          out = out\<lparr>puTypeMeta := puTypeMeta inp\<rparr>;
          (h, m) = copyMeta h (puMeta inp); out = out\<lparr>puMeta := m\<rparr>;
          (h, u) = copyPU h (puEmbedded inp); out = out\<lparr>puEmbedded := u\<rparr>
      in (h, out))"

definition ProviderConfigUsage_DeepCopy ::
  "(('o, 'x) cell, 'm) copier \<Rightarrow> (('o, 'x) cell, 'pu) copier
    \<Rightarrow> (('o, 'x) cell, ('m, 'pu) ProviderConfigUsage option) copier" where
  "ProviderConfigUsage_DeepCopy copyMeta copyPU h inp =
     copy_option (ProviderConfigUsage_DeepCopyInto copyMeta copyPU) h inp"

definition ProviderConfigUsage_DeepCopyObject ::
  "(('o, 'x) cell, 'm) copier \<Rightarrow> (('o, 'x) cell, 'pu) copier \<Rightarrow> ('o, 'x) cell list
    \<Rightarrow> ('m, 'pu) ProviderConfigUsage option
    \<Rightarrow> ('o, 'x) cell list \<times> ('m, 'pu) ProviderConfigUsage runtime_Object" where
  "ProviderConfigUsage_DeepCopyObject copyMeta copyPU h inp =
     as_object (ProviderConfigUsage_DeepCopy copyMeta copyPU h inp)"

definition ProviderConfigUsageList_DeepCopyInto ::
  "('m, 'pu) ProviderConfigUsage \<Rightarrow> (('m, 'pu, 'x) usage_cell, 'l) copier
    \<Rightarrow> (('m, 'pu, 'x) usage_cell, 'm) copier \<Rightarrow> (('m, 'pu, 'x) usage_cell, 'pu) copier
    \<Rightarrow> (('m, 'pu, 'x) usage_cell, ('l, nat) ProviderConfigUsageList) copier" where
  "ProviderConfigUsageList_DeepCopyInto zero copyList copyMeta copyPU h inp =
     (let out = inp;
          out = out\<lparr>pulTypeMeta := pulTypeMeta inp\<rparr>;
          (h, m) = copyList h (pulListMeta inp); out = out\<lparr>pulListMeta := m\<rparr>;
          (h, s) = copy_option (copy_slice zero (ProviderConfigUsage_DeepCopyInto copyMeta copyPU)) h (pulItems inp);
          out = out\<lparr>pulItems := s\<rparr>
      in (h, out))"

definition ProviderConfigUsageList_DeepCopy ::
  "('m, 'pu) ProviderConfigUsage \<Rightarrow> (('m, 'pu, 'x) usage_cell, 'l) copier
    \<Rightarrow> (('m, 'pu, 'x) usage_cell, 'm) copier \<Rightarrow> (('m, 'pu, 'x) usage_cell, 'pu) copier
    \<Rightarrow> (('m, 'pu, 'x) usage_cell, ('l, nat) ProviderConfigUsageList option) copier" where
  "ProviderConfigUsageList_DeepCopy zero copyList copyMeta copyPU h inp =
     copy_option (ProviderConfigUsageList_DeepCopyInto zero copyList copyMeta copyPU) h inp"

definition ProviderConfigUsageList_DeepCopyObject ::
  "('m, 'pu) ProviderConfigUsage \<Rightarrow> (('m, 'pu, 'x) usage_cell, 'l) copier
    \<Rightarrow> (('m, 'pu, 'x) usage_cell, 'm) copier \<Rightarrow> (('m, 'pu, 'x) usage_cell, 'pu) copier
    \<Rightarrow> ('m, 'pu, 'x) usage_cell list \<Rightarrow> ('l, nat) ProviderConfigUsageList option
    \<Rightarrow> ('m, 'pu, 'x) usage_cell list \<times> ('l, nat) ProviderConfigUsageList runtime_Object" where
  "ProviderConfigUsageList_DeepCopyObject zero copyList copyMeta copyPU h inp =
     as_object (ProviderConfigUsageList_DeepCopy zero copyList copyMeta copyPU h inp)"

lemmas deep_copy_into =
  BenchmarkJobSpec_DeepCopyInto_def BenchmarkJobStatus_DeepCopyInto_def BenchmarkJob_DeepCopyInto_def
  BenchmarkJobList_DeepCopyInto_def GPUBenchmarkJobParameters_DeepCopyInto_def
  GPUBenchmarkJobObservation_DeepCopyInto_def GPUBenchmarkJobSpec_DeepCopyInto_def
  GPUBenchmarkJobStatus_DeepCopyInto_def GPUBenchmarkJob_DeepCopyInto_def GPUBenchmarkJobList_DeepCopyInto_def
  ProviderConfigSpec_DeepCopyInto_def ProviderConfigStatus_DeepCopyInto_def ProviderConfig_DeepCopyInto_def
  ProviderConfigList_DeepCopyInto_def ProviderConfigUsage_DeepCopyInto_def ProviderConfigUsageList_DeepCopyInto_def

end
