(* ===== verification/DeepCopy_Properties.thy ===== *)
theory DeepCopy_Properties
  imports DeepCopy
begin

text \<open>
  Every generated copier is a deep copier, given that the copiers of the library structs are: the
  value is kept, the memory there was is not touched, and the copy reaches only memory allocated
  for it. For each struct \<open>_value\<close> is the struct with its pointers followed and \<open>_refs\<close> what it reaches.
\<close>

lemmas float_ptr_copier = float_copy.option_copier
lemmas ptr_copier = deep_copier.option_copier

abbreviation float_refs :: "('o, 'x) cell list \<Rightarrow> nat option \<Rightarrow> nat set" where
  "float_refs \<equiv> option_refs (\<lambda>h a. {a})"

section \<open>Operator types\<close>

interpretation spec_copy: deep_copier BenchmarkJobSpec_DeepCopyInto "\<lambda>h s. s" "\<lambda>h s. {}"
  by unfold_locales (simp_all add: deep_copy_into)

definition status_value ::
  "(('o, 'x) cell list \<Rightarrow> nat \<Rightarrow> 'v) \<Rightarrow> ('o, 'x) cell list \<Rightarrow> status_ref \<Rightarrow> (float64, 'v) BenchmarkJobStatus" where
  "status_value vt h st =
     \<lparr>Phase = Phase st, JobID = JobID st, Message = Message st, RetryCount = RetryCount st,
      Throughput = map_option (float_at h) (Throughput st), LatencyMs = map_option (float_at h) (LatencyMs st),
      MemoryBandwidthGbps = map_option (float_at h) (MemoryBandwidthGbps st),
      StartTime = map_option (vt h) (StartTime st), CompletionTime = map_option (vt h) (CompletionTime st)\<rparr>"

definition status_refs ::
  "(('o, 'x) cell list \<Rightarrow> nat \<Rightarrow> nat set) \<Rightarrow> ('o, 'x) cell list \<Rightarrow> status_ref \<Rightarrow> nat set" where
  "status_refs rt h st =
     float_refs h (Throughput st) \<union> (float_refs h (LatencyMs st) \<union> (float_refs h (MemoryBandwidthGbps st) \<union>
       (option_refs rt h (StartTime st) \<union> option_refs rt h (CompletionTime st))))"

lemma status_copier:
  assumes "deep_copier copyTime vt rt"
  shows "deep_copier (BenchmarkJobStatus_DeepCopyInto copyTime) (status_value vt) (status_refs rt)"
proof (rule deep_copier_struct
    [OF deep_copier_pair [OF float_ptr_copier deep_copier_pair [OF float_ptr_copier deep_copier_pair [OF float_ptr_copier
       deep_copier_pair [OF ptr_copier [OF assms] ptr_copier [OF assms]]]]],
     where get = "\<lambda>st. (Throughput st, LatencyMs st, MemoryBandwidthGbps st, StartTime st, CompletionTime st)"
       and put = "\<lambda>(a, b, c, d, e) st. st\<lparr>Throughput := a, LatencyMs := b, MemoryBandwidthGbps := c,
                                          StartTime := d, CompletionTime := e\<rparr>"
       and rest = "\<lambda>st. (Phase st, JobID st, Message st, RetryCount st)"
       and build = "\<lambda>(a, b, c, d, e) (p, i, m, n).
                      \<lparr>Phase = p, JobID = i, Message = m, RetryCount = n, Throughput = a, LatencyMs = b,
                       MemoryBandwidthGbps = c, StartTime = d, CompletionTime = e\<rparr>"])
qed (simp_all add: deep_copy_into copy_pair_def split_beta Let_def status_value_def status_refs_def)

definition job_value ::
  "(('o, 'x) cell list \<Rightarrow> 'm \<Rightarrow> 'vm) \<Rightarrow> (('o, 'x) cell list \<Rightarrow> nat \<Rightarrow> 'vt)
    \<Rightarrow> ('o, 'x) cell list \<Rightarrow> 'm job_ref \<Rightarrow> ('vm, float64, 'vt) BenchmarkJob" where
  "job_value vm vt h j =
     \<lparr>JobTypeMeta = JobTypeMeta j, JobMeta = vm h (JobMeta j), Spec = Spec j, Status = status_value vt h (Status j)\<rparr>"

definition job_refs ::
  "(('o, 'x) cell list \<Rightarrow> 'm \<Rightarrow> nat set) \<Rightarrow> (('o, 'x) cell list \<Rightarrow> nat \<Rightarrow> nat set)
    \<Rightarrow> ('o, 'x) cell list \<Rightarrow> 'm job_ref \<Rightarrow> nat set" where
  "job_refs rm rt h j = rm h (JobMeta j) \<union> status_refs rt h (Status j)"

lemma job_copier:
  assumes "deep_copier copyMeta vm rm" and "deep_copier copyTime vt rt"
  shows "deep_copier (BenchmarkJob_DeepCopyInto copyMeta copyTime) (job_value vm vt) (job_refs rm rt)"
proof (rule deep_copier_struct
    [OF deep_copier_pair [OF assms(1) status_copier [OF assms(2)]],
     where get = "\<lambda>j. (JobMeta j, Status j)" and put = "\<lambda>(m, s) j. j\<lparr>JobMeta := m, Status := s\<rparr>"
       and rest = "\<lambda>j. (JobTypeMeta j, Spec j)"
       and build = "\<lambda>(m, s) (t, p). \<lparr>JobTypeMeta = t, JobMeta = m, Spec = p, Status = s\<rparr>"])
qed (simp_all add: BenchmarkJob_DeepCopyInto_def copy_pair_def split_beta Let_def job_value_def job_refs_def)

definition job_list_value ::
  "(('m, 'x) job_cell list \<Rightarrow> 'l \<Rightarrow> 'vl) \<Rightarrow> (('m, 'x) job_cell list \<Rightarrow> 'm \<Rightarrow> 'vm)
    \<Rightarrow> (('m, 'x) job_cell list \<Rightarrow> nat \<Rightarrow> 'vt) \<Rightarrow> ('m, 'x) job_cell list \<Rightarrow> ('l, nat) BenchmarkJobList
    \<Rightarrow> ('vl, ('vm, float64, 'vt) BenchmarkJob list) BenchmarkJobList" where
  "job_list_value vl vm vt h l =
     \<lparr>jlTypeMeta = jlTypeMeta l, jlListMeta = vl h (jlListMeta l),
      jlItems = map_option (\<lambda>a. map (job_value vm vt h) (array_at h a)) (jlItems l)\<rparr>"

definition job_list_refs ::
  "(('m, 'x) job_cell list \<Rightarrow> 'l \<Rightarrow> nat set) \<Rightarrow> (('m, 'x) job_cell list \<Rightarrow> 'm \<Rightarrow> nat set)
    \<Rightarrow> (('m, 'x) job_cell list \<Rightarrow> nat \<Rightarrow> nat set) \<Rightarrow> ('m, 'x) job_cell list
    \<Rightarrow> ('l, nat) BenchmarkJobList \<Rightarrow> nat set" where
  "job_list_refs rl rm rt h l = rl h (jlListMeta l) \<union> option_refs (slice_refs (job_refs rm rt)) h (jlItems l)"

lemma job_list_copier:
  assumes "deep_copier copyList vl rl" and "deep_copier copyMeta vm rm" and "deep_copier copyTime vt rt"
  shows "deep_copier (BenchmarkJobList_DeepCopyInto zero copyList copyMeta copyTime)
           (job_list_value vl vm vt) (job_list_refs rl rm rt)"
proof (rule deep_copier_struct
    [OF deep_copier_pair [OF assms(1) ptr_copier [OF deep_copier_slice [OF job_copier [OF assms(2,3)]]]],
     where get = "\<lambda>l. (jlListMeta l, jlItems l)" and put = "\<lambda>(m, s) l. l\<lparr>jlListMeta := m, jlItems := s\<rparr>"
       and rest = jlTypeMeta and build = "\<lambda>(m, s) t. \<lparr>jlTypeMeta = t, jlListMeta = m, jlItems = s\<rparr>"])
qed (simp_all add: BenchmarkJobList_DeepCopyInto_def copy_pair_def split_beta Let_def job_list_value_def
      job_list_refs_def)

section \<open>Provider types\<close>

definition observation_value ::
  "('o, 'x) cell list \<Rightarrow> nat GPUBenchmarkJobObservation \<Rightarrow> float64 GPUBenchmarkJobObservation" where
  "observation_value h ob =
     \<lparr>atJobID = atJobID ob, atPhase = atPhase ob, atRetryCount = atRetryCount ob,
      atThroughput = map_option (float_at h) (atThroughput ob), atLatencyMs = map_option (float_at h) (atLatencyMs ob),
      atMemoryBandwidthGbps = map_option (float_at h) (atMemoryBandwidthGbps ob)\<rparr>"

definition observation_refs :: "('o, 'x) cell list \<Rightarrow> nat GPUBenchmarkJobObservation \<Rightarrow> nat set" where
  "observation_refs h ob =
     float_refs h (atThroughput ob) \<union> (float_refs h (atLatencyMs ob) \<union> float_refs h (atMemoryBandwidthGbps ob))"

interpretation parameters_copy: deep_copier GPUBenchmarkJobParameters_DeepCopyInto "\<lambda>h s. s" "\<lambda>h s. {}"
  by unfold_locales (simp_all add: deep_copy_into)

interpretation observation_copy: deep_copier GPUBenchmarkJobObservation_DeepCopyInto observation_value observation_refs
proof (rule deep_copier_struct
    [OF deep_copier_pair [OF float_ptr_copier deep_copier_pair [OF float_ptr_copier float_ptr_copier]],
     where get = "\<lambda>ob. (atThroughput ob, atLatencyMs ob, atMemoryBandwidthGbps ob)"
       and put = "\<lambda>(a, b, c) ob. ob\<lparr>atThroughput := a, atLatencyMs := b, atMemoryBandwidthGbps := c\<rparr>"
       and rest = "\<lambda>ob. (atJobID ob, atPhase ob, atRetryCount ob)"
       and build = "\<lambda>(a, b, c) (i, p, n). \<lparr>atJobID = i, atPhase = p, atRetryCount = n, atThroughput = a,
                                          atLatencyMs = b, atMemoryBandwidthGbps = c\<rparr>"])
qed (simp_all add: deep_copy_into copy_pair_def split_beta Let_def observation_value_def observation_refs_def)

definition gpu_value ::
  "(('o, 'x) cell list \<Rightarrow> 'm \<Rightarrow> 'vm) \<Rightarrow> (('o, 'x) cell list \<Rightarrow> 'rs \<Rightarrow> 'vr) \<Rightarrow> (('o, 'x) cell list \<Rightarrow> 'cs \<Rightarrow> 'vc)
    \<Rightarrow> ('o, 'x) cell list \<Rightarrow> ('m, 'rs, 'cs) gpu_ref \<Rightarrow> ('vm, 'vr, 'vc, float64) GPUBenchmarkJob" where
  "gpu_value vm vr vc h j =
     \<lparr>mgTypeMeta = mgTypeMeta j, mgMeta = vm h (mgMeta j),
      mgSpec = \<lparr>ResourceSpec = vr h (ResourceSpec (mgSpec j)), ForProvider = ForProvider (mgSpec j)\<rparr>,
      mgStatus = \<lparr>ConditionedStatus = vc h (ConditionedStatus (mgStatus j)),
                  AtProvider = observation_value h (AtProvider (mgStatus j))\<rparr>\<rparr>"

definition gpu_refs ::
  "(('o, 'x) cell list \<Rightarrow> 'm \<Rightarrow> nat set) \<Rightarrow> (('o, 'x) cell list \<Rightarrow> 'rs \<Rightarrow> nat set)
    \<Rightarrow> (('o, 'x) cell list \<Rightarrow> 'cs \<Rightarrow> nat set) \<Rightarrow> ('o, 'x) cell list \<Rightarrow> ('m, 'rs, 'cs) gpu_ref \<Rightarrow> nat set" where
  "gpu_refs rm rr rc h j =
     rm h (mgMeta j) \<union> (rr h (ResourceSpec (mgSpec j)) \<union>
       (rc h (ConditionedStatus (mgStatus j)) \<union> observation_refs h (AtProvider (mgStatus j))))"

lemma gpu_copier:
  assumes "deep_copier copyMeta vm rm" and "deep_copier copyRS vr rr" and "deep_copier copyCS vc rc"
  shows "deep_copier (GPUBenchmarkJob_DeepCopyInto copyMeta copyRS copyCS) (gpu_value vm vr vc) (gpu_refs rm rr rc)"
proof (rule deep_copier_struct
    [OF deep_copier_pair [OF assms(1) deep_copier_pair [OF assms(2)
       deep_copier_pair [OF assms(3) observation_copy.deep_copier_axioms]]],
     where get = "\<lambda>j. (mgMeta j, ResourceSpec (mgSpec j), ConditionedStatus (mgStatus j), AtProvider (mgStatus j))"
       and put = "\<lambda>(m, r, c, ob) j. j\<lparr>mgMeta := m, mgSpec := (mgSpec j)\<lparr>ResourceSpec := r\<rparr>,
                                     mgStatus := \<lparr>ConditionedStatus = c, AtProvider = ob\<rparr>\<rparr>"
       and rest = "\<lambda>j. (mgTypeMeta j, ForProvider (mgSpec j))"
       and build = "\<lambda>(m, r, c, ob) (t, p).
          \<lparr>mgTypeMeta = t, mgMeta = m, mgSpec = \<lparr>ResourceSpec = r, ForProvider = p\<rparr>,
           mgStatus = \<lparr>ConditionedStatus = c, AtProvider = ob\<rparr>\<rparr>"])
qed (simp_all add: GPUBenchmarkJob_DeepCopyInto_def GPUBenchmarkJobSpec_DeepCopyInto_def
      GPUBenchmarkJobStatus_DeepCopyInto_def GPUBenchmarkJobParameters_DeepCopyInto_def copy_pair_def split_beta
      Let_def gpu_value_def gpu_refs_def)

definition gpu_list_value ::
  "(('m, 'rs, 'cs, 'x) gpu_cell list \<Rightarrow> 'l \<Rightarrow> 'vl) \<Rightarrow> (('m, 'rs, 'cs, 'x) gpu_cell list \<Rightarrow> 'm \<Rightarrow> 'vm)
    \<Rightarrow> (('m, 'rs, 'cs, 'x) gpu_cell list \<Rightarrow> 'rs \<Rightarrow> 'vr) \<Rightarrow> (('m, 'rs, 'cs, 'x) gpu_cell list \<Rightarrow> 'cs \<Rightarrow> 'vc)
    \<Rightarrow> ('m, 'rs, 'cs, 'x) gpu_cell list \<Rightarrow> ('l, nat) GPUBenchmarkJobList
    \<Rightarrow> ('vl, ('vm, 'vr, 'vc, float64) GPUBenchmarkJob list) GPUBenchmarkJobList" where
  "gpu_list_value vl vm vr vc h l =
     \<lparr>gjlTypeMeta = gjlTypeMeta l, gjlListMeta = vl h (gjlListMeta l),
      gjlItems = map_option (\<lambda>a. map (gpu_value vm vr vc h) (array_at h a)) (gjlItems l)\<rparr>"

definition gpu_list_refs ::
  "(('m, 'rs, 'cs, 'x) gpu_cell list \<Rightarrow> 'l \<Rightarrow> nat set) \<Rightarrow> (('m, 'rs, 'cs, 'x) gpu_cell list \<Rightarrow> 'm \<Rightarrow> nat set)
    \<Rightarrow> (('m, 'rs, 'cs, 'x) gpu_cell list \<Rightarrow> 'rs \<Rightarrow> nat set) \<Rightarrow> (('m, 'rs, 'cs, 'x) gpu_cell list \<Rightarrow> 'cs \<Rightarrow> nat set)
    \<Rightarrow> ('m, 'rs, 'cs, 'x) gpu_cell list \<Rightarrow> ('l, nat) GPUBenchmarkJobList \<Rightarrow> nat set" where
  "gpu_list_refs rl rm rr rc h l =
     rl h (gjlListMeta l) \<union> option_refs (slice_refs (gpu_refs rm rr rc)) h (gjlItems l)"

lemma gpu_list_copier:
  assumes "deep_copier copyList vl rl" and "deep_copier copyMeta vm rm" and "deep_copier copyRS vr rr"
    and "deep_copier copyCS vc rc"
  shows "deep_copier (GPUBenchmarkJobList_DeepCopyInto zero copyList copyMeta copyRS copyCS)
           (gpu_list_value vl vm vr vc) (gpu_list_refs rl rm rr rc)"
proof (rule deep_copier_struct
    [OF deep_copier_pair [OF assms(1) ptr_copier [OF deep_copier_slice [OF gpu_copier [OF assms(2-4)]]]],
     where get = "\<lambda>l. (gjlListMeta l, gjlItems l)" and put = "\<lambda>(m, s) l. l\<lparr>gjlListMeta := m, gjlItems := s\<rparr>"
       and rest = gjlTypeMeta and build = "\<lambda>(m, s) t. \<lparr>gjlTypeMeta = t, gjlListMeta = m, gjlItems = s\<rparr>"])
qed (simp_all add: GPUBenchmarkJobList_DeepCopyInto_def copy_pair_def split_beta Let_def gpu_list_value_def
      gpu_list_refs_def)

definition config_value ::
  "(('o, 'x) cell list \<Rightarrow> 'm \<Rightarrow> 'vm) \<Rightarrow> (('o, 'x) cell list \<Rightarrow> 'us \<Rightarrow> 'vu)
    \<Rightarrow> ('o, 'x) cell list \<Rightarrow> ('m, 'us) ProviderConfig \<Rightarrow> ('vm, 'vu) ProviderConfig" where
  "config_value vm vu h c =
     \<lparr>pcTypeMeta = pcTypeMeta c, pcMeta = vm h (pcMeta c), pcSpec = pcSpec c,
      pcStatus = \<lparr>pcEmbeddedStatus = vu h (pcEmbeddedStatus (pcStatus c))\<rparr>\<rparr>"

definition config_refs ::
  "(('o, 'x) cell list \<Rightarrow> 'm \<Rightarrow> nat set) \<Rightarrow> (('o, 'x) cell list \<Rightarrow> 'us \<Rightarrow> nat set)
    \<Rightarrow> ('o, 'x) cell list \<Rightarrow> ('m, 'us) ProviderConfig \<Rightarrow> nat set" where
  "config_refs rm ru h c = rm h (pcMeta c) \<union> ru h (pcEmbeddedStatus (pcStatus c))"

lemma config_copier:
  assumes "deep_copier copyMeta vm rm" and "deep_copier copyUS vu ru"
  shows "deep_copier (ProviderConfig_DeepCopyInto copyMeta copyUS) (config_value vm vu) (config_refs rm ru)"
proof (rule deep_copier_struct
    [OF deep_copier_pair [OF assms],
     where get = "\<lambda>c. (pcMeta c, pcEmbeddedStatus (pcStatus c))"
       and put = "\<lambda>(m, u) c. c\<lparr>pcMeta := m, pcStatus := \<lparr>pcEmbeddedStatus = u\<rparr>\<rparr>"
       and rest = "\<lambda>c. (pcTypeMeta c, pcSpec c)"
       and build = "\<lambda>(m, u) (t, p). \<lparr>pcTypeMeta = t, pcMeta = m, pcSpec = p, pcStatus = \<lparr>pcEmbeddedStatus = u\<rparr>\<rparr>"])
qed (simp_all add: ProviderConfig_DeepCopyInto_def ProviderConfigStatus_DeepCopyInto_def copy_pair_def split_beta
      Let_def config_value_def config_refs_def)

definition usage_value ::
  "(('o, 'x) cell list \<Rightarrow> 'm \<Rightarrow> 'vm) \<Rightarrow> (('o, 'x) cell list \<Rightarrow> 'pu \<Rightarrow> 'vu)
    \<Rightarrow> ('o, 'x) cell list \<Rightarrow> ('m, 'pu) ProviderConfigUsage \<Rightarrow> ('vm, 'vu) ProviderConfigUsage" where
  "usage_value vm vu h c = \<lparr>puTypeMeta = puTypeMeta c, puMeta = vm h (puMeta c), puEmbedded = vu h (puEmbedded c)\<rparr>"

definition usage_refs ::
  "(('o, 'x) cell list \<Rightarrow> 'm \<Rightarrow> nat set) \<Rightarrow> (('o, 'x) cell list \<Rightarrow> 'pu \<Rightarrow> nat set)
    \<Rightarrow> ('o, 'x) cell list \<Rightarrow> ('m, 'pu) ProviderConfigUsage \<Rightarrow> nat set" where
  "usage_refs rm ru h c = rm h (puMeta c) \<union> ru h (puEmbedded c)"

lemma usage_copier:
  assumes "deep_copier copyMeta vm rm" and "deep_copier copyPU vu ru"
  shows "deep_copier (ProviderConfigUsage_DeepCopyInto copyMeta copyPU) (usage_value vm vu) (usage_refs rm ru)"
proof (rule deep_copier_struct
    [OF deep_copier_pair [OF assms],
     where get = "\<lambda>c. (puMeta c, puEmbedded c)" and put = "\<lambda>(m, u) c. c\<lparr>puMeta := m, puEmbedded := u\<rparr>"
       and rest = puTypeMeta and build = "\<lambda>(m, u) t. \<lparr>puTypeMeta = t, puMeta = m, puEmbedded = u\<rparr>"])
qed (simp_all add: ProviderConfigUsage_DeepCopyInto_def copy_pair_def split_beta Let_def usage_value_def usage_refs_def)

section \<open>Objects behind an interface\<close>

lemma object_nil_iff: "snd (as_object (copy_option c h p)) = NilObject \<longleftrightarrow> p = None"
  by (cases p) (simp_all add: as_object_def split_beta)

lemmas deep_copy_object_defs =
  BenchmarkJob_DeepCopyObject_def BenchmarkJob_DeepCopy_def BenchmarkJobList_DeepCopyObject_def
  BenchmarkJobList_DeepCopy_def GPUBenchmarkJob_DeepCopyObject_def GPUBenchmarkJob_DeepCopy_def
  GPUBenchmarkJobList_DeepCopyObject_def GPUBenchmarkJobList_DeepCopy_def ProviderConfig_DeepCopyObject_def
  ProviderConfig_DeepCopy_def ProviderConfigList_DeepCopyObject_def ProviderConfigList_DeepCopy_def
  ProviderConfigUsage_DeepCopyObject_def ProviderConfigUsage_DeepCopy_def
  ProviderConfigUsageList_DeepCopyObject_def ProviderConfigUsageList_DeepCopy_def

section \<open>A concrete memory\<close>

text \<open>Instances for the witnesses: metadata without pointers, and times copied into a new cell.\<close>

definition copy_time :: "(('o, 'x) cell, nat) copier" where
  "copy_time h a = (h @ [TimeCell (time_at h a)], length h)"

interpretation time_copy: deep_copier copy_time time_at "\<lambda>h a. {a}"
  by unfold_locales (auto simp: copy_time_def time_at_def)

definition example_job_ref :: "nat option \<Rightarrow> nat option \<Rightarrow> unit job_ref" where
  "example_job_ref f t =
     \<lparr>JobTypeMeta = \<lparr>Kind = ''BenchmarkJob'', APIVersion = ''v1alpha1''\<rparr>, JobMeta = (),
      Spec = \<lparr>GPUModel = ''T4'', WorkloadType = ''inference'', BatchSize = 8, SchedulerAPIURL = '''', MaxRetries = 3\<rparr>,
      Status = \<lparr>Phase = ''Completed'', JobID = ''id-1'', Message = '''', RetryCount = 0, Throughput = f,
                LatencyMs = f, MemoryBandwidthGbps = None, StartTime = t, CompletionTime = None\<rparr>\<rparr>"

definition example_memory :: "(unit, unit) job_cell list" where
  "example_memory = [FloatCell (Fin 400), TimeCell 7, ArrayCell [example_job_ref (Some 0) (Some 1)]]"

definition example_list :: "(unit, nat) BenchmarkJobList" where
  "example_list = \<lparr>jlTypeMeta = \<lparr>Kind = ''BenchmarkJobList'', APIVersion = ''v1alpha1''\<rparr>, jlListMeta = (), jlItems = Some 2\<rparr>"

definition example_gpu_ref :: "nat option \<Rightarrow> (unit, unit, unit) gpu_ref" where
  "example_gpu_ref f =
     \<lparr>mgTypeMeta = \<lparr>Kind = ''GPUBenchmarkJob'', APIVersion = ''v1alpha1''\<rparr>, mgMeta = (),
      mgSpec = \<lparr>ResourceSpec = (), ForProvider = \<lparr>forGPUModel = ''T4'', forWorkloadType = ''inference'',
                 forBatchSize = 8, forMaxRetries = 3\<rparr>\<rparr>,
      mgStatus = \<lparr>ConditionedStatus = (), AtProvider = \<lparr>atJobID = ''id-1'', atPhase = ''completed'', atRetryCount = 0,
                 atThroughput = f, atLatencyMs = f, atMemoryBandwidthGbps = f\<rparr>\<rparr>\<rparr>"

definition example_gpu_memory :: "(unit, unit, unit, unit) gpu_cell list" where
  "example_gpu_memory = [FloatCell (Fin 400), ArrayCell [example_gpu_ref (Some 0), example_gpu_ref None]]"

definition example_gpu_list :: "(unit, nat) GPUBenchmarkJobList" where
  "example_gpu_list =
     \<lparr>gjlTypeMeta = \<lparr>Kind = ''GPUBenchmarkJobList'', APIVersion = ''v1alpha1''\<rparr>, gjlListMeta = (), gjlItems = Some 1\<rparr>"

section \<open>Deep copies\<close>

text \<open>
  C15. Copying a BenchmarkJobList leaves all existing memory as it is, yields a list with the same
  value (metadata, every item with its spec, status, metrics and times) and reaches only memory
  allocated by the copy, the backing array of the items included; given that the copiers of the
  library structs do the same.
\<close>

theorem BenchmarkJobList_DeepCopy_is_deep:
  assumes "deep_copier copyList vl rl" and "deep_copier copyMeta vm rm" and "deep_copier copyTime vt rt"
    and "job_list_refs rl rm rt h l \<subseteq> {..<length h}"
    and "BenchmarkJobList_DeepCopyInto zero copyList copyMeta copyTime h l = (g, m)"
  shows "deep_copied (job_list_value vl vm vt) (job_list_refs rl rm rt) h l g m"
  using deep_copier.copy_deep [OF job_list_copier [OF assms(1-3)] assms(4,5)] .

theorem BenchmarkJobList_DeepCopy_is_deep_witness:
  "\<exists>g m. BenchmarkJobList_DeepCopyInto (example_job_ref None None) copy_plain copy_plain copy_time
             example_memory example_list = (g, m) \<and>
     job_list_refs (\<lambda>_ _. {}) (\<lambda>_ _. {}) (\<lambda>_ a. {a}) example_memory example_list \<subseteq> {..<length example_memory} \<and>
     deep_copied (job_list_value (\<lambda>_ x. x) (\<lambda>_ x. x) time_at)
       (job_list_refs (\<lambda>_ _. {}) (\<lambda>_ _. {}) (\<lambda>_ a. {a})) example_memory example_list g m"
proof -
  obtain g m where gm: "BenchmarkJobList_DeepCopyInto (example_job_ref None None) copy_plain copy_plain copy_time
      example_memory example_list = (g, m)" by fastforce
  have wf: "job_list_refs (\<lambda>_ _. {}) (\<lambda>_ _. {}) (\<lambda>_ a. {a}) example_memory example_list \<subseteq> {..<length example_memory}"
    by (simp add: job_list_refs_def option_refs_def slice_refs_def job_refs_def status_refs_def array_at_def
        example_memory_def example_list_def example_job_ref_def)
  show ?thesis
    using BenchmarkJobList_DeepCopy_is_deep [OF plain.deep_copier_axioms plain.deep_copier_axioms
        time_copy.deep_copier_axioms wf gm] gm wf by blast
qed

text \<open>
  A BenchmarkJob and its copy are independent: after \<^verbatim>\<open>DeepCopyInto\<close> a write to any cell the copy
  reaches is not seen through the original, and a write to any cell the original reaches is not seen
  through the copy.
\<close>

theorem BenchmarkJob_copy_independent:
  assumes "deep_copier copyMeta vm rm" and "deep_copier copyTime vt rt"
    and "job_refs rm rt h j \<subseteq> {..<length h}"
    and "BenchmarkJob_DeepCopyInto copyMeta copyTime h j = (g, k)"
  shows "(a \<in> job_refs rm rt g k \<longrightarrow> job_value vm vt (g[a := c]) j = job_value vm vt h j) \<and>
         (a \<in> job_refs rm rt h j \<longrightarrow> job_value vm vt (g[a := c]) k = job_value vm vt h j)"
  using deep_copier.write_through_copy [OF job_copier [OF assms(1,2)] assms(3)]
    deep_copier.write_through_original [OF job_copier [OF assms(1,2)] assms(3)] assms(4) by simp

theorem BenchmarkJob_copy_independent_witness:
  "\<exists>g k. BenchmarkJob_DeepCopyInto copy_plain copy_time example_memory (example_job_ref (Some 0) (Some 1)) = (g, k) \<and>
     job_value (\<lambda>_ x. x) time_at (g[0 := FloatCell (Fin 1)]) k =
     job_value (\<lambda>_ x. x) time_at example_memory (example_job_ref (Some 0) (Some 1))"
proof -
  let ?j = "example_job_ref (Some 0) (Some 1)"
  obtain g k where gk: "BenchmarkJob_DeepCopyInto copy_plain copy_time example_memory ?j = (g, k)" by fastforce
  have r: "job_refs (\<lambda>_ _. {}) (\<lambda>_ a. {a}) example_memory ?j = {0, 1}"
    by (auto simp: option_refs_def job_refs_def status_refs_def example_job_ref_def)
  then have "job_refs (\<lambda>_ _. {}) (\<lambda>_ a. {a}) example_memory ?j \<subseteq> {..<length example_memory}"
    by (simp add: example_memory_def)
  from BenchmarkJob_copy_independent [OF plain.deep_copier_axioms time_copy.deep_copier_axioms this gk, of 0] r gk
  show ?thesis by blast
qed

text \<open>
  C35. Copying a GPUBenchmarkJobList is a deep copy in the same sense: value kept, memory extended
  only, nothing shared with the original, given deep copiers for the library structs.
\<close>

theorem GPUBenchmarkJobList_DeepCopy_is_deep:
  assumes "deep_copier copyList vl rl" and "deep_copier copyMeta vm rm" and "deep_copier copyRS vr rr"
    and "deep_copier copyCS vc rc" and "gpu_list_refs rl rm rr rc h l \<subseteq> {..<length h}"
    and "GPUBenchmarkJobList_DeepCopyInto zero copyList copyMeta copyRS copyCS h l = (g, m)"
  shows "deep_copied (gpu_list_value vl vm vr vc) (gpu_list_refs rl rm rr rc) h l g m"
  using deep_copier.copy_deep [OF gpu_list_copier [OF assms(1-4)] assms(5,6)] .

theorem GPUBenchmarkJobList_DeepCopy_is_deep_witness:
  "\<exists>g m. GPUBenchmarkJobList_DeepCopyInto (example_gpu_ref None) copy_plain copy_plain copy_plain copy_plain
             example_gpu_memory example_gpu_list = (g, m) \<and>
     deep_copied (gpu_list_value (\<lambda>_ x. x) (\<lambda>_ x. x) (\<lambda>_ x. x) (\<lambda>_ x. x))
       (gpu_list_refs (\<lambda>_ _. {}) (\<lambda>_ _. {}) (\<lambda>_ _. {}) (\<lambda>_ _. {})) example_gpu_memory example_gpu_list g m"
proof -
  obtain g m where gm: "GPUBenchmarkJobList_DeepCopyInto (example_gpu_ref None) copy_plain copy_plain copy_plain
      copy_plain example_gpu_memory example_gpu_list = (g, m)" by fastforce
  have "gpu_list_refs (\<lambda>_ _. {}) (\<lambda>_ _. {}) (\<lambda>_ _. {}) (\<lambda>_ _. {}) example_gpu_memory example_gpu_list
      \<subseteq> {..<length example_gpu_memory}"
    by (simp add: gpu_list_refs_def option_refs_def slice_refs_def gpu_refs_def observation_refs_def array_at_def
        example_gpu_memory_def example_gpu_list_def example_gpu_ref_def)
  from GPUBenchmarkJobList_DeepCopy_is_deep [OF plain.deep_copier_axioms plain.deep_copier_axioms
      plain.deep_copier_axioms plain.deep_copier_axioms this gm] gm
  show ?thesis by blast
qed

text \<open>
  \<^verbatim>\<open>DeepCopyObject\<close> of every root type returns the nil interface exactly for a nil object, never an
  interface that holds a nil pointer.
\<close>

theorem DeepCopyObject_nil_iff:
  "(snd (BenchmarkJob_DeepCopyObject c1 c2 h p1) = NilObject \<longleftrightarrow> p1 = None) \<and>
   (snd (BenchmarkJobList_DeepCopyObject z2 c3 c4 c5 h2 p2) = NilObject \<longleftrightarrow> p2 = None) \<and>
   (snd (GPUBenchmarkJob_DeepCopyObject c6 c7 c8 h3 p3) = NilObject \<longleftrightarrow> p3 = None) \<and>
   (snd (GPUBenchmarkJobList_DeepCopyObject z4 c9 c10 c11 c12 h4 p4) = NilObject \<longleftrightarrow> p4 = None) \<and>
   (snd (ProviderConfig_DeepCopyObject c13 c14 h5 p5) = NilObject \<longleftrightarrow> p5 = None) \<and>
   (snd (ProviderConfigList_DeepCopyObject z6 c15 c16 c17 h6 p6) = NilObject \<longleftrightarrow> p6 = None) \<and>
   (snd (ProviderConfigUsage_DeepCopyObject c18 c19 h7 p7) = NilObject \<longleftrightarrow> p7 = None) \<and>
   (snd (ProviderConfigUsageList_DeepCopyObject z8 c20 c21 c22 h8 p8) = NilObject \<longleftrightarrow> p8 = None)"
  by (simp add: deep_copy_object_defs object_nil_iff)

end
