(* ===== verification/Startup.thy ===== *)
theory Startup
  imports Kube_Types
begin

text \<open>
  The entry points: the operator's \<^verbatim>\<open>operator/cmd/main.go\<close> with \<^verbatim>\<open>SetupWithManager\<close>, the provider's
  \<^verbatim>\<open>provider/cmd/provider/main.go\<close> with \<^verbatim>\<open>SetupGPUBenchmarkJob\<close>, the sizing function's \<^verbatim>\<open>main\<close>, and the
  group versions and scheme registrations they rely on. A program is a sequence of calls into the
  libraries; each call is answered by the parameter \<open>answer\<close> with an error or none. A failing call ends
  the program with exit status 1, a failing registration (\<^verbatim>\<open>utilruntime.Must\<close>) with a panic.
\<close>

section \<open>API groups\<close>

record group_version =
  gvGroup :: string
  gvVersion :: string

record group_version_kind =
  gvkGroup :: string
  gvkVersion :: string
  gvkKind :: string

definition operator_GroupVersion :: group_version where
  "operator_GroupVersion = \<lparr>gvGroup = ''benchmarks.gpu-platform.io'', gvVersion = ''v1alpha1''\<rparr>"

definition provider_GroupVersion :: group_version where
  "provider_GroupVersion = \<lparr>gvGroup = ''gpu.platform.io'', gvVersion = ''v1alpha1''\<rparr>"

definition GPUBenchmarkJobGroupVersionKind :: group_version_kind where
  "GPUBenchmarkJobGroupVersionKind =
     \<lparr>gvkGroup = gvGroup provider_GroupVersion, gvkVersion = gvVersion provider_GroupVersion,
      gvkKind = ''GPUBenchmarkJob''\<rparr>"

text \<open>What the \<^verbatim>\<open>init\<close> functions register with the scheme builder of their group, in order.\<close>

definition operator_types :: "string list" where
  "operator_types = [''BenchmarkJob'', ''BenchmarkJobList'']"

definition job_types :: "string list" where
  "job_types = [''GPUBenchmarkJob'', ''GPUBenchmarkJobList'']"

definition config_types :: "string list" where
  "config_types = [''ProviderConfig'', ''ProviderConfigList'', ''ProviderConfigUsage'', ''ProviderConfigUsageList'']"

section \<open>Calls\<close>

record manager_options =
  MetricsBindAddress :: string
  HealthProbeBindAddress :: string
  LeaderElection :: bool
  LeaderElectionID :: string
  LeaderElectionNamespace :: string
  SyncPeriod :: "duration option"

record controller_setup =
  ctlName :: "string option"
  ctlFor :: string
  ctlHTTPTimeout :: duration
  ctlPollInterval :: "duration option"

datatype startup_call =
    AddToScheme "group_version option" "string list"
  | GetConfigOrDie
  | NewManager manager_options
  | CompleteController controller_setup
  | AddHealthzCheck string
  | AddReadyzCheck string
  | StartManager
  | Listen string
  | Serve

datatype program_outcome = Finished | Exited int | Panicked

text \<open>A call that fails ends the program; \<open>GetConfigOrDie\<close> exits with status 1 itself.\<close>

definition on_failure :: "startup_call \<Rightarrow> program_outcome" where
  "on_failure c = (case c of AddToScheme gv ts \<Rightarrow> Panicked | _ \<Rightarrow> Exited 1)"

fun run_calls :: "(startup_call \<Rightarrow> go_error option) \<Rightarrow> startup_call list \<Rightarrow> startup_call list \<times> program_outcome" where
  "run_calls answer [] = ([], Finished)"
| "run_calls answer (c # cs) =
     (case answer c of
        Some err \<Rightarrow> ([c], on_failure c)
      | None \<Rightarrow> (let (made, out) = run_calls answer cs in (c # made, out)))"

section \<open>Operator\<close>

record operator_flags =
  metricsAddr :: string
  probeAddr :: string
  enableLeaderElection :: bool

definition default_flags :: operator_flags where
  "default_flags = \<lparr>metricsAddr = '':8081'', probeAddr = '':8082'', enableLeaderElection = False\<rparr>"

text \<open>\<^verbatim>\<open>SetupWithManager\<close>: a reconciler without an HTTP client gets one with a timeout of ten seconds.\<close>

definition SetupWithManager :: "duration option \<Rightarrow> startup_call" where
  "SetupWithManager HTTPClient =
     CompleteController
       \<lparr>ctlName = None, ctlFor = ''BenchmarkJob'',
        ctlHTTPTimeout = (case HTTPClient of None \<Rightarrow> 10 * Second | Some t \<Rightarrow> t), ctlPollInterval = None\<rparr>"

definition operator_options :: "operator_flags \<Rightarrow> manager_options" where
  "operator_options flags =
     \<lparr>MetricsBindAddress = metricsAddr flags, HealthProbeBindAddress = probeAddr flags,
      LeaderElection = enableLeaderElection flags,
      LeaderElectionID = ''gpu-benchmark-operator.gpu-platform.io'', LeaderElectionNamespace = '''', SyncPeriod = None\<rparr>"

text \<open>\<open>parse\<close> is \<^verbatim>\<open>flag.Parse\<close>: it overwrites the defaults with what the command line gives.\<close>

definition operator_main ::
  "(operator_flags \<Rightarrow> operator_flags) \<Rightarrow> (startup_call \<Rightarrow> go_error option) \<Rightarrow> startup_call list \<times> program_outcome" where
  "operator_main parse answer =
     run_calls answer
       [AddToScheme None [], AddToScheme (Some operator_GroupVersion) operator_types,
        GetConfigOrDie, NewManager (operator_options (parse default_flags)), SetupWithManager None,
        AddHealthzCheck ''healthz'', AddReadyzCheck ''readyz'', StartManager]"

section \<open>Provider\<close>

text \<open>\<open>ControllerName\<close> is crossplane-runtime's function from a kind to the name of its controller.\<close>

definition SetupGPUBenchmarkJob :: "(string \<Rightarrow> string) \<Rightarrow> startup_call" where
  "SetupGPUBenchmarkJob ControllerName =
     CompleteController
       \<lparr>ctlName = Some (ControllerName (gvkKind GPUBenchmarkJobGroupVersionKind)), ctlFor = ''GPUBenchmarkJob'',
        ctlHTTPTimeout = 10 * Second, ctlPollInterval = Some (15 * Second)\<rparr>"

definition provider_options :: manager_options where
  "provider_options =
     \<lparr>MetricsBindAddress = '':8080'', HealthProbeBindAddress = '':8081'', LeaderElection = True,
      LeaderElectionID = ''provider-gpu-benchmark.gpu.platform.io'', LeaderElectionNamespace = ''gpu-benchmark'',
      SyncPeriod = Some (3600 * Second)\<rparr>"

definition provider_main ::
  "(string \<Rightarrow> string) \<Rightarrow> (startup_call \<Rightarrow> go_error option) \<Rightarrow> startup_call list \<times> program_outcome" where
  "provider_main ControllerName answer =
     run_calls answer
       [AddToScheme None [], AddToScheme (Some provider_GroupVersion) (job_types @ config_types),
        GetConfigOrDie, NewManager provider_options, AddHealthzCheck ''healthz'', AddReadyzCheck ''readyz'',
        SetupGPUBenchmarkJob ControllerName, StartManager]"

section \<open>Sizing function\<close>

definition sizing_main :: "(startup_call \<Rightarrow> go_error option) \<Rightarrow> startup_call list \<times> program_outcome" where
  "sizing_main answer = run_calls answer [Listen '':9443'', Serve]"

section \<open>Outcomes\<close>

lemma run_calls_append:
  "run_calls answer (cs @ ds) =
     (if list_all (\<lambda>c. answer c = None) cs
      then (cs @ fst (run_calls answer ds), snd (run_calls answer ds)) else run_calls answer cs)"
  by (induction cs) (auto simp: split_beta split: option.split)

lemma run_calls_subset: "set (fst (run_calls answer cs)) \<subseteq> set cs"
  by (induction cs) (auto simp: split_beta split: option.split)

text \<open>A last call is made exactly when all before it succeeded.\<close>

lemma run_calls_last:
  assumes "c \<notin> set cs"
  shows "c \<in> set (fst (run_calls answer (cs @ [c]))) \<longleftrightarrow> list_all (\<lambda>c. answer c = None) cs"
  using assms run_calls_subset [of answer cs] by (auto simp: run_calls_append split: option.split)

lemma run_calls_outcome: "snd (run_calls answer cs) \<in> {Finished, Exited 1, Panicked}"
  by (induction cs) (auto simp: on_failure_def split_beta split: option.split startup_call.split)

lemma run_calls_finished: "snd (run_calls answer cs) = Finished \<longleftrightarrow> list_all (\<lambda>c. answer c = None) cs"
  by (induction cs) (auto simp: on_failure_def split_beta split: option.split startup_call.split)

lemma run_calls_then:
  assumes "c \<notin> set cs"
  shows "(c \<in> set (fst (run_calls answer (cs @ [c]))) \<longleftrightarrow> list_all (\<lambda>c. answer c = None) cs) \<and>
         (snd (run_calls answer (cs @ [c])) = Finished \<longleftrightarrow>
            c \<in> set (fst (run_calls answer (cs @ [c]))) \<and> answer c = None)"
  using run_calls_last [OF assms] by (auto simp: run_calls_finished)

definition operator_setup :: "operator_flags \<Rightarrow> startup_call list" where
  "operator_setup flags =
     [AddToScheme None [], AddToScheme (Some operator_GroupVersion) operator_types,
      GetConfigOrDie, NewManager (operator_options flags), SetupWithManager None,
      AddHealthzCheck ''healthz'', AddReadyzCheck ''readyz'']"

definition provider_setup :: "(string \<Rightarrow> string) \<Rightarrow> startup_call list" where
  "provider_setup ControllerName =
     [AddToScheme None [], AddToScheme (Some provider_GroupVersion) (job_types @ config_types),
      GetConfigOrDie, NewManager provider_options, AddHealthzCheck ''healthz'', AddReadyzCheck ''readyz'',
      SetupGPUBenchmarkJob ControllerName]"

text \<open>
  Both controller programs start their manager exactly when every step of their set-up succeeded:
  the types registered, the manager created, the controller and both probes set up; they finish
  normally exactly when the manager was started and stopped without an error. Any other run ends
  with exit status 1, or with a panic when a type could not be registered.
\<close>

theorem manager_starts_iff_set_up:
  "(StartManager \<in> set (fst (operator_main parse answer)) \<longleftrightarrow>
      list_all (\<lambda>c. answer c = None) (operator_setup (parse default_flags))) \<and>
   (snd (operator_main parse answer) = Finished \<longleftrightarrow>
      StartManager \<in> set (fst (operator_main parse answer)) \<and> answer StartManager = None) \<and>
   (StartManager \<in> set (fst (provider_main ControllerName answer')) \<longleftrightarrow>
      list_all (\<lambda>c. answer' c = None) (provider_setup ControllerName)) \<and>
   (snd (provider_main ControllerName answer') = Finished \<longleftrightarrow>
      StartManager \<in> set (fst (provider_main ControllerName answer')) \<and> answer' StartManager = None) \<and>
   snd (operator_main parse answer) \<in> {Finished, Exited 1, Panicked} \<and>
   snd (provider_main ControllerName answer') \<in> {Finished, Exited 1, Panicked}"
proof -
  have o: "operator_main parse answer = run_calls answer (operator_setup (parse default_flags) @ [StartManager])"
    by (simp add: operator_main_def operator_setup_def del: run_calls.simps)
  have p: "provider_main ControllerName answer' = run_calls answer' (provider_setup ControllerName @ [StartManager])"
    by (simp add: provider_main_def provider_setup_def del: run_calls.simps)
  have "StartManager \<notin> set (operator_setup (parse default_flags))" "StartManager \<notin> set (provider_setup ControllerName)"
    by (simp_all add: operator_setup_def provider_setup_def SetupWithManager_def SetupGPUBenchmarkJob_def)
  from this [THEN run_calls_then] show ?thesis
    unfolding o p by (intro conjI run_calls_outcome) blast+
qed

end
