(* ===== verification/Backend.thy ===== *)
theory Backend
  imports Kube_Types
begin

text \<open>
  The backend service (\<^verbatim>\<open>backend/app\<close>): the routes that create a benchmark and report its status
  (\<^verbatim>\<open>api/benchmarks.py\<close>), the service behind them (\<^verbatim>\<open>services/benchmark_service.py\<close>), the Redis queue
  (\<^verbatim>\<open>services/queue_service.py\<close>) and the worker (\<^verbatim>\<open>workers/benchmark_worker.py\<close>).

  The database is the committed rows; a UUID is its canonical text. Request validation (pydantic),
  the hash of \<^verbatim>\<open>_build_idempotency_key\<close>, fresh UUIDs, the clock, the engine and whether Redis accepts a
  push are parameters; statements on the database fail only as the tables make them fail. Timestamps other than \<^verbatim>\<open>created_at\<close>, the vendor of a GPU model and the raw
  metrics of a result are left out: no controller reads them.
\<close>

section \<open>State\<close>

type_synonym uuid = string

datatype BenchmarkStatus = queued | running | completed | failed

fun status_text :: "BenchmarkStatus \<Rightarrow> string" where
  "status_text queued = ''queued''"
| "status_text running = ''running''"
| "status_text completed = ''completed''"
| "status_text failed = ''failed''"

record Benchmark =
  bm_id :: uuid
  bm_gpu_model :: string
  bm_workload_type :: string
  bm_batch_size :: int
  bm_status :: BenchmarkStatus
  bm_idempotency_key :: string
  bm_attempt_count :: int
  bm_created_at :: time

record BenchmarkResult =
  br_throughput :: rat
  br_latency_ms :: rat
  br_memory_bandwidth_gbps :: rat

record db =
  gpu_model_rows :: "string list"
  benchmark_rows :: "Benchmark list"
  result_rows :: "(uuid \<times> BenchmarkResult) list"

record queue_item =
  q_benchmark_id :: uuid
  q_gpu_model :: string
  q_workload_type :: string
  q_batch_size :: int
  q_attempt :: int

text \<open>A Redis list: \<^verbatim>\<open>LPUSH\<close> adds at the head, \<^verbatim>\<open>BRPOP\<close> takes from the end.\<close>

record backend =
  database :: db
  job_queue :: "queue_item list"
  dead_letters :: "(queue_item \<times> string) list"

record BenchmarkCreateRequest =
  rq_gpu_model :: string
  rq_workload_type :: string
  rq_batch_size :: int
  rq_idempotency_key :: "string option"

definition worker_max_retries :: int where
  "worker_max_retries = 3"

section \<open>Service\<close>

definition find_by_key :: "db \<Rightarrow> string \<Rightarrow> Benchmark option" where
  "find_by_key d k = find (\<lambda>b. bm_idempotency_key b = k) (benchmark_rows d)"

definition find_by_id :: "db \<Rightarrow> uuid \<Rightarrow> Benchmark option" where
  "find_by_id d i = find (\<lambda>b. bm_id b = i) (benchmark_rows d)"

text \<open>\<^verbatim>\<open>payload.idempotency_key or self._build_idempotency_key(payload)\<close>: an empty key is falsy.\<close>

definition request_key :: "(string \<Rightarrow> string) \<Rightarrow> BenchmarkCreateRequest \<Rightarrow> string" where
  "request_key sha256 rq =
     (case rq_idempotency_key rq of
        Some k \<Rightarrow> if k \<noteq> '''' then k
                   else sha256 (rq_gpu_model rq @ '':'' @ rq_workload_type rq @ '':'' @ show_int (rq_batch_size rq))
      | None \<Rightarrow> sha256 (rq_gpu_model rq @ '':'' @ rq_workload_type rq @ '':'' @ show_int (rq_batch_size rq)))"

text \<open>The columns of \<^verbatim>\<open>models.py\<close>: PostgreSQL refuses a text longer than its column and a number beyond 32 bits. Texts
  hold no NUL character, which it refuses too; the controllers send names and enumerated values, which have none.\<close>

definition fits_columns :: "string \<Rightarrow> BenchmarkCreateRequest \<Rightarrow> bool" where
  "fits_columns key rq \<longleftrightarrow>
     length (rq_gpu_model rq) \<le> 64 \<and> length (rq_workload_type rq) \<le> 64 \<and> length key \<le> 128 \<and>
     - (2 ^ 31) \<le> rq_batch_size rq \<and> rq_batch_size rq < 2 ^ 31"

text \<open>
  \<^verbatim>\<open>_get_or_create_gpu_model\<close>: the rows to add, or \<open>None\<close> when the flush finds the model that the lookup did not
  find. \<open>seen\<close> is what the lookup sees, \<open>at_flush\<close> what the flush finds.
\<close>

definition get_or_create_gpu_model :: "string \<Rightarrow> db \<Rightarrow> db \<Rightarrow> string list option" where
  "get_or_create_gpu_model model_name seen at_flush =
     (if model_name \<in> set (gpu_model_rows seen) then Some []
      else if model_name \<in> set (gpu_model_rows at_flush) then None else Some [model_name])"

datatype create_outcome = Created Benchmark | Existing Benchmark | Raised

text \<open>
  \<open>create_benchmark\<close> runs several statements, between which other sessions commit: \<open>snap i\<close> is what
  statement \<open>i\<close> sees (0: the lookup of the key, 1: the lookup of the GPU model, 2: the flush of a new GPU
  model, 3: the commit, 4: the second lookup of the key). A unique index refuses a row whose value
  another session committed meanwhile: for the GPU model the error is raised to the caller, for the
  key it is caught. A value that does not fit its column is not an integrity error and is raised. The result holds the database after the commit, if there was one.
\<close>

definition create_benchmark ::
  "(string \<Rightarrow> string) \<Rightarrow> uuid \<Rightarrow> time \<Rightarrow> BenchmarkCreateRequest \<Rightarrow> (nat \<Rightarrow> db) \<Rightarrow> create_outcome \<times> db option" where
  "create_benchmark sha256 newid now rq snap =
     (let key = request_key sha256 rq
      in case find_by_key (snap 0) key of
           Some b \<Rightarrow> (Existing b, None)
         | None \<Rightarrow>
             (case get_or_create_gpu_model (rq_gpu_model rq) (snap 1) (snap 2) of
                None \<Rightarrow> (Raised, None)
              | Some models \<Rightarrow>
                  if \<not> fits_columns key rq then (Raised, None)
                  else
                    (let b = \<lparr>bm_id = newid, bm_gpu_model = rq_gpu_model rq, bm_workload_type = rq_workload_type rq,
                              bm_batch_size = rq_batch_size rq, bm_status = queued, bm_idempotency_key = key,
                              bm_attempt_count = 0, bm_created_at = now\<rparr>
                     in case find_by_key (snap 3) key of
                          None \<Rightarrow>
                            (Created b,
                             Some ((snap 3)\<lparr>gpu_model_rows := gpu_model_rows (snap 3) @ models,
                                            benchmark_rows := benchmark_rows (snap 3) @ [b]\<rparr>))
                        | Some _ \<Rightarrow>
                            (case find_by_key (snap 4) key of
                               Some b' \<Rightarrow> (Existing b', None)
                             | None \<Rightarrow> (Raised, None)))))"

definition update_row :: "uuid \<Rightarrow> (Benchmark \<Rightarrow> Benchmark) \<Rightarrow> db \<Rightarrow> db" where
  "update_row i f d = d\<lparr>benchmark_rows := map (\<lambda>b. if bm_id b = i then f b else b) (benchmark_rows d)\<rparr>"

definition mark_running :: "uuid \<Rightarrow> db \<Rightarrow> db" where
  "mark_running i d =
     (case find_by_id d i of
        None \<Rightarrow> d
      | Some _ \<Rightarrow> update_row i (\<lambda>b. b\<lparr>bm_status := running, bm_attempt_count := bm_attempt_count b + 1\<rparr>) d)"

text \<open>\<open>None\<close>: the unique index on the results refused a second result, and the commit raised.\<close>

definition complete_benchmark :: "uuid \<Rightarrow> BenchmarkResult \<Rightarrow> db \<Rightarrow> db option" where
  "complete_benchmark i res d =
     (case find_by_id d i of
        None \<Rightarrow> Some d
      | Some _ \<Rightarrow>
          if i \<in> fst ` set (result_rows d) then None
          else Some (update_row i (bm_status_update (\<lambda>_. completed)) (d\<lparr>result_rows := result_rows d @ [(i, res)]\<rparr>)))"

definition mark_failed :: "uuid \<Rightarrow> db \<Rightarrow> db" where
  "mark_failed i d =
     (case find_by_id d i of None \<Rightarrow> d | Some _ \<Rightarrow> update_row i (bm_status_update (\<lambda>_. failed)) d)"

section \<open>Queue\<close>

definition enqueue :: "queue_item \<Rightarrow> queue_item list \<Rightarrow> queue_item list" where
  "enqueue it q = it # q"

definition enqueue_retry :: "queue_item \<Rightarrow> queue_item list \<Rightarrow> queue_item list" where
  "enqueue_retry it q = it\<lparr>q_attempt := q_attempt it + 1\<rparr> # q"

definition move_to_dlq :: "queue_item \<Rightarrow> string \<Rightarrow> (queue_item \<times> string) list \<Rightarrow> (queue_item \<times> string) list" where
  "move_to_dlq it reason dlq = (it, reason) # dlq"

definition dequeue :: "queue_item list \<Rightarrow> (queue_item \<times> queue_item list) option" where
  "dequeue q = (if q = [] then None else Some (last q, butlast q))"

section \<open>Routes\<close>

text \<open>The text of a timestamp, which no controller reads.\<close>

definition json_time :: "time \<Rightarrow> json" where
  "json_time t = JStr (show_int t)"

definition create_response :: "Benchmark \<Rightarrow> http_response" where
  "create_response b =
     \<lparr>StatusCode = 202,
      Body = Some (JObj [(''job_id'', JStr (bm_id b)), (''status'', JStr (status_text (bm_status b))),
                         (''submitted_at'', json_time (bm_created_at b))])\<rparr>"

text \<open>
  A refusal carries a JSON body with a detail (abbreviated here: clients look at the status only); an
  exception that nobody handles is answered with a plain text, which is no JSON.
\<close>

definition error_response :: "int \<Rightarrow> string \<Rightarrow> http_response" where
  "error_response code detail = \<lparr>StatusCode = code, Body = Some (JObj [(''detail'', JStr detail)])\<rparr>"

definition internal_error :: http_response where
  "internal_error = \<lparr>StatusCode = 500, Body = None\<rparr>"

text \<open>
  \<^verbatim>\<open>POST /benchmarks\<close>. \<open>parse\<close> is the validation of the body, \<open>push_ok\<close> whether Redis takes the push; an
  exception becomes a response with status 500. The committed row stays when the push fails.
\<close>

definition create_benchmark_job ::
  "(json \<Rightarrow> BenchmarkCreateRequest option) \<Rightarrow> (string \<Rightarrow> string) \<Rightarrow> uuid \<Rightarrow> time \<Rightarrow> bool \<Rightarrow> json \<Rightarrow> backend
    \<Rightarrow> backend \<times> http_response" where
  "create_benchmark_job parse sha256 newid now push_ok body s =
     (case parse body of
        None \<Rightarrow> (s, error_response 422 ''invalid request'')
      | Some rq \<Rightarrow>
          (case create_benchmark sha256 newid now rq (\<lambda>_. database s) of
             (Existing b, _) \<Rightarrow> (s, create_response b)
           | (Created b, Some d) \<Rightarrow>
               (let s = s\<lparr>database := d\<rparr>;
                    it = \<lparr>q_benchmark_id = bm_id b, q_gpu_model = rq_gpu_model rq, q_workload_type = rq_workload_type rq,
                          q_batch_size = rq_batch_size rq, q_attempt = 0\<rparr>
                in if push_ok then (s\<lparr>job_queue := enqueue it (job_queue s)\<rparr>, create_response b)
                   else (s, internal_error))
           | _ \<Rightarrow> (s, internal_error)))"

definition result_json :: "BenchmarkResult \<Rightarrow> json" where
  "result_json r =
     JObj [(''throughput'', JNum (br_throughput r)), (''latency_ms'', JNum (br_latency_ms r)),
           (''memory_bandwidth_gbps'', JNum (br_memory_bandwidth_gbps r))]"

definition get_benchmark :: "db \<Rightarrow> uuid \<Rightarrow> json option" where
  "get_benchmark d i =
     map_option
       (\<lambda>b. JObj [(''job_id'', JStr (bm_id b)), (''gpu_model'', JStr (bm_gpu_model b)),
                 (''workload_type'', JStr (bm_workload_type b)), (''batch_size'', JNum (of_int (bm_batch_size b))),
                 (''status'', JStr (status_text (bm_status b))), (''submitted_at'', json_time (bm_created_at b)),
                 (''result'', case map_of (result_rows d) i of None \<Rightarrow> JNull | Some r \<Rightarrow> result_json r)])
       (find_by_id d i)"

text \<open>\<^verbatim>\<open>GET /benchmarks/{job_id}\<close>. A path that is not the text of a UUID is refused by the router.\<close>

definition get_benchmark_status :: "(string \<Rightarrow> bool) \<Rightarrow> backend \<Rightarrow> string \<Rightarrow> http_response" where
  "get_benchmark_status is_uuid s i =
     (if \<not> is_uuid i then error_response 422 ''invalid request''
      else case get_benchmark (database s) i of
             None \<Rightarrow> error_response 404 ''Benchmark job not found''
           | Some result \<Rightarrow> \<lparr>StatusCode = 200, Body = Some result\<rparr>)"

section \<open>Worker\<close>

text \<open>
  \<open>_process_job\<close> for one item: \<open>run\<close> is what the engine does with it, an exception or a result. A session
  whose commit failed refuses further statements until it is rolled back, which the handler does not do:
  with \<open>usable\<close> false \<open>mark_failed\<close> raises, and the row stays as it is.
\<close>

definition on_exception :: "bool \<Rightarrow> queue_item \<Rightarrow> string \<Rightarrow> backend \<Rightarrow> backend" where
  "on_exception usable it exc s =
     (if q_attempt it + 1 < worker_max_retries then s\<lparr>job_queue := enqueue_retry it (job_queue s)\<rparr>
      else s\<lparr>dead_letters := move_to_dlq it exc (dead_letters s),
             database := (if usable then mark_failed (q_benchmark_id it) (database s) else database s)\<rparr>)"

definition start_job :: "queue_item \<Rightarrow> backend \<Rightarrow> backend" where
  "start_job it s = s\<lparr>database := mark_running (q_benchmark_id it) (database s)\<rparr>"

definition finish_job :: "(queue_item \<Rightarrow> string + BenchmarkResult) \<Rightarrow> queue_item \<Rightarrow> backend \<Rightarrow> backend" where
  "finish_job run it s =
     (case run it of
        Inl exc \<Rightarrow> on_exception True it exc s
      | Inr res \<Rightarrow>
          (case complete_benchmark (q_benchmark_id it) res (database s) of
             None \<Rightarrow> on_exception False it ''IntegrityError'' s
           | Some d \<Rightarrow> s\<lparr>database := d\<rparr>))"

definition process_job :: "(queue_item \<Rightarrow> string + BenchmarkResult) \<Rightarrow> queue_item \<Rightarrow> backend \<Rightarrow> backend" where
  "process_job run it s = finish_job run it (start_job it s)"

lemmas process_job_defs [handler_defs] = process_job_def start_job_def finish_job_def

text \<open>One round of \<open>run_forever\<close>.\<close>

definition worker_round :: "(queue_item \<Rightarrow> string + BenchmarkResult) \<Rightarrow> backend \<Rightarrow> backend" where
  "worker_round run s =
     (case dequeue (job_queue s) of
        None \<Rightarrow> s
      | Some (it, q) \<Rightarrow> process_job run it (s\<lparr>job_queue := q\<rparr>))"

end
