(* ===== verification/Transition_System.thy ===== *)
theory Transition_System
  imports Main
begin

text \<open>
  Interfaces for the state machines of the development: a system with an invariant every step
  keeps, a system whose steps lower a rank, and a system that implements another. The machines of the components are
  interpretations; what holds of every reachable state, and how long a run can be, is proved here
  once.
\<close>

locale invariant_system =
  fixes init :: "'s \<Rightarrow> bool"
    and step :: "'s \<Rightarrow> 's \<Rightarrow> bool"
    and inv :: "'s \<Rightarrow> bool"
  assumes inv_init: "init s \<Longrightarrow> inv s"
    and inv_step: "inv s \<Longrightarrow> step s t \<Longrightarrow> inv t"
begin

lemma inv_steps: "step\<^sup>*\<^sup>* s t \<Longrightarrow> inv s \<Longrightarrow> inv t"
  by (induction rule: rtranclp_induct) (auto intro: inv_step)

lemma inv_reachable: "init s \<Longrightarrow> step\<^sup>*\<^sup>* s t \<Longrightarrow> inv t"
  using inv_steps inv_init by blast

end

locale ranked_system =
  fixes step :: "'s \<Rightarrow> 's \<Rightarrow> bool"
    and ok :: "'s \<Rightarrow> bool"
    and rank :: "'s \<Rightarrow> nat"
  assumes ok_step: "ok s \<Longrightarrow> step s t \<Longrightarrow> ok t"
    and rank_step: "ok s \<Longrightarrow> step s t \<Longrightarrow> rank t < rank s"
begin

lemma ok_steps: "(step ^^ n) s t \<Longrightarrow> ok s \<Longrightarrow> ok t"
  by (induction n arbitrary: t) (auto intro: ok_step)

lemma run_bound: "(step ^^ n) s t \<Longrightarrow> ok s \<Longrightarrow> n + rank t \<le> rank s"
proof (induction n arbitrary: t)
  case 0
  then show ?case by simp
next
  case (Suc n)
  then obtain u where u: "(step ^^ n) s u" "step u t" by auto
  with Suc ok_steps [of n s u] rank_step [of u t] show ?case by fastforce
qed

lemma no_infinite_run:
  assumes "ok (f 0)" and "\<And>i. step (f i) (f (Suc i))"
  shows False
proof -
  have "(step ^^ i) (f 0) (f i)" for i
    by (induction i) (use assms(2) in auto)
  then have "Suc (rank (f 0)) + rank (f (Suc (rank (f 0)))) \<le> rank (f 0)"
    using run_bound assms(1) by blast
  then show False by simp
qed

end

locale simulation =
  fixes step :: "'s \<Rightarrow> 's \<Rightarrow> bool"
    and good :: "'s \<Rightarrow> bool"
    and spec :: "'a \<Rightarrow> 'a \<Rightarrow> bool"
    and abs :: "'s \<Rightarrow> 'a"
  assumes good_step: "good s \<Longrightarrow> step s t \<Longrightarrow> good t"
    and spec_step: "good s \<Longrightarrow> step s t \<Longrightarrow> spec (abs s) (abs t)"
begin

lemma spec_steps:
  assumes "step\<^sup>*\<^sup>* s t" and "good s"
  shows "spec\<^sup>*\<^sup>* (abs s) (abs t) \<and> good t"
  using assms
proof (induction rule: rtranclp_induct)
  case base
  then show ?case by simp
next
  case (step t u)
  then show ?case using spec_step [of t u] good_step [of t u] by (auto intro: rtranclp.rtrancl_into_rtrancl)
qed

text \<open>What every step of the specification keeps is kept by the implementation.\<close>

lemma stable:
  assumes "\<And>x y. P x \<Longrightarrow> spec x y \<Longrightarrow> P y" and "step\<^sup>*\<^sup>* s t" and "good s" and "P (abs s)"
  shows "P (abs t)"
proof -
  have "P y" if "spec\<^sup>*\<^sup>* (abs s) y" for y
    using that by (induction rule: rtranclp_induct) (auto intro: assms(1,4))
  then show ?thesis using spec_steps [OF assms(2,3)] by blast
qed

end

end
