(* ===== verification/Backend_Properties.thy ===== *)
theory Backend_Properties
  imports Backend Transition_System
begin

text \<open>
  The backend under any interleaving of submissions and worker rounds: the invariant of its tables and
  queue, idempotent submission, the bound on executions, and a submission that is never executed.
\<close>

section \<open>Rows\<close>

lemma find_SomeD: "find P xs = Some x \<Longrightarrow> P x \<and> x \<in> set xs"
  by (auto simp: find_Some_iff)

lemma find_NoneD: "find P xs = None \<longleftrightarrow> (\<forall>x\<in>set xs. \<not> P x)"
  by (auto simp: find_None_iff)

lemma find_by_key_Some: "find_by_key d k = Some b \<Longrightarrow> bm_idempotency_key b = k"
  by (auto simp: find_by_key_def dest: find_SomeD)

lemma find_distinct:
  "distinct (map f xs) \<Longrightarrow> x \<in> set xs \<Longrightarrow> find (\<lambda>y. f y = f x) xs = Some x"
  by (induction xs) force+

lemma same_id: "distinct (map bm_id bs) \<Longrightarrow> c \<in> set bs \<Longrightarrow> b \<in> set bs \<Longrightarrow> bm_id c = bm_id b \<Longrightarrow> c = b"
  by (simp add: distinct_map inj_on_def)

text \<open>Only the status and the counter of a row are ever changed.\<close>

definition set_row :: "uuid \<Rightarrow> BenchmarkStatus \<Rightarrow> int \<Rightarrow> Benchmark \<Rightarrow> Benchmark" where
  "set_row i st n b = (if bm_id b = i then b\<lparr>bm_status := st, bm_attempt_count := n\<rparr> else b)"

lemma set_row_simps [simp]:
  "bm_id (set_row i st n b) = bm_id b" "bm_idempotency_key (set_row i st n b) = bm_idempotency_key b"
  by (simp_all add: set_row_def)

lemma map_set_row [simp]:
  "map bm_id (map (set_row i st n) bs) = map bm_id bs"
  "map bm_idempotency_key (map (set_row i st n) bs) = map bm_idempotency_key bs"
  by simp_all

section \<open>Invariant\<close>

definition item_ok :: "Benchmark list \<Rightarrow> queue_item \<Rightarrow> bool" where
  "item_ok bs it \<longleftrightarrow>
     (\<exists>b\<in>set bs. bm_id b = q_benchmark_id it \<and> bm_status b \<in> {queued, running} \<and> bm_attempt_count b = q_attempt it) \<and>
     0 \<le> q_attempt it \<and> q_attempt it < worker_max_retries"

definition backend_inv :: "backend \<Rightarrow> bool" where
  "backend_inv s \<longleftrightarrow>
     (let bs = benchmark_rows (database s); rs = result_rows (database s) in
      distinct (map bm_id bs) \<and> distinct (map bm_idempotency_key bs) \<and>
      distinct (map q_benchmark_id (job_queue s)) \<and> (\<forall>it\<in>set (job_queue s). item_ok bs it) \<and>
      distinct (map fst rs) \<and> fst ` set rs = bm_id ` {b \<in> set bs. bm_status b = completed} \<and>
      (\<forall>b\<in>set bs. 0 \<le> bm_attempt_count b \<and> bm_attempt_count b \<le> worker_max_retries))"

lemma backend_invD:
  assumes "backend_inv s"
  shows "distinct (map bm_id (benchmark_rows (database s)))"
    and "distinct (map bm_idempotency_key (benchmark_rows (database s)))"
    and "it \<in> set (job_queue s) \<Longrightarrow> item_ok (benchmark_rows (database s)) it"
    and "fst ` set (result_rows (database s)) = bm_id ` {b \<in> set (benchmark_rows (database s)). bm_status b = completed}"
    and "distinct (map fst (result_rows (database s)))"
  using assms by (simp_all add: backend_inv_def Let_def)

lemma queue_ids:
  assumes "backend_inv s"
  shows "q_benchmark_id ` set (job_queue s) \<subseteq> bm_id ` set (benchmark_rows (database s))"
  using backend_invD(3) [OF assms] by (auto simp: item_ok_def image_iff) metis

definition empty_backend :: "backend \<Rightarrow> bool" where
  "empty_backend s \<longleftrightarrow> benchmark_rows (database s) = [] \<and> result_rows (database s) = [] \<and> job_queue s = []"

text \<open>
  What the worker does to the row of an item it took: the row is running or done and counts one
  attempt more.
\<close>

definition worked :: "queue_item \<Rightarrow> BenchmarkStatus \<Rightarrow> backend \<Rightarrow> Benchmark list" where
  "worked it st s =
     map (set_row (q_benchmark_id it) st (q_attempt it + 1)) (benchmark_rows (database s))"

lemma result_rows_marked [simp]:
  "result_rows (mark_running i d) = result_rows d" "result_rows (mark_failed i d) = result_rows d"
  by (simp_all add: mark_running_def mark_failed_def update_row_def split: option.split)

lemma row_updates:
  assumes "distinct (map bm_id (benchmark_rows d))" and "b \<in> set (benchmark_rows d)" and "bm_id b = i"
  shows "benchmark_rows (mark_running i d) = map (set_row i running (bm_attempt_count b + 1)) (benchmark_rows d)"
    and "benchmark_rows (mark_failed i (mark_running i d)) = map (set_row i failed (bm_attempt_count b + 1)) (benchmark_rows d)"
    and "i \<notin> fst ` set (result_rows d) \<Longrightarrow>
         complete_benchmark i res (mark_running i d) =
           Some (d\<lparr>benchmark_rows := map (set_row i completed (bm_attempt_count b + 1)) (benchmark_rows d),
                   result_rows := result_rows d @ [(i, res)]\<rparr>)"
proof -
  have f: "find_by_id d i = Some b" using find_distinct [OF assms(1,2)] assms(3) by (simp add: find_by_id_def)
  have u: "x = b" if "x \<in> set (benchmark_rows d)" "bm_id x = i" for x
    using find_distinct [OF assms(1) that(1)] that(2) f by (simp add: find_by_id_def)
  show r: "benchmark_rows (mark_running i d) = map (set_row i running (bm_attempt_count b + 1)) (benchmark_rows d)"
    using f u by (auto simp: mark_running_def update_row_def set_row_def)
  then have "set_row i running (bm_attempt_count b + 1) b \<in> set (benchmark_rows (mark_running i d))"
    using assms(2) by simp
  then have g: "find_by_id (mark_running i d) i \<noteq> None"
    using assms(3) set_row_simps(1) unfolding find_by_id_def find_NoneD by blast
  show "benchmark_rows (mark_failed i (mark_running i d)) = map (set_row i failed (bm_attempt_count b + 1)) (benchmark_rows d)"
    using g r by (auto simp: mark_failed_def update_row_def set_row_def)
  show "complete_benchmark i res (mark_running i d) =
           Some (d\<lparr>benchmark_rows := map (set_row i completed (bm_attempt_count b + 1)) (benchmark_rows d),
                   result_rows := result_rows d @ [(i, res)]\<rparr>)" if "i \<notin> fst ` set (result_rows d)"
    using f g u that by (auto simp: complete_benchmark_def mark_running_def update_row_def set_row_def)
qed

definition worked_off :: "queue_item \<Rightarrow> BenchmarkStatus \<Rightarrow> backend \<Rightarrow> backend \<Rightarrow> bool" where
  "worked_off it st s t \<longleftrightarrow>
     benchmark_rows (database t) = worked it st s \<and> fst ` set (result_rows (database t)) =
       (if st = completed then insert (q_benchmark_id it) else id) (fst ` set (result_rows (database s))) \<and>
     distinct (map fst (result_rows (database t))) \<and>
     job_queue t = (if st = running then it\<lparr>q_attempt := q_attempt it + 1\<rparr> # job_queue s else job_queue s) \<and>
     (if st = running then q_attempt it + 1 < worker_max_retries
      else if st = failed then worker_max_retries \<le> q_attempt it + 1 else st = completed)"

text \<open>The three ways a worker round ends: another attempt, a result, or the dead-letter queue.\<close>

lemma process_job_cases:
  assumes "distinct (map bm_id (benchmark_rows (database s)))" and "item_ok (benchmark_rows (database s)) it"
    and "q_benchmark_id it \<notin> fst ` set (result_rows (database s))" and "distinct (map fst (result_rows (database s)))"
  shows "\<exists>st. worked_off it st s (process_job run it s) \<and> (st = completed \<longleftrightarrow> (\<exists>res. run it = Inr res))"
proof -
  obtain b where b: "b \<in> set (benchmark_rows (database s))" "bm_id b = q_benchmark_id it"
      "bm_attempt_count b = q_attempt it"
    using assms(2) by (auto simp: item_ok_def)
  note rows = row_updates [OF assms(1) b(1,2)]
  show ?thesis
  proof (cases "run it")
    case (Inl exc)
    then show ?thesis
      using rows b(3) assms(4)
      by (intro exI [of _ "if q_attempt it + 1 < worker_max_retries then running else failed"])
         (simp add: process_job_defs on_exception_def worked_off_def worked_def enqueue_retry_def)
  next
    case (Inr res)
    then show ?thesis
      using rows(3) [OF assms(3), of res] b(3) assms(3,4)
      by (intro exI [of _ completed]) (auto simp: process_job_defs worked_off_def worked_def)
  qed
qed

lemma worked_rows:
  assumes "distinct (map bm_id bs)" and "b \<in> set bs" and "bm_id b = i"
  shows "set (map (set_row i st n) bs) = insert (set_row i st n b) {c \<in> set bs. bm_id c \<noteq> i}"
proof -
  have "set_row i st n c = (if bm_id c = i then set_row i st n b else c)" if "c \<in> set bs" for c
    using same_id [OF assms(1) that assms(2)] assms(3) by (cases "bm_id c = i") (simp_all add: set_row_def)
  then have "set (map (set_row i st n) bs) = (\<lambda>c. if bm_id c = i then set_row i st n b else c) ` set bs"
    by (simp cong: image_cong_simp)
  then show ?thesis using assms(2,3) by auto
qed

text \<open>One row changes its status and counter, its result may be added, and an item may be put into the queue.\<close>

definition row_changed :: "uuid \<Rightarrow> BenchmarkStatus \<Rightarrow> int \<Rightarrow> queue_item list \<Rightarrow> backend \<Rightarrow> backend \<Rightarrow> bool" where
  "row_changed i st n new s t \<longleftrightarrow>
     benchmark_rows (database t) = map (set_row i st n) (benchmark_rows (database s)) \<and>
     fst ` set (result_rows (database t)) = (if st = completed then insert i else id) (fst ` set (result_rows (database s))) \<and>
     distinct (map fst (result_rows (database t))) \<and> job_queue t = new @ job_queue s"

lemma row_changed_inv:
  assumes inv: "backend_inv s" and b: "b \<in> set (benchmark_rows (database s))" "bm_id b = i" "bm_status b \<noteq> completed"
    and q: "i \<notin> q_benchmark_id ` set (job_queue s)" and w: "row_changed i st n new s t" and n: "0 \<le> n" "n \<le> worker_max_retries"
    and new: "new = [] \<or> (\<exists>x. new = [x] \<and> q_benchmark_id x = i \<and> q_attempt x = n \<and> n < worker_max_retries \<and> st \<in> {queued, running})"
  shows "backend_inv t"
proof -
  let ?bs = "benchmark_rows (database s)" and ?b = "set_row i st n b"
  have bt: "set (benchmark_rows (database t)) = insert ?b {c \<in> set ?bs. bm_id c \<noteq> i}"
    using w worked_rows [OF backend_invD(1) [OF inv] b(1,2), of st n] by (simp add: row_changed_def)
  have row: "bm_id ?b = i" "bm_status ?b = st" "bm_attempt_count ?b = n" using b(2) by (simp_all add: set_row_def)
  have items: "item_ok (benchmark_rows (database t)) x" if "x \<in> set (job_queue s)" for x
  proof -
    have "item_ok ?bs x" using backend_invD(3) [OF inv that] .
    moreover have "q_benchmark_id x \<noteq> i" using q that by (metis image_eqI)
    ultimately show ?thesis unfolding item_ok_def bt by auto
  qed
  have "c = b" if "c \<in> set ?bs" "bm_id c = i" for c
    using same_id [OF backend_invD(1) [OF inv] that(1) b(1)] that(2) b(2) by simp
  then have "\<not> (\<exists>c\<in>set ?bs. bm_id c = i \<and> bm_status c = completed)" using b(3) by blast
  then have "{c \<in> set (benchmark_rows (database t)). bm_status c = completed} =
      (if st = completed then insert ?b else id) {c \<in> set ?bs. bm_status c = completed}"
    unfolding bt using row by auto
  then have res: "fst ` set (result_rows (database t)) =
      bm_id ` {c \<in> set (benchmark_rows (database t)). bm_status c = completed}"
    using w backend_invD(4) [OF inv] row(1) by (simp add: row_changed_def)
  have "item_ok (benchmark_rows (database t)) x" if "x \<in> set new" for x
    using that new row n unfolding item_ok_def bt by auto
  then have queue: "\<forall>x\<in>set (job_queue t). item_ok (benchmark_rows (database t)) x" "distinct (map q_benchmark_id (job_queue t))"
    using w items q new inv by (auto simp: row_changed_def backend_inv_def Let_def)
  have "\<forall>c\<in>set (benchmark_rows (database t)). 0 \<le> bm_attempt_count c \<and> bm_attempt_count c \<le> worker_max_retries"
    unfolding bt using row n inv by (auto simp: backend_inv_def Let_def)
  moreover have "map bm_id (benchmark_rows (database t)) = map bm_id ?bs"
    "map bm_idempotency_key (benchmark_rows (database t)) = map bm_idempotency_key ?bs"
    "distinct (map fst (result_rows (database t)))"
    using w by (simp_all add: row_changed_def)
  ultimately show ?thesis
    using res queue inv unfolding backend_inv_def Let_def by presburger
qed

lemma worked_off_inv:
  assumes inv: "backend_inv s" and it: "item_ok (benchmark_rows (database s)) it"
    and q: "q_benchmark_id it \<notin> q_benchmark_id ` set (job_queue s)" and w: "worked_off it st s t"
  shows "backend_inv t"
proof -
  obtain b where b: "b \<in> set (benchmark_rows (database s))" "bm_id b = q_benchmark_id it" "bm_status b \<noteq> completed"
    using it by (auto simp: item_ok_def)
  have "row_changed (q_benchmark_id it) st (q_attempt it + 1)
      (if st = running then [it\<lparr>q_attempt := q_attempt it + 1\<rparr>] else []) s t"
    using w by (simp add: worked_off_def worked_def row_changed_def)
  from row_changed_inv [OF inv b q this] show ?thesis
    using it w by (auto simp: item_ok_def worked_off_def)
qed

section \<open>Steps\<close>

text \<open>A submission that nobody races: the row is found, or it is inserted.\<close>

definition new_row :: "(string \<Rightarrow> string) \<Rightarrow> uuid \<Rightarrow> time \<Rightarrow> BenchmarkCreateRequest \<Rightarrow> Benchmark" where
  "new_row sha256 newid now rq =
     \<lparr>bm_id = newid, bm_gpu_model = rq_gpu_model rq, bm_workload_type = rq_workload_type rq,
      bm_batch_size = rq_batch_size rq, bm_status = queued, bm_idempotency_key = request_key sha256 rq,
      bm_attempt_count = 0, bm_created_at = now\<rparr>"

definition new_item :: "uuid \<Rightarrow> BenchmarkCreateRequest \<Rightarrow> queue_item" where
  "new_item i rq =
     \<lparr>q_benchmark_id = i, q_gpu_model = rq_gpu_model rq, q_workload_type = rq_workload_type rq,
      q_batch_size = rq_batch_size rq, q_attempt = 0\<rparr>"

definition with_model :: "string \<Rightarrow> db \<Rightarrow> string list" where
  "with_model m d = gpu_model_rows d @ (if m \<in> set (gpu_model_rows d) then [] else [m])"

lemma post_existing:
  assumes "parse body = Some rq" and "find_by_key (database s) (request_key sha256 rq) = Some b"
  shows "create_benchmark_job parse sha256 newid now ok body s = (s, create_response b)"
  using assms by (simp add: create_benchmark_job_def create_benchmark_def get_or_create_gpu_model_def Let_def)

lemma post_unfit:
  assumes "parse body = Some rq" and "find_by_key (database s) (request_key sha256 rq) = None"
    and "\<not> fits_columns (request_key sha256 rq) rq"
  shows "create_benchmark_job parse sha256 newid now ok body s = (s, internal_error)"
  using assms by (simp add: create_benchmark_job_def create_benchmark_def get_or_create_gpu_model_def Let_def)

lemma post_new:
  assumes "parse body = Some rq" and "find_by_key (database s) (request_key sha256 rq) = None"
    and "fits_columns (request_key sha256 rq) rq"
  shows "create_benchmark_job parse sha256 newid now ok body s =
     (let s' = s\<lparr>database := (database s)\<lparr>gpu_model_rows := with_model (rq_gpu_model rq) (database s),
                    benchmark_rows := benchmark_rows (database s) @ [new_row sha256 newid now rq]\<rparr>\<rparr>
      in if ok then (s'\<lparr>job_queue := new_item newid rq # job_queue s\<rparr>, create_response (new_row sha256 newid now rq))
         else (s', internal_error))"
  using assms
  by (simp add: create_benchmark_job_def create_benchmark_def get_or_create_gpu_model_def Let_def new_row_def new_item_def enqueue_def
      with_model_def)

inductive backend_step ::
  "(json \<Rightarrow> BenchmarkCreateRequest option) \<Rightarrow> (string \<Rightarrow> string) \<Rightarrow> backend \<Rightarrow> backend \<Rightarrow> bool" for parse sha256 where
  posted: "newid \<notin> bm_id ` set (benchmark_rows (database s)) \<Longrightarrow>
     backend_step parse sha256 s (fst (create_benchmark_job parse sha256 newid now ok body s))"
| worker: "backend_step parse sha256 s (worker_round run s)"

lemma post_result:
  assumes "t = fst (create_benchmark_job parse sha256 newid now ok body s)"
  shows "t = s \<or> (\<exists>rq ms. parse body = Some rq \<and> find_by_key (database s) (request_key sha256 rq) = None \<and>
     database t = (database s)\<lparr>gpu_model_rows := ms,
                    benchmark_rows := benchmark_rows (database s) @ [new_row sha256 newid now rq]\<rparr> \<and>
     job_queue t = (if ok then [new_item newid rq] else []) @ job_queue s)"
proof (cases "parse body")
  case None
  then show ?thesis using assms by (simp add: create_benchmark_job_def)
next
  case (Some rq)
  then show ?thesis
    using assms post_existing [of parse body rq s sha256] post_new [of parse body rq s sha256] post_unfit [of parse body rq s sha256]
    by (cases "find_by_key (database s) (request_key sha256 rq)"; cases "fits_columns (request_key sha256 rq) rq")
       (auto simp: Let_def)
qed

lemma item_ok_mono: "item_ok bs it \<Longrightarrow> set bs \<subseteq> set cs \<Longrightarrow> item_ok cs it"
  by (auto simp: item_ok_def)

lemma insert_row_inv:
  assumes inv: "backend_inv s" and fresh: "newid \<notin> bm_id ` set (benchmark_rows (database s))"
    and key: "find_by_key (database s) (request_key sha256 rq) = None"
    and d: "database t = (database s)\<lparr>gpu_model_rows := ms, benchmark_rows := benchmark_rows (database s) @ [new_row sha256 newid now rq]\<rparr>"
    and q: "job_queue t = (if ok then [new_item newid rq] else []) @ job_queue s"
  shows "backend_inv t"
proof -
  let ?b = "new_row sha256 newid now rq" and ?bs = "benchmark_rows (database s)"
  note ids = queue_ids [OF inv]
  have "item_ok (?bs @ [?b]) (new_item newid rq)"
    by (simp add: item_ok_def new_item_def new_row_def worker_max_retries_def)
  then have items: "\<forall>it\<in>set (job_queue t). item_ok (?bs @ [?b]) it" "distinct (map q_benchmark_id (job_queue t))"
    using inv ids fresh item_ok_mono [of ?bs _ "?bs @ [?b]"]
    by (auto simp: q backend_inv_def Let_def new_item_def split: if_splits)
  have "request_key sha256 rq \<notin> bm_idempotency_key ` set ?bs"
    using key by (auto simp: find_by_key_def find_NoneD)
  moreover have "{b \<in> set (?bs @ [?b]). bm_status b = completed} = {b \<in> set ?bs. bm_status b = completed}"
    by (auto simp: new_row_def)
  ultimately show ?thesis
    using inv items fresh d unfolding backend_inv_def Let_def
    by (auto simp: new_row_def worker_max_retries_def)
qed

lemma post_inv:
  assumes "backend_inv s" and "newid \<notin> bm_id ` set (benchmark_rows (database s))"
    and t: "t = fst (create_benchmark_job parse sha256 newid now ok body s)"
  shows "backend_inv t"
  using post_result [OF t]
proof (elim disjE exE conjE)
  assume "t = s"
  then show ?thesis using assms(1) by simp
next
  fix rq ms
  assume "find_by_key (database s) (request_key sha256 rq) = None"
    and "database t = (database s)\<lparr>gpu_model_rows := ms,
           benchmark_rows := benchmark_rows (database s) @ [new_row sha256 newid now rq]\<rparr>"
    and "job_queue t = (if ok then [new_item newid rq] else []) @ job_queue s"
  then show ?thesis by (rule insert_row_inv [OF assms(1,2)])
qed

lemma queued_no_result:
  assumes "backend_inv s" and "it \<in> set (job_queue s)"
  shows "q_benchmark_id it \<notin> fst ` set (result_rows (database s))"
proof
  obtain b where b: "b \<in> set (benchmark_rows (database s))" "bm_id b = q_benchmark_id it" "bm_status b \<noteq> completed"
    using backend_invD(3) [OF assms] by (auto simp: item_ok_def)
  assume "q_benchmark_id it \<in> fst ` set (result_rows (database s))"
  then obtain c where "c \<in> set (benchmark_rows (database s))" "bm_status c = completed" "bm_id c = q_benchmark_id it"
    unfolding backend_invD(4) [OF assms(1)] by auto
  then show False using same_id [OF backend_invD(1) [OF assms(1)] _ b(1), of c] b(2,3) by simp
qed

lemma round_cases:
  assumes "backend_inv s" and "job_queue s \<noteq> []"
  obtains st where "item_ok (benchmark_rows (database s)) (last (job_queue s))"
    "q_benchmark_id (last (job_queue s)) \<notin> q_benchmark_id ` set (butlast (job_queue s))"
    "backend_inv (s\<lparr>job_queue := butlast (job_queue s)\<rparr>)"
    "worked_off (last (job_queue s)) st (s\<lparr>job_queue := butlast (job_queue s)\<rparr>) (worker_round run s)"
    "st = completed \<longleftrightarrow> (\<exists>res. run (last (job_queue s)) = Inr res)"
proof -
  let ?it = "last (job_queue s)" and ?s = "s\<lparr>job_queue := butlast (job_queue s)\<rparr>"
  have q: "job_queue s = butlast (job_queue s) @ [?it]" using assms(2) by simp
  have ok: "item_ok (benchmark_rows (database s)) ?it"
    using assms by (simp add: backend_inv_def Let_def)
  have "distinct (map q_benchmark_id (butlast (job_queue s) @ [?it]))"
    using assms(1) q by (simp add: backend_inv_def Let_def)
  then have fresh: "q_benchmark_id ?it \<notin> q_benchmark_id ` set (butlast (job_queue s))"
    and dist: "distinct (map q_benchmark_id (butlast (job_queue s)))" by simp_all
  have inv: "backend_inv ?s"
    using assms(1) dist by (auto simp: backend_inv_def Let_def dest: in_set_butlastD)
  have "q_benchmark_id ?it \<notin> fst ` set (result_rows (database s))"
    using queued_no_result [OF assms(1) last_in_set [OF assms(2)]] .
  then obtain st where "worked_off ?it st ?s (process_job run ?it ?s)" "st = completed \<longleftrightarrow> (\<exists>res. run ?it = Inr res)"
    using process_job_cases [of ?s ?it run] ok backend_invD(1,5) [OF assms(1)] by auto
  moreover have "worker_round run s = process_job run ?it ?s" using assms(2) by (simp add: worker_round_def dequeue_def)
  ultimately show thesis using that [OF ok fresh inv] by simp
qed

lemma round_results:
  assumes "backend_inv s" and "job_queue s \<noteq> []"
  shows "result_rows (database (worker_round run s)) = result_rows (database s) @
     (case run (last (job_queue s)) of Inl exc \<Rightarrow> [] | Inr res \<Rightarrow> [(q_benchmark_id (last (job_queue s)), res)])"
proof -
  let ?it = "last (job_queue s)"
  obtain b where b: "b \<in> set (benchmark_rows (database s))" "bm_id b = q_benchmark_id ?it"
    using backend_invD(3) [OF assms(1) last_in_set [OF assms(2)]] by (auto simp: item_ok_def)
  show ?thesis
    using row_updates(3) [OF backend_invD(1) [OF assms(1)] b queued_no_result [OF assms(1) last_in_set [OF assms(2)]]] assms(2)
    by (auto simp: worker_round_def dequeue_def process_job_defs on_exception_def Let_def split: sum.split)
qed

lemma round_inv: "backend_inv s \<Longrightarrow> backend_inv (worker_round run s)"
proof (cases "job_queue s = []")
  case True
  then show "backend_inv s \<Longrightarrow> backend_inv (worker_round run s)" by (simp add: worker_round_def dequeue_def)
next
  case False
  assume "backend_inv s"
  from this False show "backend_inv (worker_round run s)"
    by (rule round_cases [of s run]) (rule worked_off_inv, simp_all)
qed

interpretation service: invariant_system empty_backend "backend_step parse sha256" backend_inv for parse sha256
proof
  show "empty_backend s \<Longrightarrow> backend_inv s" for s by (simp add: empty_backend_def backend_inv_def)
  show "backend_inv t" if "backend_inv s" "backend_step parse sha256 s t" for s t
    using that(2,1) by cases (auto intro: post_inv round_inv)
qed

text \<open>A step appends a row or updates the row of an item of the queue; identities stay.\<close>

lemma step_rows:
  assumes "backend_inv s" and "backend_step parse sha256 s t"
  shows "t = s \<or>
     (\<exists>b. benchmark_rows (database t) = benchmark_rows (database s) @ [b] \<and> bm_id b \<notin> bm_id ` set (benchmark_rows (database s))
          \<and> q_benchmark_id ` set (job_queue t) \<subseteq> insert (bm_id b) (q_benchmark_id ` set (job_queue s))) \<or>
     (\<exists>it st. it \<in> set (job_queue s) \<and> benchmark_rows (database t) = worked it st s
          \<and> q_benchmark_id ` set (job_queue t) \<subseteq> q_benchmark_id ` set (job_queue s))"
  using assms(2)
proof cases
  case (posted newid now ok body)
  from post_result [OF posted(1)] posted(2) show ?thesis
    by (auto simp: new_row_def new_item_def)
next
  case (worker run)
  show ?thesis
  proof (cases "job_queue s = []")
    case True
    then show ?thesis using worker by (simp add: worker_round_def dequeue_def)
  next
    case False
    obtain st where w: "worked_off (last (job_queue s)) st (s\<lparr>job_queue := butlast (job_queue s)\<rparr>) t"
      using round_cases [OF assms(1) False, of run] worker by blast
    have "q_benchmark_id ` set (job_queue t) \<subseteq> q_benchmark_id ` set (job_queue s)"
      using w False last_in_set [OF False] by (auto simp: worked_off_def dest: in_set_butlastD)
    moreover have "benchmark_rows (database t) = worked (last (job_queue s)) st s"
      using w by (simp add: worked_off_def worked_def)
    ultimately show ?thesis using last_in_set [OF False] by blast
  qed
qed

lemma find_map_row: "find P (map f xs) = map_option f (find (P \<circ> f) xs)"
  by (induction xs) auto

lemma find_append: "find P (xs @ ys) = (case find P xs of None \<Rightarrow> find P ys | Some x \<Rightarrow> Some x)"
  by (induction xs) auto

lemma key_kept:
  assumes "backend_inv s" and "backend_step parse sha256 s t" and "find_by_key (database s) k = Some b"
  shows "\<exists>b'. find_by_key (database t) k = Some b' \<and> bm_id b' = bm_id b"
  using step_rows [OF assms(1,2)] assms(3)
  by (auto simp: find_by_key_def find_append worked_def find_map_row comp_def)

lemma key_kept_steps:
  assumes "(backend_step parse sha256)\<^sup>*\<^sup>* s t" and "backend_inv s" and "find_by_key (database s) k = Some b"
  shows "\<exists>b'. find_by_key (database t) k = Some b' \<and> bm_id b' = bm_id b"
  using assms(1)
proof (induction rule: rtranclp_induct)
  case base
  then show ?case using assms(3) by simp
next
  case (step y z)
  then show ?case using key_kept [of y parse sha256 z k] service.inv_steps [OF step(1) assms(2)] by metis
qed

section \<open>Properties\<close>

text \<open>The request of a concrete client, for the witnesses; \<open>parse\<close> knows one body.\<close>

definition example_create :: BenchmarkCreateRequest where
  "example_create = \<lparr>rq_gpu_model = ''H100'', rq_workload_type = ''training'', rq_batch_size = 64,
                     rq_idempotency_key = Some ''team/h100''\<rparr>"

definition example_backend :: backend where
  "example_backend = \<lparr>database = \<lparr>gpu_model_rows = [], benchmark_rows = [], result_rows = []\<rparr>, job_queue = [], dead_letters = []\<rparr>"

definition job_id_of :: "http_response \<Rightarrow> json option" where
  "job_id_of resp = Option.bind (Body resp) (\<lambda>j. json_member j ''job_id'')"

lemma create_response_202: "StatusCode (create_response b) = 202"
  by (simp add: create_response_def)

lemma job_id_of_create [simp]: "job_id_of (create_response b) = Some (JStr (bm_id b))"
  by (simp add: job_id_of_def create_response_def)

text \<open>
  In every state the backend can reach through submissions and worker rounds, with any engine
  outcomes: identifiers and idempotency keys are unique; no job is queued twice; a queued item belongs
  to a row that is queued or running and has been attempted exactly as often as the item says, fewer
  than three times; results exist exactly for the completed rows; no row was attempted more than three
  times.
\<close>

theorem backend_invariant:
  assumes "empty_backend s" and "(backend_step parse sha256)\<^sup>*\<^sup>* s t"
  shows "backend_inv t"
  using assms by (rule service.inv_reachable)

theorem backend_invariant_witness:
  "empty_backend example_backend \<and>
   backend_inv (worker_round (\<lambda>_. Inl ''error'')
     (fst (create_benchmark_job (\<lambda>_. Some example_create) id ''id-1'' 0 True JNull example_backend)))"
proof -
  let ?P = "\<lambda>_ :: json. Some example_create"
  have e: "empty_backend example_backend" by (simp add: empty_backend_def example_backend_def)
  have "backend_step ?P id example_backend (fst (create_benchmark_job ?P id ''id-1'' 0 True JNull example_backend))"
    by (rule backend_step.posted) (simp add: example_backend_def)
  then have "(backend_step ?P id)\<^sup>*\<^sup>* example_backend (worker_round (\<lambda>_. Inl ''error'')
      (fst (create_benchmark_job ?P id ''id-1'' 0 True JNull example_backend)))"
    by (meson backend_step.worker converse_rtranclp_into_rtranclp r_into_rtranclp)
  with e show ?thesis using backend_invariant [OF e] by blast
qed

text \<open>
  C14. Submission is idempotent: once a submission with some key was accepted, then after any further
  submissions and worker rounds every submission with the same key is answered with the same job ID
  and changes nothing, neither the tables nor the queue.
\<close>

theorem submission_is_idempotent:
  assumes "backend_inv s" and "newid \<notin> bm_id ` set (benchmark_rows (database s))"
    and "parse body = Some rq" and "parse body' = Some rq'" and "request_key sha256 rq' = request_key sha256 rq"
    and "create_benchmark_job parse sha256 newid now ok' body s = (s', resp)" and "StatusCode resp = 202"
    and "(backend_step parse sha256)\<^sup>*\<^sup>* s' t"
  shows "fst (create_benchmark_job parse sha256 newid' now' ok body' t) = t \<and>
         job_id_of (snd (create_benchmark_job parse sha256 newid' now' ok body' t)) = job_id_of resp \<and>
         job_id_of resp \<noteq> None"
proof -
  obtain b where b: "find_by_key (database s') (request_key sha256 rq) = Some b" "job_id_of resp = Some (JStr (bm_id b))"
  proof (cases "find_by_key (database s) (request_key sha256 rq)")
    case None
    have fits: "fits_columns (request_key sha256 rq) rq"
    proof (rule ccontr)
      assume "\<not> fits_columns (request_key sha256 rq) rq"
      from post_unfit [of parse body rq s sha256 newid now ok', OF assms(3) None this] show False
        using assms(6,7) by (simp add: internal_error_def)
    qed
    have "find_by_key (database s') (request_key sha256 rq) = Some (new_row sha256 newid now rq)"
      "resp = create_response (new_row sha256 newid now rq)"
      using assms(6,7) post_new [of parse body rq s sha256 newid now ok', OF assms(3) None fits] None
      by (auto simp: Let_def find_by_key_def find_append new_row_def internal_error_def split: if_splits)
    then show thesis using that by (simp add: new_row_def)
  next
    case (Some b)
    then show thesis using that assms(6) post_existing [of parse body rq s sha256 b, OF assms(3) Some] by auto
  qed
  have "backend_inv s'" using post_inv [OF assms(1,2)] assms(6) by (metis fst_conv)
  then obtain b' where "find_by_key (database t) (request_key sha256 rq) = Some b'" "bm_id b' = bm_id b"
    using key_kept_steps [OF assms(8) _ b(1)] by blast
  then show ?thesis using post_existing [of parse body' rq' t sha256 b'] assms(4,5) b(2) by simp
qed

lemma example_post:
  "create_benchmark_job (\<lambda>_. Some example_create) id ''id-1'' 0 True JNull example_backend =
     (\<lparr>database = \<lparr>gpu_model_rows = [''H100''], benchmark_rows = [new_row id ''id-1'' 0 example_create], result_rows = []\<rparr>,
       job_queue = [new_item ''id-1'' example_create], dead_letters = []\<rparr>,
      create_response (new_row id ''id-1'' 0 example_create))"
  using post_new [of "\<lambda>_. Some example_create" JNull example_create example_backend id "''id-1''" 0 True]
  by (simp add: example_backend_def find_by_key_def with_model_def example_create_def fits_columns_def request_key_def)

theorem submission_is_idempotent_witness:
  "job_id_of (snd (create_benchmark_job (\<lambda>_. Some example_create) id ''id-2'' 5 True JNull
     (worker_round (\<lambda>_. Inl ''error'')
       (fst (create_benchmark_job (\<lambda>_. Some example_create) id ''id-1'' 0 True JNull example_backend))))) =
   Some (JStr ''id-1'')"
proof -
  let ?P = "\<lambda>_ :: json. Some example_create"
  have "backend_inv example_backend" "''id-1'' \<notin> bm_id ` set (benchmark_rows (database example_backend))"
    by (simp_all add: backend_inv_def example_backend_def)
  note idem = submission_is_idempotent [OF this, of ?P JNull example_create JNull example_create id, OF refl refl refl example_post create_response_202]
  have "(backend_step ?P id)\<^sup>*\<^sup>* s (worker_round (\<lambda>_. Inl ''error'') s)" for s
    by (rule r_into_rtranclp, rule backend_step.worker)
  from idem [OF this] show ?thesis by (simp add: example_post new_row_def)
qed

text \<open>
  C28. Concurrent submissions: whatever other sessions commit between the statements of
  \<open>create_benchmark\<close> (rows are added and changed in any way that keeps the keys), it either inserts a row for a key that has none at that
  moment, or returns a row with the requested key. An exception escapes only for a request that does
  not fit the columns, and for a GPU model that another session registered between the lookup and the
  flush.
\<close>

theorem create_benchmark_race:
  assumes "\<And>i j. i \<le> j \<Longrightarrow>
      bm_idempotency_key ` set (benchmark_rows (snap i)) \<subseteq> bm_idempotency_key ` set (benchmark_rows (snap j))"
  shows "case create_benchmark sha256 newid now rq snap of
           (Created b, d) \<Rightarrow> bm_idempotency_key b = request_key sha256 rq \<and> find_by_key (snap 3) (request_key sha256 rq) = None \<and>
                             map_option benchmark_rows d = Some (benchmark_rows (snap 3) @ [b])
         | (Existing b, d) \<Rightarrow> bm_idempotency_key b = request_key sha256 rq \<and> d = None
         | (Raised, d) \<Rightarrow> d = None \<and>
             (if fits_columns (request_key sha256 rq) rq
              then rq_gpu_model rq \<notin> set (gpu_model_rows (snap 1)) \<and> rq_gpu_model rq \<in> set (gpu_model_rows (snap 2))
              else find_by_key (snap 0) (request_key sha256 rq) = None)"
proof -
  let ?k = "request_key sha256 rq"
  have "find_by_key (snap 4) ?k \<noteq> None" if "find_by_key (snap 3) ?k = Some b" for b
    using that assms [of 3 4] find_SomeD [of _ "benchmark_rows (snap 3)" b] unfolding find_by_key_def find_NoneD by fastforce
  then show ?thesis
    by (auto simp: create_benchmark_def get_or_create_gpu_model_def Let_def dest: find_by_key_Some split: option.split)
qed

theorem create_benchmark_race_witness:
  "\<exists>b. create_benchmark id ''id-2'' 0 example_create
         (\<lambda>i. if i < 3 then database example_backend
              else (database example_backend)\<lparr>benchmark_rows := [new_row id ''id-1'' 0 example_create]\<rparr>) = (Existing b, None) \<and>
       bm_id b = ''id-1''"
proof -
  let ?snap = "\<lambda>i. if i < 3 then database example_backend
              else (database example_backend)\<lparr>benchmark_rows := [new_row id ''id-1'' 0 example_create]\<rparr>"
  have "bm_idempotency_key ` set (benchmark_rows (?snap i)) \<subseteq> bm_idempotency_key ` set (benchmark_rows (?snap j))" if "i \<le> j" for i j :: nat
    using that by (simp add: example_backend_def)
  from create_benchmark_race [of ?snap, OF this] show ?thesis
    by (simp add: fits_columns_def request_key_def create_benchmark_def get_or_create_gpu_model_def find_by_key_def example_backend_def new_row_def example_create_def)
qed

section \<open>Executions\<close>

text \<open>Worker rounds one after the other, each with its own engine outcome.\<close>

fun work :: "(queue_item \<Rightarrow> string + BenchmarkResult) list \<Rightarrow> backend \<Rightarrow> backend" where
  "work [] s = s"
| "work (run # runs) s = work runs (worker_round run s)"

definition pending_items :: "queue_item list \<Rightarrow> nat" where
  "pending_items q = (\<Sum>it\<leftarrow>q. nat (worker_max_retries - q_attempt it))"

lemma pending_items_simps [simp]:
  "pending_items [] = 0"
  "pending_items (it # q) = nat (worker_max_retries - q_attempt it) + pending_items q"
  "pending_items (q @ r) = pending_items q + pending_items r"
  by (simp_all add: pending_items_def)

lemma round_lowers:
  assumes "backend_inv s" and "job_queue s \<noteq> []"
  shows "pending_items (job_queue (worker_round run s)) < pending_items (job_queue s)"
proof -
  obtain st where w: "worked_off (last (job_queue s)) st (s\<lparr>job_queue := butlast (job_queue s)\<rparr>) (worker_round run s)"
    and ok: "item_ok (benchmark_rows (database s)) (last (job_queue s))"
    using round_cases [OF assms, of run] by blast
  have "pending_items (job_queue s) = pending_items (butlast (job_queue s) @ [last (job_queue s)])"
    using assms(2) by (simp only: append_butlast_last_id not_False_eq_True)
  then show ?thesis using w ok by (auto simp: worked_off_def item_ok_def)
qed

interpretation worker_rounds:
  ranked_system "\<lambda>s t. job_queue s \<noteq> [] \<and> (\<exists>run. t = worker_round run s)" backend_inv "\<lambda>s. pending_items (job_queue s)"
  by unfold_locales (auto intro: round_inv round_lowers)

lemma pending_items_bound:
  assumes "backend_inv s"
  shows "pending_items (job_queue s) \<le> 3 * length (job_queue s)"
proof -
  have "\<forall>it\<in>set q. 0 \<le> q_attempt it \<Longrightarrow> pending_items q \<le> 3 * length q" for q
    by (induction q) (auto simp: worker_max_retries_def)
  then show ?thesis using backend_invD(3) [OF assms] by (simp add: item_ok_def)
qed

lemma work_steps:
  "\<exists>n. ((\<lambda>s t. job_queue s \<noteq> [] \<and> (\<exists>run. t = worker_round run s)) ^^ n) s (work runs s) \<and>
       (n = length runs \<or> job_queue (work runs s) = [])"
proof (induction runs arbitrary: s)
  case Nil
  show ?case by (intro exI [of _ 0]) simp
next
  case (Cons run runs)
  show ?case
  proof (cases "job_queue s = []")
    case True
    then have idle: "worker_round r s = s" for r by (simp add: worker_round_def dequeue_def)
    then have "work rs s = s" for rs by (induction rs) simp_all
    then show ?thesis using True idle by (intro exI [of _ 0]) simp
  next
    case False
    obtain n where "((\<lambda>s t. job_queue s \<noteq> [] \<and> (\<exists>run. t = worker_round run s)) ^^ n) (worker_round run s) (work runs (worker_round run s))"
      "n = length runs \<or> job_queue (work runs (worker_round run s)) = []"
      using Cons by blast
    moreover have "job_queue s \<noteq> [] \<and> (\<exists>r. worker_round run s = worker_round r s)" using False by blast
    ultimately have "((\<lambda>s t. job_queue s \<noteq> [] \<and> (\<exists>run. t = worker_round run s)) ^^ Suc n) s (work (run # runs) s)"
      by (simp only: work.simps) (rule relpowp_Suc_I2)
    then show ?thesis using \<open>n = length runs \<or> _\<close> by (intro exI [of _ "Suc n"]) auto
  qed
qed

text \<open>A job is settled when its row is completed or failed; until then it stays queued.\<close>

definition settled :: "backend \<Rightarrow> uuid \<Rightarrow> bool" where
  "settled s i \<longleftrightarrow> (\<exists>b\<in>set (benchmark_rows (database s)). bm_id b = i \<and> bm_status b \<in> {completed, failed})"

lemma settled_or_queued:
  assumes inv: "backend_inv s" and i: "settled s i \<or> i \<in> q_benchmark_id ` set (job_queue s)"
  shows "settled (worker_round run s) i \<or> i \<in> q_benchmark_id ` set (job_queue (worker_round run s))"
proof (cases "job_queue s = []")
  case True
  then show ?thesis using i by (simp add: worker_round_def dequeue_def)
next
  case False
  let ?it = "last (job_queue s)" and ?t = "worker_round run s"
  obtain st where w: "worked_off ?it st (s\<lparr>job_queue := butlast (job_queue s)\<rparr>) ?t"
    and ok: "item_ok (benchmark_rows (database s)) ?it"
    using round_cases [OF inv False, of run] by blast
  obtain b where b: "b \<in> set (benchmark_rows (database s))" "bm_id b = q_benchmark_id ?it" "bm_status b \<in> {queued, running}"
    using ok by (auto simp: item_ok_def)
  have rows: "set (benchmark_rows (database ?t)) =
      insert (set_row (q_benchmark_id ?it) st (q_attempt ?it + 1) b) {c \<in> set (benchmark_rows (database s)). bm_id c \<noteq> q_benchmark_id ?it}"
    using w worked_rows [OF backend_invD(1) [OF inv] b(1,2), of st "q_attempt ?it + 1"]
    by (simp add: worked_off_def worked_def)
  consider "i = q_benchmark_id ?it" | "i \<noteq> q_benchmark_id ?it" "settled s i"
    | "i \<in> q_benchmark_id ` set (butlast (job_queue s))"
    using i append_butlast_last_id [OF False] by (metis (no_types, lifting) UnE image_Un image_insert list.simps(15) set_append
        insertE list.set(1) image_empty empty_iff)
  then show ?thesis
  proof cases
    case 1
    have "st = running \<and> q_benchmark_id ?it \<in> q_benchmark_id ` set (job_queue ?t) \<or> st \<in> {completed, failed}"
      using w by (simp add: worked_off_def split: if_splits)
    then show ?thesis using 1 b(2) unfolding settled_def rows by (auto simp: set_row_def)
  next
    case 2
    then show ?thesis by (auto simp: settled_def rows)
  next
    case 3
    then show ?thesis using w by (auto simp: worked_off_def)
  qed
qed

lemma work_settles:
  "backend_inv s \<Longrightarrow> settled s i \<or> i \<in> q_benchmark_id ` set (job_queue s) \<Longrightarrow>
   settled (work runs s) i \<or> i \<in> q_benchmark_id ` set (job_queue (work runs s))"
  by (induction runs arbitrary: s) (simp_all add: round_inv settled_or_queued)

lemma work_inv: "backend_inv s \<Longrightarrow> backend_inv (work runs s)"
  by (induction runs arbitrary: s) (simp_all add: round_inv)

lemma work_drains:
  assumes "backend_inv s" and "3 * length (job_queue s) \<le> length runs"
  shows "job_queue (work runs s) = [] \<and> (\<forall>i\<in>q_benchmark_id ` set (job_queue s). settled (work runs s) i)"
proof -
  obtain n where n: "((\<lambda>s t. job_queue s \<noteq> [] \<and> (\<exists>run. t = worker_round run s)) ^^ n) s (work runs s)"
    "n = length runs \<or> job_queue (work runs s) = []"
    using work_steps by blast
  have inv: "backend_inv (work runs s)" using worker_rounds.ok_steps [OF n(1) assms(1)] .
  have "n + pending_items (job_queue (work runs s)) \<le> pending_items (job_queue s)"
    using worker_rounds.run_bound [OF n(1) assms(1)] .
  then have "pending_items (job_queue (work runs s)) = 0 \<or> job_queue (work runs s) = []"
    using n(2) pending_items_bound [OF assms(1)] assms(2) by linarith
  moreover have "job_queue (work runs s) = []" if "pending_items (job_queue (work runs s)) = 0"
    using that backend_invD(3) [OF inv, of "hd (job_queue (work runs s))"]
    by (cases "job_queue (work runs s)") (auto simp: item_ok_def)
  ultimately have "job_queue (work runs s) = []" by blast
  then show ?thesis using work_settles [OF assms(1), of _ runs] by auto
qed

text \<open>
  The queue drains: without new submissions, three worker rounds per queued job are enough to empty
  it, whatever the engine does; every job that was queued is then completed or failed.
\<close>

theorem queue_drains:
  assumes "backend_inv s" and "3 * length (job_queue s) \<le> length runs"
  shows "job_queue (work runs s) = [] \<and> (\<forall>i\<in>q_benchmark_id ` set (job_queue s). settled (work runs s) i)"
  using work_drains [OF assms] .

theorem queue_drains_witness:
  "job_queue (work (replicate 3 (\<lambda>_. Inl ''error''))
     (fst (create_benchmark_job (\<lambda>_. Some example_create) id ''id-1'' 0 True JNull example_backend))) = []"
proof -
  let ?s = "fst (create_benchmark_job (\<lambda>_. Some example_create) id ''id-1'' 0 True JNull example_backend)"
  have "backend_inv ?s"
    by (rule post_inv [OF _ _ refl]) (simp_all add: backend_inv_def example_backend_def)
  then show ?thesis using queue_drains [of ?s "replicate 3 (\<lambda>_. Inl ''error'')"] by (simp add: example_post)
qed

section \<open>A submission that is never executed\<close>

text \<open>A row that is queued in the table but not in the queue.\<close>

definition orphan :: "string \<Rightarrow> uuid \<Rightarrow> backend \<Rightarrow> bool" where
  "orphan k i s \<longleftrightarrow>
     backend_inv s \<and> i \<notin> q_benchmark_id ` set (job_queue s) \<and>
     (\<exists>b\<in>set (benchmark_rows (database s)). bm_id b = i \<and> bm_idempotency_key b = k \<and> bm_status b = queued)"

lemma orphan_step:
  assumes "orphan k i s" and "backend_step parse sha256 s t"
  shows "orphan k i t"
proof -
  have inv: "backend_inv s" "backend_inv t"
    using assms service.inv_step by (auto simp: orphan_def)
  obtain b where b: "b \<in> set (benchmark_rows (database s))" "bm_id b = i" "bm_idempotency_key b = k" "bm_status b = queued"
    "i \<notin> q_benchmark_id ` set (job_queue s)"
    using assms(1) by (auto simp: orphan_def)
  have "b \<in> set (benchmark_rows (database t)) \<and> i \<notin> q_benchmark_id ` set (job_queue t)"
    using step_rows [OF inv(1) assms(2)]
  proof (elim disjE exE conjE)
    fix c
    assume c: "benchmark_rows (database t) = benchmark_rows (database s) @ [c]"
      "bm_id c \<notin> bm_id ` set (benchmark_rows (database s))"
      "q_benchmark_id ` set (job_queue t) \<subseteq> insert (bm_id c) (q_benchmark_id ` set (job_queue s))"
    have "bm_id c \<noteq> i" using c(2) imageI [OF b(1), of bm_id] b(2) by metis
    then have "i \<notin> q_benchmark_id ` set (job_queue t)" using c(3) b(5) by (metis insertE subsetD)
    then show ?thesis using c(1) b(1) by simp
  next
    fix it st
    assume it: "it \<in> set (job_queue s)" and rows: "benchmark_rows (database t) = worked it st s"
      and q: "q_benchmark_id ` set (job_queue t) \<subseteq> q_benchmark_id ` set (job_queue s)"
    have "q_benchmark_id it \<noteq> i" using it b(5) by blast
    then have "set_row (q_benchmark_id it) st (q_attempt it + 1) b = b" using b(2) by (simp add: set_row_def)
    then have "b \<in> set (benchmark_rows (database t))" unfolding rows worked_def using b(1) by (metis image_eqI image_set)
    then show ?thesis using q b(5) by blast
  qed (use b in auto)
  then show ?thesis using inv b by (auto simp: orphan_def)
qed

interpretation orphaned: invariant_system "orphan k i" "backend_step parse sha256" "orphan k i" for k i parse sha256
  by unfold_locales (auto intro: orphan_step)

text \<open>
  A submission whose row was committed but whose push to Redis failed is lost: the client gets an
  error, and after any further submissions and worker rounds the row is still queued and no repeated
  submission with its key puts it into the queue; each is answered with its ID and status queued.
\<close>

theorem failed_push_loses_the_job:
  assumes "backend_inv s" and "newid \<notin> bm_id ` set (benchmark_rows (database s))"
    and "parse body = Some rq" and "find_by_key (database s) (request_key sha256 rq) = None"
    and "fits_columns (request_key sha256 rq) rq"
    and "create_benchmark_job parse sha256 newid now False body s = (s', resp)"
    and "(backend_step parse sha256)\<^sup>*\<^sup>* s' t"
  shows "StatusCode resp = 500 \<and>
         (\<exists>b. bm_id b = newid \<and> bm_status b = queued \<and>
              create_benchmark_job parse sha256 newid' now' ok body t = (t, create_response b)) \<and>
         newid \<notin> q_benchmark_id ` set (job_queue t)"
proof -
  have post: "create_benchmark_job parse sha256 newid now False body s =
      (s\<lparr>database := (database s)\<lparr>gpu_model_rows := with_model (rq_gpu_model rq) (database s),
           benchmark_rows := benchmark_rows (database s) @ [new_row sha256 newid now rq]\<rparr>\<rparr>,
       internal_error)"
    using post_new [of parse body rq s sha256, OF assms(3-5)] by simp
  have "backend_inv s'" using post_inv [OF assms(1,2)] assms(6) by (metis fst_conv)
  moreover have "newid \<notin> q_benchmark_id ` set (job_queue s)"
    using queue_ids [OF assms(1)] assms(2) by blast
  ultimately have "orphan (request_key sha256 rq) newid s'"
    using assms(6) post by (auto simp: orphan_def new_row_def)
  then have o: "orphan (request_key sha256 rq) newid t" using assms(7) by (rule orphaned.inv_reachable)
  then obtain b where b: "b \<in> set (benchmark_rows (database t))" "bm_id b = newid" "bm_status b = queued"
      "bm_idempotency_key b = request_key sha256 rq" "backend_inv t"
    by (auto simp: orphan_def)
  have "find_by_key (database t) (request_key sha256 rq) = Some b"
    using find_distinct [OF backend_invD(2) [OF b(5)] b(1)] b(4) by (simp add: find_by_key_def)
  then show ?thesis
    using post_existing [of parse body rq t sha256 b] assms(3,6) post b(2,3) o
    by (auto simp: orphan_def internal_error_def)
qed

theorem failed_push_loses_the_job_witness:
  "\<exists>b. bm_id b = ''id-1'' \<and> bm_status b = queued \<and>
     create_benchmark_job (\<lambda>_. Some example_create) id ''id-2'' 5 True JNull
       (fst (create_benchmark_job (\<lambda>_. Some example_create) id ''id-1'' 0 False JNull example_backend)) =
     (fst (create_benchmark_job (\<lambda>_. Some example_create) id ''id-1'' 0 False JNull example_backend), create_response b)"
proof -
  let ?r = "create_benchmark_job (\<lambda>_. Some example_create) id ''id-1'' 0 False JNull example_backend"
  have "backend_inv example_backend" "''id-1'' \<notin> bm_id ` set (benchmark_rows (database example_backend))"
    "find_by_key (database example_backend) (request_key id example_create) = None"
    "fits_columns (request_key id example_create) example_create"
    by (simp_all add: backend_inv_def example_backend_def find_by_key_def fits_columns_def request_key_def example_create_def)
  from failed_push_loses_the_job [OF this(1,2) _ this(3,4), of "\<lambda>_. Some example_create" JNull 0 "fst ?r" "snd ?r" "fst ?r"]
  show ?thesis by simp
qed

end
