(* ===== verification/Engine.thy ===== *)
theory Engine
  imports Go_Float64
begin

text \<open>
  The engines a worker runs a benchmark with (\<^verbatim>\<open>backend/app/services/gpu_engine.py\<close>): the simulation and
  the adapter of \<^verbatim>\<open>nvidia-smi\<close>. A Python \<^verbatim>\<open>float\<close> is a binary64, so the arithmetic is that of
  \<open>Go_Float64\<close>. Parameters: the draws of \<^verbatim>\<open>random()\<close>, the answers of the subprocess, and \<open>py_float\<close>, the
  reading of a number by \<^verbatim>\<open>float\<close>. Strings are bytes; the output of the subprocess is ASCII text.
\<close>

record EngineResult =
  er_throughput :: float64
  er_latency_ms :: float64
  er_memory_bandwidth_gbps :: float64

section \<open>Python numbers\<close>

text \<open>An integer as a float; beyond the range of a float the conversion raises.\<close>

definition py_float_of_int :: "int \<Rightarrow> string + rat" where
  "py_float_of_int n =
     (case f64_round (of_int n) of Fin x \<Rightarrow> Inr x | _ \<Rightarrow> Inl ''int too large to convert to float'')"

text \<open>The quotient of two integers is rounded once.\<close>

definition py_int_div :: "int \<Rightarrow> int \<Rightarrow> string + rat" where
  "py_int_div a b =
     (case f64_round (of_int a / of_int b) of Fin x \<Rightarrow> Inr x | _ \<Rightarrow> Inl ''integer division result too large for a float'')"

text \<open>\<^verbatim>\<open>round(x, n)\<close>: the decimal with \<open>n\<close> digits nearest to the exact value, ties to even, as a float.\<close>

fun py_round :: "nat \<Rightarrow> float64 \<Rightarrow> float64" where
  "py_round n (Fin x) = f64_round (of_int (round_half_even (x * 10 ^ n)) / 10 ^ n)"
| "py_round n f = f"

text \<open>\<^verbatim>\<open>random.uniform(a, b)\<close> for the draw \<open>r\<close>: \<^verbatim>\<open>a + (b - a) * random()\<close>.\<close>

definition py_uniform :: "rat \<Rightarrow> rat \<Rightarrow> rat \<Rightarrow> float64" where
  "py_uniform a b r = f64_add (Fin a) (f64_mul (Fin (b - a)) (Fin r))"

fun f64_less :: "float64 \<Rightarrow> float64 \<Rightarrow> bool" where
  "f64_less (Fin a) (Fin b) \<longleftrightarrow> a < b"
| "f64_less NaN _ \<longleftrightarrow> False"
| "f64_less _ NaN \<longleftrightarrow> False"
| "f64_less NInf y \<longleftrightarrow> y \<noteq> NInf"
| "f64_less (Fin _) y \<longleftrightarrow> y = PInf"
| "f64_less PInf _ \<longleftrightarrow> False"

definition py_max :: "float64 \<Rightarrow> float64 \<Rightarrow> float64" where
  "py_max a b = (if f64_less a b then b else a)"

fun f64_neg :: "float64 \<Rightarrow> float64" where
  "f64_neg (Fin a) = Fin (- a)"
| "f64_neg PInf = NInf"
| "f64_neg NInf = PInf"
| "f64_neg NaN = NaN"

section \<open>Simulation\<close>

text \<open>
  \<^verbatim>\<open>s.upper().startswith("H")\<close>: the letters H and h, and U+1E96 (bytes E1 BA 96), whose upper case is an
  H with a combining mark.
\<close>

definition upper_starts_with_H :: "string \<Rightarrow> bool" where
  "upper_starts_with_H s \<longleftrightarrow>
     (s \<noteq> [] \<and> (hd s = CHR ''H'' \<or> hd s = CHR ''h'')) \<or> take 3 s = [CHR 0xE1, CHR 0xBA, CHR 0x96]"

definition simulated_run :: "rat \<Rightarrow> rat \<Rightarrow> string \<Rightarrow> string \<Rightarrow> int \<Rightarrow> string + EngineResult" where
  "simulated_run draw1 draw2 gpu_model workload_type batch_size =
     (let base = Fin (if workload_type = ''inference'' then 2200 else 1300);
          architecture_multiplier = (if upper_starts_with_H gpu_model then f64_round (5 / 4) else f64_round (11 / 10))
      in case py_float_of_int (max batch_size 1) of
           Inl exc \<Rightarrow> Inl exc
         | Inr b \<Rightarrow>
             (let throughput = f64_div (f64_mul base architecture_multiplier) (Fin b)
              in case py_int_div batch_size 16 of
                   Inl exc \<Rightarrow> Inl exc
                 | Inr share \<Rightarrow>
                     (let latency_ms = f64_add (py_uniform 3 12 draw1) (Fin share);
                          memory_bandwidth_gbps = py_uniform 600 1500 draw2
                      in Inr \<lparr>er_throughput = py_round 2 throughput, er_latency_ms = py_round 3 latency_ms,
                              er_memory_bandwidth_gbps = py_round 2 memory_bandwidth_gbps\<rparr>)))"

section \<open>The adapter of nvidia-smi\<close>

text \<open>An answer of the subprocess: it could not be started, or it ended with a status and an output.\<close>

type_synonym smi_answer = "string + (int \<times> string)"

definition runtime_available :: "smi_answer \<Rightarrow> bool" where
  "runtime_available names = (case names of Inl _ \<Rightarrow> False | Inr (returncode, _) \<Rightarrow> returncode = 0)"

fun split_on :: "char \<Rightarrow> string \<Rightarrow> string list" where
  "split_on c [] = [[]]"
| "split_on c (x # xs) =
     (if x = c then [] # split_on c xs else (x # hd (split_on c xs)) # tl (split_on c xs))"

definition py_space :: "char \<Rightarrow> bool" where
  "py_space c \<longleftrightarrow> (of_char c :: nat) \<in> {9, 10, 11, 12, 13, 28, 29, 30, 31, 32}"

definition py_strip :: "string \<Rightarrow> string" where
  "py_strip s = rev (dropWhile py_space (rev (dropWhile py_space s)))"

definition first_two_floats :: "(string \<Rightarrow> float64 option) \<Rightarrow> string \<Rightarrow> string + (float64 \<times> float64)" where
  "first_two_floats py_float out =
     (let parts = take 2 (split_on (CHR '','') out)
      in if \<exists>x\<in>set parts. py_float (py_strip x) = None then Inl ''could not convert string to float''
         else case map (\<lambda>x. the (py_float (py_strip x))) parts of
                [a, b] \<Rightarrow> Inr (a, b)
              | _ \<Rightarrow> Inl ''not enough values to unpack (expected 2, got 1)'')"

text \<open>\<open>names\<close> answers the check of the runtime, \<open>usage\<close> the query; the status of the query is not looked at.\<close>

definition nvidia_run :: "(string \<Rightarrow> float64 option) \<Rightarrow> smi_answer \<Rightarrow> smi_answer \<Rightarrow> int \<Rightarrow> string + EngineResult" where
  "nvidia_run py_float names usage batch_size =
     (if \<not> runtime_available names then Inl ''nvidia runtime unavailable''
      else case usage of
             Inl exc \<Rightarrow> Inl exc
           | Inr (_, out) \<Rightarrow>
               (case first_two_floats py_float out of
                  Inl exc \<Rightarrow> Inl exc
                | Inr (utilization, memory_used) \<Rightarrow>
                    (case py_float_of_int (max batch_size 1) of
                       Inl exc \<Rightarrow> Inl exc
                     | Inr b \<Rightarrow>
                         Inr \<lparr>er_throughput = py_round 2 (f64_div (f64_mul (py_max (Fin 1) utilization) (f64_round (25 / 2))) (Fin b)),
                              er_latency_ms = py_round 3 (f64_div (py_max (Fin 1) (f64_add (Fin 120) (f64_neg utilization))) (Fin 10)),
                              er_memory_bandwidth_gbps = py_round 2 (py_max (Fin 200) (f64_div memory_used (Fin 10)))\<rparr>)))"

text \<open>The choice of \<^verbatim>\<open>_process_job\<close> (\<^verbatim>\<open>benchmark_worker.py\<close>): the runtime is asked once more by the adapter.\<close>

record engine_env =
  draws :: "rat \<times> rat"
  smi_check :: smi_answer
  smi_names :: smi_answer
  smi_usage :: smi_answer

definition engine_run :: "(string \<Rightarrow> float64 option) \<Rightarrow> engine_env \<Rightarrow> string \<Rightarrow> string \<Rightarrow> int \<Rightarrow> string + EngineResult" where
  "engine_run py_float N gpu_model workload_type batch_size =
     (if runtime_available (smi_check N) then nvidia_run py_float (smi_names N) (smi_usage N) batch_size
      else simulated_run (fst (draws N)) (snd (draws N)) gpu_model workload_type batch_size)"

end
