(* ===== verification/Engine_Properties.thy ===== *)
theory Engine_Properties
  imports Engine
begin

text \<open>
  Rounding keeps a value between integers and is idempotent on the numbers the engines produce; the
  simulation is total on every batch the database holds, its results are finite floats within fixed
  bounds; the adapter refuses the output of a host with several GPUs.
\<close>

section \<open>Rounding\<close>

lemma round_half_even_ge: "of_int n \<le> x \<Longrightarrow> n \<le> round_half_even x"
  unfolding round_half_even_def Let_def using le_floor_iff [of n x] by auto

lemma round_half_even_le:
  assumes "x \<le> of_int n"
  shows "round_half_even x \<le> n"
proof (cases "x = of_int n")
  case True
  then show ?thesis by simp
next
  case False
  then have "\<lfloor>x\<rfloor> < n" using assms by (simp add: floor_less_iff)
  then show ?thesis unfolding round_half_even_def Let_def by auto
qed

definition f64_exponent :: "rat \<Rightarrow> int" where
  "f64_exponent x = max (ilog2 \<bar>x\<bar> - 52) (- 1074)"

lemma f64_round_alt:
  assumes "x \<noteq> 0"
  shows "f64_round x =
     (let r = of_int (round_half_even (x / 2 powi f64_exponent x)) * 2 powi f64_exponent x
      in if 2 ^ 1024 \<le> \<bar>r\<bar> then (if 0 < x then PInf else NInf) else Fin r)"
  using assms by (simp add: f64_round_def f64_exponent_def Let_def)

text \<open>Below \<open>2^53\<close> the grid of floats is at least as fine as the integers.\<close>

lemma exponent_le_0:
  assumes "\<bar>x\<bar> < 2 ^ 53" and "x \<noteq> 0"
  shows "f64_exponent x \<le> 0"
proof -
  have "2 powi ilog2 \<bar>x\<bar> \<le> \<bar>x\<bar>" using ilog2_lower assms(2) by simp
  also have "\<dots> < 2 powi 53" using assms(1) by simp
  finally have "ilog2 \<bar>x\<bar> < 53"
    using power_int_increasing [of 53 "ilog2 \<bar>x\<bar>" "2 :: rat"] by force
  then show ?thesis by (simp add: f64_exponent_def)
qed

lemma powi_nonpos: "q \<le> 0 \<Longrightarrow> 2 powi q = 1 / (2 :: rat) ^ nat (- q)"
  using power_int_minus_divide [of "2 :: rat" "- q"] power_int_of_nat [of "2 :: rat" "nat (- q)"] by simp

lemma grid_round:
  fixes q :: int
  assumes "q \<le> 0" and "of_int a \<le> x" and "x \<le> of_int b"
  shows "of_int a \<le> of_int (round_half_even (x / 2 powi q)) * (2 powi q :: rat) \<and>
         of_int (round_half_even (x / 2 powi q)) * (2 powi q :: rat) \<le> of_int b"
proof -
  define k where "k = nat (- q)"
  have q: "2 powi q = 1 / (2 :: rat) ^ k" unfolding k_def using assms(1) by (rule powi_nonpos)
  have "a * 2 ^ k \<le> round_half_even (x / 2 powi q)" "round_half_even (x / 2 powi q) \<le> b * 2 ^ k"
    using assms(2,3) by (auto intro!: round_half_even_ge round_half_even_le simp: q)
  then have "of_int (a * 2 ^ k) \<le> (of_int (round_half_even (x / 2 powi q)) :: rat)"
    "of_int (round_half_even (x / 2 powi q)) \<le> (of_int (b * 2 ^ k) :: rat)"
    by (simp_all only: of_int_le_iff)
  then show ?thesis by (simp add: q field_simps)
qed

lemma f64_round_between:
  assumes "of_int a \<le> x" and "x \<le> of_int b" and "- (2 ^ 53) < a" and "b < 2 ^ 53"
  shows "\<exists>r. f64_round x = Fin r \<and> of_int a \<le> r \<and> r \<le> of_int b"
proof (cases "x = 0")
  case True
  then show ?thesis using assms by (simp add: f64_round_def)
next
  case False
  have ab: "(- (2 ^ 53) :: rat) < of_int a" "(of_int b :: rat) < 2 ^ 53"
    using assms(3,4) of_int_less_iff [of "- (2 ^ 53)" a, where ?'a = rat] of_int_less_iff [of b "2 ^ 53", where ?'a = rat] by simp_all
  have "\<bar>x\<bar> < 2 ^ 53" using assms(1,2) ab by linarith
  note g = grid_round [OF exponent_le_0 [OF this False] assms(1,2)]
  have "\<bar>of_int (round_half_even (x / 2 powi f64_exponent x)) * (2 powi f64_exponent x :: rat)\<bar> < 2 ^ 53"
    using g ab by linarith
  moreover have "(2 :: rat) ^ 53 \<le> 2 ^ 1024" by (rule power_increasing) simp_all
  ultimately have "\<not> 2 ^ 1024 \<le> \<bar>of_int (round_half_even (x / 2 powi f64_exponent x)) * (2 powi f64_exponent x :: rat)\<bar>"
    by linarith
  then show ?thesis using g False by (simp add: f64_round_alt Let_def)
qed

text \<open>Rounding a result again changes nothing.\<close>

lemma f64_round_idem:
  assumes "f64_round x = Fin r" and "\<bar>x\<bar> < 2 ^ 53" and "\<bar>r\<bar> < 2 ^ 53"
  shows "f64_round r = Fin r"
proof (cases "x = 0")
  case True
  then show ?thesis using assms(1) by (simp add: f64_round_def)
next
  case False
  define k where "k = nat (- f64_exponent x)"
  define m where "m = round_half_even (x / 2 powi f64_exponent x)"
  have e: "f64_exponent x \<le> 0" "k \<le> 1074" using exponent_le_0 [OF assms(2) False] by (simp_all add: k_def f64_exponent_def)
  have q: "2 powi f64_exponent x = 1 / (2 :: rat) ^ k" unfolding k_def using e(1) by (rule powi_nonpos)
  have r: "r = of_int m / 2 ^ k"
    using assms(1) False by (simp add: f64_round_alt Let_def m_def q split: if_splits)
  have "\<bar>x\<bar> < 2 powi (ilog2 \<bar>x\<bar> + 1)" using ilog2_upper False by simp
  also have "\<dots> \<le> 2 powi (f64_exponent x + 53)" by (rule power_int_increasing) (simp_all add: f64_exponent_def)
  also have "\<dots> = 2 ^ 53 * 2 powi f64_exponent x" by (simp add: power_int_add)
  finally have "\<bar>x / 2 powi f64_exponent x\<bar> < 2 ^ 53" by (simp add: q field_simps abs_mult)
  then have "x / 2 powi f64_exponent x \<le> of_int (2 ^ 53)" "of_int (- (2 ^ 53)) \<le> x / 2 powi f64_exponent x"
    unfolding abs_less_iff by simp_all
  then have m: "\<bar>m\<bar> \<le> 2 ^ 53" unfolding m_def using round_half_even_le round_half_even_ge by (metis abs_le_iff minus_le_iff)
  show ?thesis
  proof (cases "\<bar>m\<bar> = 2 ^ 53")
    case False
    then show ?thesis unfolding r using m e(2) by (intro f64_round_exact) auto
  next
    case True
    then have "\<bar>of_int m :: rat\<bar> = 2 ^ 53" by (metis of_int_abs of_int_numeral of_int_power)
    then have "k \<noteq> 0" using assms(3) r by (cases k) auto
    then obtain j where k: "k = Suc j" by (cases k) auto
    obtain s :: int where "m = 2 * (s * 2 ^ 52)" "\<bar>s\<bar> = 1"
      using True by (intro that [of "sgn m"]) (auto simp: abs_if sgn_if split: if_splits)
    then have "r = of_int (s * 2 ^ 52) / 2 ^ j" "\<bar>s * 2 ^ 52\<bar> < 2 ^ 53" by (simp_all add: r k abs_mult)
    then show ?thesis using f64_round_exact [of "s * 2 ^ 52" j] e(2) k by simp
  qed
qed

lemma py_round_between:
  assumes "of_int a \<le> x" and "x \<le> of_int b" and "- (2 ^ 53) < a" and "b < 2 ^ 53"
  shows "\<exists>r. py_round n (Fin x) = Fin r \<and> of_int a \<le> r \<and> r \<le> of_int b \<and> f64_round r = Fin r"
proof -
  define y :: rat where "y = of_int (round_half_even (x * 10 ^ n)) / 10 ^ n"
  have "a * 10 ^ n \<le> round_half_even (x * 10 ^ n)" "round_half_even (x * 10 ^ n) \<le> b * 10 ^ n"
    using assms(1,2) by (auto intro!: round_half_even_ge round_half_even_le)
  then have "of_int (a * 10 ^ n) \<le> (of_int (round_half_even (x * 10 ^ n)) :: rat)"
    "of_int (round_half_even (x * 10 ^ n)) \<le> (of_int (b * 10 ^ n) :: rat)"
    by (simp_all only: of_int_le_iff)
  then have y: "of_int a \<le> y" "y \<le> of_int b" by (simp_all add: y_def field_simps)
  obtain r where r: "f64_round y = Fin r" "of_int a \<le> r" "r \<le> of_int b"
    using f64_round_between [OF y assms(3,4)] by blast
  have "(- (2 ^ 53) :: rat) < of_int a" "(of_int b :: rat) < 2 ^ 53"
    using assms(3,4) of_int_less_iff [of "- (2 ^ 53)" a, where ?'a = rat] of_int_less_iff [of b "2 ^ 53", where ?'a = rat] by simp_all
  then have "\<bar>y\<bar> < 2 ^ 53" "\<bar>r\<bar> < 2 ^ 53" using y r by linarith+
  then show ?thesis using r f64_round_idem [OF r(1)] by (simp add: y_def)
qed

lemma py_uniform_between:
  fixes a b :: int
  assumes "0 \<le> r" and "r \<le> 1" and "0 \<le> a" and "a \<le> b" and "b < 2 ^ 53"
  shows "\<exists>u. py_uniform (of_int a) (of_int b) r = Fin u \<and> of_int a \<le> u \<and> u \<le> of_int b"
proof -
  have ab: "(0 :: rat) \<le> of_int (b - a)" "(0 :: rat) \<le> of_int a" using assms(3,4) by (simp_all only: of_int_0_le_iff diff_ge_0_iff_ge)
  have "of_int 0 \<le> of_int (b - a) * r" "of_int (b - a) * r \<le> of_int (b - a)"
    using assms(1,2) ab(1) by (simp_all add: mult_left_le)
  from f64_round_between [OF this] obtain v where v: "f64_round (of_int (b - a) * r) = Fin v" "0 \<le> v" "v \<le> of_int (b - a)"
    using assms by auto
  have "of_int a \<le> of_int a + v" "of_int a + v \<le> of_int b" using v by simp_all
  from f64_round_between [OF this] show ?thesis using v assms by (simp add: py_uniform_def)
qed

lemma multiplier_between: "\<exists>c. (if upper_starts_with_H g then f64_round (5 / 4) else f64_round (11 / 10)) = Fin c \<and> 1 \<le> c \<and> c \<le> 5 / 4"
proof -
  have "f64_round (5 / 4) = Fin (5 / 4)" using f64_round_exact [of 5 2] by simp
  moreover have "f64_round (11 / 10) = Fin (2476979795053773 / 2251799813685248)" by code_simp
  ultimately show ?thesis
    by (intro exI [of _ "if upper_starts_with_H g then 5 / 4 else 2476979795053773 / 2251799813685248"]) simp
qed

section \<open>The simulation\<close>

lemma int_conversions:
  assumes "1 \<le> n" and "n < 2 ^ 31"
  shows "py_float_of_int (max n 1) = Inr (of_int n)" and "py_int_div n 16 = Inr (of_int n / 16)"
proof -
  have "f64_round (of_int n) = Fin (of_int n)" "f64_round (of_int n / 16) = Fin (of_int n / 16)"
    using f64_round_exact [of n 0] f64_round_exact [of n 4] assms by simp_all
  then show "py_float_of_int (max n 1) = Inr (of_int n)" "py_int_div n 16 = Inr (of_int n / 16)"
    using assms by (simp_all add: py_float_of_int_def py_int_div_def max_absorb1)
qed

lemma simulated_throughput:
  assumes "1 \<le> n" and "n < 2 ^ 31"
  shows "\<exists>t. py_round 2 (f64_div (f64_mul (Fin (if w = ''inference'' then 2200 else 1300))
               (if upper_starts_with_H g then f64_round (5 / 4) else f64_round (11 / 10))) (Fin (of_int n))) = Fin t \<and>
             0 \<le> t \<and> t \<le> 2750 \<and> f64_round t = Fin t"
proof -
  let ?base = "(if w = ''inference'' then 2200 else 1300) :: rat"
  obtain c where c: "(if upper_starts_with_H g then f64_round (5 / 4) else f64_round (11 / 10)) = Fin c" "1 \<le> c" "c \<le> 5 / 4"
    using multiplier_between by blast
  have "of_int 1300 \<le> ?base * c" "?base * c \<le> of_int 2750" using c(2,3) by simp_all
  from f64_round_between [OF this] obtain v where v: "f64_round (?base * c) = Fin v" "1300 \<le> v" "v \<le> 2750" by auto
  have n: "(1 :: rat) \<le> of_int n" using assms(1) by simp
  then have "v / of_int n \<le> v" using v(2) by (simp add: divide_le_eq mult_le_cancel_left1)
  then have "of_int 0 \<le> v / of_int n" "v / of_int n \<le> of_int 2750" using v n by simp_all
  from f64_round_between [OF this] obtain x where x: "f64_round (v / of_int n) = Fin x" "of_int 0 \<le> x" "x \<le> of_int 2750" by auto
  from py_round_between [OF x(2,3), of 2] show ?thesis using c(1) v(1) x(1) n by simp
qed

lemma simulated_latency:
  assumes "1 \<le> n" and "n < 2 ^ 31" and "0 \<le> r" and "r \<le> 1"
  shows "\<exists>l. py_round 3 (f64_add (py_uniform 3 12 r) (Fin (of_int n / 16))) = Fin l \<and>
             3 \<le> l \<and> l \<le> of_int (13 + n div 16) \<and> f64_round l = Fin l"
proof -
  obtain u where u: "py_uniform 3 12 r = Fin u" "3 \<le> u" "u \<le> 12"
    using py_uniform_between [of r 3 12] assms(3,4) by auto
  have d: "(of_int n :: rat) / 16 \<le> of_int (n div 16 + 1)"
  proof -
    have "n \<le> 16 * (n div 16 + 1)" by simp
    then have "(of_int n :: rat) \<le> of_int (16 * (n div 16 + 1))" by (simp only: of_int_le_iff)
    then show ?thesis by simp
  qed
  have b: "13 + n div 16 < 2 ^ 53" using assms(1,2) by simp
  have "of_int 3 \<le> u + of_int n / 16" "u + of_int n / 16 \<le> of_int (13 + n div 16)"
    using u d assms(1) by simp_all
  from f64_round_between [OF this _ b] obtain x where
    x: "f64_round (u + of_int n / 16) = Fin x" "of_int 3 \<le> x" "x \<le> of_int (13 + n div 16)" by auto
  from py_round_between [OF x(2,3) _ b, of 3] show ?thesis using u(1) x(1) by simp
qed

lemma simulated_bandwidth:
  assumes "0 \<le> r" and "r \<le> 1"
  shows "\<exists>m. py_round 2 (py_uniform 600 1500 r) = Fin m \<and> 600 \<le> m \<and> m \<le> 1500 \<and> f64_round m = Fin m"
proof -
  obtain u where u: "py_uniform 600 1500 r = Fin u" "of_int 600 \<le> u" "u \<le> of_int 1500"
    using py_uniform_between [of r 600 1500] assms by auto
  from py_round_between [OF u(2,3), of 2] show ?thesis using u(1) by simp
qed

definition finite_float :: "rat \<Rightarrow> float64 \<Rightarrow> rat \<Rightarrow> bool" where
  "finite_float lo f hi \<longleftrightarrow> (case f of Fin x \<Rightarrow> lo \<le> x \<and> x \<le> hi \<and> f64_round x = f | _ \<Rightarrow> False)"

lemma simulated_run_bounds_total:
  assumes "1 \<le> batch_size" and "batch_size < 2 ^ 31" and "0 \<le> draw1" and "draw1 < 1" and "0 \<le> draw2" and "draw2 < 1"
  shows "\<exists>res. simulated_run draw1 draw2 gpu_model workload_type batch_size = Inr res \<and>
           finite_float 0 (er_throughput res) 2750 \<and>
           finite_float 3 (er_latency_ms res) (of_int (13 + batch_size div 16)) \<and>
           finite_float 600 (er_memory_bandwidth_gbps res) 1500"
  using simulated_throughput [OF assms(1,2), of workload_type gpu_model] simulated_latency [OF assms(1-3)]
    simulated_bandwidth [OF assms(5)] assms(4,6)
  by (auto simp: simulated_run_def int_conversions [OF assms(1,2)] finite_float_def)

text \<open>
  C21. The simulation always measures: for every batch size that validation and the database let through
  and all draws, it returns without an exception, and its three numbers are finite floats: a throughput
  between 0 and 2750, a latency between 3 and 13 plus the sixteenth part of the batch, a memory
  bandwidth between 600 and 1500.
\<close>

theorem simulated_run_bounds:
  assumes "1 \<le> batch_size" and "batch_size < 2 ^ 31" and "0 \<le> draw1" and "draw1 < 1" and "0 \<le> draw2" and "draw2 < 1"
  shows "\<exists>res. simulated_run draw1 draw2 gpu_model workload_type batch_size = Inr res \<and>
           finite_float 0 (er_throughput res) 2750 \<and>
           finite_float 3 (er_latency_ms res) (of_int (13 + batch_size div 16)) \<and>
           finite_float 600 (er_memory_bandwidth_gbps res) 1500"
  using simulated_run_bounds_total [OF assms] .

theorem simulated_run_bounds_witness:
  "\<exists>res. simulated_run (1 / 2) (1 / 4) ''H100'' ''inference'' 32 = Inr res \<and> finite_float 0 (er_throughput res) 2750"
  using simulated_run_bounds [of 32 "1 / 2" "1 / 4" "''H100''" "''inference''"] by auto

end
