(* ===== verification/Backend_Engines.thy ===== *)
theory Backend_Engines
  imports Backend_Properties Engine_Properties
begin

text \<open>
  Workers with the engines of the backend: on a host without the NVIDIA runtime every queued benchmark
  completes, on a host with several GPUs every one fails.
\<close>

section \<open>The worker's engine\<close>

text \<open>
  The stored result. The numbers of the simulation are finite; the value given for the other floats is never
  used.
\<close>

fun finite_part :: "float64 \<Rightarrow> rat" where
  "finite_part (Fin x) = x"
| "finite_part _ = 0"

definition stored_result :: "EngineResult \<Rightarrow> BenchmarkResult" where
  "stored_result res =
     \<lparr>br_throughput = finite_part (er_throughput res), br_latency_ms = finite_part (er_latency_ms res),
      br_memory_bandwidth_gbps = finite_part (er_memory_bandwidth_gbps res)\<rparr>"

definition worker_engine :: "(string \<Rightarrow> float64 option) \<Rightarrow> engine_env \<Rightarrow> queue_item \<Rightarrow> string + BenchmarkResult" where
  "worker_engine py_float N it =
     (case engine_run py_float N (q_gpu_model it) (q_workload_type it) (q_batch_size it) of
        Inl exc \<Rightarrow> Inl exc | Inr res \<Rightarrow> Inr (stored_result res))"

section \<open>A host without GPUs\<close>

definition has_status :: "BenchmarkStatus \<Rightarrow> backend \<Rightarrow> uuid \<Rightarrow> bool" where
  "has_status st s i \<longleftrightarrow> (\<exists>b\<in>set (benchmark_rows (database s)). bm_id b = i \<and> bm_status b = st)"

lemma success_round:
  assumes inv: "backend_inv s" and q: "job_queue s \<noteq> []" and run: "run (last (job_queue s)) = Inr res"
  shows "job_queue (worker_round run s) = butlast (job_queue s) \<and>
         has_status completed (worker_round run s) (q_benchmark_id (last (job_queue s))) \<and>
         (\<forall>i. has_status completed s i \<longrightarrow> has_status completed (worker_round run s) i)"
proof -
  let ?it = "last (job_queue s)" and ?t = "worker_round run s"
  have w: "worked_off ?it completed (s\<lparr>job_queue := butlast (job_queue s)\<rparr>) ?t" and ok: "item_ok (benchmark_rows (database s)) ?it"
    using round_cases [OF inv q, of run] run by blast+
  obtain b where b: "b \<in> set (benchmark_rows (database s))" "bm_id b = q_benchmark_id ?it"
    using ok by (auto simp: item_ok_def)
  have rows: "set (benchmark_rows (database ?t)) =
      insert (set_row (q_benchmark_id ?it) completed (q_attempt ?it + 1) b) {c \<in> set (benchmark_rows (database s)). bm_id c \<noteq> q_benchmark_id ?it}"
    using w worked_rows [OF backend_invD(1) [OF inv] b, of completed "q_attempt ?it + 1"]
    by (simp add: worked_off_def worked_def)
  have new: "has_status completed ?t (q_benchmark_id ?it)" unfolding has_status_def rows using b(2) by (simp add: set_row_def)
  have "has_status completed ?t i" if "has_status completed s i" for i
    using that new unfolding has_status_def rows by (cases "i = q_benchmark_id ?it") auto
  then show ?thesis using w new by (simp add: worked_off_def)
qed

lemma success_rounds:
  assumes "backend_inv s" and "length (job_queue s) \<le> length runs"
    and "\<And>run it. run \<in> set runs \<Longrightarrow> it \<in> set (job_queue s) \<Longrightarrow> \<exists>res. run it = Inr res"
  shows "job_queue (work runs s) = [] \<and>
         (\<forall>i. has_status completed s i \<or> i \<in> q_benchmark_id ` set (job_queue s) \<longrightarrow> has_status completed (work runs s) i)"
  using assms
proof (induction runs arbitrary: s)
  case Nil
  then show ?case by simp
next
  case (Cons run runs)
  show ?case
  proof (cases "job_queue s = []")
    case True
    then show ?thesis using Cons.IH [of "worker_round run s"] Cons.prems(1) by (simp add: worker_round_def dequeue_def)
  next
    case False
    let ?t = "worker_round run s"
    obtain res where "run (last (job_queue s)) = Inr res" using Cons.prems(3) False by fastforce
    note t = success_round [of s run res, OF Cons.prems(1) False this]
    have "\<exists>r. run' it = Inr r" if "run' \<in> set runs" "it \<in> set (job_queue ?t)" for run' it
      using that t Cons.prems(3) in_set_butlastD by fastforce
    then have IH: "job_queue (work runs ?t) = []"
      "\<And>i. has_status completed ?t i \<or> i \<in> q_benchmark_id ` set (butlast (job_queue s)) \<Longrightarrow> has_status completed (work runs ?t) i"
      using Cons.IH [OF round_inv [OF Cons.prems(1)], of run] t Cons.prems(2) by auto
    have "set (job_queue s) = insert (last (job_queue s)) (set (butlast (job_queue s)))"
      using append_butlast_last_id [OF False] by (metis Un_insert_right set_append list.simps(15) empty_set sup_bot_right)
    then show ?thesis using IH t by auto
  qed
qed

definition cpu_host :: "engine_env \<Rightarrow> bool" where
  "cpu_host N \<longleftrightarrow> \<not> runtime_available (smi_check N) \<and>
     0 \<le> fst (draws N) \<and> fst (draws N) < 1 \<and> 0 \<le> snd (draws N) \<and> snd (draws N) < 1"

definition batch_ok :: "queue_item \<Rightarrow> bool" where
  "batch_ok it \<longleftrightarrow> 1 \<le> q_batch_size it \<and> q_batch_size it < 2 ^ 31"

text \<open>
  C20. On hosts without the NVIDIA runtime every benchmark completes: as many worker rounds as there are
  queued jobs empty the queue, whatever is drawn, and every job that was queued is completed.
\<close>

theorem cpu_host_completes_benchmarks:
  assumes "backend_inv s" and "\<forall>it\<in>set (job_queue s). batch_ok it" and "\<forall>N\<in>set Ns. cpu_host N"
    and "length (job_queue s) \<le> length Ns"
  shows "job_queue (work (map (worker_engine py_float) Ns) s) = [] \<and>
         (\<forall>i\<in>q_benchmark_id ` set (job_queue s). has_status completed (work (map (worker_engine py_float) Ns) s) i)"
proof -
  have "\<exists>res. run it = Inr res" if run: "run \<in> set (map (worker_engine py_float) Ns)" and it: "it \<in> set (job_queue s)" for run it
  proof -
    obtain N where N: "N \<in> set Ns" "run = worker_engine py_float N" using run by auto
    then show ?thesis
      using simulated_run_bounds_total [of "q_batch_size it" "fst (draws N)" "snd (draws N)" "q_gpu_model it" "q_workload_type it"] assms(2,3) it
      by (auto simp: worker_engine_def engine_run_def cpu_host_def batch_ok_def)
  qed
  then have "job_queue (work (map (worker_engine py_float) Ns) s) = [] \<and>
      (\<forall>i. has_status completed s i \<or> i \<in> q_benchmark_id ` set (job_queue s) \<longrightarrow>
           has_status completed (work (map (worker_engine py_float) Ns) s) i)"
    using assms(1,4) by (intro success_rounds) simp_all
  then show ?thesis by simp
qed

definition queued_example :: backend where
  "queued_example = fst (create_benchmark_job (\<lambda>_. Some example_create) id ''id-1'' 0 True JNull example_backend)"

lemma queued_example_simps: "backend_inv queued_example" "job_queue queued_example = [new_item ''id-1'' example_create]"
proof -
  show "backend_inv queued_example"
    unfolding queued_example_def by (rule post_inv [OF _ _ refl]) (simp_all add: backend_inv_def example_backend_def)
  show "job_queue queued_example = [new_item ''id-1'' example_create]" by (simp add: queued_example_def example_post)
qed

definition cpu_example :: engine_env where
  "cpu_example = \<lparr>draws = (1 / 2, 1 / 4), smi_check = Inl ''No such file or directory: nvidia-smi'', smi_names = Inl ''no file'', smi_usage = Inl ''no file''\<rparr>"

theorem cpu_host_completes_benchmarks_witness:
  "has_status completed (work [worker_engine (\<lambda>_. None) cpu_example] queued_example) ''id-1''"
proof -
  have "\<forall>N\<in>set [cpu_example]. cpu_host N" by (simp add: cpu_host_def cpu_example_def runtime_available_def)
  moreover have "\<forall>it\<in>set (job_queue queued_example). batch_ok it"
    by (simp add: queued_example_simps batch_ok_def new_item_def example_create_def)
  ultimately show ?thesis
    using cpu_host_completes_benchmarks [OF queued_example_simps(1), of "[cpu_example]" "\<lambda>_. None"]
    by (simp add: queued_example_simps new_item_def del: work.simps)
qed

section \<open>A host with several GPUs\<close>

text \<open>What is relied on of \<^verbatim>\<open>float\<close>: after stripping, a text that holds white space is not a number.\<close>

definition refuses_inner_space :: "(string \<Rightarrow> float64 option) \<Rightarrow> bool" where
  "refuses_inner_space py_float \<longleftrightarrow> (\<forall>s. (\<exists>c\<in>set (py_strip s). py_space c) \<longrightarrow> py_float (py_strip s) = None)"

text \<open>
  \<^verbatim>\<open>nvidia-smi\<close> prints a line for each GPU: its utilization, a comma and its memory. \<open>multi_gpu\<close> is the output
  for two or more of them.
\<close>

definition field_ok :: "string \<Rightarrow> bool" where
  "field_ok x \<longleftrightarrow> CHR '','' \<notin> set x \<and> (\<exists>c\<in>set x. \<not> py_space c)"

definition multi_gpu :: "string \<Rightarrow> bool" where
  "multi_gpu out \<longleftrightarrow>
     (\<exists>u1 m1 u2 rest. out = u1 @ '','' @ m1 @ [CHR 0x0A] @ u2 @ '','' @ rest \<and>
        CHR '','' \<notin> set u1 \<and> field_ok m1 \<and> field_ok u2)"

definition multi_gpu_host :: "engine_env \<Rightarrow> bool" where
  "multi_gpu_host N \<longleftrightarrow> runtime_available (smi_check N) \<and> runtime_available (smi_names N) \<and>
     (\<exists>code out. smi_usage N = Inr (code, out) \<and> multi_gpu out)"

lemma split_on_sep: "c \<notin> set a \<Longrightarrow> split_on c (a @ c # b) = a # split_on c b"
  by (induction a) auto

lemma dropWhile_inner:
  "\<exists>x\<in>set a. \<not> P x \<Longrightarrow> dropWhile P (a @ b) = dropWhile P a @ b \<and> (\<exists>x\<in>set (dropWhile P a). \<not> P x)"
  by (induction a) auto

lemma strip_inner:
  assumes "\<exists>c\<in>set a. \<not> py_space c" and "\<exists>c\<in>set b. \<not> py_space c"
  shows "set m \<subseteq> set (py_strip (a @ m @ b))"
proof -
  have "dropWhile py_space (a @ m @ b) = dropWhile py_space a @ m @ b" using dropWhile_inner [of a py_space "m @ b"] assms(1) by simp
  moreover have "dropWhile py_space (rev b @ rev m @ rev (dropWhile py_space a)) =
      dropWhile py_space (rev b) @ rev m @ rev (dropWhile py_space a)"
    using dropWhile_inner [of "rev b" py_space] assms(2) by simp
  ultimately show ?thesis by (auto simp: py_strip_def)
qed

lemma multi_gpu_refused:
  assumes "refuses_inner_space py_float" and "multi_gpu out"
  shows "\<exists>exc. first_two_floats py_float out = Inl exc"
proof -
  obtain u1 m1 u2 rest where out: "out = u1 @ CHR '','' # (m1 @ [CHR 0x0A] @ u2) @ CHR '','' # rest"
    and u: "CHR '','' \<notin> set u1" "field_ok m1" "field_ok u2"
    using assms(2) by (auto simp: multi_gpu_def)
  have nl: "CHR '','' \<notin> set (m1 @ [CHR 0x0A] @ u2)" using u by (simp add: field_ok_def)
  have parts: "take 2 (split_on (CHR '','') out) = [u1, m1 @ [CHR 0x0A] @ u2]"
    unfolding out split_on_sep [OF u(1)] split_on_sep [OF nl] by simp
  have "CHR 0x0A \<in> set (py_strip (m1 @ [CHR 0x0A] @ u2))"
    using strip_inner [of m1 u2 "[CHR 0x0A]"] u(2,3) by (auto simp: field_ok_def)
  moreover have "py_space (CHR 0x0A)" by (simp add: py_space_def)
  ultimately have "py_float (py_strip (m1 @ [CHR 0x0A] @ u2)) = None"
    using assms(1) unfolding refuses_inner_space_def by blast
  then show ?thesis unfolding first_two_floats_def Let_def parts by auto
qed

lemma failing_work:
  assumes "\<And>run it. run \<in> set runs \<Longrightarrow> \<exists>exc. run it = Inl exc"
  shows "result_rows (database (work runs s)) = result_rows (database s)"
  using assms
proof (induction runs arbitrary: s)
  case (Cons run runs)
  have "result_rows (database (process_job run it t)) = result_rows (database t)" for it t
    using Cons.prems [of run it] by (auto simp: process_job_defs on_exception_def Let_def)
  then have "result_rows (database (worker_round run s)) = result_rows (database s)"
    by (simp add: worker_round_def split: option.split)
  then show ?case using Cons by simp
qed simp

text \<open>
  C26. On hosts with two or more GPUs every benchmark fails: the adapter reads the end of the first line
  and the beginning of the second as one number. Three worker rounds per queued job empty the queue,
  no result is stored, and every job that was queued has failed.
\<close>

theorem multi_gpu_host_fails_benchmarks:
  assumes "backend_inv s" and "refuses_inner_space py_float" and "\<forall>N\<in>set Ns. multi_gpu_host N"
    and "3 * length (job_queue s) \<le> length Ns"
  shows "job_queue (work (map (worker_engine py_float) Ns) s) = [] \<and>
         result_rows (database (work (map (worker_engine py_float) Ns) s)) = result_rows (database s) \<and>
         (\<forall>i\<in>q_benchmark_id ` set (job_queue s). has_status failed (work (map (worker_engine py_float) Ns) s) i)"
proof -
  let ?t = "work (map (worker_engine py_float) Ns) s"
  have "\<exists>exc. run it = Inl exc" if "run \<in> set (map (worker_engine py_float) Ns)" for run it
    using that assms(3) multi_gpu_refused [OF assms(2)]
    by (fastforce simp: worker_engine_def engine_run_def nvidia_run_def multi_gpu_host_def)
  then have res: "result_rows (database ?t) = result_rows (database s)" by (rule failing_work)
  have inv: "backend_inv ?t" using work_inv [OF assms(1)] .
  have drained: "job_queue ?t = []" "\<And>i. i \<in> q_benchmark_id ` set (job_queue s) \<Longrightarrow> settled ?t i"
    using work_drains [of s "map (worker_engine py_float) Ns"] assms(1,4) by auto
  have "has_status failed ?t i" if "i \<in> q_benchmark_id ` set (job_queue s)" for i
  proof -
    have "i \<notin> fst ` set (result_rows (database s))"
      using that queued_no_result [OF assms(1)] by auto
    then have "i \<notin> bm_id ` {b \<in> set (benchmark_rows (database ?t)). bm_status b = completed}"
      using backend_invD(4) [OF inv] res by simp
    then show ?thesis using drained(2) [OF that] by (auto simp: settled_def has_status_def)
  qed
  then show ?thesis using res drained(1) by blast
qed

text \<open>Two GPUs, and a reading of numbers that knows the unsigned integers.\<close>

definition two_gpu_example :: engine_env where
  "two_gpu_example =
     \<lparr>draws = (0, 0), smi_check = Inr (0, ''A''), smi_names = Inr (0, ''A''),
      smi_usage = Inr (0, ''37, 1024'' @ [CHR 0x0A] @ ''40, 2048'' @ [CHR 0x0A])\<rparr>"

definition digits_only :: "string \<Rightarrow> float64 option" where
  "digits_only s = (if s \<noteq> [] \<and> (\<forall>c\<in>set s. 48 \<le> (of_char c :: nat) \<and> (of_char c :: nat) \<le> 57) then Some (f64_round (of_nat (read_nat s))) else None)"

theorem multi_gpu_host_fails_benchmarks_witness:
  "has_status failed (work (replicate 3 (worker_engine digits_only two_gpu_example)) queued_example) ''id-1''"
proof -
  have "multi_gpu (''37, 1024'' @ [CHR 0x0A] @ ''40, 2048'' @ [CHR 0x0A])"
    unfolding multi_gpu_def
    by (intro exI [of _ "''37''"] exI [of _ "'' 1024''"] exI [of _ "''40''"] exI [of _ "'' 2048'' @ [CHR 0x0A]"])
       (simp add: field_ok_def py_space_def)
  then have "\<forall>N\<in>set (replicate 3 two_gpu_example). multi_gpu_host N"
    by (simp add: multi_gpu_host_def two_gpu_example_def runtime_available_def)
  moreover have "refuses_inner_space digits_only"
    unfolding refuses_inner_space_def digits_only_def py_space_def by fastforce
  moreover have "3 * length (job_queue queued_example) \<le> length (replicate 3 two_gpu_example)"
    by (simp add: queued_example_simps)
  ultimately show ?thesis
    using multi_gpu_host_fails_benchmarks [OF queued_example_simps(1), of digits_only "replicate 3 two_gpu_example"]
    unfolding queued_example_simps(2) map_replicate by (simp add: new_item_def del: work.simps replicate.simps)
qed

end
