(* ===== verification/Backend_History.thy ===== *)
theory Backend_History
  imports Backend_Properties "HOL-Library.Multiset"
begin

text \<open>
  The history of a GPU model (\<^verbatim>\<open>GET /benchmarks/gpu/{gpu_model}\<close>). PostgreSQL leaves the order of rows with
  equal timestamps open, so \<^verbatim>\<open>ORDER BY created_at DESC\<close> is a parameter.
\<close>

section \<open>Model\<close>

record BenchmarkHistoryItem =
  hi_job_id :: uuid
  hi_status :: string
  hi_workload_type :: string
  hi_batch_size :: int
  hi_submitted_at :: time
  hi_throughput :: "rat option"
  hi_latency_ms :: "rat option"

definition history_item :: "(uuid \<times> BenchmarkResult) list \<Rightarrow> Benchmark \<Rightarrow> BenchmarkHistoryItem" where
  "history_item rs b =
     \<lparr>hi_job_id = bm_id b, hi_status = status_text (bm_status b), hi_workload_type = bm_workload_type b,
      hi_batch_size = bm_batch_size b, hi_submitted_at = bm_created_at b,
      hi_throughput = map_option br_throughput (map_of rs (bm_id b)),
      hi_latency_ms = map_option br_latency_ms (map_of rs (bm_id b))\<rparr>"

definition get_gpu_history ::
  "(Benchmark list \<Rightarrow> Benchmark list) \<Rightarrow> db \<Rightarrow> string \<Rightarrow> nat \<Rightarrow> BenchmarkHistoryItem list" where
  "get_gpu_history order_desc d gpu_model limit =
     map (history_item (result_rows d))
       (take limit (order_desc (filter (\<lambda>b. bm_gpu_model b = gpu_model) (benchmark_rows d))))"

definition default_history_limit :: int where
  "default_history_limit = 100"

definition optional_number :: "rat option \<Rightarrow> json" where
  "optional_number x = (case x of None \<Rightarrow> JNull | Some r \<Rightarrow> JNum r)"

definition history_json :: "BenchmarkHistoryItem \<Rightarrow> json" where
  "history_json x =
     JObj [(''job_id'', JStr (hi_job_id x)), (''status'', JStr (hi_status x)), (''workload_type'', JStr (hi_workload_type x)),
           (''batch_size'', JNum (of_int (hi_batch_size x))), (''submitted_at'', json_time (hi_submitted_at x)),
           (''throughput'', optional_number (hi_throughput x)), (''latency_ms'', optional_number (hi_latency_ms x))]"

text \<open>The route: \<open>limit\<close> is the query parameter, \<open>None\<close> when it is absent.\<close>

definition get_benchmark_history ::
  "(Benchmark list \<Rightarrow> Benchmark list) \<Rightarrow> backend \<Rightarrow> string \<Rightarrow> int option \<Rightarrow> http_response" where
  "get_benchmark_history order_desc s gpu_model limit =
     (let n = (case limit of None \<Rightarrow> default_history_limit | Some n \<Rightarrow> n)
      in if n < 1 \<or> 500 < n then error_response 422 ''invalid request''
         else \<lparr>StatusCode = 200,
               Body = Some (JArr (map history_json (get_gpu_history order_desc (database s) gpu_model (nat n))))\<rparr>)"

section \<open>Properties\<close>

definition orders_desc :: "(Benchmark list \<Rightarrow> Benchmark list) \<Rightarrow> bool" where
  "orders_desc f \<longleftrightarrow> (\<forall>xs. mset (f xs) = mset xs \<and> sorted_wrt (\<lambda>a b. bm_created_at b \<le> bm_created_at a) (f xs))"

lemma history_item_simps [simp]:
  "hi_job_id (history_item rs b) = bm_id b" "hi_submitted_at (history_item rs b) = bm_created_at b"
  by (simp_all add: history_item_def)

lemma status_text_completed: "status_text st = ''completed'' \<longleftrightarrow> st = completed"
  by (cases st) simp_all

text \<open>A result exists exactly for a completed row.\<close>

lemma result_iff_completed:
  assumes "backend_inv s" and "b \<in> set (benchmark_rows (database s))"
  shows "map_of (result_rows (database s)) (bm_id b) \<noteq> None \<longleftrightarrow> bm_status b = completed"
proof -
  have "map_of (result_rows (database s)) (bm_id b) \<noteq> None \<longleftrightarrow>
      bm_id b \<in> bm_id ` {c \<in> set (benchmark_rows (database s)). bm_status c = completed}"
    unfolding map_of_eq_None_iff backend_invD(4) [OF assms(1), symmetric] by simp
  also have "\<dots> \<longleftrightarrow> bm_status b = completed"
  proof
    assume "bm_id b \<in> bm_id ` {c \<in> set (benchmark_rows (database s)). bm_status c = completed}"
    then obtain c where "c \<in> set (benchmark_rows (database s))" "bm_status c = completed" "bm_id b = bm_id c" by blast
    then show "bm_status b = completed" using same_id [OF backend_invD(1) [OF assms(1)] assms(2), of c] by simp
  qed (use assms(2) in simp)
  finally show ?thesis .
qed

text \<open>
  C29. The history of a GPU model is its newest benchmarks: as many as asked for or as there are, each
  once, newest first, none of them older than one that is left out; a throughput is given exactly for
  the completed ones.
\<close>

theorem history_is_the_newest:
  assumes "backend_inv s" and "orders_desc order_desc"
  shows "let h = get_gpu_history order_desc (database s) g n;
             bs = filter (\<lambda>b. bm_gpu_model b = g) (benchmark_rows (database s))
         in length h = min n (length bs) \<and> distinct (map hi_job_id h) \<and> hi_job_id ` set h \<subseteq> bm_id ` set bs \<and>
            sorted_wrt (\<lambda>x y. hi_submitted_at y \<le> hi_submitted_at x) h \<and>
            (\<forall>x\<in>set h. \<forall>b\<in>set bs. bm_id b \<in> hi_job_id ` set h \<or> bm_created_at b \<le> hi_submitted_at x) \<and>
            (\<forall>x\<in>set h. hi_throughput x \<noteq> None \<longleftrightarrow> hi_status x = ''completed'')"
proof -
  define bs where "bs = filter (\<lambda>b. bm_gpu_model b = g) (benchmark_rows (database s))"
  define l where "l = order_desc bs"
  let ?f = "history_item (result_rows (database s))"
  have perm: "mset l = mset bs" and sorted: "sorted_wrt (\<lambda>a b. bm_created_at b \<le> bm_created_at a) (take n l @ drop n l)"
    using assms(2) by (simp_all add: orders_desc_def l_def)
  have set: "set l = set bs" and len: "length l = length bs"
    using perm mset_eq_setD mset_eq_length by blast+
  have "distinct (map bm_id bs)" using backend_invD(1) [OF assms(1)] by (simp add: bs_def distinct_map_filter)
  then have "distinct (map bm_id l)" using perm by (metis mset_eq_imp_distinct_iff mset_map)
  then have dist: "distinct (map bm_id (take n l))" by (simp add: take_map [symmetric])
  have h: "get_gpu_history order_desc (database s) g n = map ?f (take n l)" by (simp add: get_gpu_history_def l_def bs_def)
  have newest: "bm_id b \<in> bm_id ` set (take n l) \<or> bm_created_at b \<le> bm_created_at a" if "a \<in> set (take n l)" "b \<in> set bs" for a b
  proof (cases "b \<in> set (take n l)")
    case False
    then have "b \<in> set (drop n l)" using that(2) set append_take_drop_id [of n l] by (metis UnE set_append)
    then show ?thesis using sorted that(1) unfolding sorted_wrt_append by blast
  qed simp
  have "hi_throughput (?f b) \<noteq> None \<longleftrightarrow> hi_status (?f b) = ''completed''" if "b \<in> set (take n l)" for b
  proof -
    have "b \<in> set (benchmark_rows (database s))" using that set in_set_takeD [of b n l] by (auto simp: bs_def)
    then show ?thesis using result_iff_completed [OF assms(1)] by (simp add: history_item_def status_text_completed)
  qed
  moreover have "hi_job_id ` set (map ?f (take n l)) = bm_id ` set (take n l)" by (simp add: image_image)
  moreover have "bm_id ` set (take n l) \<subseteq> bm_id ` set bs" using set set_take_subset [of n l] by (simp add: image_mono)
  ultimately show ?thesis
    unfolding Let_def h bs_def [symmetric] using dist sorted len newest
    by (simp add: sorted_wrt_map sorted_wrt_append comp_def min.commute)
qed

lemma sort_key_orders: "orders_desc (sort_key (\<lambda>b. - bm_created_at b))"
proof -
  have "sorted_wrt (\<lambda>a b. bm_created_at b \<le> bm_created_at a) (sort_key (\<lambda>b. - bm_created_at b) xs)" for xs :: "Benchmark list"
    using sorted_sort_key [of "\<lambda>b. - bm_created_at b" xs] by (simp add: sorted_map)
  then show ?thesis unfolding orders_desc_def by simp
qed

theorem history_is_the_newest_witness:
  "length (get_gpu_history (sort_key (\<lambda>b. - bm_created_at b))
     (database (fst (create_benchmark_job (\<lambda>_. Some example_create) id ''id-1'' 0 True JNull example_backend))) ''H100'' 10) = 1"
proof -
  let ?s = "fst (create_benchmark_job (\<lambda>_. Some example_create) id ''id-1'' 0 True JNull example_backend)"
  have "backend_inv ?s" by (rule post_inv [OF _ _ refl]) (simp_all add: backend_inv_def example_backend_def)
  note h = history_is_the_newest [OF this sort_key_orders, of "''H100''" 10, unfolded Let_def, THEN conjunct1]
  have "rq_gpu_model example_create = ''H100''" by (simp add: example_create_def)
  then have "filter (\<lambda>b. bm_gpu_model b = ''H100'') (benchmark_rows (database ?s)) = [new_row id ''id-1'' 0 example_create]"
    by (simp add: example_post new_row_def)
  with h show ?thesis by (simp only: list.size)
qed

end
