(* ===== verification/Backend_Ledger.thy ===== *)
theory Backend_Ledger
  imports Backend_Properties
begin

text \<open>
  What the backend promises its clients, as a specification without tables and queue: a ledger that
  maps an idempotency key to the identifier of a job and how far the job is. The model of the backend
  implements it.
\<close>

section \<open>Specification\<close>

datatype job_state = Waiting int | Done BenchmarkResult | Dead

type_synonym ledger = "string \<rightharpoonup> uuid \<times> job_state"

inductive ledger_step :: "ledger \<Rightarrow> ledger \<Rightarrow> bool" where
  idle: "ledger_step L L"
| accept: "k \<notin> dom L \<Longrightarrow> i \<notin> fst ` ran L \<Longrightarrow> ledger_step L (L(k \<mapsto> (i, Waiting 0)))"
| retry: "L k = Some (i, Waiting n) \<Longrightarrow> n + 1 < worker_max_retries \<Longrightarrow> ledger_step L (L(k \<mapsto> (i, Waiting (n + 1))))"
| finish: "L k = Some (i, Waiting n) \<Longrightarrow> n < worker_max_retries \<Longrightarrow> ledger_step L (L(k \<mapsto> (i, Done r)))"
| give_up: "L k = Some (i, Waiting n) \<Longrightarrow> n + 1 = worker_max_retries \<Longrightarrow> ledger_step L (L(k \<mapsto> (i, Dead)))"

text \<open>In the specification a job that is done or dead stays so.\<close>

lemma ledger_final:
  assumes "ledger_step L L'" and "L k = Some (i, st)" and "\<forall>n. st \<noteq> Waiting n"
  shows "L' k = Some (i, st)"
  using assms by cases auto

section \<open>Abstraction\<close>

definition state_of :: "(uuid \<times> BenchmarkResult) list \<Rightarrow> Benchmark \<Rightarrow> job_state" where
  "state_of rs b =
     (case bm_status b of
        completed \<Rightarrow> (case map_of rs (bm_id b) of Some r \<Rightarrow> Done r | None \<Rightarrow> Dead)
      | failed \<Rightarrow> Dead
      | _ \<Rightarrow> Waiting (bm_attempt_count b))"

definition ledger_of :: "backend \<Rightarrow> ledger" where
  "ledger_of s k =
     map_option (\<lambda>b. (bm_id b, state_of (result_rows (database s)) b)) (find_by_key (database s) k)"

lemma ledger_of_row:
  assumes "backend_inv s" and "b \<in> set (benchmark_rows (database s))"
  shows "ledger_of s (bm_idempotency_key b) = Some (bm_id b, state_of (result_rows (database s)) b)"
  using find_distinct [OF backend_invD(2) [OF assms(1)] assms(2)] by (simp add: ledger_of_def find_by_key_def)

lemma ledger_ids: "fst ` ran (ledger_of s) \<subseteq> bm_id ` set (benchmark_rows (database s))"
  by (auto simp: ran_def ledger_of_def find_by_key_def dest: find_SomeD)

section \<open>Refinement\<close>

lemma insert_ledger:
  assumes key: "find_by_key (database s) (request_key sha256 rq) = None"
    and d: "database t = (database s)\<lparr>gpu_model_rows := ms, benchmark_rows := benchmark_rows (database s) @ [new_row sha256 newid now rq]\<rparr>"
  shows "ledger_of t = (ledger_of s)(request_key sha256 rq \<mapsto> (newid, Waiting 0))"
proof
  fix k
  show "ledger_of t k = ((ledger_of s)(request_key sha256 rq \<mapsto> (newid, Waiting 0))) k"
    using key by (cases "find_by_key (database s) k")
      (auto simp: ledger_of_def d find_by_key_def find_append new_row_def state_of_def)
qed

lemma no_key_no_entry: "find_by_key (database s) k = None \<Longrightarrow> k \<notin> dom (ledger_of s)"
  by (simp add: ledger_of_def domIff)

lemma accept_refines:
  assumes "newid \<notin> bm_id ` set (benchmark_rows (database s))"
    and "t = fst (create_benchmark_job parse sha256 newid now ok body s)"
  shows "ledger_step (ledger_of s) (ledger_of t)"
  using post_result [OF assms(2)]
proof (elim disjE exE conjE)
  assume "t = s"
  then show ?thesis by (simp add: ledger_step.idle)
next
  fix rq ms
  assume key: "find_by_key (database s) (request_key sha256 rq) = None"
    and d: "database t = (database s)\<lparr>gpu_model_rows := ms, benchmark_rows := benchmark_rows (database s) @ [new_row sha256 newid now rq]\<rparr>"
  have "newid \<notin> fst ` ran (ledger_of s)" using ledger_ids assms(1) by blast
  then show ?thesis
    using ledger_step.accept [OF no_key_no_entry [OF key]] insert_ledger [OF key d] by simp
qed

text \<open>A change of one row changes the entry of its key.\<close>

lemma row_ledger:
  assumes inv: "backend_inv s" and b: "b \<in> set (benchmark_rows (database s))"
    and rows: "benchmark_rows (database t) = map (set_row (bm_id b) st n) (benchmark_rows (database s))"
    and rs: "result_rows (database t) = result_rows (database s) @ rs" "fst ` set rs \<subseteq> {bm_id b}"
  shows "ledger_of t =
     (ledger_of s)(bm_idempotency_key b \<mapsto> (bm_id b, state_of (result_rows (database t)) (set_row (bm_id b) st n b)))"
proof
  fix k
  let ?f = "set_row (bm_id b) st n"
  have found: "find_by_key (database t) k = map_option ?f (find_by_key (database s) k)"
    using rows by (simp add: find_by_key_def find_map_row comp_def)
  show "ledger_of t k = ((ledger_of s)(bm_idempotency_key b \<mapsto> (bm_id b, state_of (result_rows (database t)) (?f b)))) k"
  proof (cases "k = bm_idempotency_key b")
    case True
    then show ?thesis
      using found find_distinct [OF backend_invD(2) [OF inv] b] by (simp add: ledger_of_def find_by_key_def)
  next
    case False
    have "?f c = c \<and> state_of (result_rows (database t)) c = state_of (result_rows (database s)) c"
      if "find_by_key (database s) k = Some c" for c
    proof -
      have c: "c \<in> set (benchmark_rows (database s))" "bm_idempotency_key c = k"
        using that by (auto simp: find_by_key_def dest: find_SomeD)
      then have ne: "bm_id c \<noteq> bm_id b" using same_id [OF backend_invD(1) [OF inv] c(1) b] False by auto
      then have "bm_id c \<notin> fst ` set rs" using rs(2) by blast
      then have "map_of rs (bm_id c) = None" by (simp only: map_of_eq_None_iff not_False_eq_True)
      then show ?thesis using ne rs(1)
        by (simp add: set_row_def state_of_def map_add_def split: BenchmarkStatus.split option.split)
    qed
    then show ?thesis using False by (cases "find_by_key (database s) k") (simp_all add: ledger_of_def found)
  qed
qed

lemma round_ledger:
  assumes inv: "backend_inv s" and q: "job_queue s \<noteq> []" and b: "b \<in> set (benchmark_rows (database s))"
      "bm_id b = q_benchmark_id (last (job_queue s))"
    and w: "worked_off (last (job_queue s)) st (s\<lparr>job_queue := butlast (job_queue s)\<rparr>) (worker_round run s)"
  shows "ledger_of (worker_round run s) =
     (ledger_of s)(bm_idempotency_key b \<mapsto>
        (bm_id b, state_of (result_rows (database (worker_round run s)))
                    (set_row (bm_id b) st (q_attempt (last (job_queue s)) + 1) b)))"
proof (rule row_ledger [OF inv b(1) _ round_results [OF inv q]])
  show "benchmark_rows (database (worker_round run s)) =
      map (set_row (bm_id b) st (q_attempt (last (job_queue s)) + 1)) (benchmark_rows (database s))"
    using w b(2) by (simp add: worked_off_def worked_def)
  show "fst ` set (case run (last (job_queue s)) of Inl exc \<Rightarrow> [] | Inr res \<Rightarrow> [(q_benchmark_id (last (job_queue s)), res)])
      \<subseteq> {bm_id b}"
    using b(2) by (cases "run (last (job_queue s))") simp_all
qed

lemma round_refines:
  assumes inv: "backend_inv s"
  shows "ledger_step (ledger_of s) (ledger_of (worker_round run s))"
proof (cases "job_queue s = []")
  case True
  then show ?thesis by (simp add: worker_round_def dequeue_def ledger_step.idle)
next
  case False
  let ?it = "last (job_queue s)"
  obtain st where w: "worked_off ?it st (s\<lparr>job_queue := butlast (job_queue s)\<rparr>) (worker_round run s)"
    and ok: "item_ok (benchmark_rows (database s)) ?it" and st: "st = completed \<longleftrightarrow> (\<exists>res. run ?it = Inr res)"
    using round_cases [OF inv False, of run] by blast
  obtain b where b: "b \<in> set (benchmark_rows (database s))" "bm_id b = q_benchmark_id ?it" "bm_status b \<in> {queued, running}"
      "bm_attempt_count b = q_attempt ?it" "q_attempt ?it < worker_max_retries"
    using ok by (auto simp: item_ok_def)
  have old: "ledger_of s (bm_idempotency_key b) = Some (bm_id b, Waiting (q_attempt ?it))"
    using ledger_of_row [OF inv b(1)] b(3,4) by (auto simp: state_of_def)
  note new = round_ledger [OF inv False b(1,2) w]
  consider "st = running" "q_attempt ?it + 1 < worker_max_retries" | "st = failed" "q_attempt ?it + 1 = worker_max_retries"
    | res where "st = completed" "run ?it = Inr res"
    using w b(5) st by (auto simp: worked_off_def split: if_splits)
  then show ?thesis
  proof cases
    case 1
    then show ?thesis using ledger_step.retry [of "ledger_of s", OF old] by (simp add: new state_of_def set_row_def)
  next
    case 2
    then show ?thesis using ledger_step.give_up [of "ledger_of s", OF old] by (simp add: new state_of_def set_row_def)
  next
    case (3 res)
    have "bm_id b \<notin> fst ` set (result_rows (database s))"
      using queued_no_result [OF inv last_in_set [OF False]] b(2) by simp
    then have "map_of (result_rows (database s)) (bm_id b) = None" by (simp only: map_of_eq_None_iff not_False_eq_True)
    then have "map_of (result_rows (database (worker_round run s))) (bm_id b) = Some res"
      using round_results [OF inv False, of run] 3(2) b(2) by (simp add: map_add_def)
    then show ?thesis using 3(1) ledger_step.finish [of "ledger_of s", OF old b(5)] by (simp add: new state_of_def set_row_def)
  qed
qed

interpretation ledger: simulation "backend_step parse sha256" backend_inv ledger_step ledger_of for parse sha256
proof
  show "backend_inv t" if "backend_inv s" "backend_step parse sha256 s t" for s t
    using that by (rule service.inv_step)
  show "ledger_step (ledger_of s) (ledger_of t)" if "backend_inv s" "backend_step parse sha256 s t" for s t
    using that(2,1) by cases (auto intro: accept_refines round_refines)
qed

section \<open>Properties\<close>

text \<open>
  The backend implements the ledger: every submission and every worker round, from any state that
  satisfies the invariant, is a step of the specification. A key is bound to one job identifier once, a
  waiting job is tried again at most twice, and it ends with the result the engine returned or dead
  after the third attempt.
\<close>

theorem backend_refines_ledger:
  assumes "backend_inv s" and "backend_step parse sha256 s t"
  shows "ledger_step (ledger_of s) (ledger_of t)"
  using assms by (rule ledger.spec_step)

theorem backend_refines_ledger_witness:
  "ledger_step (ledger_of example_backend)
     (ledger_of (fst (create_benchmark_job (\<lambda>_. Some example_create) id ''id-1'' 0 True JNull example_backend)))"
proof (rule backend_refines_ledger)
  show "backend_inv example_backend" by (simp add: backend_inv_def example_backend_def)
  show "backend_step (\<lambda>_. Some example_create) id example_backend
      (fst (create_benchmark_job (\<lambda>_. Some example_create) id ''id-1'' 0 True JNull example_backend))"
    by (rule backend_step.posted) (simp add: example_backend_def)
qed

text \<open>
  Outcomes are final: once the row of a key is completed with some result, then after any further
  submissions and worker rounds the key still belongs to the same job with the same result; a failed
  job stays failed.
\<close>

theorem outcomes_are_final:
  assumes "backend_inv s" and "ledger_of s k = Some (i, st)" and "st = Dead \<or> (\<exists>r. st = Done r)"
    and "(backend_step parse sha256)\<^sup>*\<^sup>* s t"
  shows "ledger_of t k = Some (i, st)"
proof (rule ledger.stable [of "\<lambda>L. L k = Some (i, st)", OF _ assms(4,1,2)])
  show "L' k = Some (i, st)" if "L k = Some (i, st)" "ledger_step L L'" for L L'
    using ledger_final [of L L' k i st] that assms(3) by auto
qed

definition done_backend :: backend where
  "done_backend =
     \<lparr>database = \<lparr>gpu_model_rows = [''H100''],
                  benchmark_rows = [(new_row id ''id-0'' 0 (example_create\<lparr>rq_idempotency_key := Some ''team/a100''\<rparr>))
                                      \<lparr>bm_status := completed, bm_attempt_count := 1\<rparr>],
                  result_rows = [(''id-0'', \<lparr>br_throughput = 42, br_latency_ms = 5, br_memory_bandwidth_gbps = 700\<rparr>)]\<rparr>,
      job_queue = [], dead_letters = []\<rparr>"

theorem outcomes_are_final_witness:
  "ledger_of (fst (create_benchmark_job (\<lambda>_. Some example_create) id ''id-1'' 0 True JNull done_backend)) ''team/a100'' =
     Some (''id-0'', Done \<lparr>br_throughput = 42, br_latency_ms = 5, br_memory_bandwidth_gbps = 700\<rparr>)"
proof (rule outcomes_are_final)
  show "backend_inv done_backend"
    by (simp add: backend_inv_def done_backend_def new_row_def worker_max_retries_def Collect_conv_if)
  show "ledger_of done_backend ''team/a100'' = Some (''id-0'', Done \<lparr>br_throughput = 42, br_latency_ms = 5, br_memory_bandwidth_gbps = 700\<rparr>)"
    by (simp add: ledger_of_def done_backend_def find_by_key_def new_row_def state_of_def request_key_def example_create_def)
  show "(backend_step (\<lambda>_. Some example_create) id)\<^sup>*\<^sup>* done_backend
      (fst (create_benchmark_job (\<lambda>_. Some example_create) id ''id-1'' 0 True JNull done_backend))"
    by (rule r_into_rtranclp, rule backend_step.posted) (simp add: done_backend_def new_row_def)
qed simp

end
