(* ===== verification/Backend_Workers.thy ===== *)
theory Backend_Workers
  imports Backend_Ledger "HOL-Library.Multiset"
begin

text \<open>
  The backend with its processes taken apart: an API process commits a row and pushes the job
  afterwards, a worker takes a job from the queue, marks it as running, and stores the outcome; any
  number of them run at the same time, and each can stop between two of these steps.
\<close>

section \<open>State and steps\<close>

text \<open>
  Besides tables and queue, what the processes hold: jobs whose row is committed and whose push is
  outstanding, jobs taken from the queue, jobs that are being executed.
\<close>

record service =
  core :: backend
  unpushed :: "queue_item list"
  taken :: "queue_item list"
  executing :: "queue_item list"

text \<open>
  In \<open>committed\<close> only the state at the commit is the present one: what the statements before it saw is
  arbitrary, as other processes commit in between. A worker stops before it started the job, before it stored
  the outcome, or between the two writes after the last attempt, to the dead-letter queue and to the row.
\<close>

inductive service_step ::
  "(json \<Rightarrow> BenchmarkCreateRequest option) \<Rightarrow> (string \<Rightarrow> string) \<Rightarrow> service \<Rightarrow> service \<Rightarrow> bool" for parse sha256 where
  committed: "parse body = Some rq \<Longrightarrow> newid \<notin> bm_id ` set (benchmark_rows (database (core s))) \<Longrightarrow>
     snap 3 = database (core s) \<Longrightarrow> create_benchmark sha256 newid now rq snap = (Created b, Some d) \<Longrightarrow>
     service_step parse sha256 s (s\<lparr>core := (core s)\<lparr>database := d\<rparr>, unpushed := new_item newid rq # unpushed s\<rparr>)"
| pushed: "it \<in> set (unpushed s) \<Longrightarrow>
     service_step parse sha256 s
       (s\<lparr>core := (core s)\<lparr>job_queue := enqueue it (job_queue (core s))\<rparr>, unpushed := remove1 it (unpushed s)\<rparr>)"
| push_failed: "it \<in> set (unpushed s) \<Longrightarrow> service_step parse sha256 s (s\<lparr>unpushed := remove1 it (unpushed s)\<rparr>)"
| took: "dequeue (job_queue (core s)) = Some (it, q) \<Longrightarrow>
     service_step parse sha256 s (s\<lparr>core := (core s)\<lparr>job_queue := q\<rparr>, taken := it # taken s\<rparr>)"
| started: "it \<in> set (taken s) \<Longrightarrow>
     service_step parse sha256 s
       (s\<lparr>core := start_job it (core s), taken := remove1 it (taken s), executing := it # executing s\<rparr>)"
| finished: "it \<in> set (executing s) \<Longrightarrow>
     service_step parse sha256 s (s\<lparr>core := finish_job run it (core s), executing := remove1 it (executing s)\<rparr>)"
| stopped_idle: "it \<in> set (taken s) \<Longrightarrow> service_step parse sha256 s (s\<lparr>taken := remove1 it (taken s)\<rparr>)"
| stopped_busy: "it \<in> set (executing s) \<Longrightarrow> service_step parse sha256 s (s\<lparr>executing := remove1 it (executing s)\<rparr>)"
| stopped_late: "it \<in> set (executing s) \<Longrightarrow> \<not> q_attempt it + 1 < worker_max_retries \<Longrightarrow>
     service_step parse sha256 s
       (s\<lparr>core := (core s)\<lparr>dead_letters := move_to_dlq it exc (dead_letters (core s))\<rparr>, executing := remove1 it (executing s)\<rparr>)"

text \<open>The jobs that are queued or in the hands of a process.\<close>

definition held :: "service \<Rightarrow> uuid list" where
  "held s = map q_benchmark_id (job_queue (core s) @ unpushed s @ taken s @ executing s)"

definition exec_ok :: "Benchmark list \<Rightarrow> queue_item \<Rightarrow> bool" where
  "exec_ok bs it \<longleftrightarrow>
     (\<exists>b\<in>set bs. bm_id b = q_benchmark_id it \<and> bm_status b = running \<and> bm_attempt_count b = q_attempt it + 1) \<and>
     0 \<le> q_attempt it \<and> q_attempt it < worker_max_retries"

definition service_inv :: "service \<Rightarrow> bool" where
  "service_inv s \<longleftrightarrow>
     backend_inv (core s) \<and> distinct (held s) \<and>
     (\<forall>it\<in>set (unpushed s) \<union> set (taken s). item_ok (benchmark_rows (database (core s))) it) \<and>
     (\<forall>it\<in>set (executing s). exec_ok (benchmark_rows (database (core s))) it)"

definition empty_service :: "service \<Rightarrow> bool" where
  "empty_service s \<longleftrightarrow> empty_backend (core s) \<and> unpushed s = [] \<and> taken s = [] \<and> executing s = []"

section \<open>What is held\<close>

lemma distinct_sub:
  assumes "mset ys \<subseteq># mset xs" and "distinct xs"
  shows "distinct ys"
proof -
  obtain zs where "mset xs = mset (ys @ zs)"
    using assms(1) by (metis ex_mset mset_append mset_subset_eq_exists_conv)
  then show ?thesis using assms(2) by (metis distinct_append mset_eq_imp_distinct_iff)
qed

lemma mset_map_remove1: "x \<in> set xs \<Longrightarrow> mset (map f xs) = add_mset (f x) (mset (map f (remove1 x xs)))"
  by (induction xs) auto

lemma finish_queue:
  "job_queue (finish_job run it c) = job_queue c \<or>
   job_queue (finish_job run it c) = it\<lparr>q_attempt := q_attempt it + 1\<rparr> # job_queue c"
  by (auto simp: finish_job_def on_exception_def enqueue_retry_def split: sum.split option.split)

lemma held_step:
  assumes "service_step parse sha256 s t"
  shows "mset (held t) \<subseteq># mset (held s) \<or>
         (\<exists>newid. newid \<notin> bm_id ` set (benchmark_rows (database (core s))) \<and> mset (held t) = add_mset newid (mset (held s)))"
  using assms
proof cases
  case (committed body rq newid snap now b d)
  then show ?thesis by (auto simp: held_def new_item_def)
next
  case (pushed it)
  then show ?thesis using mset_map_remove1 [of it "unpushed s" q_benchmark_id] by (simp add: held_def enqueue_def)
next
  case (push_failed it)
  then show ?thesis using mset_map_remove1 [of it "unpushed s" q_benchmark_id] by (simp add: held_def)
next
  case (took it q)
  then have "job_queue (core s) = q @ [it]" by (auto simp: dequeue_def split: if_splits)
  then show ?thesis using took by (simp add: held_def)
next
  case (started it)
  then show ?thesis using mset_map_remove1 [of it "taken s" q_benchmark_id] by (simp add: held_def start_job_def)
next
  case (finished it run)
  then show ?thesis
    using mset_map_remove1 [of it "executing s" q_benchmark_id] finish_queue [of run it "core s"] by (auto simp: held_def)
next
  case (stopped_idle it)
  then show ?thesis using mset_map_remove1 [of it "taken s" q_benchmark_id] by (simp add: held_def)
next
  case (stopped_busy it)
  then show ?thesis using mset_map_remove1 [of it "executing s" q_benchmark_id] by (simp add: held_def)
next
  case (stopped_late it exc)
  then show ?thesis using mset_map_remove1 [of it "executing s" q_benchmark_id] by (simp add: held_def)
qed

section \<open>The invariant is kept\<close>

lemma distinct_held:
  assumes "distinct (map f xs)" and "x \<in> set xs"
  shows "\<forall>y\<in>set (remove1 x xs). f y \<noteq> f x"
  using assms by (induction xs) (auto, metis image_eqI)

lemma row_update:
  assumes "distinct (map bm_id (benchmark_rows d))" and "b \<in> set (benchmark_rows d)" and "bm_id b = i"
  shows "benchmark_rows (mark_failed i d) = map (set_row i failed (bm_attempt_count b)) (benchmark_rows d)"
    and "i \<notin> fst ` set (result_rows d) \<Longrightarrow>
         complete_benchmark i res d =
           Some (d\<lparr>benchmark_rows := map (set_row i completed (bm_attempt_count b)) (benchmark_rows d),
                   result_rows := result_rows d @ [(i, res)]\<rparr>)"
proof -
  have f: "find_by_id d i = Some b" using find_distinct [OF assms(1,2)] assms(3) by (simp add: find_by_id_def)
  have "c = b" if "c \<in> set (benchmark_rows d)" "bm_id c = i" for c
    using same_id [OF assms(1) that(1) assms(2)] that(2) assms(3) by simp
  then show "benchmark_rows (mark_failed i d) = map (set_row i failed (bm_attempt_count b)) (benchmark_rows d)"
    and "i \<notin> fst ` set (result_rows d) \<Longrightarrow>
         complete_benchmark i res d =
           Some (d\<lparr>benchmark_rows := map (set_row i completed (bm_attempt_count b)) (benchmark_rows d),
                   result_rows := result_rows d @ [(i, res)]\<rparr>)"
    using f by (auto simp: mark_failed_def complete_benchmark_def update_row_def set_row_def)
qed

lemma unfinished_no_result:
  assumes "backend_inv c" and "b \<in> set (benchmark_rows (database c))" and "bm_status b \<noteq> completed"
  shows "bm_id b \<notin> fst ` set (result_rows (database c))"
proof
  assume "bm_id b \<in> fst ` set (result_rows (database c))"
  then obtain b' where "b' \<in> set (benchmark_rows (database c))" "bm_status b' = completed" "bm_id b' = bm_id b"
    unfolding backend_invD(4) [OF assms(1)] by auto
  then show False using same_id [OF backend_invD(1) [OF assms(1)] _ assms(2), of b'] assms(3) by simp
qed

lemma other_row:
  assumes "q_benchmark_id x \<noteq> i"
  shows "item_ok (map (set_row i st n) bs) x \<longleftrightarrow> item_ok bs x" "exec_ok (map (set_row i st n) bs) x \<longleftrightarrow> exec_ok bs x"
  using assms by (auto simp: item_ok_def exec_ok_def set_row_def)

lemma queue_push_inv:
  assumes "backend_inv c" and "item_ok (benchmark_rows (database c)) it" and "q_benchmark_id it \<notin> q_benchmark_id ` set (job_queue c)"
  shows "backend_inv (c\<lparr>job_queue := it # job_queue c\<rparr>)"
  using assms by (simp add: backend_inv_def Let_def)

lemma created:
  assumes "create_benchmark sha256 newid now rq snap = (Created b, Some d)"
  obtains ms where "find_by_key (snap 3) (request_key sha256 rq) = None" "b = new_row sha256 newid now rq"
    "d = (snap 3)\<lparr>gpu_model_rows := ms, benchmark_rows := benchmark_rows (snap 3) @ [new_row sha256 newid now rq]\<rparr>"
  using assms by (auto simp: create_benchmark_def Let_def new_row_def split: option.splits if_splits)

text \<open>A job in one place is in no other place.\<close>

lemma alone:
  assumes "distinct (held s)"
  shows "it \<in> set (unpushed s) \<Longrightarrow>
      \<forall>x\<in>set (job_queue (core s)) \<union> set (remove1 it (unpushed s)) \<union> set (taken s) \<union> set (executing s). q_benchmark_id x \<noteq> q_benchmark_id it"
    and "it \<in> set (taken s) \<Longrightarrow>
      \<forall>x\<in>set (job_queue (core s)) \<union> set (unpushed s) \<union> set (remove1 it (taken s)) \<union> set (executing s). q_benchmark_id x \<noteq> q_benchmark_id it"
    and "it \<in> set (executing s) \<Longrightarrow>
      \<forall>x\<in>set (job_queue (core s)) \<union> set (unpushed s) \<union> set (taken s) \<union> set (remove1 it (executing s)). q_benchmark_id x \<noteq> q_benchmark_id it"
proof -
  have d: "distinct (map q_benchmark_id (unpushed s))" "distinct (map q_benchmark_id (taken s))" "distinct (map q_benchmark_id (executing s))"
    and sep: "q_benchmark_id ` set (job_queue (core s)) \<inter> q_benchmark_id ` set (unpushed s) = {}"
      "q_benchmark_id ` set (job_queue (core s)) \<inter> q_benchmark_id ` set (taken s) = {}"
      "q_benchmark_id ` set (job_queue (core s)) \<inter> q_benchmark_id ` set (executing s) = {}"
      "q_benchmark_id ` set (unpushed s) \<inter> q_benchmark_id ` set (taken s) = {}"
      "q_benchmark_id ` set (unpushed s) \<inter> q_benchmark_id ` set (executing s) = {}"
      "q_benchmark_id ` set (taken s) \<inter> q_benchmark_id ` set (executing s) = {}"
    using assms by (simp_all add: held_def Int_Un_distrib Int_Un_distrib2)
  have differ: "q_benchmark_id x \<noteq> q_benchmark_id y"
    if "q_benchmark_id ` set xs \<inter> q_benchmark_id ` set ys = {}" "x \<in> set xs" "y \<in> set ys" for xs ys x y
    using that by (metis disjoint_iff imageI)
  note ne = differ [OF sep(1)] differ [OF sep(2)] differ [OF sep(3)] differ [OF sep(4)] differ [OF sep(5)] differ [OF sep(6)]
  show "\<forall>x\<in>set (job_queue (core s)) \<union> set (remove1 it (unpushed s)) \<union> set (taken s) \<union> set (executing s). q_benchmark_id x \<noteq> q_benchmark_id it"
    if "it \<in> set (unpushed s)" using distinct_held [OF d(1) that] that by (metis Un_iff ne)
  show "\<forall>x\<in>set (job_queue (core s)) \<union> set (unpushed s) \<union> set (remove1 it (taken s)) \<union> set (executing s). q_benchmark_id x \<noteq> q_benchmark_id it"
    if "it \<in> set (taken s)" using distinct_held [OF d(2) that] that by (metis Un_iff ne)
  show "\<forall>x\<in>set (job_queue (core s)) \<union> set (unpushed s) \<union> set (taken s) \<union> set (remove1 it (executing s)). q_benchmark_id x \<noteq> q_benchmark_id it"
    if "it \<in> set (executing s)" using distinct_held [OF d(3) that] that by (metis Un_iff ne)
qed

lemma service_invD:
  assumes "service_inv s"
  shows "backend_inv (core s)" "distinct (held s)"
    and "it \<in> set (unpushed s) \<or> it \<in> set (taken s) \<Longrightarrow> item_ok (benchmark_rows (database (core s))) it"
    and "it \<in> set (executing s) \<Longrightarrow> exec_ok (benchmark_rows (database (core s))) it"
  using assms by (auto simp: service_inv_def)

lemma held_ids:
  assumes "service_inv s"
  shows "set (held s) \<subseteq> bm_id ` set (benchmark_rows (database (core s)))"
proof -
  have "item_ok (benchmark_rows (database (core s))) it \<or> exec_ok (benchmark_rows (database (core s))) it"
    if "it \<in> set (job_queue (core s) @ unpushed s @ taken s @ executing s)" for it
    using that assms backend_invD(3) [OF service_invD(1) [OF assms]] by (auto simp: service_inv_def)
  then show ?thesis unfolding held_def item_ok_def exec_ok_def set_map by (smt (verit) image_iff subsetI)
qed

lemma held_distinct_step:
  assumes "service_inv s" and "service_step parse sha256 s t"
  shows "distinct (held t)"
  using held_step [OF assms(2)]
proof (elim disjE exE conjE)
  assume "mset (held t) \<subseteq># mset (held s)"
  then show ?thesis using distinct_sub service_invD(2) [OF assms(1)] by blast
next
  fix newid
  assume "newid \<notin> bm_id ` set (benchmark_rows (database (core s)))" "mset (held t) = add_mset newid (mset (held s))"
  then have "mset (held t) = mset (newid # held s)" "distinct (newid # held s)"
    using held_ids [OF assms(1)] service_invD(2) [OF assms(1)] by auto
  then show ?thesis using mset_eq_imp_distinct_iff by blast
qed

lemma change_inv:
  assumes inv: "service_inv s" and b: "b \<in> set (benchmark_rows (database (core s)))" "bm_id b = i" "bm_status b \<noteq> completed"
    and w: "row_changed i st n new (core s) (core t)" and n: "0 \<le> n" "n \<le> worker_max_retries"
    and new: "new = [] \<or> (\<exists>x. new = [x] \<and> q_benchmark_id x = i \<and> q_attempt x = n \<and> n < worker_max_retries \<and> st \<in> {queued, running})"
    and q: "\<forall>x\<in>set (job_queue (core s)). q_benchmark_id x \<noteq> i"
    and u: "\<forall>x\<in>set (unpushed t) \<union> set (taken t). x \<in> set (unpushed s) \<union> set (taken s) \<and> q_benchmark_id x \<noteq> i"
    and e: "\<forall>x\<in>set (executing t). x \<in> set (executing s) \<and> q_benchmark_id x \<noteq> i \<or> exec_ok (benchmark_rows (database (core t))) x"
    and d: "distinct (held t)"
  shows "service_inv t"
proof -
  have rows: "benchmark_rows (database (core t)) = map (set_row i st n) (benchmark_rows (database (core s)))"
    using w by (simp add: row_changed_def)
  have "i \<notin> q_benchmark_id ` set (job_queue (core s))" using q by (metis imageE)
  then have "backend_inv (core t)"
    by (rule row_changed_inv [OF service_invD(1) [OF inv] b _ w n new])
  moreover have "item_ok (benchmark_rows (database (core t))) x" if "x \<in> set (unpushed t) \<union> set (taken t)" for x
    using that u other_row(1) [of x i st n] service_invD(3) [OF inv, of x] rows by (metis Un_iff)
  moreover have "exec_ok (benchmark_rows (database (core t))) x" if "x \<in> set (executing t)" for x
    using that e other_row(2) [of x i st n] service_invD(4) [OF inv, of x] rows by metis
  ultimately show ?thesis using d by (simp add: service_inv_def)
qed

lemma set_row_same:
  assumes "distinct (map bm_id bs)" and "b \<in> set bs"
  shows "map (set_row (bm_id b) (bm_status b) (bm_attempt_count b)) bs = bs"
proof (rule map_idI)
  fix c
  assume "c \<in> set bs"
  then show "set_row (bm_id b) (bm_status b) (bm_attempt_count b) c = c"
    using same_id [OF assms(1) _ assms(2), of c] by (auto simp: set_row_def)
qed

text \<open>The start of an execution and its three ends, as changes of the row.\<close>

lemma started_row:
  assumes "backend_inv c" and "item_ok (benchmark_rows (database c)) it"
  shows "row_changed (q_benchmark_id it) running (q_attempt it + 1) [] c (start_job it c)"
proof -
  obtain b where b: "b \<in> set (benchmark_rows (database c))" "bm_id b = q_benchmark_id it" "bm_attempt_count b = q_attempt it"
    using assms(2) by (auto simp: item_ok_def)
  show ?thesis
    using row_updates(1) [OF backend_invD(1) [OF assms(1)] b(1,2)] b(3) backend_invD(5) [OF assms(1)]
    by (simp add: row_changed_def start_job_def)
qed

definition end_status :: "(queue_item \<Rightarrow> string + BenchmarkResult) \<Rightarrow> queue_item \<Rightarrow> BenchmarkStatus" where
  "end_status run it =
     (case run it of Inr _ \<Rightarrow> completed | Inl _ \<Rightarrow> if q_attempt it + 1 < worker_max_retries then running else failed)"

lemma finished_row:
  assumes "backend_inv c" and "exec_ok (benchmark_rows (database c)) it"
  shows "row_changed (q_benchmark_id it) (end_status run it) (q_attempt it + 1)
      (if end_status run it = running then [it\<lparr>q_attempt := q_attempt it + 1\<rparr>] else []) c (finish_job run it c)"
    and "result_rows (database (finish_job run it c)) = result_rows (database c) @
      (case run it of Inl _ \<Rightarrow> [] | Inr res \<Rightarrow> [(q_benchmark_id it, res)])"
proof -
  obtain b where b: "b \<in> set (benchmark_rows (database c))" "bm_id b = q_benchmark_id it" "bm_status b = running"
      "bm_attempt_count b = q_attempt it + 1"
    using assms(2) by (auto simp: exec_ok_def)
  note rows = row_update [OF backend_invD(1) [OF assms(1)] b(1,2)]
  have fresh: "q_benchmark_id it \<notin> fst ` set (result_rows (database c))"
    using unfinished_no_result [OF assms(1) b(1)] b(2,3) by simp
  have same: "map (set_row (q_benchmark_id it) running (q_attempt it + 1)) (benchmark_rows (database c)) = benchmark_rows (database c)"
    using set_row_same [OF backend_invD(1) [OF assms(1)] b(1)] b(2-4) by simp
  show "row_changed (q_benchmark_id it) (end_status run it) (q_attempt it + 1)
      (if end_status run it = running then [it\<lparr>q_attempt := q_attempt it + 1\<rparr>] else []) c (finish_job run it c)"
    using rows(1) rows(2) [OF fresh] fresh same b(4) backend_invD(5) [OF assms(1)]
    by (auto simp: row_changed_def finish_job_def end_status_def on_exception_def enqueue_retry_def split: sum.split)
  show "result_rows (database (finish_job run it c)) = result_rows (database c) @
      (case run it of Inl _ \<Rightarrow> [] | Inr res \<Rightarrow> [(q_benchmark_id it, res)])"
    using rows(2) [OF fresh] by (simp add: finish_job_def on_exception_def split: sum.split)
qed

lemma committed_inv:
  assumes inv: "service_inv s" and fresh: "newid \<notin> bm_id ` set (benchmark_rows (database (core s)))"
    and snap: "snap 3 = database (core s)" and made: "create_benchmark sha256 newid now rq snap = (Created b, Some d)"
    and t: "t = s\<lparr>core := (core s)\<lparr>database := d\<rparr>, unpushed := new_item newid rq # unpushed s\<rparr>" and held: "distinct (held t)"
  shows "service_inv t"
proof -
  let ?bs = "benchmark_rows (database (core s))" and ?b = "new_row sha256 newid now rq"
  obtain ms where key: "find_by_key (database (core s)) (request_key sha256 rq) = None"
    and d: "d = (database (core s))\<lparr>gpu_model_rows := ms, benchmark_rows := ?bs @ [?b]\<rparr>"
    using created [OF made] snap by metis
  have "backend_inv ((core s)\<lparr>database := d\<rparr>)"
    by (rule insert_row_inv [OF service_invD(1) [OF inv] fresh key, where ms = ms and now = now and ok = False]) (simp_all add: d)
  moreover have "item_ok (?bs @ [?b]) (new_item newid rq)"
    by (simp add: item_ok_def new_item_def new_row_def worker_max_retries_def)
  moreover have "item_ok (?bs @ [?b]) x" if "item_ok ?bs x" for x
    by (rule item_ok_mono [OF that]) auto
  moreover have "exec_ok (?bs @ [?b]) x" if "exec_ok ?bs x" for x
    using that by (auto simp: exec_ok_def)
  ultimately show ?thesis
    using held service_invD(3,4) [OF inv] unfolding service_inv_def t by (simp add: d)
qed

lemma started_inv:
  assumes inv: "service_inv s" and it: "it \<in> set (taken s)"
    and t: "t = s\<lparr>core := start_job it (core s), taken := remove1 it (taken s), executing := it # executing s\<rparr>"
    and held: "distinct (held t)"
  shows "service_inv t"
proof -
  have ok: "item_ok (benchmark_rows (database (core s))) it" using service_invD(3) [OF inv, of it] it by simp
  obtain b where b: "b \<in> set (benchmark_rows (database (core s)))" "bm_id b = q_benchmark_id it" "bm_status b \<noteq> completed"
    using ok by (auto simp: item_ok_def)
  have n: "0 \<le> q_attempt it" "q_attempt it < worker_max_retries" using ok by (simp_all add: item_ok_def)
  have w: "row_changed (q_benchmark_id it) running (q_attempt it + 1) [] (core s) (core t)"
    using started_row [OF service_invD(1) [OF inv] ok] by (simp add: t)
  then have "set_row (q_benchmark_id it) running (q_attempt it + 1) b \<in> set (benchmark_rows (database (core t)))"
    using b(1) by (simp add: row_changed_def)
  then have "exec_ok (benchmark_rows (database (core t))) it"
    using b(2) n unfolding exec_ok_def by (intro conjI bexI) (simp_all add: set_row_def)
  moreover note others = alone(2) [OF service_invD(2) [OF inv] it]
  ultimately show ?thesis
    using n notin_set_remove1 [of _ "taken s"]
    by (intro change_inv [OF inv b w _ _ _ _ _ _ held]) (auto simp: t)
qed

lemma finished_inv:
  assumes inv: "service_inv s" and it: "it \<in> set (executing s)"
    and t: "t = s\<lparr>core := finish_job run it (core s), executing := remove1 it (executing s)\<rparr>" and held: "distinct (held t)"
  shows "service_inv t"
proof -
  have ok: "exec_ok (benchmark_rows (database (core s))) it" using service_invD(4) [OF inv it] .
  obtain b where b: "b \<in> set (benchmark_rows (database (core s)))" "bm_id b = q_benchmark_id it" "bm_status b \<noteq> completed"
    using ok by (auto simp: exec_ok_def)
  have n: "0 \<le> q_attempt it" "q_attempt it < worker_max_retries" using ok by (simp_all add: exec_ok_def)
  have w: "row_changed (q_benchmark_id it) (end_status run it) (q_attempt it + 1)
      (if end_status run it = running then [it\<lparr>q_attempt := q_attempt it + 1\<rparr>] else []) (core s) (core t)"
    using finished_row(1) [OF service_invD(1) [OF inv] ok, of run] by (simp add: t)
  have "end_status run it = running \<Longrightarrow> q_attempt it + 1 < worker_max_retries"
    by (simp add: end_status_def split: sum.splits if_splits)
  then show ?thesis
    using n alone(3) [OF service_invD(2) [OF inv] it] notin_set_remove1 [of _ "executing s"]
    by (intro change_inv [OF inv b w _ _ _ _ _ _ held]) (auto simp: t)
qed

lemma same_rows_inv:
  assumes "service_inv s" and "backend_inv (core t)" and "database (core t) = database (core s)" and "distinct (held t)"
    and "\<And>x. x \<in> set (unpushed t) \<union> set (taken t) \<Longrightarrow>
      x \<in> set (unpushed s) \<union> set (taken s) \<or> item_ok (benchmark_rows (database (core s))) x"
    and "set (executing t) \<subseteq> set (executing s)"
  shows "service_inv t"
proof -
  have "item_ok (benchmark_rows (database (core s))) x" if "x \<in> set (unpushed t) \<union> set (taken t)" for x
    using assms(5) [OF that] service_invD(3) [OF assms(1), of x] by blast
  moreover have "exec_ok (benchmark_rows (database (core s))) x" if "x \<in> set (executing t)" for x
    using that assms(6) service_invD(4) [OF assms(1)] by blast
  ultimately show ?thesis using assms(2-4) by (simp add: service_inv_def)
qed

lemma service_inv_step:
  assumes inv: "service_inv s" and step: "service_step parse sha256 s t"
  shows "service_inv t"
proof -
  note held = held_distinct_step [OF inv step] and core = service_invD(1) [OF inv] and sub = set_remove1_subset
  show ?thesis using step
  proof cases
    case (committed body rq newid snap now b d)
    then show ?thesis using committed_inv [OF inv] held by blast
  next
    case (pushed it)
    have "\<forall>x\<in>set (job_queue (core s)). q_benchmark_id x \<noteq> q_benchmark_id it"
      using alone(1) [OF service_invD(2) [OF inv] pushed(2)] unfolding ball_Un by (elim conjE)
    then have "q_benchmark_id it \<notin> q_benchmark_id ` set (job_queue (core s))" by (metis imageE)
    then have "backend_inv (core t)"
      using queue_push_inv [OF core, of it] service_invD(3) [OF inv, of it] pushed by (simp add: enqueue_def)
    then show ?thesis
      by (rule same_rows_inv [OF inv _ _ held]) (use pushed sub [of it "unpushed s"] in \<open>auto simp: subset_iff\<close>)
  next
    case (push_failed it)
    show ?thesis
      by (rule same_rows_inv [OF inv _ _ held]) (use push_failed core sub [of it "unpushed s"] in \<open>auto simp: subset_iff\<close>)
  next
    case (took it q)
    then have q: "job_queue (core s) = q @ [it]" by (auto simp: dequeue_def split: if_splits)
    have "backend_inv (core t)" "item_ok (benchmark_rows (database (core s))) it"
      using core q took by (simp_all add: backend_inv_def Let_def)
    then show ?thesis by (intro same_rows_inv [OF inv _ _ held]) (use took in auto)
  next
    case (started it)
    then show ?thesis using started_inv [OF inv] held by blast
  next
    case (finished it run)
    then show ?thesis using finished_inv [OF inv] held by blast
  next
    case (stopped_idle it)
    show ?thesis
      by (rule same_rows_inv [OF inv _ _ held]) (use stopped_idle core sub [of it "taken s"] in \<open>auto simp: subset_iff\<close>)
  next
    case (stopped_busy it)
    show ?thesis
      by (rule same_rows_inv [OF inv _ _ held]) (use stopped_busy core sub [of it "executing s"] in \<open>auto simp: subset_iff\<close>)
  next
    case (stopped_late it exc)
    have "backend_inv (core t)" using core stopped_late by (simp add: backend_inv_def)
    then show ?thesis
      by (rule same_rows_inv [OF inv _ _ held]) (use stopped_late sub [of it "executing s"] in \<open>auto simp: subset_iff\<close>)
  qed
qed

interpretation workers: invariant_system empty_service "service_step parse sha256" service_inv for parse sha256
proof
  show "empty_service s \<Longrightarrow> service_inv s" for s
    by (simp add: empty_service_def empty_backend_def service_inv_def backend_inv_def held_def)
  show "service_inv t" if "service_inv s" "service_step parse sha256 s t" for s t
    using that by (rule service_inv_step)
qed

end
