(* ===== verification/Backend_Promises.thy ===== *)
theory Backend_Promises
  imports Backend_Workers
begin

text \<open>
  What the concurrent backend promises its clients and what it does not: it implements a ledger, its
  processes share no job, and a job whose process stops is lost.
\<close>

section \<open>Specification\<close>

text \<open>
  The ledger of the service counts an attempt when it begins: a worker can stop before it ends. A
  job ends after a begun attempt with a result, or dead after the last attempt.
\<close>

inductive service_ledger_step :: "ledger \<Rightarrow> ledger \<Rightarrow> bool" where
  idle: "service_ledger_step L L"
| accept: "k \<notin> dom L \<Longrightarrow> i \<notin> fst ` ran L \<Longrightarrow> service_ledger_step L (L(k \<mapsto> (i, Waiting 0)))"
| attempt: "L k = Some (i, Waiting n) \<Longrightarrow> n < worker_max_retries \<Longrightarrow> service_ledger_step L (L(k \<mapsto> (i, Waiting (n + 1))))"
| finish: "L k = Some (i, Waiting n) \<Longrightarrow> 0 < n \<Longrightarrow> n \<le> worker_max_retries \<Longrightarrow> service_ledger_step L (L(k \<mapsto> (i, Done r)))"
| give_up: "L k = Some (i, Waiting worker_max_retries) \<Longrightarrow> service_ledger_step L (L(k \<mapsto> (i, Dead)))"

lemma service_ledger_final:
  assumes "service_ledger_step L L'" and "L k = Some (i, st)" and "\<forall>n. st \<noteq> Waiting n"
  shows "L' k = Some (i, st)"
  using assms by cases auto

lemma same_db_refines:
  assumes "database c' = database c"
  shows "service_ledger_step (ledger_of c) (ledger_of c')"
proof -
  have "ledger_of c' = ledger_of c" by (rule ext) (simp add: ledger_of_def assms)
  then show ?thesis by (simp add: service_ledger_step.idle)
qed

lemma started_ledger:
  assumes inv: "backend_inv c" and ok: "item_ok (benchmark_rows (database c)) it"
  shows "service_ledger_step (ledger_of c) (ledger_of (start_job it c))"
proof -
  obtain b where b: "b \<in> set (benchmark_rows (database c))" "bm_id b = q_benchmark_id it" "bm_status b \<in> {queued, running}"
      "bm_attempt_count b = q_attempt it" "q_attempt it < worker_max_retries"
    using ok by (auto simp: item_ok_def)
  have "benchmark_rows (database (start_job it c)) = map (set_row (bm_id b) running (q_attempt it + 1)) (benchmark_rows (database c))"
    using started_row [OF inv ok] b(2) by (simp add: row_changed_def)
  then have new: "ledger_of (start_job it c) = (ledger_of c)(bm_idempotency_key b \<mapsto> (bm_id b, Waiting (q_attempt it + 1)))"
    using row_ledger [OF inv b(1), of "start_job it c" running "q_attempt it + 1" "[]"]
    by (simp add: start_job_def state_of_def set_row_def)
  have "ledger_of c (bm_idempotency_key b) = Some (bm_id b, Waiting (q_attempt it))"
    using ledger_of_row [OF inv b(1)] b(3,4) by (auto simp: state_of_def)
  from service_ledger_step.attempt [of "ledger_of c", OF this b(5)] new show ?thesis by simp
qed

lemma finished_ledger:
  assumes inv: "backend_inv c" and ok: "exec_ok (benchmark_rows (database c)) it"
  shows "service_ledger_step (ledger_of c) (ledger_of (finish_job run it c))"
proof -
  let ?t = "finish_job run it c" and ?st = "end_status run it" and ?n = "q_attempt it + 1"
  obtain b where b: "b \<in> set (benchmark_rows (database c))" "bm_id b = q_benchmark_id it" "bm_status b = running"
      "bm_attempt_count b = ?n" "0 < ?n" "?n \<le> worker_max_retries"
    using ok by (auto simp: exec_ok_def)
  note res = finished_row(2) [OF inv ok, of run]
  have "benchmark_rows (database ?t) = map (set_row (bm_id b) ?st ?n) (benchmark_rows (database c))"
    using finished_row(1) [OF inv ok, of run] b(2) by (simp add: row_changed_def)
  moreover have "fst ` set (case run it of Inl _ \<Rightarrow> [] | Inr r \<Rightarrow> [(q_benchmark_id it, r)]) \<subseteq> {bm_id b}"
    using b(2) by (cases "run it") simp_all
  ultimately have new: "ledger_of ?t = (ledger_of c)(bm_idempotency_key b \<mapsto>
      (bm_id b, state_of (result_rows (database ?t)) (set_row (bm_id b) ?st ?n b)))"
    by (rule row_ledger [OF inv b(1) _ res])
  have old: "ledger_of c (bm_idempotency_key b) = Some (bm_id b, Waiting ?n)"
    using ledger_of_row [OF inv b(1)] b(3,4) by (simp add: state_of_def)
  show ?thesis
  proof (cases "run it")
    case (Inr r)
    have "map_of (result_rows (database c)) (bm_id b) = None"
      using unfinished_no_result [OF inv b(1)] b(3) by (simp only: map_of_eq_None_iff not_False_eq_True) simp
    then have "map_of (result_rows (database ?t)) (bm_id b) = Some r"
      using res Inr b(2) by (simp add: map_add_def)
    then show ?thesis
      using Inr new service_ledger_step.finish [of "ledger_of c", OF old b(5,6)]
      by (simp add: end_status_def state_of_def set_row_def)
  next
    case (Inl exc)
    show ?thesis
    proof (cases "?n < worker_max_retries")
      case True
      then have "ledger_of ?t = ledger_of c" using Inl new old by (auto simp: end_status_def state_of_def set_row_def)
      then show ?thesis by (simp add: service_ledger_step.idle)
    next
      case False
      then show ?thesis
        using Inl new old b(6) service_ledger_step.give_up [of "ledger_of c" "bm_idempotency_key b" "bm_id b"]
        by (simp add: end_status_def state_of_def set_row_def)
    qed
  qed
qed

lemma service_refines:
  assumes inv: "service_inv s" and step: "service_step parse sha256 s t"
  shows "service_ledger_step (ledger_of (core s)) (ledger_of (core t))"
  using step
proof cases
  case (committed body rq newid snap now b d)
  obtain ms where key: "find_by_key (database (core s)) (request_key sha256 rq) = None"
    and d: "d = (database (core s))\<lparr>gpu_model_rows := ms, benchmark_rows := benchmark_rows (database (core s)) @ [new_row sha256 newid now rq]\<rparr>"
    using created [OF committed(5)] committed(4) by metis
  have "newid \<notin> fst ` ran (ledger_of (core s))" using ledger_ids committed(3) by blast
  moreover have "ledger_of (core t) = (ledger_of (core s))(request_key sha256 rq \<mapsto> (newid, Waiting 0))"
    using insert_ledger [OF key, of "core t"] d committed(1) by simp
  ultimately show ?thesis using service_ledger_step.accept [OF no_key_no_entry [OF key]] by simp
next
  case (started it)
  then show ?thesis using started_ledger [OF service_invD(1) [OF inv] service_invD(3) [OF inv, of it]] by simp
next
  case (finished it run)
  then show ?thesis using finished_ledger [OF service_invD(1) [OF inv] service_invD(4) [OF inv, of it]] by simp
qed (rule same_db_refines, simp)+

interpretation promises: simulation "service_step parse sha256" service_inv service_ledger_step "\<lambda>s. ledger_of (core s)"
  for parse sha256
  by unfold_locales (auto intro: service_inv_step service_refines)

section \<open>A job that nobody holds\<close>

lemma step_row_stays:
  assumes inv: "service_inv s" and step: "service_step parse sha256 s t"
    and b: "b \<in> set (benchmark_rows (database (core s)))" "bm_id b \<notin> set (held s)"
  shows "b \<in> set (benchmark_rows (database (core t))) \<and> bm_id b \<notin> set (held t)"
proof -
  have "bm_id b \<notin> set (held t)"
    using held_step [OF step]
  proof (elim disjE exE conjE)
    assume "mset (held t) \<subseteq># mset (held s)"
    then show ?thesis using b(2) by (metis mset_subset_eqD set_mset_mset)
  next
    fix newid
    assume "newid \<notin> bm_id ` set (benchmark_rows (database (core s)))" "mset (held t) = add_mset newid (mset (held s))"
    then have "bm_id b \<noteq> newid" "set (held t) = insert newid (set (held s))"
      using b(1) by (auto dest: arg_cong [of _ _ set_mset])
    then show ?thesis using b(2) by simp
  qed
  moreover have "b \<in> set (benchmark_rows (database (core t)))"
  proof -
    have keep: "b \<in> set (benchmark_rows (database c))" if "row_changed (q_benchmark_id it) st n new (core s) c"
      "it \<in> set (taken s) \<union> set (executing s)" for it st n new c
    proof -
      have "q_benchmark_id it \<in> set (held s)" using that(2) by (auto simp: held_def)
      then have "set_row (q_benchmark_id it) st n b = b" using b(2) by (auto simp: set_row_def)
      then show ?thesis using that(1) b(1) by (metis image_eqI list.set_map row_changed_def)
    qed
    show ?thesis using step
    proof cases
      case (committed body rq newid snap now b' d)
      obtain ms where "d = (database (core s))\<lparr>gpu_model_rows := ms,
          benchmark_rows := benchmark_rows (database (core s)) @ [new_row sha256 newid now rq]\<rparr>"
        using created [OF committed(5)] committed(4) by metis
      then show ?thesis using committed(1) b(1) by simp
    next
      case (started it)
      then show ?thesis
        using keep [OF started_row [OF service_invD(1) [OF inv] service_invD(3) [OF inv, of it]]] by simp
    next
      case (finished it run)
      then show ?thesis
        using keep [OF finished_row(1) [OF service_invD(1) [OF inv] service_invD(4) [OF inv, of it], of run]] by simp
    qed (use b(1) in simp_all)
  qed
  ultimately show ?thesis by blast
qed

lemma unheld_row_stays:
  assumes "(service_step parse sha256)\<^sup>*\<^sup>* s t" and "service_inv s"
    and "b \<in> set (benchmark_rows (database (core s)))" and "bm_id b \<notin> set (held s)"
  shows "service_inv t \<and> b \<in> set (benchmark_rows (database (core t))) \<and> bm_id b \<notin> set (held t)"
  using assms
proof (induction rule: rtranclp_induct)
  case (step t u)
  then show ?case using step_row_stays [of t parse sha256 u b] service_inv_step [of t parse sha256 u] by blast
qed simp

text \<open>The process that has the job stops: \<open>remove1\<close> changes only the list the job is in.\<close>

definition lost :: "queue_item \<Rightarrow> service \<Rightarrow> service" where
  "lost it s = s\<lparr>unpushed := remove1 it (unpushed s), taken := remove1 it (taken s), executing := remove1 it (executing s)\<rparr>"

lemma lost_step:
  assumes inv: "service_inv s" and it: "it \<in> set (unpushed s) \<union> set (taken s) \<union> set (executing s)"
  shows "service_step parse sha256 s (lost it s)" "q_benchmark_id it \<notin> set (held (lost it s))"
proof -
  note alone = alone [OF service_invD(2) [OF inv], of it, unfolded ball_Un]
  consider "it \<in> set (unpushed s)" "it \<notin> set (taken s)" "it \<notin> set (executing s)"
    | "it \<in> set (taken s)" "it \<notin> set (unpushed s)" "it \<notin> set (executing s)"
    | "it \<in> set (executing s)" "it \<notin> set (unpushed s)" "it \<notin> set (taken s)"
    using it alone by blast
  then have "service_step parse sha256 s (lost it s) \<and>
      (\<forall>x\<in>set (job_queue (core s) @ remove1 it (unpushed s) @ remove1 it (taken s) @ remove1 it (executing s)).
        q_benchmark_id x \<noteq> q_benchmark_id it)"
  proof cases
    case 1
    then show ?thesis
      using service_step.push_failed [OF 1(1), of parse sha256] alone(1) by (simp add: lost_def remove1_idem ball_Un)
  next
    case 2
    then show ?thesis
      using service_step.stopped_idle [OF 2(1), of parse sha256] alone(2) by (simp add: lost_def remove1_idem ball_Un)
  next
    case 3
    then show ?thesis
      using service_step.stopped_busy [OF 3(1), of parse sha256] alone(3) by (simp add: lost_def remove1_idem ball_Un)
  qed
  then have "service_step parse sha256 s (lost it s) \<and>
      q_benchmark_id it \<notin> q_benchmark_id ` set (job_queue (core s) @ remove1 it (unpushed s) @ remove1 it (taken s) @ remove1 it (executing s))"
    by (metis imageE)
  then show "service_step parse sha256 s (lost it s)" "q_benchmark_id it \<notin> set (held (lost it s))"
    by (simp_all add: lost_def held_def image_Un)
qed

lemma unfinished_row:
  assumes "service_inv s" and "it \<in> set (unpushed s) \<union> set (taken s) \<union> set (executing s)"
  obtains b where "b \<in> set (benchmark_rows (database (core s)))" "bm_id b = q_benchmark_id it" "bm_status b \<in> {queued, running}"
  using assms service_invD(3) [OF assms(1), of it] service_invD(4) [OF assms(1), of it]
  by (auto simp: item_ok_def exec_ok_def)

section \<open>Properties\<close>

text \<open>
  C7. Concurrent processes share no job: whatever submissions race and however many workers take, start
  and finish jobs or stop between two of these steps, a job is at no time in two places (queue, API
  process, worker), the row of every such job is unfinished, no row counts more than three attempts, keys
  and identifiers are unique, and exactly the completed rows have a result, one each.
\<close>

theorem workers_share_no_job:
  assumes "empty_service s" and "(service_step parse sha256)\<^sup>*\<^sup>* s t"
  shows "distinct (map q_benchmark_id (job_queue (core t) @ unpushed t @ taken t @ executing t))
     \<and> (\<forall>it\<in>set (unpushed t) \<union> set (taken t) \<union> set (executing t). \<exists>b\<in>set (benchmark_rows (database (core t))).
          bm_id b = q_benchmark_id it \<and> bm_status b \<in> {queued, running})
     \<and> (\<forall>b\<in>set (benchmark_rows (database (core t))). bm_attempt_count b \<le> 3)
     \<and> distinct (map bm_id (benchmark_rows (database (core t))))
     \<and> distinct (map bm_idempotency_key (benchmark_rows (database (core t))))
     \<and> distinct (map fst (result_rows (database (core t))))
     \<and> fst ` set (result_rows (database (core t))) = bm_id ` {b \<in> set (benchmark_rows (database (core t))). bm_status b = completed}"
proof -
  have inv: "service_inv t" using workers.inv_reachable [OF assms] .
  have "\<exists>b\<in>set (benchmark_rows (database (core t))). bm_id b = q_benchmark_id it \<and> bm_status b \<in> {queued, running}"
    if "it \<in> set (unpushed t) \<union> set (taken t) \<union> set (executing t)" for it
    using unfinished_row [OF inv that] by metis
  moreover have "\<forall>b\<in>set (benchmark_rows (database (core t))). bm_attempt_count b \<le> 3"
    using service_invD(1) [OF inv] by (simp add: backend_inv_def Let_def worker_max_retries_def)
  ultimately show ?thesis
    using service_invD(2) [OF inv] backend_invD(1,2,4,5) [OF service_invD(1) [OF inv]] unfolding held_def by blast
qed

definition idle_service :: service where
  "idle_service = \<lparr>core = example_backend, unpushed = [], taken = [], executing = []\<rparr>"

text \<open>A worker has taken the only job.\<close>

definition taken_service :: "BenchmarkCreateRequest \<Rightarrow> service" where
  "taken_service rq =
     \<lparr>core = \<lparr>database = \<lparr>gpu_model_rows = [rq_gpu_model rq], benchmark_rows = [new_row id ''id-1'' 0 rq], result_rows = []\<rparr>,
              job_queue = [], dead_letters = []\<rparr>,
      unpushed = [], taken = [new_item ''id-1'' rq], executing = []\<rparr>"

lemma idle_service_empty: "empty_service idle_service"
  by (simp add: empty_service_def idle_service_def empty_backend_def example_backend_def)

lemma taken_service_reachable:
  assumes "parse body = Some rq" and "fits_columns (request_key id rq) rq"
  shows "(service_step parse id)\<^sup>*\<^sup>* idle_service (taken_service rq)"
proof -
  let ?it = "new_item ''id-1'' rq"
  let ?d = "\<lparr>gpu_model_rows = [rq_gpu_model rq], benchmark_rows = [new_row id ''id-1'' 0 rq], result_rows = []\<rparr>"
  let ?c = "\<lparr>database = ?d, job_queue = [], dead_letters = []\<rparr>"
  have "create_benchmark id ''id-1'' 0 rq (\<lambda>_. database example_backend) = (Created (new_row id ''id-1'' 0 rq), Some ?d)"
    using assms(2) by (simp add: create_benchmark_def get_or_create_gpu_model_def find_by_key_def example_backend_def new_row_def Let_def)
  then have a: "service_step parse id idle_service \<lparr>core = ?c, unpushed = [?it], taken = [], executing = []\<rparr>"
    using service_step.committed [of parse body rq "''id-1''" idle_service "\<lambda>_. database example_backend" id 0] assms(1)
    by (simp add: idle_service_def example_backend_def)
  have b: "service_step parse id \<lparr>core = ?c, unpushed = [?it], taken = [], executing = []\<rparr>
      \<lparr>core = ?c\<lparr>job_queue := [?it]\<rparr>, unpushed = [], taken = [], executing = []\<rparr>"
    using service_step.pushed [of ?it "\<lparr>core = ?c, unpushed = [?it], taken = [], executing = []\<rparr>" parse id] by (simp add: enqueue_def)
  have c: "service_step parse id \<lparr>core = ?c\<lparr>job_queue := [?it]\<rparr>, unpushed = [], taken = [], executing = []\<rparr> (taken_service rq)"
    using service_step.took [of "\<lparr>core = ?c\<lparr>job_queue := [?it]\<rparr>, unpushed = [], taken = [], executing = []\<rparr>" ?it "[]" parse id]
    by (simp add: dequeue_def taken_service_def)
  show ?thesis using a b c by (meson converse_rtranclp_into_rtranclp r_into_rtranclp)
qed

text \<open>The worker starts the job and it succeeds.\<close>

definition finished_service :: "BenchmarkResult \<Rightarrow> BenchmarkCreateRequest \<Rightarrow> service" where
  "finished_service r rq =
     (let it = new_item ''id-1'' rq in
      (taken_service rq)\<lparr>core := finish_job (\<lambda>_. Inr r) it (start_job it (core (taken_service rq))), taken := []\<rparr>)"

lemma taken_service_starts:
  "service_step parse sha256 (taken_service rq)
     ((taken_service rq)\<lparr>core := start_job (new_item ''id-1'' rq) (core (taken_service rq)), taken := [],
                    executing := [new_item ''id-1'' rq]\<rparr>)"
  using service_step.started [of "new_item ''id-1'' rq" "taken_service rq" parse sha256] by (simp add: taken_service_def)

lemma finished_service_reachable: "(service_step parse sha256)\<^sup>*\<^sup>* (taken_service rq) (finished_service r rq)"
proof -
  let ?s = "(taken_service rq)\<lparr>core := start_job (new_item ''id-1'' rq) (core (taken_service rq)), taken := [],
                    executing := [new_item ''id-1'' rq]\<rparr>"
  have "service_step parse sha256 ?s (finished_service r rq)"
    using service_step.finished [of "new_item ''id-1'' rq" ?s parse sha256 "\<lambda>_. Inr r"]
    by (simp add: finished_service_def taken_service_def Let_def)
  with taken_service_starts show ?thesis by (meson converse_rtranclp_into_rtranclp r_into_rtranclp)
qed

lemma finished_service_ledger: "ledger_of (core (finished_service r rq)) (request_key id rq) = Some (''id-1'', Done r)"
  by (simp add: finished_service_def taken_service_def Let_def finish_job_def start_job_def complete_benchmark_def mark_running_def
      update_row_def find_by_id_def new_row_def new_item_def ledger_of_def find_by_key_def state_of_def)

lemma example_taken: "(service_step (\<lambda>_. Some example_create) id)\<^sup>*\<^sup>* idle_service (taken_service example_create)"
  by (rule taken_service_reachable [of _ JNull]) (simp_all add: fits_columns_def request_key_def example_create_def)

theorem workers_share_no_job_witness:
  "distinct (map q_benchmark_id (job_queue (core (taken_service example_create)) @ unpushed (taken_service example_create) @ taken (taken_service example_create) @ executing (taken_service example_create)))
   \<and> taken (taken_service example_create) = [new_item ''id-1'' example_create]"
  using workers_share_no_job [OF idle_service_empty example_taken] by (simp add: taken_service_def)

text \<open>
  C6. The backend keeps its promises under concurrency: every step of an API process or a worker is a step
  of the ledger, or changes nothing in it. In particular a key is bound to a job once, and a job that has
  a result or is dead stays so.
\<close>

theorem service_refines_ledger:
  assumes "service_inv s" and "service_step parse sha256 s t"
  shows "service_ledger_step (ledger_of (core s)) (ledger_of (core t))
     \<and> (\<forall>k i st. ledger_of (core s) k = Some (i, st) \<and> (\<forall>n. st \<noteq> Waiting n) \<longrightarrow> ledger_of (core t) k = Some (i, st))"
  using promises.spec_step [OF assms] service_ledger_final by blast

lemma taken_service_inv: "service_inv (taken_service example_create)"
  using workers.inv_reachable [OF idle_service_empty example_taken] .

theorem service_refines_ledger_witness:
  "service_ledger_step (ledger_of (core (taken_service example_create))) (ledger_of (start_job (new_item ''id-1'' example_create) (core (taken_service example_create))))"
  using service_refines_ledger [OF taken_service_inv taken_service_starts [of "\<lambda>_. Some example_create" id]] by simp

text \<open>
  C25. A job whose process stops is lost: when an API process stops between commit and push, or a worker
  between taking a job and storing its outcome, then in every later state the row is what it was, queued or
  running, no process and no queue has the job, and a submission with its key is answered with this row and
  changes nothing. There is no execution and no outcome.
\<close>

theorem lost_job_is_never_run:
  assumes inv: "service_inv s" and it: "it \<in> set (unpushed s) \<union> set (taken s) \<union> set (executing s)"
    and steps: "(service_step parse sha256)\<^sup>*\<^sup>* (lost it s) t"
  shows "service_step parse sha256 s (lost it s)
     \<and> (\<exists>b\<in>set (benchmark_rows (database (core s))). bm_id b = q_benchmark_id it \<and> bm_status b \<in> {queued, running}
          \<and> find_by_id (database (core t)) (q_benchmark_id it) = Some b \<and> q_benchmark_id it \<notin> set (held t)
          \<and> (\<forall>body rq newid now ok. parse body = Some rq \<and> request_key sha256 rq = bm_idempotency_key b \<longrightarrow>
               create_benchmark_job parse sha256 newid now ok body (core t) = (core t, create_response b)))"
proof -
  obtain b where b: "b \<in> set (benchmark_rows (database (core s)))" "bm_id b = q_benchmark_id it" "bm_status b \<in> {queued, running}"
    using unfinished_row [OF inv it] .
  have l: "service_inv (lost it s)" using service_inv_step [OF inv lost_step(1) [OF inv it]] .
  have t: "service_inv t" "b \<in> set (benchmark_rows (database (core t)))" "q_benchmark_id it \<notin> set (held t)"
    using unheld_row_stays [OF steps l, of b] lost_step(2) [OF inv it] b by (simp_all add: lost_def)
  have "find_by_id (database (core t)) (q_benchmark_id it) = Some b"
    using find_distinct [OF backend_invD(1) [OF service_invD(1) [OF t(1)]] t(2)] b(2) by (simp add: find_by_id_def)
  moreover have "find_by_key (database (core t)) (bm_idempotency_key b) = Some b"
    using find_distinct [OF backend_invD(2) [OF service_invD(1) [OF t(1)]] t(2)] by (simp add: find_by_key_def)
  then have "create_benchmark_job parse sha256 newid now ok body (core t) = (core t, create_response b)"
    if "parse body = Some rq" "request_key sha256 rq = bm_idempotency_key b" for body rq newid now ok
    using post_existing [of parse body rq "core t" sha256 b newid now ok] that by simp
  ultimately show ?thesis using lost_step(1) [OF inv it] b t(3) by blast
qed

theorem lost_job_is_never_run_witness:
  "find_by_id (database (core (lost (new_item ''id-1'' example_create) (taken_service example_create)))) ''id-1'' = Some (new_row id ''id-1'' 0 example_create)
   \<and> held (lost (new_item ''id-1'' example_create) (taken_service example_create)) = []"
proof -
  let ?it = "new_item ''id-1'' example_create"
  have "q_benchmark_id ?it = ''id-1''" by (simp add: new_item_def)
  moreover have "benchmark_rows (database (core (taken_service example_create))) = [new_row id ''id-1'' 0 example_create]"
    "held (lost ?it (taken_service example_create)) = []"
    by (simp_all add: taken_service_def held_def lost_def)
  moreover have "?it \<in> set (unpushed (taken_service example_create)) \<union> set (taken (taken_service example_create)) \<union> set (executing (taken_service example_create))"
    by (simp add: taken_service_def)
  from lost_job_is_never_run [OF taken_service_inv this rtranclp.rtrancl_refl, of "\<lambda>_. Some example_create" id]
  have "\<exists>b\<in>set (benchmark_rows (database (core (taken_service example_create)))). bm_id b = q_benchmark_id ?it \<and>
      find_by_id (database (core (lost ?it (taken_service example_create)))) (q_benchmark_id ?it) = Some b"
    by blast
  ultimately show ?thesis by auto
qed

end
