(* ===== verification/Backend_Progress.thy ===== *)
theory Backend_Progress
  imports Backend_Promises
begin

text \<open>
  The concurrent backend whose processes do not stop comes to rest: the work left in the queue and in the
  hands of the processes is a rank, and when it is used up every benchmark has its outcome.
\<close>

section \<open>Work\<close>

text \<open>The steps of processes that do not stop, without new submissions.\<close>

inductive working :: "service \<Rightarrow> service \<Rightarrow> bool" where
  push: "it \<in> set (unpushed s) \<Longrightarrow>
     working s (s\<lparr>core := (core s)\<lparr>job_queue := enqueue it (job_queue (core s))\<rparr>, unpushed := remove1 it (unpushed s)\<rparr>)"
| take_job: "dequeue (job_queue (core s)) = Some (it, q) \<Longrightarrow> working s (s\<lparr>core := (core s)\<lparr>job_queue := q\<rparr>, taken := it # taken s\<rparr>)"
| start: "it \<in> set (taken s) \<Longrightarrow>
     working s (s\<lparr>core := start_job it (core s), taken := remove1 it (taken s), executing := it # executing s\<rparr>)"
| finish: "it \<in> set (executing s) \<Longrightarrow>
     working s (s\<lparr>core := finish_job run it (core s), executing := remove1 it (executing s)\<rparr>)"

lemma working_step: "working s t \<Longrightarrow> service_step parse sha256 s t"
  by (cases rule: working.cases) (auto intro: service_step.intros)

text \<open>The steps left for a job: three per attempt, and its push.\<close>

definition attempts_left :: "queue_item \<Rightarrow> nat" where
  "attempts_left it = nat (worker_max_retries - q_attempt it)"

definition work_left :: "service \<Rightarrow> nat" where
  "work_left s =
     (\<Sum>it\<leftarrow>unpushed s. 3 * attempts_left it + 1) + (\<Sum>it\<leftarrow>job_queue (core s). 3 * attempts_left it) +
     (\<Sum>it\<leftarrow>taken s. 3 * attempts_left it - 1) + (\<Sum>it\<leftarrow>executing s. 3 * attempts_left it - 2)"

lemma sum_remove1: "x \<in> set xs \<Longrightarrow> (\<Sum>y\<leftarrow>xs. f y) = f x + (\<Sum>y\<leftarrow>remove1 x xs. (f y :: nat))"
  by (induction xs) auto

lemma item_attempts: "item_ok bs it \<Longrightarrow> 1 \<le> attempts_left it" "exec_ok bs it \<Longrightarrow> 1 \<le> attempts_left it"
  by (auto simp: item_ok_def exec_ok_def attempts_left_def)

lemma retry_attempts:
  assumes "1 \<le> attempts_left it"
  shows "attempts_left (it\<lparr>q_attempt := q_attempt it + 1\<rparr>) = attempts_left it - 1"
  using assms by (simp add: attempts_left_def)

lemma work_decreases:
  assumes inv: "service_inv s" and "working s t"
  shows "work_left t < work_left s"
  using assms(2)
proof cases
  case (push it)
  then show ?thesis using sum_remove1 [OF push(2), of "\<lambda>it. 3 * attempts_left it + 1"] by (simp add: work_left_def enqueue_def)
next
  case (take_job it q)
  then have q: "job_queue (core s) = q @ [it]" by (auto simp: dequeue_def split: if_splits)
  then have "1 \<le> attempts_left it" using backend_invD(3) [OF service_invD(1) [OF inv], of it] item_attempts(1) by auto
  then show ?thesis using take_job q by (simp add: work_left_def)
next
  case (start it)
  have "1 \<le> attempts_left it" using service_invD(3) [OF inv, of it] start(2) item_attempts(1) by blast
  then show ?thesis using start sum_remove1 [OF start(2), of "\<lambda>it. 3 * attempts_left it - 1"] by (simp add: work_left_def start_job_def)
next
  case (finish it run)
  have "1 \<le> attempts_left it" using service_invD(4) [OF inv finish(2)] item_attempts(2) by blast
  then show ?thesis
    using finish(1) finish_queue [of run it "core s"] sum_remove1 [OF finish(2), of "\<lambda>it. 3 * attempts_left it - 2"] retry_attempts [of it]
    by (auto simp: work_left_def)
qed

lemma work_bound:
  assumes inv: "service_inv s"
  shows "work_left s \<le> 10 * length (held s)"
proof -
  have a: "attempts_left it \<le> 3" if "it \<in> set (job_queue (core s) @ unpushed s @ taken s @ executing s)" for it
    using that backend_invD(3) [OF service_invD(1) [OF inv], of it] service_invD(3,4) [OF inv, of it]
    by (auto simp: item_ok_def exec_ok_def attempts_left_def worker_max_retries_def)
  have b: "(\<Sum>it\<leftarrow>xs. f it) \<le> 10 * length xs" if "\<And>it. it \<in> set xs \<Longrightarrow> f it \<le> 10" for xs :: "queue_item list" and f
    using that by (induction xs) fastforce+
  have "(\<Sum>it\<leftarrow>unpushed s. 3 * attempts_left it + 1) \<le> 10 * length (unpushed s)"
    "(\<Sum>it\<leftarrow>job_queue (core s). 3 * attempts_left it) \<le> 10 * length (job_queue (core s))"
    "(\<Sum>it\<leftarrow>taken s. 3 * attempts_left it - 1) \<le> 10 * length (taken s)"
    "(\<Sum>it\<leftarrow>executing s. 3 * attempts_left it - 2) \<le> 10 * length (executing s)"
    by (rule b, use a in fastforce)+
  then show ?thesis by (simp add: work_left_def held_def)
qed

lemma work_to_do:
  assumes "held s \<noteq> []"
  shows "\<exists>t. working s t"
proof -
  consider "unpushed s \<noteq> []" | "job_queue (core s) \<noteq> []" | "taken s \<noteq> []" | "executing s \<noteq> []"
    using assms by (auto simp: held_def)
  then show ?thesis
  proof cases
    case 1
    then show ?thesis using working.push [OF hd_in_set] by blast
  next
    case 2
    then show ?thesis using working.take_job [of s "last (job_queue (core s))" "butlast (job_queue (core s))"] by (auto simp: dequeue_def)
  next
    case 3
    then show ?thesis using working.start [OF hd_in_set] by blast
  next
    case 4
    then show ?thesis using working.finish [OF hd_in_set] by blast
  qed
qed

section \<open>Nothing is dropped\<close>

definition all_held :: "service \<Rightarrow> bool" where
  "all_held s \<longleftrightarrow> (\<forall>b\<in>set (benchmark_rows (database (core s))). bm_status b \<in> {queued, running} \<longrightarrow> bm_id b \<in> set (held s))"

lemma changed_row:
  assumes "c \<in> set (map (set_row i st n) bs)"
  shows "bm_id c = i \<and> bm_status c = st \<or> bm_id c \<noteq> i \<and> c \<in> set bs"
  using assms by (auto simp: set_row_def)

lemma held_moved:
  "it \<in> set (unpushed s) \<Longrightarrow>
     set (held (s\<lparr>core := (core s)\<lparr>job_queue := enqueue it (job_queue (core s))\<rparr>, unpushed := remove1 it (unpushed s)\<rparr>)) = set (held s)"
  "dequeue (job_queue (core s)) = Some (it, q) \<Longrightarrow> set (held (s\<lparr>core := (core s)\<lparr>job_queue := q\<rparr>, taken := it # taken s\<rparr>)) = set (held s)"
  "it \<in> set (taken s) \<Longrightarrow>
     set (held (s\<lparr>core := start_job it (core s), taken := remove1 it (taken s), executing := it # executing s\<rparr>)) = set (held s)"
proof -
  show "set (held (s\<lparr>core := (core s)\<lparr>job_queue := enqueue it (job_queue (core s))\<rparr>, unpushed := remove1 it (unpushed s)\<rparr>)) = set (held s)"
    if "it \<in> set (unpushed s)"
    using mset_map_remove1 [OF that, of q_benchmark_id] by (intro mset_eq_setD) (simp add: held_def enqueue_def)
  show "set (held (s\<lparr>core := (core s)\<lparr>job_queue := q\<rparr>, taken := it # taken s\<rparr>)) = set (held s)"
    if "dequeue (job_queue (core s)) = Some (it, q)"
  proof -
    have "job_queue (core s) = q @ [it]" using that by (auto simp: dequeue_def split: if_splits)
    then show ?thesis by (intro mset_eq_setD) (simp add: held_def)
  qed
  show "set (held (s\<lparr>core := start_job it (core s), taken := remove1 it (taken s), executing := it # executing s\<rparr>)) = set (held s)"
    if "it \<in> set (taken s)"
    using mset_map_remove1 [OF that, of q_benchmark_id] by (intro mset_eq_setD) (simp add: held_def start_job_def)
qed

lemma held_finished:
  assumes "it \<in> set (executing s)"
  shows "set (held s) \<subseteq> insert (q_benchmark_id it) (set (held (s\<lparr>core := finish_job run it (core s), executing := remove1 it (executing s)\<rparr>)))"
proof -
  let ?t = "s\<lparr>core := finish_job run it (core s), executing := remove1 it (executing s)\<rparr>"
  have "set (job_queue (core s)) \<subseteq> set (job_queue (core ?t))" using finish_queue [of run it "core s"] by auto
  moreover have "set (executing s) \<subseteq> insert it (set (remove1 it (executing s)))" using in_set_remove1 by fastforce
  ultimately show ?thesis by (auto simp: held_def)
qed

lemma all_held_step:
  assumes inv: "service_inv s" and held: "all_held s" and step: "working s t"
  shows "all_held t"
  unfolding all_held_def
proof (intro ballI impI)
  fix c
  assume c: "c \<in> set (benchmark_rows (database (core t)))" "bm_status c \<in> {queued, running}"
  have old: "bm_id c \<in> set (held s)" if "c \<in> set (benchmark_rows (database (core s)))"
    using held that c(2) unfolding all_held_def by blast
  show "bm_id c \<in> set (held t)" using step
  proof cases
    case (push it)
    then show ?thesis using held_moved(1) [OF push(2)] old c(1) by simp
  next
    case (take_job it q)
    then show ?thesis using held_moved(2) [OF take_job(2)] old c(1) by simp
  next
    case (start it)
    have "row_changed (q_benchmark_id it) running (q_attempt it + 1) [] (core s) (core t)"
      using started_row [OF service_invD(1) [OF inv] service_invD(3) [OF inv, of it]] start by simp
    then have "bm_id c = q_benchmark_id it \<or> c \<in> set (benchmark_rows (database (core s)))"
      using c(1) changed_row unfolding row_changed_def by metis
    moreover have "q_benchmark_id it \<in> set (held s)" using start(2) by (simp add: held_def)
    ultimately have "bm_id c \<in> set (held s)" using old by (elim disjE) simp_all
    then show ?thesis using held_moved(3) [OF start(2)] start(1) by simp
  next
    case (finish it run)
    have w: "row_changed (q_benchmark_id it) (end_status run it) (q_attempt it + 1)
        (if end_status run it = running then [it\<lparr>q_attempt := q_attempt it + 1\<rparr>] else []) (core s) (core t)"
      using finished_row(1) [OF service_invD(1) [OF inv] service_invD(4) [OF inv finish(2)], of run] finish(1) by simp
    consider "bm_id c = q_benchmark_id it" "bm_status c = end_status run it" | "bm_id c \<noteq> q_benchmark_id it" "c \<in> set (benchmark_rows (database (core s)))"
      using c(1) changed_row w unfolding row_changed_def by metis
    then show ?thesis
    proof cases
      case 1
      then have "end_status run it = running" using c(2) by (auto simp: end_status_def split: sum.splits if_splits)
      then show ?thesis using w 1(1) by (simp add: row_changed_def held_def)
    next
      case 2
      then show ?thesis using held_finished [OF finish(2), of run] old finish(1) by auto
    qed
  qed
qed

interpretation progress: ranked_system working "\<lambda>s. service_inv s \<and> all_held s" work_left
proof
  show "service_inv t \<and> all_held t" if "service_inv s \<and> all_held s" "working s t" for s t
    using that all_held_step service_inv_step [OF _ working_step] by blast
  show "work_left t < work_left s" if "service_inv s \<and> all_held s" "working s t" for s t
    using that work_decreases by blast
qed

section \<open>Properties\<close>

text \<open>
  C8. Workers that do not stop settle every benchmark: from a state in which no unfinished benchmark was lost before
  (each is queued or in the hands of a process), without new submissions, and whatever the engine does, the
  processes take at most ten steps per job that is queued or in their hands; they can go on while there is such a job, and when
  they cannot, every benchmark is completed or failed.
\<close>

theorem workers_settle_every_job:
  assumes "service_inv s" and "all_held s" and "(working ^^ n) s t"
  shows "n \<le> 10 * length (held s) \<and> (held t \<noteq> [] \<longrightarrow> (\<exists>u. working t u)) \<and>
         ((\<nexists>u. working t u) \<longrightarrow> (\<forall>b\<in>set (benchmark_rows (database (core t))). bm_status b \<in> {completed, failed}))"
proof -
  have ok: "service_inv t \<and> all_held t" using progress.ok_steps [OF assms(3)] assms(1,2) by blast
  have "n \<le> 10 * length (held s)" using progress.run_bound [OF assms(3)] work_bound [OF assms(1)] assms(1,2) by fastforce
  moreover have "bm_status b \<in> {completed, failed}" if "held t = []" "b \<in> set (benchmark_rows (database (core t)))" for b
    using ok that by (cases "bm_status b") (auto simp: all_held_def)
  ultimately show ?thesis using work_to_do by blast
qed

theorem workers_settle_every_job_witness:
  "\<exists>t. (working ^^ 1) (taken_service example_create) t \<and> 1 \<le> 10 * length (held (taken_service example_create))
     \<and> (\<exists>u. working t u)"
proof -
  let ?it = "new_item ''id-1'' example_create" and ?s = "taken_service example_create"
  let ?t = "?s\<lparr>core := start_job ?it (core ?s), taken := [], executing := [?it]\<rparr>"
  have "working ?s ?t" using working.start [of ?it ?s] by (simp add: taken_service_def)
  then have step: "(working ^^ 1) ?s ?t" by (auto simp: eq_OO)
  have "all_held ?s" by (simp add: all_held_def taken_service_def held_def new_row_def new_item_def)
  moreover have "held ?t \<noteq> []" by (simp add: held_def)
  ultimately show ?thesis using workers_settle_every_job [OF taken_service_inv _ step] step by blast
qed

end
