(* ===== verification/BenchmarkJob_Controller.thy ===== *)
theory BenchmarkJob_Controller
  imports BenchmarkJob_Types
begin

text \<open>
  The reconciler of the operator (\<^verbatim>\<open>operator/controllers/benchmarkjob_controller.go\<close>), handler by
  handler. One call of \<^verbatim>\<open>Reconcile\<close> is a function of an environment \<open>E\<close> that answers each call the
  code makes into controller-runtime, the API server and the HTTP client; it yields the list of
  the calls made, in order, and the outcome: the returned result and error, or a panic. Every
  library operation is called at most once in a run, so an answer depends on its arguments alone.

  Log calls have no effect on the state and are left out.
\<close>

section \<open>Environment, calls and outcomes\<close>

record env =
  client_Get :: "NamespacedName \<Rightarrow> go_error + job"
  client_Update :: "job \<Rightarrow> go_error option"
  status_Update :: "job \<Rightarrow> go_error option"
  IsNotFound :: "go_error \<Rightarrow> bool"
  ContainsFinalizer :: "job \<Rightarrow> string \<Rightarrow> bool"
  AddFinalizer :: "job \<Rightarrow> string \<Rightarrow> job"
  RemoveFinalizer :: "job \<Rightarrow> string \<Rightarrow> job"
  http_Post :: "string \<Rightarrow> string \<Rightarrow> json \<Rightarrow> go_error + http_response"
  http_Get :: "string \<Rightarrow> go_error + http_response"
  http_NewRequest :: "string \<Rightarrow> string \<Rightarrow> go_error option"
  Now :: time

datatype effect =
    FetchJob NamespacedName
  | UpdateJob job
  | UpdateStatus job
  | PostBenchmark string json
  | GetBenchmark string
  | DeleteBenchmark string

datatype outcome = Return Result "go_error option" | Panic

type_synonym run = "effect list \<times> outcome"

section \<open>Constants\<close>

definition benchmarkJobFinalizer :: string where
  "benchmarkJobFinalizer = ''benchmarks.gpu-platform.io/finalizer''"

definition PhasePending :: string where "PhasePending = ''Pending''"
definition PhaseSubmitted :: string where "PhaseSubmitted = ''Submitted''"
definition PhaseRunning :: string where "PhaseRunning = ''Running''"
definition PhaseCompleted :: string where "PhaseCompleted = ''Completed''"
definition PhaseFailed :: string where "PhaseFailed = ''Failed''"

definition pollInterval :: duration where "pollInterval = 15 * Second"
definition retryInterval :: duration where "retryInterval = 30 * Second"

lemmas phase_defs [go_consts] =
  PhasePending_def PhaseSubmitted_def PhaseRunning_def PhaseCompleted_def PhaseFailed_def

lemma phase_distinct:
  "PhasePending \<noteq> ''''"
  "PhasePending \<noteq> PhaseSubmitted"
  "PhasePending \<noteq> PhaseRunning"
  "PhasePending \<noteq> PhaseCompleted"
  "PhasePending \<noteq> PhaseFailed"
  "PhaseSubmitted \<noteq> ''''"
  "PhaseSubmitted \<noteq> PhaseRunning"
  "PhaseSubmitted \<noteq> PhaseCompleted"
  "PhaseSubmitted \<noteq> PhaseFailed"
  "PhaseRunning \<noteq> ''''"
  "PhaseRunning \<noteq> PhaseCompleted"
  "PhaseRunning \<noteq> PhaseFailed"
  "PhaseCompleted \<noteq> ''''"
  "PhaseCompleted \<noteq> PhaseFailed"
  "PhaseFailed \<noteq> ''''"
  by (simp_all add: go_consts)

lemmas phase_neq [simp] = phase_distinct phase_distinct [symmetric]

section \<open>Response bodies\<close>

record submit_result =
  submit_JobID :: string
  submit_Status :: string

definition submit_fields :: "submit_result struct_fields" where
  "submit_fields =
     [(''job_id'', decode_string (\<lambda>s. submit_JobID_update (\<lambda>_. s))),
      (''status'', decode_string (\<lambda>s. submit_Status_update (\<lambda>_. s)))]"

definition zero_submit :: submit_result where
  "zero_submit = \<lparr>submit_JobID = '''', submit_Status = ''''\<rparr>"

record poll_metrics =
  poll_Throughput :: float64
  poll_LatencyMs :: float64
  poll_MemoryBandwidthGbps :: float64

definition metrics_fields :: "poll_metrics struct_fields" where
  "metrics_fields =
     [(''throughput'', decode_float64 (\<lambda>x. poll_Throughput_update (\<lambda>_. x))),
      (''latency_ms'', decode_float64 (\<lambda>x. poll_LatencyMs_update (\<lambda>_. x))),
      (''memory_bandwidth_gbps'', decode_float64 (\<lambda>x. poll_MemoryBandwidthGbps_update (\<lambda>_. x)))]"

definition zero_metrics :: poll_metrics where
  "zero_metrics =
     \<lparr>poll_Throughput = Fin 0, poll_LatencyMs = Fin 0, poll_MemoryBandwidthGbps = Fin 0\<rparr>"

record poll_result =
  poll_Status :: string
  poll_Result :: "poll_metrics option"

definition poll_fields :: "poll_result struct_fields" where
  "poll_fields =
     [(''status'', decode_string (\<lambda>s. poll_Status_update (\<lambda>_. s))),
      (''result'', decode_ptr poll_Result (\<lambda>p. poll_Result_update (\<lambda>_. p)) zero_metrics metrics_fields)]"

definition zero_poll :: poll_result where
  "zero_poll = \<lparr>poll_Status = '''', poll_Result = None\<rparr>"

text \<open>\<^verbatim>\<open>pollBackend\<close> decodes the status field alone: the result object is not looked at.\<close>

definition status_fields :: "string struct_fields" where
  "status_fields = [(''status'', decode_string (\<lambda>s _. s))]"

lemmas body_defs [decode_simps] =
  submit_fields_def zero_submit_def metrics_fields_def zero_metrics_def poll_fields_def
  zero_poll_def status_fields_def

section \<open>Handlers\<close>

definition defaultAPIURL :: string where
  "defaultAPIURL = ''http://gpu-benchmark-api:8000''"

definition apiURL :: "job \<Rightarrow> string" where
  "apiURL job =
     (if SchedulerAPIURL (Spec job) = '''' then defaultAPIURL else SchedulerAPIURL (Spec job))"

definition setPhase :: "env \<Rightarrow> job \<Rightarrow> string \<Rightarrow> string \<Rightarrow> run" where
  "setPhase E job phase message =
     (let job = job\<lparr>Status := (Status job)\<lparr>Phase := phase, Message := message\<rparr>\<rparr>
      in ([UpdateStatus job],
          case status_Update E job of
            Some err \<Rightarrow> Return emptyResult (Some (WrapError (''update status (phase='' @ phase @ '')'') err))
          | None \<Rightarrow> Return emptyResult None))"

definition effectiveMaxRetries :: "job \<Rightarrow> goint" where
  "effectiveMaxRetries job = (if MaxRetries (Spec job) = 0 then 3 else MaxRetries (Spec job))"

definition handleFailure :: "env \<Rightarrow> job \<Rightarrow> run" where
  "handleFailure E job =
     (let maxRetries = effectiveMaxRetries job
      in if sint (RetryCount (Status job)) < sint maxRetries
         then let job = job\<lparr>Status := (Status job)\<lparr>RetryCount := int_inc (RetryCount (Status job)),
                                                      JobID := ''''\<rparr>\<rparr>
              in setPhase E job PhasePending
                   (''retry '' @ show_goint (RetryCount (Status job)) @ ''/'' @ show_goint maxRetries
                    @ '' after backend failure'')
         else let job = job\<lparr>Status := (Status job)\<lparr>CompletionTime := Some (Now E)\<rparr>\<rparr>
              in setPhase E job PhaseFailed
                   (''failed after '' @ show_goint (RetryCount (Status job)) @ '' retries''))"

definition submit_payload :: "job \<Rightarrow> json" where
  "submit_payload job =
     Marshal
       [(''gpu_model'', GoString (GPUModel (Spec job))),
        (''workload_type'', GoString (WorkloadType (Spec job))),
        (''batch_size'', GoInt (BatchSize (Spec job))),
        (''idempotency_key'', GoString (idempotency_key (Namespace (JobMeta job)) (Name (JobMeta job))))]"

definition handlePending :: "env \<Rightarrow> job \<Rightarrow> run" where
  "handlePending E job =
     (let url = apiURL job @ ''/benchmarks'';
          body = submit_payload job;
          post = PostBenchmark url body;
          retry = ([post], Return (requeueAfter retryInterval) None)
      in case http_Post E url ''application/json'' body of
           Inl err \<Rightarrow> retry
         | Inr resp \<Rightarrow>
             (if StatusCode resp \<noteq> StatusAccepted \<and> StatusCode resp \<noteq> StatusOK then retry
              else case Decode submit_fields (Body resp) zero_submit of
                     None \<Rightarrow> retry
                   | Some result \<Rightarrow>
                       (let job = job\<lparr>Status := (Status job)\<lparr>JobID := submit_JobID result,
                                                               StartTime := Some (Now E)\<rparr>\<rparr>;
                            (effs, out) = setPhase E job PhaseSubmitted
                                            (''submitted to backend; jobID='' @ submit_JobID result)
                        in (post # effs, out))))"

definition pollBackend :: "env \<Rightarrow> job \<Rightarrow> effect list \<times> string option" where
  "pollBackend E job =
     (let url = job_url (apiURL job) (JobID (Status job))
      in ([GetBenchmark url],
          case http_Get E url of
            Inl err \<Rightarrow> None
          | Inr resp \<Rightarrow> Decode status_fields (Body resp) ''''))"

definition handleSubmitted :: "env \<Rightarrow> job \<Rightarrow> run" where
  "handleSubmitted E job =
     (case pollBackend E job of
        (poll, None) \<Rightarrow> (poll, Return (requeueAfter retryInterval) None)
      | (poll, Some status) \<Rightarrow>
          if status = ''running'' then
            (let (effs, out) = setPhase E job PhaseRunning ''execution in progress'' in (poll @ effs, out))
          else if status = ''queued'' then (poll, Return (requeueAfter pollInterval) None)
          else if status = ''failed'' then
            (let (effs, out) = handleFailure E job in (poll @ effs, out))
          else (poll, Return (requeueAfter pollInterval) None))"

definition record_metrics :: "poll_metrics option \<Rightarrow> job_status \<Rightarrow> job_status" where
  "record_metrics res st =
     (case res of
        None \<Rightarrow> st
      | Some m \<Rightarrow> st\<lparr>Throughput := Some (poll_Throughput m), LatencyMs := Some (poll_LatencyMs m),
                      MemoryBandwidthGbps := Some (poll_MemoryBandwidthGbps m)\<rparr>)"

definition handleRunning :: "env \<Rightarrow> job \<Rightarrow> run" where
  "handleRunning E job =
     (let url = job_url (apiURL job) (JobID (Status job));
          poll = GetBenchmark url
      in case http_Get E url of
           Inl err \<Rightarrow> ([poll], Return (requeueAfter retryInterval) None)
         | Inr resp \<Rightarrow>
             (case Decode poll_fields (Body resp) zero_poll of
                None \<Rightarrow> ([poll], Return (requeueAfter retryInterval) None)
              | Some result \<Rightarrow>
                  if poll_Status result = ''completed'' then
                    (let job = job\<lparr>Status := record_metrics (poll_Result result)
                                               ((Status job)\<lparr>CompletionTime := Some (Now E)\<rparr>)\<rparr>;
                         (effs, out) = setPhase E job PhaseCompleted ''benchmark execution successful''
                     in (poll # effs, out))
                  else if poll_Status result = ''failed'' then
                    (let (effs, out) = handleFailure E job in (poll # effs, out))
                  else ([poll], Return (requeueAfter pollInterval) None)))"

text \<open>
  Deletion. The request for the cancellation is built with its error discarded: where building it
  fails, the request is nil and \<^verbatim>\<open>HTTPClient.Do(nil)\<close> dereferences it, which panics. The answer of
  the backend to the cancellation, a response or an error, is closed or logged and changes nothing.
\<close>

definition handleDeletion :: "env \<Rightarrow> job \<Rightarrow> run" where
  "handleDeletion E job =
     (if ContainsFinalizer E job benchmarkJobFinalizer then
        (let cancel = JobID (Status job) \<noteq> '''' \<and> Phase (Status job) \<noteq> PhaseCompleted
                        \<and> Phase (Status job) \<noteq> PhaseFailed;
             url = job_url (apiURL job) (JobID (Status job));
             dels = (if cancel then [DeleteBenchmark url] else []);
             job = RemoveFinalizer E job benchmarkJobFinalizer
         in if cancel \<and> http_NewRequest E ''DELETE'' url \<noteq> None then ([], Panic)
            else (dels @ [UpdateJob job],
                  case client_Update E job of
                    Some err \<Rightarrow> Return emptyResult (Some (WrapError ''remove finalizer'' err))
                  | None \<Rightarrow> Return emptyResult None))
      else ([], Return emptyResult None))"

definition Reconcile :: "env \<Rightarrow> NamespacedName \<Rightarrow> run" where
  "Reconcile E req =
     (case client_Get E req of
        Inl err \<Rightarrow>
          ([FetchJob req],
           if IsNotFound E err then Return emptyResult None
           else Return emptyResult (Some (WrapError ''get BenchmarkJob'' err)))
      | Inr job \<Rightarrow>
          (let (effs, out) =
             (if \<not> time_is_zero (DeletionTimestamp (JobMeta job)) then handleDeletion E job
              else if \<not> ContainsFinalizer E job benchmarkJobFinalizer then
                (let job = AddFinalizer E job benchmarkJobFinalizer
                 in ([UpdateJob job],
                     case client_Update E job of
                       Some err \<Rightarrow> Return emptyResult (Some (WrapError ''add finalizer'' err))
                     | None \<Rightarrow> Return requeueNow None))
              else
                (let phase = Phase (Status job)
                 in if phase = '''' \<or> phase = PhasePending then handlePending E job
                    else if phase = PhaseSubmitted then handleSubmitted E job
                    else if phase = PhaseRunning then handleRunning E job
                    else if phase = PhaseCompleted \<or> phase = PhaseFailed then ([], Return emptyResult None)
                    else setPhase E job PhasePending ''unknown phase reset by operator''))
           in (FetchJob req # effs, out)))"

lemmas handlers [handler_defs] =
  Reconcile_def handlePending_def handleSubmitted_def handleRunning_def handleFailure_def
  handleDeletion_def pollBackend_def setPhase_def

end
