(* ===== verification/BenchmarkJob_Phases.thy ===== *)
theory BenchmarkJob_Phases
  imports BenchmarkJob_Controller
begin

text \<open>
  The phase machine the reconciler promises, as an inductive relation \<open>phase_move\<close> between a job
  and the status that is written for it, and the refinement: every status the reconciler writes is
  a move of the machine, whatever the environment answers. Below it, what one run of \<^verbatim>\<open>Reconcile\<close>
  may call, and in which order.
\<close>

section \<open>The phase machine\<close>

definition terminal_phase :: "string \<Rightarrow> bool" where
  "terminal_phase p \<longleftrightarrow> p = PhaseCompleted \<or> p = PhaseFailed"

definition start_phase :: "string \<Rightarrow> bool" where
  "start_phase p \<longleftrightarrow> p = '''' \<or> p = PhasePending"

definition active_phase :: "string \<Rightarrow> bool" where
  "active_phase p \<longleftrightarrow> p = PhaseSubmitted \<or> p = PhaseRunning"

definition known_phase :: "string \<Rightarrow> bool" where
  "known_phase p \<longleftrightarrow> start_phase p \<or> active_phase p \<or> terminal_phase p"

lemmas phase_classes = terminal_phase_def start_phase_def active_phase_def known_phase_def

lemma phase_class_simps [simp]:
  "start_phase ''''" "start_phase PhasePending" "active_phase PhaseSubmitted" "active_phase PhaseRunning"
  "terminal_phase PhaseCompleted" "terminal_phase PhaseFailed"
  "\<not> start_phase PhaseSubmitted" "\<not> start_phase PhaseRunning" "\<not> start_phase PhaseCompleted"
  "\<not> start_phase PhaseFailed" "\<not> active_phase ''''" "\<not> active_phase PhasePending"
  "\<not> active_phase PhaseCompleted" "\<not> active_phase PhaseFailed" "\<not> terminal_phase ''''"
  "\<not> terminal_phase PhasePending" "\<not> terminal_phase PhaseSubmitted" "\<not> terminal_phase PhaseRunning"
  by (simp_all add: phase_classes)

lemma phase_class_disjoint:
  "start_phase p \<Longrightarrow> \<not> active_phase p \<and> \<not> terminal_phase p"
  "active_phase p \<Longrightarrow> \<not> start_phase p \<and> \<not> terminal_phase p"
  "terminal_phase p \<Longrightarrow> \<not> start_phase p \<and> \<not> active_phase p"
  by (auto simp: phase_classes)

definition retries_left :: "job \<Rightarrow> bool" where
  "retries_left job \<longleftrightarrow> sint (RetryCount (Status job)) < sint (effectiveMaxRetries job)"

inductive phase_move :: "job \<Rightarrow> job_status \<Rightarrow> bool" where
  submit: "start_phase (Phase (Status job)) \<Longrightarrow>
     phase_move job ((Status job)\<lparr>JobID := i, StartTime := Some t, Phase := PhaseSubmitted, Message := m\<rparr>)"
| start: "Phase (Status job) = PhaseSubmitted \<Longrightarrow>
     phase_move job ((Status job)\<lparr>Phase := PhaseRunning, Message := m\<rparr>)"
| complete: "Phase (Status job) = PhaseRunning \<Longrightarrow>
     phase_move job ((record_metrics res ((Status job)\<lparr>CompletionTime := Some t\<rparr>))
                       \<lparr>Phase := PhaseCompleted, Message := m\<rparr>)"
| retry: "active_phase (Phase (Status job)) \<Longrightarrow> retries_left job \<Longrightarrow>
     phase_move job ((Status job)\<lparr>RetryCount := int_inc (RetryCount (Status job)), JobID := '''',
                                   Phase := PhasePending, Message := m\<rparr>)"
| give_up: "active_phase (Phase (Status job)) \<Longrightarrow> \<not> retries_left job \<Longrightarrow>
     phase_move job ((Status job)\<lparr>CompletionTime := Some t, Phase := PhaseFailed, Message := m\<rparr>)"
| reset: "\<not> known_phase (Phase (Status job)) \<Longrightarrow>
     phase_move job ((Status job)\<lparr>Phase := PhasePending, Message := m\<rparr>)"

lemma record_metrics_frame [simp]:
  "Phase (record_metrics res st) = Phase st"
  "JobID (record_metrics res st) = JobID st"
  "RetryCount (record_metrics res st) = RetryCount st"
  "StartTime (record_metrics res st) = StartTime st"
  "CompletionTime (record_metrics res st) = CompletionTime st"
  by (simp_all add: record_metrics_def split: option.split)

section \<open>What the handlers write\<close>

text \<open>
  A written object differs from the fetched one in its status alone, and that status is a move of
  the machine.
\<close>

definition written :: "job \<Rightarrow> job \<Rightarrow> bool" where
  "written job j \<longleftrightarrow> phase_move job (Status j) \<and> j = job\<lparr>Status := Status j\<rparr>"

lemma written_move: "written job j \<Longrightarrow> phase_move job (Status j)"
  by (simp only: written_def)

lemma written_frame:
  "written job j \<Longrightarrow> Spec j = Spec job \<and> JobMeta j = JobMeta job \<and> JobTypeMeta j = JobTypeMeta job"
  by (cases j; cases job) (simp add: written_def)

lemma setPhase_effects:
  "fst (setPhase E job p m) = [UpdateStatus (job\<lparr>Status := (Status job)\<lparr>Phase := p, Message := m\<rparr>\<rparr>)]"
  by (simp add: setPhase_def Let_def)

lemma handleFailure_writes:
  assumes "active_phase (Phase (Status job))"
  shows "\<exists>j. fst (handleFailure E job) = [UpdateStatus j] \<and> written job j"
proof (cases "retries_left job")
  case True
  then show ?thesis
    using phase_move.retry [OF assms True]
    by (auto simp: handleFailure_def setPhase_effects retries_left_def written_def)
next
  case False
  then show ?thesis
    using phase_move.give_up [OF assms False]
    by (auto simp: handleFailure_def setPhase_effects retries_left_def written_def)
qed

lemma handlePending_writes:
  assumes "start_phase (Phase (Status job))"
  shows "\<exists>us. fst (handlePending E job) =
           PostBenchmark (apiURL job @ ''/benchmarks'') (submit_payload job) # us \<and>
           (us = [] \<or> (\<exists>j. us = [UpdateStatus j] \<and> written job j))"
  using phase_move.submit [OF assms]
  by (auto simp: handlePending_def setPhase_def Let_def written_def split: sum.split option.split)

lemma handleSubmitted_writes:
  assumes "Phase (Status job) = PhaseSubmitted"
  shows "\<exists>us. fst (handleSubmitted E job) = GetBenchmark (job_url (apiURL job) (JobID (Status job))) # us \<and>
           (us = [] \<or> (\<exists>j. us = [UpdateStatus j] \<and> written job j))"
proof -
  have "active_phase (Phase (Status job))" using assms by (simp add: active_phase_def)
  then obtain j where j: "fst (handleFailure E job) = [UpdateStatus j]" "written job j"
    using handleFailure_writes by blast
  then show ?thesis
    using phase_move.start [OF assms]
    by (auto simp: handleSubmitted_def pollBackend_def setPhase_def Let_def written_def case_prod_unfold
        split: option.split)
qed

lemma handleRunning_writes:
  assumes "Phase (Status job) = PhaseRunning"
  shows "\<exists>us. fst (handleRunning E job) = GetBenchmark (job_url (apiURL job) (JobID (Status job))) # us \<and>
           (us = [] \<or> (\<exists>j. us = [UpdateStatus j] \<and> written job j))"
proof -
  have "active_phase (Phase (Status job))" using assms by (simp add: active_phase_def)
  then obtain j where j: "fst (handleFailure E job) = [UpdateStatus j]" "written job j"
    using handleFailure_writes by blast
  show ?thesis
    using j phase_move.complete [OF assms]
    by (auto simp: handleRunning_def setPhase_effects Let_def written_def case_prod_unfold
        split: sum.split option.split)
qed

section \<open>What one run calls\<close>

fun is_http :: "effect \<Rightarrow> bool" where
  "is_http (PostBenchmark _ _) = True"
| "is_http (GetBenchmark _) = True"
| "is_http (DeleteBenchmark _) = True"
| "is_http _ = False"

fun is_write :: "effect \<Rightarrow> bool" where
  "is_write (UpdateJob _) = True"
| "is_write (UpdateStatus _) = True"
| "is_write _ = False"

text \<open>The object a run acts on: fetched, not being deleted, with the finalizer registered.\<close>

definition driven :: "env \<Rightarrow> job \<Rightarrow> bool" where
  "driven E job \<longleftrightarrow> time_is_zero (DeletionTimestamp (JobMeta job)) \<and>
     ContainsFinalizer E job benchmarkJobFinalizer"

text \<open>What follows the fetch, by the kind of object that was fetched.\<close>

definition body_calls :: "env \<Rightarrow> job \<Rightarrow> effect list" where
  "body_calls E job =
     (if \<not> time_is_zero (DeletionTimestamp (JobMeta job)) then fst (handleDeletion E job)
      else if \<not> ContainsFinalizer E job benchmarkJobFinalizer
        then [UpdateJob (AddFinalizer E job benchmarkJobFinalizer)]
      else if start_phase (Phase (Status job)) then fst (handlePending E job)
      else if Phase (Status job) = PhaseSubmitted then fst (handleSubmitted E job)
      else if Phase (Status job) = PhaseRunning then fst (handleRunning E job)
      else if terminal_phase (Phase (Status job)) then []
      else fst (setPhase E job PhasePending ''unknown phase reset by operator''))"

lemma Reconcile_calls:
  "fst (Reconcile E req) =
     FetchJob req # (case client_Get E req of Inl _ \<Rightarrow> [] | Inr job \<Rightarrow> body_calls E job)"
  by (auto simp: Reconcile_def body_calls_def Let_def case_prod_unfold start_phase_def terminal_phase_def
      split: sum.split)

text \<open>At most one HTTP call, then at most one write.\<close>

fun http_then_write :: "effect list \<Rightarrow> bool" where
  "http_then_write [] = True"
| "http_then_write [e] = (is_http e \<or> is_write e)"
| "http_then_write [e, f] = (is_http e \<and> is_write f)"
| "http_then_write _ = False"

lemma handleDeletion_calls: "http_then_write (fst (handleDeletion E job))"
  by (simp add: handleDeletion_def Let_def)

lemma handleDeletion_no_status: "UpdateStatus j \<notin> set (fst (handleDeletion E job))"
  by (simp add: handleDeletion_def Let_def)

lemma phase_cases:
  obtains (start) "start_phase p" | (submitted) "p = PhaseSubmitted" | (running) "p = PhaseRunning"
    | (ended) "terminal_phase p" | (unknown) "\<not> known_phase p"
  by (auto simp: known_phase_def active_phase_def)

lemma body_calls_driven:
  assumes "driven E job"
  shows "http_then_write (body_calls E job) \<and> (\<forall>j. UpdateStatus j \<in> set (body_calls E job) \<longrightarrow> written job j)"
proof (cases "Phase (Status job)" rule: phase_cases)
  case start
  then have "body_calls E job = fst (handlePending E job)"
    using assms by (simp add: body_calls_def driven_def)
  with handlePending_writes [OF start, of E] show ?thesis by auto
next
  case submitted
  then have "body_calls E job = fst (handleSubmitted E job)"
    using assms by (simp add: body_calls_def driven_def start_phase_def)
  with handleSubmitted_writes [OF submitted, of E] show ?thesis by auto
next
  case running
  then have "body_calls E job = fst (handleRunning E job)"
    using assms by (simp add: body_calls_def driven_def start_phase_def)
  with handleRunning_writes [OF running, of E] show ?thesis by auto
next
  case ended
  then have "body_calls E job = []"
    using assms by (auto simp: body_calls_def driven_def phase_classes)
  then show ?thesis by simp
next
  case unknown
  then have "body_calls E job = fst (setPhase E job PhasePending ''unknown phase reset by operator'')"
    using assms by (auto simp: body_calls_def driven_def known_phase_def active_phase_def)
  with phase_move.reset [OF unknown] show ?thesis by (simp add: setPhase_effects written_def)
qed

lemma body_calls_shape: "http_then_write (body_calls E job)"
proof (cases "driven E job")
  case True
  then show ?thesis using body_calls_driven by blast
next
  case False
  then show ?thesis by (auto simp: body_calls_def driven_def handleDeletion_calls)
qed

lemma Reconcile_status_write:
  assumes "UpdateStatus j \<in> set (fst (Reconcile E req))"
  shows "\<exists>job. client_Get E req = Inr job \<and> driven E job \<and> written job j"
proof -
  from assms obtain job where g: "client_Get E req = Inr job" and u: "UpdateStatus j \<in> set (body_calls E job)"
    unfolding Reconcile_calls by (cases "client_Get E req") auto
  have d: "driven E job"
    using u handleDeletion_no_status [of j E job] by (auto simp: body_calls_def driven_def split: if_splits)
  with body_calls_driven [OF d] u g show ?thesis by blast
qed

section \<open>Outcomes\<close>

text \<open>A run ends in a panic in one situation only: the cancellation request cannot be built.\<close>

definition cancels :: "job \<Rightarrow> bool" where
  "cancels job \<longleftrightarrow> JobID (Status job) \<noteq> '''' \<and> \<not> terminal_phase (Phase (Status job))"

lemma setPhase_returns: "\<exists>r err. snd (setPhase E job p m) = Return r err"
  by (simp add: setPhase_def Let_def split: option.split)

lemma handleFailure_returns: "\<exists>r err. snd (handleFailure E job) = Return r err"
  by (simp add: handleFailure_def Let_def setPhase_returns)

lemma handlePending_returns: "\<exists>r err. snd (handlePending E job) = Return r err"
  by (auto simp: handlePending_def Let_def case_prod_unfold setPhase_returns split: sum.split option.split)

lemma handleSubmitted_returns: "\<exists>r err. snd (handleSubmitted E job) = Return r err"
  by (auto simp: handleSubmitted_def pollBackend_def Let_def case_prod_unfold setPhase_returns
      handleFailure_returns split: option.split)

lemma handleRunning_returns: "\<exists>r err. snd (handleRunning E job) = Return r err"
  by (auto simp: handleRunning_def Let_def case_prod_unfold setPhase_returns handleFailure_returns
      split: sum.split option.split)

lemma handleDeletion_panics:
  "snd (handleDeletion E job) = Panic \<longleftrightarrow>
     ContainsFinalizer E job benchmarkJobFinalizer \<and> cancels job \<and>
     http_NewRequest E ''DELETE'' (job_url (apiURL job) (JobID (Status job))) \<noteq> None"
  by (auto simp: handleDeletion_def cancels_def terminal_phase_def Let_def split: option.split)

end
