(* ===== verification/BenchmarkJob_Lifecycle.thy ===== *)
theory BenchmarkJob_Lifecycle
  imports BenchmarkJob_Phases Transition_System
begin

text \<open>
  The life of one BenchmarkJob object under repeated reconciliation. The stored object changes when
  the API server accepts a write of the reconciler (a status update replaces the status only, an
  update the rest: the CRD declares the status subresource) or when its owner edits or deletes it. The defaults
  of the schema are not applied again to a write: an object with an explicit \<^verbatim>\<open>maxRetries\<close> of 0 or an empty URL,
  which \<^verbatim>\<open>omitempty\<close> leaves out of the request, keeps them here.

  Two interpretations: the lifecycle with the status invariant, and the sequence of accepted status
  writes with a rank that bounds it.
\<close>

section \<open>Stored objects\<close>

fun persist :: "env \<Rightarrow> effect list \<Rightarrow> job \<Rightarrow> job" where
  "persist E [] j = j"
| "persist E (UpdateJob n # es) j =
     persist E es (if client_Update E n = None then j\<lparr>JobMeta := JobMeta n, Spec := Spec n\<rparr> else j)"
| "persist E (UpdateStatus n # es) j =
     persist E es (if status_Update E n = None then j\<lparr>Status := Status n\<rparr> else j)"
| "persist E (e # es) j = persist E es j"

definition reconcile_on :: "env \<Rightarrow> NamespacedName \<Rightarrow> job \<Rightarrow> job" where
  "reconcile_on E req j = persist E (fst (Reconcile (E\<lparr>client_Get := \<lambda>_. Inr j\<rparr>) req)) j"

fun drive :: "env list \<Rightarrow> NamespacedName \<Rightarrow> job \<Rightarrow> job" where
  "drive [] req j = j"
| "drive (E # Es) req j = drive Es req (reconcile_on E req j)"

inductive lifecycle :: "job \<Rightarrow> job \<Rightarrow> bool" where
  reconciled: "lifecycle j (reconcile_on E req j)"
| edited: "lifecycle j (j\<lparr>Spec := sp\<rparr>)"
| meta_changed: "lifecycle j (j\<lparr>JobMeta := m\<rparr>)"

definition fresh_job :: "job \<Rightarrow> bool" where
  "fresh_job j \<longleftrightarrow> Status j = zero_status"

section \<open>The status invariant\<close>

definition status_inv :: "job_status \<Rightarrow> bool" where
  "status_inv st \<longleftrightarrow>
     known_phase (Phase st) \<and>
     (CompletionTime st \<noteq> None \<longleftrightarrow> terminal_phase (Phase st)) \<and>
     (active_phase (Phase st) \<or> terminal_phase (Phase st) \<longrightarrow> StartTime st \<noteq> None) \<and>
     (start_phase (Phase st) \<longrightarrow> JobID st = '''') \<and>
     (Throughput st \<noteq> None \<longrightarrow> Phase st = PhaseCompleted) \<and>
     (Throughput st = None \<longleftrightarrow> LatencyMs st = None) \<and>
     (Throughput st = None \<longleftrightarrow> MemoryBandwidthGbps st = None) \<and>
     0 \<le> sint (RetryCount st)"

lemma status_inv_zero: "status_inv zero_status"
  by (simp add: status_inv_def zero_status_def known_phase_def)

lemma status_inv_move:
  assumes "phase_move job st" and "status_inv (Status job)"
  shows "status_inv st"
  using assms
proof (cases rule: phase_move.cases)
  case complete
  with assms(2) show ?thesis
    by (auto simp: status_inv_def known_phase_def record_metrics_def split: option.splits)
next
  case (retry m)
  then have "sint (int_inc (RetryCount (Status job))) = sint (RetryCount (Status job)) + 1"
    using sint_int_inc by (simp add: retries_left_def)
  with retry assms(2) show ?thesis
    by (auto simp: status_inv_def known_phase_def dest: phase_class_disjoint)
qed (auto simp: status_inv_def known_phase_def dest: phase_class_disjoint)

text \<open>A reconciliation leaves the stored status alone or replaces it by a move of the machine.\<close>

lemma persist_status:
  "Status (persist E es j) = Status j \<or>
   (\<exists>n. UpdateStatus n \<in> set es \<and> status_Update E n = None \<and> Status (persist E es j) = Status n)"
proof (induction E es j rule: persist.induct)
  case (2 E n es j)
  then show ?case by (cases "client_Update E n") auto
next
  case (3 E n es j)
  then show ?case by (cases "status_Update E n") auto
qed auto

lemma reconcile_on_status:
  "Status (reconcile_on E req j) = Status j \<or> phase_move j (Status (reconcile_on E req j))"
proof -
  let ?E = "E\<lparr>client_Get := \<lambda>_. Inr j\<rparr>"
  have "phase_move j (Status n)" if "UpdateStatus n \<in> set (fst (Reconcile ?E req))" for n
    using Reconcile_status_write [OF that] by (auto simp: written_def)
  then show ?thesis
    using persist_status [of E "fst (Reconcile ?E req)" j] by (auto simp: reconcile_on_def)
qed

interpretation life: invariant_system fresh_job lifecycle "\<lambda>j. status_inv (Status j)"
proof
  show "status_inv (Status s)" if "fresh_job s" for s
    using that by (simp add: fresh_job_def status_inv_zero)
next
  show "status_inv (Status t)" if "status_inv (Status s)" "lifecycle s t" for s t
    using that(2,1) reconcile_on_status status_inv_move
    by (cases rule: lifecycle.cases) (metis, simp_all)
qed

section \<open>Accepted status writes\<close>

inductive status_step :: "job \<Rightarrow> job \<Rightarrow> bool" where
  "client_Get E req = Inr j \<Longrightarrow> UpdateStatus n \<in> set (fst (Reconcile E req)) \<Longrightarrow>
   status_Update E n = None \<Longrightarrow> status_step j (j\<lparr>Status := Status n\<rparr>)"

lemma status_step_move:
  "status_step j k \<Longrightarrow> phase_move j (Status k) \<and> k = j\<lparr>Status := Status k\<rparr>"
  by (auto elim!: status_step.cases dest!: Reconcile_status_write simp: written_def)

definition phase_rank :: "string \<Rightarrow> nat" where
  "phase_rank p =
     (if start_phase p then 3 else if p = PhaseSubmitted then 2 else if p = PhaseRunning then 1
      else if terminal_phase p then 0 else 4)"

definition job_rank :: "job \<Rightarrow> nat" where
  "job_rank j = 3 * nat (sint (effectiveMaxRetries j) - sint (RetryCount (Status j))) + phase_rank (Phase (Status j))"

lemma phase_rank_simps [simp]:
  "start_phase p \<Longrightarrow> phase_rank p = 3" "phase_rank PhaseSubmitted = 2" "phase_rank PhaseRunning = 1"
  "terminal_phase p \<Longrightarrow> phase_rank p = 0" "\<not> known_phase p \<Longrightarrow> phase_rank p = 4"
  by (auto simp: phase_rank_def phase_classes)

lemma phase_rank_active: "active_phase p \<Longrightarrow> 1 \<le> phase_rank p"
  by (auto simp: active_phase_def)

lemma effectiveMaxRetries_frame [simp]:
  "effectiveMaxRetries (j\<lparr>Status := st\<rparr>) = effectiveMaxRetries j"
  by (simp add: effectiveMaxRetries_def)

lemma phase_move_rank:
  assumes "phase_move j st"
  shows "job_rank (j\<lparr>Status := st\<rparr>) < job_rank j"
  using assms
proof (cases rule: phase_move.cases)
  case (retry m)
  then have "sint (int_inc (RetryCount (Status j))) = sint (RetryCount (Status j)) + 1"
    using sint_int_inc by (simp add: retries_left_def)
  with retry phase_rank_active show ?thesis by (fastforce simp: job_rank_def retries_left_def)
next
  case give_up
  with phase_rank_active show ?thesis by (fastforce simp: job_rank_def)
qed (simp_all add: job_rank_def)

interpretation writes: ranked_system status_step "\<lambda>_. True" job_rank
proof
  show "job_rank t < job_rank s" if "status_step s t" for s t
    using status_step_move [OF that] phase_move_rank by metis
qed simp

text \<open>Between status writes the spec is fixed: the retry counter stays within its budget.\<close>

definition retry_budget :: "job \<Rightarrow> int" where
  "retry_budget j = max 0 (sint (effectiveMaxRetries j))"

definition retry_inv :: "job \<Rightarrow> bool" where
  "retry_inv j \<longleftrightarrow>
     0 \<le> sint (RetryCount (Status j)) \<and> sint (RetryCount (Status j)) \<le> retry_budget j \<and>
     (Phase (Status j) = PhaseFailed \<longrightarrow> sint (RetryCount (Status j)) = retry_budget j)"

lemma retry_inv_move:
  assumes "phase_move j st" and "retry_inv j"
  shows "retry_inv (j\<lparr>Status := st\<rparr>)"
  using assms
proof (cases rule: phase_move.cases)
  case (retry m)
  then have "sint (int_inc (RetryCount (Status j))) = sint (RetryCount (Status j)) + 1"
    using sint_int_inc by (simp add: retries_left_def)
  with retry assms(2) show ?thesis by (auto simp: retry_inv_def retry_budget_def retries_left_def)
qed (auto simp: retry_inv_def retry_budget_def retries_left_def)

interpretation budget: invariant_system fresh_job status_step retry_inv
proof
  show "retry_inv s" if "fresh_job s" for s
    using that by (simp add: fresh_job_def zero_status_def retry_inv_def retry_budget_def)
next
  show "retry_inv t" if "retry_inv s" "status_step s t" for s t
    using status_step_move [OF that(2)] retry_inv_move [OF _ that(1)] by metis
qed

lemma status_steps_frame: "status_step\<^sup>*\<^sup>* s t \<Longrightarrow> Spec t = Spec s \<and> JobMeta t = JobMeta s"
proof (induction rule: rtranclp_induct)
  case (step t u)
  then show ?case using written_frame [of t u] status_step_move [of t u] by (simp add: written_def)
qed simp

lemma phase_move_not_terminal: "phase_move j st \<Longrightarrow> \<not> terminal_phase (Phase (Status j))"
  by (cases rule: phase_move.cases) (auto dest: phase_class_disjoint simp: known_phase_def)

lemma phase_move_changes_phase: "phase_move j st \<Longrightarrow> Phase st \<noteq> Phase (Status j)"
  by (cases rule: phase_move.cases) (auto simp: known_phase_def dest: phase_class_disjoint)

end
