(* ===== verification/BenchmarkJob_Properties.thy ===== *)
theory BenchmarkJob_Properties
  imports BenchmarkJob_Lifecycle
begin

text \<open>
  The properties of the operator: the phase machine is refined, its invariant holds in every
  reachable status, the number of status writes is bounded, no wake-up is lost, errors and panics
  are characterised, and the submission carries what the backend needs.

  The example environment below instantiates the library calls for the witnesses; finalizers are
  those of the object's metadata, and an answer of the backend is a parameter.
\<close>

section \<open>An example environment\<close>

definition example_spec :: BenchmarkJobSpec where
  "example_spec = \<lparr>GPUModel = ''H100'', WorkloadType = ''inference'', BatchSize = 32,
                   SchedulerAPIURL = ''http://api'', MaxRetries = 2\<rparr>"

definition example_job :: "string list \<Rightarrow> job_status \<Rightarrow> job" where
  "example_job fs st =
     \<lparr>JobTypeMeta = \<lparr>Kind = ''BenchmarkJob'', APIVersion = ''benchmarks.gpu-platform.io/v1alpha1''\<rparr>,
      JobMeta = \<lparr>Name = ''h100'', Namespace = ''team'', DeletionTimestamp = None, Finalizers = fs\<rparr>,
      Spec = example_spec, Status = st\<rparr>"

definition example_env :: "job \<Rightarrow> http_response \<Rightarrow> http_response \<Rightarrow> env" where
  "example_env j post poll =
     \<lparr>client_Get = \<lambda>_. Inr j, client_Update = \<lambda>_. None, status_Update = \<lambda>_. None,
      IsNotFound = \<lambda>e. err_reason e = ''NotFound'',
      ContainsFinalizer = \<lambda>j f. f \<in> set (Finalizers (JobMeta j)),
      AddFinalizer = \<lambda>j f. j\<lparr>JobMeta := (JobMeta j)\<lparr>Finalizers := Finalizers (JobMeta j) @ [f]\<rparr>\<rparr>,
      RemoveFinalizer = \<lambda>j f. j\<lparr>JobMeta := (JobMeta j)\<lparr>Finalizers := removeAll f (Finalizers (JobMeta j))\<rparr>\<rparr>,
      http_Post = \<lambda>_ _ _. Inr post, http_Get = \<lambda>_. Inr poll,
      http_NewRequest = \<lambda>_ _. None, Now = 1000\<rparr>"

definition accepted_response :: "string \<Rightarrow> http_response" where
  "accepted_response i =
     \<lparr>StatusCode = 202, Body = Some (JObj [(''job_id'', JStr i), (''status'', JStr ''queued'')])\<rparr>"

definition status_response :: "string \<Rightarrow> http_response" where
  "status_response s = \<lparr>StatusCode = 200, Body = Some (JObj [(''status'', JStr s)])\<rparr>"

lemmas example_defs =
  example_spec_def example_job_def example_env_def accepted_response_def status_response_def zero_status_def

definition example_pending :: job where
  "example_pending = example_job [benchmarkJobFinalizer] zero_status"

definition example_submitted :: job_status where
  "example_submitted = zero_status\<lparr>JobID := ''id-1'', StartTime := Some 1000, Phase := PhaseSubmitted,
     Message := ''submitted to backend; jobID=id-1''\<rparr>"

section \<open>Refinement and invariants\<close>

text \<open>
  C1. Whatever the environment answers, every status \<^verbatim>\<open>Reconcile\<close> writes is a move of the phase
  machine from the status it fetched, the object was neither being deleted nor without finalizer,
  and the write changes no other part of the object.
\<close>

theorem Reconcile_refines_phase_machine:
  assumes "UpdateStatus j \<in> set (fst (Reconcile E req))"
  shows "\<exists>job. client_Get E req = Inr job \<and> driven E job \<and> phase_move job (Status j) \<and>
           Spec j = Spec job \<and> JobMeta j = JobMeta job \<and> JobTypeMeta j = JobTypeMeta job"
  using Reconcile_status_write [OF assms] written_frame written_move by blast

theorem Reconcile_refines_phase_machine_witness:
  "UpdateStatus (example_job [benchmarkJobFinalizer] example_submitted)
     \<in> set (fst (Reconcile (example_env example_pending (accepted_response ''id-1'') (status_response ''queued''))
                    (''team'', ''h100''))) \<and>
   (\<exists>job. client_Get (example_env example_pending (accepted_response ''id-1'') (status_response ''queued''))
             (''team'', ''h100'') = Inr job \<and> phase_move job example_submitted)" (is "?u \<and> ?c")
proof
  show u: ?u
    by (simp add: example_submitted_def example_pending_def example_defs handler_defs decode_simps go_consts
        time_is_zero_def)
  show ?c
    using Reconcile_refines_phase_machine [OF u] by (auto simp: example_job_def)
qed

text \<open>
  C2. In every status a BenchmarkJob can reach from its creation, through any interleaving of
  reconciliations (with any answers), spec edits and metadata changes: the phase is one of the known
  ones, the completion time is set exactly in a terminal phase, submitted jobs have a start time, a
  job waiting for submission has no backend ID, the three metrics are set together and only when
  Completed, and the retry counter is never negative.
\<close>

theorem lifecycle_status_invariant:
  assumes "fresh_job s" and "lifecycle\<^sup>*\<^sup>* s t"
  shows "status_inv (Status t)"
  using assms by (rule life.inv_reachable)

theorem lifecycle_status_invariant_witness:
  "fresh_job example_pending \<and> status_inv (Status (reconcile_on
      (example_env example_pending (accepted_response ''id-1'') (status_response ''queued'')) (''team'', ''h100'')
      example_pending))"
proof -
  have f: "fresh_job example_pending"
    by (simp add: fresh_job_def example_pending_def example_job_def)
  have "lifecycle example_pending (reconcile_on E r example_pending)" for E r
    by (rule lifecycle.reconciled)
  with f lifecycle_status_invariant [OF f] show ?thesis by blast
qed

text \<open>
  C11. Between spec edits the reconciler stops writing: from a fresh object, a sequence of accepted
  status writes has at most \<open>3 * n + 3\<close> elements, where \<open>n\<close> is the retry budget.
\<close>

theorem status_writes_bounded:
  assumes "fresh_job s" and "(status_step ^^ n) s t"
  shows "int n \<le> 3 * retry_budget s + 3"
proof -
  have "n \<le> job_rank s" using writes.run_bound [OF assms(2)] by simp
  moreover have "int (job_rank s) \<le> 3 * retry_budget s + 3"
    using assms(1) by (simp add: job_rank_def fresh_job_def zero_status_def retry_budget_def)
  ultimately show ?thesis by linarith
qed

lemma example_status_step:
  "status_step example_pending (example_job [benchmarkJobFinalizer] example_submitted)"
proof -
  define E where "E = example_env example_pending (accepted_response ''id-1'') (status_response ''queued'')"
  have "UpdateStatus (example_job [benchmarkJobFinalizer] example_submitted)
          \<in> set (fst (Reconcile E (''team'', ''h100'')))"
    by (simp add: E_def example_submitted_def example_pending_def example_defs handler_defs decode_simps
        go_consts time_is_zero_def)
  moreover have "client_Get E (''team'', ''h100'') = Inr example_pending" "status_Update E j = None" for j
    by (simp_all add: E_def example_env_def)
  ultimately have "status_step example_pending
      (example_pending\<lparr>Status := Status (example_job [benchmarkJobFinalizer] example_submitted)\<rparr>)"
    by (intro status_step.intros)
  then show ?thesis by (simp add: example_pending_def example_job_def)
qed

theorem status_writes_bounded_witness:
  "fresh_job example_pending \<and> (\<exists>t. (status_step ^^ 1) example_pending t) \<and>
   int 1 \<le> 3 * retry_budget example_pending + 3"
proof -
  have f: "fresh_job example_pending"
    by (simp add: fresh_job_def example_pending_def example_job_def)
  moreover have s: "(status_step ^^ 1) example_pending (example_job [benchmarkJobFinalizer] example_submitted)"
    using example_status_step by (simp add: relcompp_apply)
  ultimately show ?thesis using status_writes_bounded [OF f s] by blast
qed

text \<open>
  The retry counter: along accepted status writes from a fresh object it stays between 0 and the
  retry budget (so the 64-bit increment never wraps around), and the job is Failed only with the
  whole budget spent.
\<close>

theorem retry_count_within_budget:
  assumes "fresh_job s" and "status_step\<^sup>*\<^sup>* s t"
  shows "0 \<le> sint (RetryCount (Status t)) \<and> sint (RetryCount (Status t)) \<le> retry_budget s \<and>
         (Phase (Status t) = PhaseFailed \<longrightarrow> sint (RetryCount (Status t)) = retry_budget s)"
proof -
  have "retry_budget t = retry_budget s"
    using status_steps_frame [OF assms(2)] by (simp add: retry_budget_def effectiveMaxRetries_def)
  with budget.inv_reachable [OF assms] show ?thesis by (simp add: retry_inv_def)
qed

theorem retry_count_within_budget_witness:
  "fresh_job example_pending \<and>
   status_step\<^sup>*\<^sup>* example_pending (example_job [benchmarkJobFinalizer] example_submitted) \<and>
   sint (RetryCount example_submitted) \<le> retry_budget example_pending"
proof -
  have f: "fresh_job example_pending"
    by (simp add: fresh_job_def example_pending_def example_job_def)
  moreover have s: "status_step\<^sup>*\<^sup>* example_pending (example_job [benchmarkJobFinalizer] example_submitted)"
    using example_status_step by simp
  ultimately show ?thesis
    using retry_count_within_budget [OF f s] by (simp add: example_job_def)
qed

text \<open>
  Terminal phases are final: in Completed or Failed, reconciling writes nothing, calls no
  backend and asks for no requeue, and the stored status never changes again.
\<close>

theorem terminal_phase_final:
  assumes "terminal_phase (Phase (Status j))"
  shows "Status (reconcile_on E req j) = Status j \<and>
         (driven E j \<longrightarrow>
            Reconcile (E\<lparr>client_Get := \<lambda>_. Inr j\<rparr>) req = ([FetchJob req], Return emptyResult None))"
proof
  show "Status (reconcile_on E req j) = Status j"
    using reconcile_on_status [of E req j] phase_move_not_terminal assms by blast
  show "driven E j \<longrightarrow> Reconcile (E\<lparr>client_Get := \<lambda>_. Inr j\<rparr>) req = ([FetchJob req], Return emptyResult None)"
    using assms by (auto simp: Reconcile_def driven_def terminal_phase_def)
qed

theorem terminal_phase_final_witness:
  "terminal_phase (Phase (zero_status\<lparr>Phase := PhaseFailed\<rparr>)) \<and>
   Reconcile (example_env (example_job [benchmarkJobFinalizer] (zero_status\<lparr>Phase := PhaseFailed\<rparr>))
       (accepted_response ''x'') (status_response ''completed'')) (''team'', ''h100'')
     = ([FetchJob (''team'', ''h100'')], Return emptyResult None)"
proof -
  define j where "j = example_job [benchmarkJobFinalizer] (zero_status\<lparr>Phase := PhaseFailed\<rparr>)"
  define E where "E = example_env j (accepted_response ''x'') (status_response ''completed'')"
  have "terminal_phase (Phase (Status j))" "driven E j" "E\<lparr>client_Get := \<lambda>_. Inr j\<rparr> = E"
    by (simp_all add: j_def E_def example_job_def example_env_def driven_def time_is_zero_def)
  then have "Reconcile E (''team'', ''h100'') = ([FetchJob (''team'', ''h100'')], Return emptyResult None)"
    using terminal_phase_final [of j E] by simp
  then show ?thesis by (simp add: j_def E_def)
qed

section \<open>Calls, errors and wake-ups\<close>

text \<open>
  A run fetches the object first and then makes at most one HTTP call followed by at most one
  write to the API server; nothing else is ever called, and nothing after the write.
\<close>

theorem Reconcile_call_order:
  "\<exists>cs. fst (Reconcile E req) = FetchJob req # cs \<and> http_then_write cs"
  unfolding Reconcile_calls by (cases "client_Get E req") (simp_all add: body_calls_shape)

text \<open>
  C34. The run panics in exactly one situation: the object is being deleted with the finalizer still
  on it, a backend job would have to be cancelled, and the cancellation request cannot be built
  (its URL does not parse). The error of building the request is discarded by the code.
\<close>

theorem Reconcile_panics_iff:
  "snd (Reconcile E req) = Panic \<longleftrightarrow>
     (\<exists>job. client_Get E req = Inr job \<and> \<not> time_is_zero (DeletionTimestamp (JobMeta job)) \<and>
        ContainsFinalizer E job benchmarkJobFinalizer \<and> cancels job \<and>
        http_NewRequest E ''DELETE'' (job_url (apiURL job) (JobID (Status job))) \<noteq> None)"
proof (cases "client_Get E req")
  case (Inl err)
  then show ?thesis by (simp add: Reconcile_def)
next
  case (Inr job)
  have "snd (handlePending E job) \<noteq> Panic" "snd (handleSubmitted E job) \<noteq> Panic"
    "snd (handleRunning E job) \<noteq> Panic" "snd (setPhase E job p m) \<noteq> Panic" for p m
    using handlePending_returns [of E job] handleSubmitted_returns [of E job]
      handleRunning_returns [of E job] setPhase_returns [of E job p m] by force+
  with Inr show ?thesis
    by (auto simp: Reconcile_def Let_def case_prod_unfold handleDeletion_panics split: option.split)
qed

text \<open>Where an error that a handler returns comes from: the one write it made was refused.\<close>

lemma setPhase_error:
  "snd (setPhase E job p m) = Return r (Some err) \<Longrightarrow>
   r = emptyResult \<and> (\<exists>j e. UpdateStatus j \<in> set (fst (setPhase E job p m)) \<and> status_Update E j = Some e \<and>
     err = WrapError (''update status (phase='' @ Phase (Status j) @ '')'') e)"
  by (auto simp: setPhase_def Let_def split: option.splits)

definition surfaced :: "env \<Rightarrow> effect list \<Rightarrow> go_error \<Rightarrow> bool" where
  "surfaced E cs err \<longleftrightarrow>
     (\<exists>j e. UpdateStatus j \<in> set cs \<and> status_Update E j = Some e \<and>
        err = WrapError (''update status (phase='' @ Phase (Status j) @ '')'') e) \<or>
     (\<exists>j e. UpdateJob j \<in> set cs \<and> client_Update E j = Some e \<and>
        (err = WrapError ''add finalizer'' e \<or> err = WrapError ''remove finalizer'' e))"

lemma surfaced_mono: "surfaced E cs err \<Longrightarrow> set cs \<subseteq> set ds \<Longrightarrow> surfaced E ds err"
  unfolding surfaced_def by blast

lemma setPhase_surfaced:
  "snd (setPhase E job p m) = Return r (Some err) \<Longrightarrow> r = emptyResult \<and> surfaced E (fst (setPhase E job p m)) err"
  using setPhase_error unfolding surfaced_def by blast

lemma handleFailure_surfaced:
  "snd (handleFailure E job) = Return r (Some err) \<Longrightarrow> r = emptyResult \<and> surfaced E (fst (handleFailure E job)) err"
  by (auto simp: handleFailure_def Let_def split: if_splits dest: setPhase_surfaced)

lemma handlePending_surfaced:
  "snd (handlePending E job) = Return r (Some err) \<Longrightarrow> r = emptyResult \<and> surfaced E (fst (handlePending E job)) err"
  by (auto simp: handlePending_def Let_def case_prod_unfold split: sum.splits option.splits if_splits
      dest!: setPhase_surfaced intro: surfaced_mono)

lemma handleSubmitted_surfaced:
  "snd (handleSubmitted E job) = Return r (Some err) \<Longrightarrow> r = emptyResult \<and> surfaced E (fst (handleSubmitted E job)) err"
  by (auto simp: handleSubmitted_def pollBackend_def Let_def case_prod_unfold split: option.splits if_splits
      dest!: setPhase_surfaced handleFailure_surfaced intro: surfaced_mono)

lemma handleRunning_surfaced:
  "snd (handleRunning E job) = Return r (Some err) \<Longrightarrow> r = emptyResult \<and> surfaced E (fst (handleRunning E job)) err"
  by (auto simp: handleRunning_def Let_def case_prod_unfold split: sum.splits option.splits if_splits
      dest!: setPhase_surfaced handleFailure_surfaced intro: surfaced_mono)

lemma handleDeletion_surfaced:
  "snd (handleDeletion E job) = Return r (Some err) \<Longrightarrow> r = emptyResult \<and> surfaced E (fst (handleDeletion E job)) err"
  by (auto simp: handleDeletion_def surfaced_def Let_def split: option.splits if_splits)

lemmas handlers_surfaced =
  setPhase_surfaced handlePending_surfaced handleSubmitted_surfaced handleRunning_surfaced handleDeletion_surfaced

text \<open>
  C33. HTTP failures never surface as errors: \<^verbatim>\<open>Reconcile\<close> returns an error only when a call to the API
  server failed (other than the object being gone), and the error wraps that failure.
\<close>

theorem Reconcile_errors_are_api_failures:
  assumes "snd (Reconcile E req) = Return r (Some err)"
  shows "r = emptyResult \<and>
    ((\<exists>e. client_Get E req = Inl e \<and> \<not> IsNotFound E e \<and> err = WrapError ''get BenchmarkJob'' e) \<or>
     surfaced E (fst (Reconcile E req)) err)"
proof (cases "client_Get E req")
  case (Inl e)
  with assms show ?thesis by (auto simp: Reconcile_def split: if_splits)
next
  case (Inr job)
  show ?thesis
  proof (cases "\<not> time_is_zero (DeletionTimestamp (JobMeta job)) \<or> ContainsFinalizer E job benchmarkJobFinalizer")
    case True
    with assms Inr show ?thesis
      by (auto simp: Reconcile_def Let_def case_prod_unfold split: if_splits
          dest!: handlers_surfaced intro: surfaced_mono)
  next
    case False
    with assms Inr show ?thesis
      by (auto simp: Reconcile_def Let_def surfaced_def split: option.splits)
  qed
qed

theorem Reconcile_errors_are_api_failures_witness:
  "let E = (example_env example_pending (accepted_response ''x'') (status_response ''x''))
             \<lparr>client_Get := \<lambda>_. Inl (StatusError ''Timeout'' ''timed out'')\<rparr>;
       err = WrapError ''get BenchmarkJob'' (StatusError ''Timeout'' ''timed out'')
   in snd (Reconcile E (''team'', ''h100'')) = Return emptyResult (Some err) \<and>
      (\<exists>e. client_Get E (''team'', ''h100'') = Inl e \<and> err = WrapError ''get BenchmarkJob'' e)"
proof -
  define E where "E = (example_env example_pending (accepted_response ''x'') (status_response ''x''))
             \<lparr>client_Get := \<lambda>_. Inl (StatusError ''Timeout'' ''timed out'')\<rparr>"
  have r: "snd (Reconcile E (''team'', ''h100'')) =
      Return emptyResult (Some (WrapError ''get BenchmarkJob'' (StatusError ''Timeout'' ''timed out'')))"
    by (simp add: E_def Reconcile_def example_env_def)
  moreover have "\<not> surfaced E (fst (Reconcile E (''team'', ''h100''))) err" for err
    by (simp add: E_def Reconcile_def example_env_def surfaced_def)
  ultimately show ?thesis
    using Reconcile_errors_are_api_failures [OF r] by (auto simp: Let_def E_def)
qed

text \<open>A run that makes sure the object is looked at again.\<close>

definition wakes :: "env \<Rightarrow> run \<Rightarrow> bool" where
  "wakes E run \<longleftrightarrow>
     (\<exists>r err. snd run = Return r err \<and>
        (err \<noteq> None \<or> Requeue r \<or> 0 < RequeueAfter r \<or>
         (\<exists>j. UpdateStatus j \<in> set (fst run) \<and> status_Update E j = None)))"

lemma setPhase_wakes: "wakes E (setPhase E job p m)"
  by (auto simp: wakes_def setPhase_def Let_def split: option.split)

lemma handleFailure_wakes: "wakes E (handleFailure E job)"
  by (simp add: handleFailure_def Let_def setPhase_wakes)

lemma wakes_append: "wakes E run \<Longrightarrow> set (fst run) \<subseteq> set cs \<Longrightarrow> wakes E (cs, snd run)"
  by (simp add: wakes_def) blast

lemma requeue_wakes [simp]:
  "wakes E (cs, Return (requeueAfter retryInterval) None)" "wakes E (cs, Return (requeueAfter pollInterval) None)"
  by (simp_all add: wakes_def requeueAfter_def retryInterval_def pollInterval_def Second_def)

lemma handlePending_wakes: "wakes E (handlePending E job)"
  by (auto simp: handlePending_def Let_def case_prod_unfold split: sum.split option.split
      intro: wakes_append setPhase_wakes)

lemma handleSubmitted_wakes: "wakes E (handleSubmitted E job)"
  by (auto simp: handleSubmitted_def pollBackend_def Let_def case_prod_unfold split: option.split
      intro: wakes_append setPhase_wakes handleFailure_wakes)

lemma handleRunning_wakes: "wakes E (handleRunning E job)"
  by (auto simp: handleRunning_def Let_def case_prod_unfold split: sum.split option.split
      intro: wakes_append setPhase_wakes handleFailure_wakes)

lemma Reconcile_wakes:
  assumes "client_Get E req = Inr job" and "time_is_zero (DeletionTimestamp (JobMeta job))"
    and "\<not> terminal_phase (Phase (Status job))"
  shows "wakes E (Reconcile E req)"
proof (cases "ContainsFinalizer E job benchmarkJobFinalizer")
  case True
  with assms show ?thesis
    by (auto simp: Reconcile_def Let_def case_prod_unfold terminal_phase_def
        intro!: wakes_append handlePending_wakes handleSubmitted_wakes handleRunning_wakes setPhase_wakes)
next
  case False
  with assms show ?thesis
    by (auto simp: Reconcile_def Let_def wakes_def requeueNow_def split: option.split)
qed

text \<open>
  C32. No wake-up is lost. For an object that is not being deleted and not in a terminal phase, every
  run ends with an error (which requeues), an explicit requeue, a later requeue, or an accepted status
  write that changes the phase (which the watch reports): the job is always looked at again.
\<close>

theorem Reconcile_never_loses_a_job:
  assumes "client_Get E req = Inr job" and "time_is_zero (DeletionTimestamp (JobMeta job))"
    and "\<not> terminal_phase (Phase (Status job))"
  shows "\<exists>r err. snd (Reconcile E req) = Return r err \<and>
    (err \<noteq> None \<or> Requeue r \<or> 0 < RequeueAfter r \<or>
     (\<exists>j. UpdateStatus j \<in> set (fst (Reconcile E req)) \<and> status_Update E j = None \<and>
          Phase (Status j) \<noteq> Phase (Status job)))"
proof -
  have "Phase (Status j) \<noteq> Phase (Status job)" if "UpdateStatus j \<in> set (fst (Reconcile E req))" for j
    using Reconcile_status_write [OF that] assms(1) written_move phase_move_changes_phase by fastforce
  with Reconcile_wakes [OF assms] show ?thesis unfolding wakes_def by blast
qed

theorem Reconcile_never_loses_a_job_witness:
  "let E = example_env example_pending \<lparr>StatusCode = 503, Body = None\<rparr> (status_response ''x'')
   in client_Get E (''team'', ''h100'') = Inr example_pending \<and>
      (\<exists>r err. snd (Reconcile E (''team'', ''h100'')) = Return r err \<and> 0 < RequeueAfter r)"
proof -
  define E where "E = example_env example_pending \<lparr>StatusCode = 503, Body = None\<rparr> (status_response ''x'')"
  have g: "client_Get E (''team'', ''h100'') = Inr example_pending"
    by (simp add: E_def example_env_def)
  have "\<exists>r err. snd (Reconcile E (''team'', ''h100'')) = Return r err \<and>
    (err \<noteq> None \<or> Requeue r \<or> 0 < RequeueAfter r \<or>
     (\<exists>j. UpdateStatus j \<in> set (fst (Reconcile E (''team'', ''h100''))) \<and> status_Update E j = None \<and>
          Phase (Status j) \<noteq> Phase (Status example_pending)))"
    by (rule Reconcile_never_loses_a_job [OF g])
      (simp_all add: example_pending_def example_job_def time_is_zero_def zero_status_def)
  moreover have "Reconcile E (''team'', ''h100'') =
    ([FetchJob (''team'', ''h100''), PostBenchmark ''http://api/benchmarks'' (submit_payload example_pending)],
     Return (requeueAfter retryInterval) None)"
    by (simp add: E_def example_pending_def example_defs handler_defs go_consts time_is_zero_def apiURL_def)
  ultimately show ?thesis
    using g by (auto simp: Let_def requeueAfter_def simp flip: E_def)
qed

end
