(* ===== verification/Submission.thy ===== *)
theory Submission
  imports Kube_Types
begin

text \<open>
  What the two control planes share: both submit a benchmark with a POST whose body holds the
  execution parameters and an idempotency key made of the identity of the object. The locale states
  this as an interface of the object type; the operator's and the provider's payloads are
  interpretations of it.
\<close>

record submission_params =
  sub_gpu_model :: string
  sub_workload_type :: string
  sub_batch_size :: goint

definition submission_member :: "submission_params \<Rightarrow> string \<Rightarrow> string \<Rightarrow> json option" where
  "submission_member p key k =
     (if k = ''gpu_model'' then Some (JStr (sub_gpu_model p))
      else if k = ''workload_type'' then Some (JStr (sub_workload_type p))
      else if k = ''batch_size'' then Some (JNum (of_int (sint (sub_batch_size p))))
      else if k = ''idempotency_key'' then Some (JStr key)
      else None)"

locale submission =
  fixes payload :: "'o \<Rightarrow> json"
    and params :: "'o \<Rightarrow> submission_params"
    and ns :: "'o \<Rightarrow> string"
    and nm :: "'o \<Rightarrow> string"
  assumes members: "json_member (payload x) k = submission_member (params x) (idempotency_key (ns x) (nm x)) k"
begin

lemma payload_key: "json_member (payload x) ''idempotency_key'' = Some (JStr (idempotency_key (ns x) (nm x)))"
  by (simp add: members submission_member_def)

text \<open>The key identifies the object: namespaces hold no slash.\<close>

lemma same_key_iff:
  assumes "CHR ''/'' \<notin> set (ns x)" and "CHR ''/'' \<notin> set (ns y)"
  shows "json_member (payload x) ''idempotency_key'' = json_member (payload y) ''idempotency_key'' \<longleftrightarrow>
           ns x = ns y \<and> nm x = nm y"
  using assms by (simp add: payload_key idempotency_key_inject)

text \<open>The body determines the parameters it was made from.\<close>

lemma payload_params:
  assumes "payload x = payload y"
  shows "params x = params y"
proof -
  have "submission_member (params x) (idempotency_key (ns x) (nm x)) k
      = submission_member (params y) (idempotency_key (ns y) (nm y)) k" for k
    using assms members by metis
  from this [of "''gpu_model''"] this [of "''workload_type''"] this [of "''batch_size''"]
  show ?thesis by (simp add: submission_member_def signed_word_eqI del: of_int_sint)
qed

end

end
