(* ===== verification/BenchmarkJob_Behaviour.thy ===== *)
theory BenchmarkJob_Behaviour
  imports BenchmarkJob_Properties Submission
begin

text \<open>
  What one reconciliation does to the stored object in each situation, as equations for
  \<open>reconcile_on\<close>, and the behaviours built from them: the successful run of a benchmark, the retry
  path, deletion, and the situations in which the operator makes no progress.
\<close>

section \<open>One reconciliation at a time\<close>

text \<open>
  What the code relies on of the finalizer helpers of controller-runtime: they read and write the
  finalizer list of the metadata and nothing else.
\<close>

definition finalizer_laws :: "env \<Rightarrow> bool" where
  "finalizer_laws E \<longleftrightarrow>
     (\<forall>j f. ContainsFinalizer E j f \<longleftrightarrow> f \<in> set (Finalizers (JobMeta j))) \<and>
     (\<forall>j f. \<exists>fs. AddFinalizer E j f = j\<lparr>JobMeta := (JobMeta j)\<lparr>Finalizers := fs\<rparr>\<rparr> \<and>
                 set fs = insert f (set (Finalizers (JobMeta j)))) \<and>
     (\<forall>j f. \<exists>fs. RemoveFinalizer E j f = j\<lparr>JobMeta := (JobMeta j)\<lparr>Finalizers := fs\<rparr>\<rparr> \<and>
                 set fs = set (Finalizers (JobMeta j)) - {f})"

definition writes_accepted :: "env \<Rightarrow> bool" where
  "writes_accepted E \<longleftrightarrow> (\<forall>j. client_Update E j = None) \<and> (\<forall>j. status_Update E j = None)"

lemma helpers_client_Get [simp]:
  "setPhase (E\<lparr>client_Get := g\<rparr>) j p m = setPhase E j p m"
  "pollBackend (E\<lparr>client_Get := g\<rparr>) j = pollBackend E j"
  by (simp_all add: setPhase_def pollBackend_def)

lemma handleFailure_client_Get [simp]: "handleFailure (E\<lparr>client_Get := g\<rparr>) j = handleFailure E j"
  by (simp add: handleFailure_def Let_def)

lemma handlers_client_Get [simp]:
  "handlePending (E\<lparr>client_Get := g\<rparr>) j = handlePending E j"
  "handleSubmitted (E\<lparr>client_Get := g\<rparr>) j = handleSubmitted E j"
  "handleRunning (E\<lparr>client_Get := g\<rparr>) j = handleRunning E j"
  "handleDeletion (E\<lparr>client_Get := g\<rparr>) j = handleDeletion E j"
  by (simp_all add: handlePending_def handleSubmitted_def handleRunning_def handleDeletion_def Let_def
      cong: sum.case_cong option.case_cong if_cong)

lemma body_calls_client_Get [simp]: "body_calls (E\<lparr>client_Get := g\<rparr>) j = body_calls E j"
  by (simp add: body_calls_def)

lemma reconcile_on_persist: "reconcile_on E req j = persist E (body_calls E j) j"
  by (simp add: reconcile_on_def Reconcile_calls)

lemma persist_http [simp]:
  "persist E (PostBenchmark u b # es) j = persist E es j"
  "persist E (GetBenchmark u # es) j = persist E es j"
  "persist E (DeleteBenchmark u # es) j = persist E es j"
  by simp_all

lemma on_new_object:
  assumes "time_is_zero (DeletionTimestamp (JobMeta j))" "\<not> ContainsFinalizer E j benchmarkJobFinalizer"
    and "writes_accepted E"
  shows "reconcile_on E req j =
    j\<lparr>JobMeta := JobMeta (AddFinalizer E j benchmarkJobFinalizer),
      Spec := Spec (AddFinalizer E j benchmarkJobFinalizer)\<rparr>"
  using assms by (simp add: reconcile_on_persist body_calls_def writes_accepted_def)

lemma on_pending:
  assumes "driven E j" "start_phase (Phase (Status j))" "writes_accepted E"
    and "http_Post E (apiURL j @ ''/benchmarks'') ''application/json'' (submit_payload j) = Inr resp"
    and "StatusCode resp \<in> {StatusAccepted, StatusOK}"
    and "Decode submit_fields (Body resp) zero_submit = Some r"
  shows "reconcile_on E req j =
    j\<lparr>Status := (Status j)\<lparr>JobID := submit_JobID r, StartTime := Some (Now E), Phase := PhaseSubmitted,
                 Message := ''submitted to backend; jobID='' @ submit_JobID r\<rparr>\<rparr>"
  using assms
  by (auto simp: reconcile_on_persist body_calls_def driven_def writes_accepted_def handlePending_def
      setPhase_def Let_def)

text \<open>A submission that is refused leaves the object as it is.\<close>

lemma on_pending_refused:
  assumes "driven E j" "start_phase (Phase (Status j))"
    and "http_Post E (apiURL j @ ''/benchmarks'') ''application/json'' (submit_payload j) = Inr resp"
    and "StatusCode resp \<noteq> StatusAccepted" "StatusCode resp \<noteq> StatusOK"
  shows "reconcile_on E req j = j"
  using assms by (auto simp: reconcile_on_persist body_calls_def driven_def handlePending_def Let_def)

lemma on_submitted_running:
  assumes "driven E j" "Phase (Status j) = PhaseSubmitted" "writes_accepted E"
    and "snd (pollBackend E j) = Some ''running''"
  shows "reconcile_on E req j =
    j\<lparr>Status := (Status j)\<lparr>Phase := PhaseRunning, Message := ''execution in progress''\<rparr>\<rparr>"
  using assms
  by (auto simp: reconcile_on_persist body_calls_def driven_def writes_accepted_def handleSubmitted_def
      setPhase_def Let_def pollBackend_def start_phase_def)

text \<open>A poll that reports anything but running or failed leaves a Submitted job where it is.\<close>

lemma on_submitted_other:
  assumes "driven E j" "Phase (Status j) = PhaseSubmitted"
    and "snd (pollBackend E j) \<noteq> Some ''running''" "snd (pollBackend E j) \<noteq> Some ''failed''"
  shows "reconcile_on E req j = j"
  using assms
  by (auto simp: reconcile_on_persist body_calls_def driven_def handleSubmitted_def
      Let_def pollBackend_def start_phase_def split: option.split)

definition poll_answer :: "env \<Rightarrow> job \<Rightarrow> poll_result option" where
  "poll_answer E j =
     (case http_Get E (job_url (apiURL j) (JobID (Status j))) of
        Inl _ \<Rightarrow> None | Inr resp \<Rightarrow> Decode poll_fields (Body resp) zero_poll)"

lemma on_running_completed:
  assumes "driven E j" "Phase (Status j) = PhaseRunning" "writes_accepted E"
    and "poll_answer E j = Some r" "poll_Status r = ''completed''"
  shows "reconcile_on E req j =
    j\<lparr>Status := (record_metrics (poll_Result r) ((Status j)\<lparr>CompletionTime := Some (Now E)\<rparr>))
                  \<lparr>Phase := PhaseCompleted, Message := ''benchmark execution successful''\<rparr>\<rparr>"
  using assms
  by (auto simp: reconcile_on_persist body_calls_def driven_def writes_accepted_def handleRunning_def
      setPhase_def Let_def poll_answer_def start_phase_def split: sum.splits)

lemma on_running_other:
  assumes "driven E j" "Phase (Status j) = PhaseRunning"
    and "\<And>r. poll_answer E j = Some r \<Longrightarrow> poll_Status r \<noteq> ''completed'' \<and> poll_Status r \<noteq> ''failed''"
  shows "reconcile_on E req j = j"
  using assms
  by (auto simp: reconcile_on_persist body_calls_def driven_def handleRunning_def
      Let_def poll_answer_def start_phase_def split: sum.splits option.split)

text \<open>A reported failure: another attempt while the budget lasts, else Failed.\<close>

definition failed_status :: "env \<Rightarrow> job \<Rightarrow> job_status" where
  "failed_status E j =
     (if retries_left j
      then (Status j)\<lparr>RetryCount := int_inc (RetryCount (Status j)), JobID := '''', Phase := PhasePending,
             Message := ''retry '' @ show_goint (int_inc (RetryCount (Status j))) @ ''/''
                        @ show_goint (effectiveMaxRetries j) @ '' after backend failure''\<rparr>
      else (Status j)\<lparr>CompletionTime := Some (Now E), Phase := PhaseFailed,
             Message := ''failed after '' @ show_goint (RetryCount (Status j)) @ '' retries''\<rparr>)"

lemma handleFailure_status: "fst (handleFailure E j) = [UpdateStatus (j\<lparr>Status := failed_status E j\<rparr>)]"
  by (simp add: handleFailure_def setPhase_def Let_def failed_status_def retries_left_def)

lemma on_submitted_failed:
  assumes "driven E j" "Phase (Status j) = PhaseSubmitted" "writes_accepted E"
    and "snd (pollBackend E j) = Some ''failed''"
  shows "reconcile_on E req j = j\<lparr>Status := failed_status E j\<rparr>"
  using assms handleFailure_status [of E j]
  by (auto simp: reconcile_on_persist body_calls_def driven_def writes_accepted_def handleSubmitted_def
      Let_def pollBackend_def start_phase_def case_prod_unfold)

lemma on_running_failed:
  assumes "driven E j" "Phase (Status j) = PhaseRunning" "writes_accepted E"
    and "poll_answer E j = Some r" "poll_Status r = ''failed''"
  shows "reconcile_on E req j = j\<lparr>Status := failed_status E j\<rparr>"
  using assms handleFailure_status [of E j]
  by (auto simp: reconcile_on_persist body_calls_def driven_def writes_accepted_def handleRunning_def
      Let_def poll_answer_def start_phase_def case_prod_unfold split: sum.splits)

section \<open>A successful benchmark\<close>

lemma finalizer_laws_add:
  assumes "finalizer_laws E"
  shows "\<exists>fs. AddFinalizer E j f = j\<lparr>JobMeta := (JobMeta j)\<lparr>Finalizers := fs\<rparr>\<rparr> \<and> f \<in> set fs"
  using assms unfolding finalizer_laws_def by blast

lemma finalizer_laws_contains: "finalizer_laws E \<Longrightarrow> ContainsFinalizer E j f \<longleftrightarrow> f \<in> set (Finalizers (JobMeta j))"
  unfolding finalizer_laws_def by blast

text \<open>
  C10. The path of a benchmark that succeeds. Four reconciliations take a fresh object to Completed
  when the backend accepts the submission, then reports the job as running, then as completed: the
  finalizer is registered, the backend ID recorded, the times and the three metrics of the answer
  stored, with no retry counted and the spec left as it was read (the API server may add defaults to
  fields that are zero).
\<close>

theorem fresh_job_completes:
  assumes fresh: "fresh_job j" and live: "time_is_zero (DeletionTimestamp (JobMeta j))"
    and new: "benchmarkJobFinalizer \<notin> set (Finalizers (JobMeta j))"
    and laws: "finalizer_laws E" and ok: "writes_accepted E"
    and post: "\<And>u b. \<exists>resp. http_Post E u ''application/json'' b = Inr resp \<and>
        StatusCode resp \<in> {StatusAccepted, StatusOK} \<and>
        Decode submit_fields (Body resp) zero_submit = Some \<lparr>submit_JobID = i, submit_Status = s\<rparr>"
    and run: "Decode status_fields (Body running) '''' = Some ''running''"
    and compl: "Decode poll_fields (Body completed) zero_poll = Some \<lparr>poll_Status = ''completed'', poll_Result = Some m\<rparr>"
  shows "\<exists>k. drive [E, E, E\<lparr>http_Get := \<lambda>_. Inr running\<rparr>, E\<lparr>http_Get := \<lambda>_. Inr completed\<rparr>] req j = k \<and>
    Phase (Status k) = PhaseCompleted \<and> JobID (Status k) = i \<and> RetryCount (Status k) = 0 \<and>
    Throughput (Status k) = Some (poll_Throughput m) \<and> LatencyMs (Status k) = Some (poll_LatencyMs m) \<and>
    MemoryBandwidthGbps (Status k) = Some (poll_MemoryBandwidthGbps m) \<and>
    StartTime (Status k) = Some (Now E) \<and> CompletionTime (Status k) = Some (Now E) \<and> Spec k = Spec j"
proof -
  obtain fs where add: "AddFinalizer E j benchmarkJobFinalizer = j\<lparr>JobMeta := (JobMeta j)\<lparr>Finalizers := fs\<rparr>\<rparr>"
    and fs: "benchmarkJobFinalizer \<in> set fs" using finalizer_laws_add [OF laws] by blast
  define k1 where "k1 = j\<lparr>JobMeta := (JobMeta j)\<lparr>Finalizers := fs\<rparr>\<rparr>"
  define k2 where "k2 = k1\<lparr>Status := (Status k1)\<lparr>JobID := i, StartTime := Some (Now E), Phase := PhaseSubmitted,
    Message := ''submitted to backend; jobID='' @ i\<rparr>\<rparr>"
  define k3 where "k3 = k2\<lparr>Status := (Status k2)\<lparr>Phase := PhaseRunning, Message := ''execution in progress''\<rparr>\<rparr>"
  define k4 where "k4 = k3\<lparr>Status := (record_metrics (Some m) ((Status k3)\<lparr>CompletionTime := Some (Now E)\<rparr>))
    \<lparr>Phase := PhaseCompleted, Message := ''benchmark execution successful''\<rparr>\<rparr>"
  note ks = k1_def k2_def k3_def k4_def
  let ?R = "E\<lparr>http_Get := \<lambda>_. Inr running\<rparr>" and ?C = "E\<lparr>http_Get := \<lambda>_. Inr completed\<rparr>"
  have c: "ContainsFinalizer E k benchmarkJobFinalizer \<longleftrightarrow> benchmarkJobFinalizer \<in> set (Finalizers (JobMeta k))" for k
    using laws by (rule finalizer_laws_contains)
  have d: "driven E k1" "driven ?R k2" "driven ?C k3"
    using live fs by (simp_all add: driven_def c ks)
  have w: "writes_accepted ?R" "writes_accepted ?C" using ok by (simp_all add: writes_accepted_def)
  have s1: "reconcile_on E req j = k1"
    using on_new_object [OF live _ ok] new c add by (simp add: k1_def)
  obtain resp where resp: "http_Post E (apiURL k1 @ ''/benchmarks'') ''application/json'' (submit_payload k1) = Inr resp"
      "StatusCode resp \<in> {StatusAccepted, StatusOK}"
      "Decode submit_fields (Body resp) zero_submit = Some \<lparr>submit_JobID = i, submit_Status = s\<rparr>"
    using post by blast
  have s2: "reconcile_on E req k1 = k2"
    using on_pending [OF d(1) _ ok resp] fresh by (simp add: k2_def ks(1) fresh_job_def zero_status_def)
  have s3: "reconcile_on ?R req k2 = k3"
    using on_submitted_running [OF d(2) _ w(1)] run by (simp add: k3_def k2_def pollBackend_def)
  have s4: "reconcile_on ?C req k3 = k4"
    using on_running_completed [OF d(3) _ w(2)] compl by (simp add: k4_def k3_def poll_answer_def)
  show ?thesis
    using fresh by (simp add: s1 s2 s3 s4) (simp add: ks record_metrics_def fresh_job_def zero_status_def)
qed

definition completed_response :: http_response where
  "completed_response =
     \<lparr>StatusCode = 200, Body = Some (JObj
        [(''job_id'', JStr ''id-1''), (''status'', JStr ''completed''),
         (''result'', JObj [(''throughput'', JNum 2750), (''latency_ms'', JNum 9),
                           (''memory_bandwidth_gbps'', JNum 1200), (''raw_metrics'', JObj [])])])\<rparr>"

lemma example_env_laws: "finalizer_laws (example_env j post poll)" "writes_accepted (example_env j post poll)"
  by (auto simp: finalizer_laws_def writes_accepted_def example_env_def)

theorem fresh_job_completes_witness:
  "let E = example_env example_pending (accepted_response ''id-1'') (status_response ''queued'') in
   \<exists>k. drive [E, E, E\<lparr>http_Get := \<lambda>_. Inr (status_response ''running'')\<rparr>, E\<lparr>http_Get := \<lambda>_. Inr completed_response\<rparr>]
         (''team'', ''h100'') (example_job [] zero_status) = k \<and>
       Phase (Status k) = PhaseCompleted \<and> JobID (Status k) = ''id-1'' \<and> Throughput (Status k) = Some (Fin 2750)"
proof -
  define E where "E = example_env example_pending (accepted_response ''id-1'') (status_response ''queued'')"
  have laws: "finalizer_laws E" "writes_accepted E" by (simp_all add: E_def example_env_laws)
  have fresh: "fresh_job (example_job [] zero_status)"
      "time_is_zero (DeletionTimestamp (JobMeta (example_job [] zero_status)))"
      "benchmarkJobFinalizer \<notin> set (Finalizers (JobMeta (example_job [] zero_status)))"
    by (simp_all add: fresh_job_def example_job_def time_is_zero_def)
  have post: "\<exists>resp. http_Post E u ''application/json'' b = Inr resp \<and> StatusCode resp \<in> {StatusAccepted, StatusOK} \<and>
      Decode submit_fields (Body resp) zero_submit = Some \<lparr>submit_JobID = ''id-1'', submit_Status = ''queued''\<rparr>" for u b
    by (simp add: E_def example_env_def accepted_response_def decode_simps go_consts)
  have polls: "Decode status_fields (Body (status_response ''running'')) '''' = Some ''running''"
      "Decode poll_fields (Body completed_response) zero_poll = Some \<lparr>poll_Status = ''completed'', poll_Result =
         Some \<lparr>poll_Throughput = Fin 2750, poll_LatencyMs = Fin 9, poll_MemoryBandwidthGbps = Fin 1200\<rparr>\<rparr>"
    by (simp_all add: status_response_def completed_response_def decode_simps float_exact)
  show ?thesis
    using fresh_job_completes [OF fresh laws post polls, of "(''team'', ''h100'')"]
    by (auto simp: Let_def E_def)
qed

section \<open>Failures and retries\<close>

text \<open>
  C12. What a reported backend failure does. In Submitted and in Running, while the retry counter is
  below the (effective) maximum, the counter goes up by exactly one, the backend ID is dropped and the
  job returns to Pending; once the maximum is reached the job is Failed with its completion time set and
  the counter kept.
\<close>

theorem backend_failure_retries_then_fails:
  assumes "driven E j" and "writes_accepted E"
    and "Phase (Status j) = PhaseSubmitted \<and> snd (pollBackend E j) = Some ''failed'' \<or>
         Phase (Status j) = PhaseRunning \<and> (\<exists>r. poll_answer E j = Some r \<and> poll_Status r = ''failed'')"
  shows "let st = Status (reconcile_on E req j); n = sint (RetryCount (Status j)) in
    (if n < sint (effectiveMaxRetries j)
     then Phase st = PhasePending \<and> sint (RetryCount st) = n + 1 \<and> JobID st = '''' \<and>
          CompletionTime st = CompletionTime (Status j)
     else Phase st = PhaseFailed \<and> sint (RetryCount st) = n \<and> JobID st = JobID (Status j) \<and>
          CompletionTime st = Some (Now E))"
proof -
  have "reconcile_on E req j = j\<lparr>Status := failed_status E j\<rparr>"
    using assms on_submitted_failed on_running_failed by blast
  then show ?thesis
    using sint_int_inc [of "RetryCount (Status j)" "effectiveMaxRetries j"]
    by (simp add: failed_status_def retries_left_def Let_def)
qed

theorem backend_failure_retries_then_fails_witness:
  "let j = example_job [benchmarkJobFinalizer] example_submitted;
       E = example_env j (accepted_response ''id-1'') (status_response ''failed'')
   in snd (pollBackend E j) = Some ''failed'' \<and>
      Phase (Status (reconcile_on E (''team'', ''h100'') j)) = PhasePending \<and>
      sint (RetryCount (Status (reconcile_on E (''team'', ''h100'') j))) = 1"
proof -
  define j where "j = example_job [benchmarkJobFinalizer] example_submitted"
  define E where "E = example_env j (accepted_response ''id-1'') (status_response ''failed'')"
  have p: "Phase (Status j) = PhaseSubmitted" "snd (pollBackend E j) = Some ''failed''" "driven E j"
      "sint (RetryCount (Status j)) = 0" "effectiveMaxRetries j = 2"
    by (simp_all add: j_def E_def example_submitted_def example_defs pollBackend_def decode_simps driven_def
        time_is_zero_def effectiveMaxRetries_def)
  have "writes_accepted E" by (simp add: E_def example_env_laws)
  with p backend_failure_retries_then_fails [of E j "(''team'', ''h100'')"] show ?thesis
    by (simp add: Let_def j_def E_def)
qed

text \<open>
  \<^verbatim>\<open>maxRetries: 0\<close>, which the schema admits, does not disable retries: with it the first three
  reported failures send the job back to Pending.
\<close>

theorem zero_max_retries_still_retries:
  assumes "MaxRetries (Spec j) = 0" and "sint (RetryCount (Status j)) < 3"
    and "driven E j" and "writes_accepted E"
    and "Phase (Status j) = PhaseSubmitted" and "snd (pollBackend E j) = Some ''failed''"
  shows "Phase (Status (reconcile_on E req j)) = PhasePending"
  using on_submitted_failed [OF assms(3,5,4,6)] assms(1,2)
  by (simp add: failed_status_def retries_left_def effectiveMaxRetries_def)

theorem zero_max_retries_still_retries_witness:
  "let j = (example_job [benchmarkJobFinalizer] example_submitted)\<lparr>Spec := example_spec\<lparr>MaxRetries := 0\<rparr>\<rparr>;
       E = example_env j (accepted_response ''id-1'') (status_response ''failed'')
   in spec_admitted (Spec j) \<and> Phase (Status (reconcile_on E (''team'', ''h100'') j)) = PhasePending"
proof -
  define j where "j = (example_job [benchmarkJobFinalizer] example_submitted)\<lparr>Spec := example_spec\<lparr>MaxRetries := 0\<rparr>\<rparr>"
  define E where "E = example_env j (accepted_response ''id-1'') (status_response ''failed'')"
  have "Phase (Status (reconcile_on E (''team'', ''h100'') j)) = PhasePending"
    by (rule zero_max_retries_still_retries)
      (simp_all add: j_def E_def example_submitted_def example_defs pollBackend_def decode_simps driven_def
        time_is_zero_def writes_accepted_def)
  moreover have "spec_admitted (Spec j)"
    by (simp add: j_def example_spec_def spec_admitted_def gpu_models_def workload_types_def)
  ultimately show ?thesis by (simp add: Let_def j_def E_def)
qed

section \<open>Situations without progress\<close>

lemma drive_fixed: "reconcile_on E req j = j \<Longrightarrow> drive (replicate n E) req j = j"
  by (induction n) simp_all

text \<open>
  A benchmark that finishes between two polls is never noticed: in Submitted, a backend that
  reports completed makes the operator requeue after the poll interval and write nothing, for any
  number of reconciliations.
\<close>

theorem submitted_job_misses_completion:
  assumes "driven E j" and "Phase (Status j) = PhaseSubmitted"
    and "http_Get E (job_url (apiURL j) (JobID (Status j))) = Inr resp"
    and "Decode status_fields (Body resp) '''' = Some ''completed''"
  shows "drive (replicate n E) req j = j \<and>
         snd (Reconcile (E\<lparr>client_Get := \<lambda>_. Inr j\<rparr>) req) = Return (requeueAfter pollInterval) None"
proof
  have "snd (pollBackend E j) = Some ''completed''" using assms by (simp add: pollBackend_def)
  then show "drive (replicate n E) req j = j"
    using on_submitted_other [OF assms(1,2)] drive_fixed by simp
  show "snd (Reconcile (E\<lparr>client_Get := \<lambda>_. Inr j\<rparr>) req) = Return (requeueAfter pollInterval) None"
    using assms by (simp add: Reconcile_def driven_def handleSubmitted_def pollBackend_def Let_def)
qed

theorem submitted_job_misses_completion_witness:
  "let j = example_job [benchmarkJobFinalizer] example_submitted;
       E = example_env j (accepted_response ''id-1'') completed_response
   in drive (replicate 100 E) (''team'', ''h100'') j = j"
proof -
  define j where "j = example_job [benchmarkJobFinalizer] example_submitted"
  define E where "E = example_env j (accepted_response ''id-1'') completed_response"
  have "driven E j" "Phase (Status j) = PhaseSubmitted"
      "http_Get E (job_url (apiURL j) (JobID (Status j))) = Inr completed_response"
      "Decode status_fields (Body completed_response) '''' = Some ''completed''"
    by (simp_all add: j_def E_def example_submitted_def example_job_def example_env_def driven_def
        time_is_zero_def completed_response_def decode_simps)
  from submitted_job_misses_completion [OF this, of 100 "(''team'', ''h100'')"] show ?thesis
    by (simp add: Let_def j_def E_def)
qed

text \<open>
  C40. A backend that no longer knows the job is not noticed either: the status code of a poll is not
  looked at, so the 404 answer of the API (an object with a \<^verbatim>\<open>detail\<close> member) leaves a Submitted or
  Running job as it is, for any number of reconciliations.
\<close>

theorem lost_backend_job_is_polled_forever:
  assumes "driven E j" and "active_phase (Phase (Status j))"
    and "http_Get E (job_url (apiURL j) (JobID (Status j))) =
           Inr \<lparr>StatusCode = 404, Body = Some (JObj [(''detail'', d)])\<rparr>"
  shows "drive (replicate n E) req j = j"
proof -
  have p: "snd (pollBackend E j) = Some ''''" "poll_answer E j = Some zero_poll"
    using assms(3) by (simp_all add: pollBackend_def poll_answer_def decode_simps)
  from assms(2) consider "Phase (Status j) = PhaseSubmitted" | "Phase (Status j) = PhaseRunning"
    by (auto simp: active_phase_def)
  then have "reconcile_on E req j = j"
    using on_submitted_other [OF assms(1)] on_running_other [OF assms(1)] p
    by cases (simp_all add: zero_poll_def)
  then show ?thesis by (rule drive_fixed)
qed

theorem lost_backend_job_is_polled_forever_witness:
  "let j = example_job [benchmarkJobFinalizer] (example_submitted\<lparr>Phase := PhaseRunning\<rparr>);
       E = example_env j (accepted_response ''id-1'')
             \<lparr>StatusCode = 404, Body = Some (JObj [(''detail'', JStr ''Benchmark job not found'')])\<rparr>
   in drive (replicate 100 E) (''team'', ''h100'') j = j"
proof -
  define j where "j = example_job [benchmarkJobFinalizer] (example_submitted\<lparr>Phase := PhaseRunning\<rparr>)"
  define E where "E = example_env j (accepted_response ''id-1'')
             \<lparr>StatusCode = 404, Body = Some (JObj [(''detail'', JStr ''Benchmark job not found'')])\<rparr>"
  have "driven E j" "active_phase (Phase (Status j))" "http_Get E (job_url (apiURL j) (JobID (Status j))) =
      Inr \<lparr>StatusCode = 404, Body = Some (JObj [(''detail'', JStr ''Benchmark job not found'')])\<rparr>"
    by (simp_all add: j_def E_def example_job_def example_env_def driven_def time_is_zero_def)
  from lost_backend_job_is_polled_forever [OF this, of 100 "(''team'', ''h100'')"] show ?thesis
    by (simp add: Let_def j_def E_def)
qed

section \<open>Deletion\<close>

text \<open>
  C31. Deleting an object: exactly one cancellation is sent when the job has a backend ID and is not in
  a terminal phase, none otherwise; then the finalizer is removed, whatever the backend answers, so the
  stored object no longer holds the operator's finalizer and keeps every other one.
\<close>

theorem deletion_releases_object:
  assumes "\<not> time_is_zero (DeletionTimestamp (JobMeta j))"
    and "benchmarkJobFinalizer \<in> set (Finalizers (JobMeta j))"
    and "finalizer_laws E" and "writes_accepted E"
    and "cancels j \<longrightarrow> http_NewRequest E ''DELETE'' (job_url (apiURL j) (JobID (Status j))) = None"
  shows "Reconcile (E\<lparr>client_Get := \<lambda>_. Inr j\<rparr>) req =
           (FetchJob req # (if cancels j then [DeleteBenchmark (job_url (apiURL j) (JobID (Status j)))] else []) @
              [UpdateJob (RemoveFinalizer E j benchmarkJobFinalizer)],
            Return emptyResult None) \<and>
         set (Finalizers (JobMeta (reconcile_on E req j))) = set (Finalizers (JobMeta j)) - {benchmarkJobFinalizer} \<and>
         Status (reconcile_on E req j) = Status j"
proof -
  have c: "ContainsFinalizer E j benchmarkJobFinalizer"
    using finalizer_laws_contains assms(2,3) by blast
  have calls: "handleDeletion E j =
      ((if cancels j then [DeleteBenchmark (job_url (apiURL j) (JobID (Status j)))] else []) @
         [UpdateJob (RemoveFinalizer E j benchmarkJobFinalizer)], Return emptyResult None)"
    using c assms(4,5) by (auto simp: handleDeletion_def cancels_def terminal_phase_def writes_accepted_def Let_def)
  obtain fs where fs: "RemoveFinalizer E j benchmarkJobFinalizer = j\<lparr>JobMeta := (JobMeta j)\<lparr>Finalizers := fs\<rparr>\<rparr>"
      "set fs = set (Finalizers (JobMeta j)) - {benchmarkJobFinalizer}"
    using assms(3) unfolding finalizer_laws_def by blast
  have "reconcile_on E req j = j\<lparr>JobMeta := (JobMeta j)\<lparr>Finalizers := fs\<rparr>\<rparr>"
    using assms(1,4) fs(1) calls
    by (simp add: reconcile_on_persist body_calls_def writes_accepted_def)
  with fs(2) calls assms(1) show ?thesis by (simp add: Reconcile_def)
qed

theorem deletion_releases_object_witness:
  "let j = (example_job [''other'', benchmarkJobFinalizer] example_submitted)
             \<lparr>JobMeta := \<lparr>Name = ''h100'', Namespace = ''team'', DeletionTimestamp = Some 5,
                          Finalizers = [''other'', benchmarkJobFinalizer]\<rparr>\<rparr>;
       E = example_env j (accepted_response ''id-1'') (status_response ''queued'')
   in cancels j \<and> DeleteBenchmark ''http://api/benchmarks/id-1'' \<in> set (fst (Reconcile E (''team'', ''h100''))) \<and>
      set (Finalizers (JobMeta (reconcile_on E (''team'', ''h100'') j))) = {''other''}"
proof -
  define j where "j = (example_job [''other'', benchmarkJobFinalizer] example_submitted)
             \<lparr>JobMeta := \<lparr>Name = ''h100'', Namespace = ''team'', DeletionTimestamp = Some 5,
                          Finalizers = [''other'', benchmarkJobFinalizer]\<rparr>\<rparr>"
  define E where "E = example_env j (accepted_response ''id-1'') (status_response ''queued'')"
  have h: "\<not> time_is_zero (DeletionTimestamp (JobMeta j))" "benchmarkJobFinalizer \<in> set (Finalizers (JobMeta j))"
    by (simp_all add: j_def time_is_zero_def zero_time_def)
  have laws: "finalizer_laws E" "writes_accepted E" by (simp_all add: E_def example_env_laws)
  have req: "cancels j \<longrightarrow> http_NewRequest E ''DELETE'' (job_url (apiURL j) (JobID (Status j))) = None"
    by (simp add: E_def example_env_def)
  have c: "cancels j" "job_url (apiURL j) (JobID (Status j)) = ''http://api/benchmarks/id-1''"
      "set (Finalizers (JobMeta j)) - {benchmarkJobFinalizer} = {''other''}" "E\<lparr>client_Get := \<lambda>_. Inr j\<rparr> = E"
    by (auto simp: cancels_def j_def E_def example_env_def example_submitted_def example_defs job_url_def apiURL_def
        benchmarkJobFinalizer_def)
  from deletion_releases_object [OF h laws req, of "(''team'', ''h100'')"] c show ?thesis
    by (simp add: Let_def flip: j_def E_def)
qed

section \<open>Submission\<close>

interpretation operator_submission:
  submission submit_payload
    "\<lambda>j. \<lparr>sub_gpu_model = GPUModel (Spec j), sub_workload_type = WorkloadType (Spec j), sub_batch_size = BatchSize (Spec j)\<rparr>"
    "\<lambda>j. Namespace (JobMeta j)" "\<lambda>j. Name (JobMeta j)"
proof
  fix j k
  show "json_member (submit_payload j) k =
      submission_member
        \<lparr>sub_gpu_model = GPUModel (Spec j), sub_workload_type = WorkloadType (Spec j), sub_batch_size = BatchSize (Spec j)\<rparr>
        (idempotency_key (Namespace (JobMeta j)) (Name (JobMeta j))) k"
    unfolding submit_payload_def submission_member_def by (subst json_member_Marshal) simp_all
qed

text \<open>
  The body that is posted for a job is a JSON object that holds exactly what the backend's
  request schema asks for: the GPU model, the workload type and the batch size of the spec, and the
  namespace and name of the object joined by a slash as the idempotency key.
\<close>

theorem submit_payload_members:
  "json_member (submit_payload j) k =
     (if k = ''gpu_model'' then Some (JStr (GPUModel (Spec j)))
      else if k = ''workload_type'' then Some (JStr (WorkloadType (Spec j)))
      else if k = ''batch_size'' then Some (JNum (of_int (sint (BatchSize (Spec j)))))
      else if k = ''idempotency_key''
        then Some (JStr (Namespace (JobMeta j) @ ''/'' @ Name (JobMeta j)))
      else None)"
  by (simp add: operator_submission.members submission_member_def idempotency_key_def)

text \<open>What a run posts, and when.\<close>

lemma body_calls_post:
  assumes "PostBenchmark u b \<in> set (body_calls E j)"
  shows "driven E j \<and> start_phase (Phase (Status j)) \<and> u = apiURL j @ ''/benchmarks'' \<and> b = submit_payload j"
proof -
  have f: "PostBenchmark u b \<notin> set (fst (handleFailure E j))"
    by (simp add: handleFailure_status)
  then have "PostBenchmark u b \<notin> set (fst (handleDeletion E j))"
      "PostBenchmark u b \<notin> set (fst (handleSubmitted E j))" "PostBenchmark u b \<notin> set (fst (handleRunning E j))"
    by (auto simp: handleDeletion_def handleSubmitted_def handleRunning_def pollBackend_def setPhase_def Let_def
        case_prod_unfold split: option.split sum.split)
  moreover have "PostBenchmark u b \<in> set (fst (handlePending E j)) \<Longrightarrow> u = apiURL j @ ''/benchmarks'' \<and> b = submit_payload j"
    by (auto simp: handlePending_def setPhase_def Let_def split: option.splits sum.splits if_splits)
  ultimately show ?thesis
    using assms by (auto simp: body_calls_def driven_def setPhase_effects split: if_splits)
qed

text \<open>
  A retry repeats the submission unchanged. After any number of accepted status writes, retries
  included, what a run posts for the job is the URL and the body of the first submission: the
  idempotency key does not vary with the retry counter.
\<close>

theorem retries_post_the_same_request:
  assumes "status_step\<^sup>*\<^sup>* s t"
    and "PostBenchmark u b \<in> set (fst (Reconcile (E\<lparr>client_Get := \<lambda>_. Inr s\<rparr>) req))"
    and "PostBenchmark u' b' \<in> set (fst (Reconcile (E'\<lparr>client_Get := \<lambda>_. Inr t\<rparr>) req))"
  shows "u' = u \<and> b' = b"
proof -
  have "Spec t = Spec s" "JobMeta t = JobMeta s" using status_steps_frame [OF assms(1)] by auto
  moreover have "u = apiURL s @ ''/benchmarks'' \<and> b = submit_payload s"
    using assms(2) body_calls_post by (auto simp: Reconcile_calls)
  moreover have "u' = apiURL t @ ''/benchmarks'' \<and> b' = submit_payload t"
    using assms(3) body_calls_post by (auto simp: Reconcile_calls)
  ultimately show ?thesis by (simp add: apiURL_def submit_payload_def)
qed

text \<open>From Submitted with a failed backend job to Pending again: one accepted status write.\<close>

lemma example_retry_step:
  "\<exists>t. status_step (example_job [benchmarkJobFinalizer] example_submitted) t \<and>
       t = (example_job [benchmarkJobFinalizer] (Status t)) \<and> Phase (Status t) = PhasePending"
proof -
  define j where "j = example_job [benchmarkJobFinalizer] example_submitted"
  define E where "E = example_env j (accepted_response ''id-1'') (status_response ''failed'')"
  have "UpdateStatus (j\<lparr>Status := failed_status E j\<rparr>) \<in> set (fst (Reconcile E (''team'', ''h100'')))"
    using handleFailure_status [of E j]
    by (simp add: Reconcile_calls body_calls_def handleSubmitted_def pollBackend_def case_prod_unfold Let_def
        j_def E_def example_submitted_def example_defs decode_simps time_is_zero_def)
  moreover have "client_Get E (''team'', ''h100'') = Inr j" "status_Update E k = None" for k
    by (simp_all add: E_def example_env_def)
  ultimately have "status_step j (j\<lparr>Status := Status (j\<lparr>Status := failed_status E j\<rparr>)\<rparr>)"
    by (intro status_step.intros)
  moreover have "Phase (failed_status E j) = PhasePending"
    by (simp add: failed_status_def retries_left_def effectiveMaxRetries_def j_def example_submitted_def example_defs)
  ultimately show ?thesis
    by (intro exI [of _ "j\<lparr>Status := failed_status E j\<rparr>"]) (simp add: j_def example_job_def)
qed

theorem retries_post_the_same_request_witness:
  "\<exists>t u b. status_step\<^sup>*\<^sup>* example_pending t \<and> t \<noteq> example_pending \<and>
     PostBenchmark u b \<in> set (fst (Reconcile (example_env t (accepted_response ''id-2'') (status_response ''x'')) (''team'', ''h100''))) \<and>
     b = submit_payload example_pending"
proof -
  obtain t where t: "status_step (example_job [benchmarkJobFinalizer] example_submitted) t"
      "t = example_job [benchmarkJobFinalizer] (Status t)" "Phase (Status t) = PhasePending"
    using example_retry_step by blast
  have steps: "status_step\<^sup>*\<^sup>* example_pending t"
    using example_status_step t(1) by (meson converse_rtranclp_into_rtranclp r_into_rtranclp)
  let ?E = "\<lambda>j. example_env j (accepted_response ''id-2'') (status_response ''x'')"
  have post: "PostBenchmark (apiURL j @ ''/benchmarks'') (submit_payload j)
      \<in> set (fst (Reconcile ((?E j)\<lparr>client_Get := \<lambda>_. Inr j\<rparr>) r))"
    if "j = example_job [benchmarkJobFinalizer] st" "start_phase (Phase st)" for j st r
    using that handlePending_writes [of j "?E j"]
    by (auto simp: Reconcile_calls body_calls_def example_env_def example_job_def time_is_zero_def)
  have "t \<noteq> example_pending" using t(3) by (auto simp: example_pending_def example_job_def zero_status_def)
  moreover have "(?E t)\<lparr>client_Get := \<lambda>_. Inr t\<rparr> = ?E t" by (simp add: example_env_def)
  ultimately show ?thesis
    using retries_post_the_same_request [OF steps post post [OF t(2)]] post [OF t(2)] steps t(3)
    by (metis example_pending_def phase_class_simps(1,2) status_inv_zero zero_status_def BenchmarkJobStatus.select_convs(1))
qed

end
