(* ===== verification/GPUBenchmarkJob_Controller.thy ===== *)
theory GPUBenchmarkJob_Controller
  imports GPUBenchmarkJob_Types
begin

text \<open>
  The provider's connector and external client
  (\<^verbatim>\<open>provider/internal/controller/gpubenchmarkjob_controller.go\<close>): \<^verbatim>\<open>Connect\<close>, \<^verbatim>\<open>Observe\<close>, \<^verbatim>\<open>Create\<close>,
  \<^verbatim>\<open>Update\<close> and \<^verbatim>\<open>Delete\<close>. The managed reconciler of crossplane-runtime calls them with a pointer to
  the resource; a call yields the requests made, the resource as the call left it, and what it
  returns. A value of the interface \<^verbatim>\<open>resource.Managed\<close> is a \<^verbatim>\<open>*GPUBenchmarkJob\<close> (never a nil one:
  the reconciler allocates it) or something of another dynamic type.

  The environment answers the calls into the API server, the HTTP client and crossplane-runtime's
  conditions. Log calls have no effect on the state and are left out.
\<close>

section \<open>Environment, calls and results\<close>

record http_request =
  reqMethod :: string
  reqURL :: string
  reqHeader :: "(string \<times> string) list"
  reqBody :: "json option"

record ('cs, 'c, 'us) provider_env =
  get_ProviderConfig :: "NamespacedName \<Rightarrow> go_error + (ObjectMeta, 'us) ProviderConfig"
  new_request :: "string \<Rightarrow> string \<Rightarrow> go_error option"
  http_Do :: "http_request \<Rightarrow> go_error + http_response"
  decode_error :: "http_response \<Rightarrow> go_error"
  set_conditions :: "'c list \<Rightarrow> 'cs \<Rightarrow> 'cs"
  Available :: 'c
  Unavailable :: 'c
  Creating :: 'c

datatype provider_call = GetProviderConfig NamespacedName | DoRequest http_request

type_synonym ('dp, 'mp, 'pd, 'sr, 'cs) gpu_job = "('dp, 'mp, 'pd, 'sr, 'cs, float64) managed_job"

datatype ('dp, 'mp, 'pd, 'sr, 'cs) Managed =
    ManagedJob "('dp, 'mp, 'pd, 'sr, 'cs) gpu_job"
  | OtherManaged

record ExternalObservation =
  ResourceExists :: bool
  ResourceUpToDate :: bool

definition no_observation :: ExternalObservation where
  "no_observation = \<lparr>ResourceExists = False, ResourceUpToDate = False\<rparr>"

definition errNotGPUBenchmarkJob :: string where
  "errNotGPUBenchmarkJob = ''managed resource is not a GPUBenchmarkJob''"
definition errGetProviderConfig :: string where
  "errGetProviderConfig = ''cannot get ProviderConfig''"
definition errObserveBenchmark :: string where
  "errObserveBenchmark = ''cannot observe benchmark job in backend API''"
definition errCreateBenchmark :: string where
  "errCreateBenchmark = ''cannot create benchmark job in backend API''"

section \<open>Connector\<close>

record external =
  schedulerURL :: string

definition pcName :: "('dp, 'mp, 'pd, 'sr, 'cs) gpu_job \<Rightarrow> string" where
  "pcName cr =
     (case GetProviderConfigReference cr of
        None \<Rightarrow> ''default''
      | Some pcRef \<Rightarrow> if refName pcRef \<noteq> '''' then refName pcRef else ''default'')"

definition Connect ::
  "('cs, 'c, 'us) provider_env \<Rightarrow> ('dp, 'mp, 'pd, 'sr, 'cs) Managed \<Rightarrow> provider_call list \<times> (go_error + external)" where
  "Connect E mg =
     (case mg of
        OtherManaged \<Rightarrow> ([], Inl (PlainError errNotGPUBenchmarkJob))
      | ManagedJob cr \<Rightarrow>
          (let key = ('''', pcName cr)
           in ([GetProviderConfig key],
               case get_ProviderConfig E key of
                 Inl err \<Rightarrow> Inl (WrapError errGetProviderConfig err)
               | Inr pc \<Rightarrow> Inr \<lparr>schedulerURL = pcSchedulerAPIURL (pcSpec pc)\<rparr>)))"

section \<open>Response bodies\<close>

record api_metrics =
  apiThroughput :: float64
  apiLatencyMs :: float64
  apiMemoryBandwidthGbps :: float64

record benchmarkAPIResult =
  apiStatus :: string
  apiResult :: "api_metrics option"

definition api_metrics_fields :: "api_metrics struct_fields" where
  "api_metrics_fields =
     [(''throughput'', decode_float64 (\<lambda>x. apiThroughput_update (\<lambda>_. x))),
      (''latency_ms'', decode_float64 (\<lambda>x. apiLatencyMs_update (\<lambda>_. x))),
      (''memory_bandwidth_gbps'', decode_float64 (\<lambda>x. apiMemoryBandwidthGbps_update (\<lambda>_. x)))]"

definition zero_api_metrics :: api_metrics where
  "zero_api_metrics = \<lparr>apiThroughput = Fin 0, apiLatencyMs = Fin 0, apiMemoryBandwidthGbps = Fin 0\<rparr>"

definition api_fields :: "benchmarkAPIResult struct_fields" where
  "api_fields =
     [(''status'', decode_string (\<lambda>s. apiStatus_update (\<lambda>_. s))),
      (''result'', decode_ptr apiResult (\<lambda>p. apiResult_update (\<lambda>_. p)) zero_api_metrics api_metrics_fields)]"

definition zero_api :: benchmarkAPIResult where
  "zero_api = \<lparr>apiStatus = '''', apiResult = None\<rparr>"

definition created_fields :: "string struct_fields" where
  "created_fields = [(''job_id'', decode_string (\<lambda>s _. s))]"

lemmas api_body_defs [decode_simps] =
  api_metrics_fields_def zero_api_metrics_def api_fields_def zero_api_def created_fields_def

section \<open>Observe\<close>

abbreviation map_observation ::
  "('f GPUBenchmarkJobObservation \<Rightarrow> 'f GPUBenchmarkJobObservation) \<Rightarrow> ('m, 'rs, 'cs, 'f) GPUBenchmarkJob
    \<Rightarrow> ('m, 'rs, 'cs, 'f) GPUBenchmarkJob" where
  "map_observation f cr \<equiv> cr\<lparr>mgStatus := (mgStatus cr)\<lparr>AtProvider := f (AtProvider (mgStatus cr))\<rparr>\<rparr>"

abbreviation observed_id :: "('m, 'rs, 'cs, 'f) GPUBenchmarkJob \<Rightarrow> string" where
  "observed_id cr \<equiv> atJobID (AtProvider (mgStatus cr))"

definition observe_metrics ::
  "api_metrics option \<Rightarrow> float64 GPUBenchmarkJobObservation \<Rightarrow> float64 GPUBenchmarkJobObservation" where
  "observe_metrics res ob =
     (case res of
        None \<Rightarrow> ob
      | Some m \<Rightarrow> ob\<lparr>atThroughput := Some (apiThroughput m), atLatencyMs := Some (apiLatencyMs m),
                      atMemoryBandwidthGbps := Some (apiMemoryBandwidthGbps m)\<rparr>)"

text \<open>What \<^verbatim>\<open>Observe\<close> does to the resource once the answer of the backend is decoded.\<close>

definition reflect ::
  "('cs, 'c, 'us) provider_env \<Rightarrow> benchmarkAPIResult \<Rightarrow> ('dp, 'mp, 'pd, 'sr, 'cs) gpu_job
    \<Rightarrow> ('dp, 'mp, 'pd, 'sr, 'cs) gpu_job" where
  "reflect E result cr =
     (let cr = map_observation (atPhase_update (\<lambda>_. apiStatus result)) cr
      in if apiStatus result = ''completed'' then
           SetConditions (set_conditions E) [Available E] (map_observation (observe_metrics (apiResult result)) cr)
         else if apiStatus result = ''failed'' then SetConditions (set_conditions E) [Unavailable E] cr
         else SetConditions (set_conditions E) [Creating E] cr)"

definition get_request :: "external \<Rightarrow> string \<Rightarrow> http_request" where
  "get_request e i = \<lparr>reqMethod = ''GET'', reqURL = job_url (schedulerURL e) i, reqHeader = [], reqBody = None\<rparr>"

definition Observe ::
  "('cs, 'c, 'us) provider_env \<Rightarrow> external \<Rightarrow> ('dp, 'mp, 'pd, 'sr, 'cs) Managed
    \<Rightarrow> provider_call list \<times> ('dp, 'mp, 'pd, 'sr, 'cs) Managed \<times> ExternalObservation \<times> go_error option" where
  "Observe E e mg =
     (case mg of
        OtherManaged \<Rightarrow> ([], mg, no_observation, Some (PlainError errNotGPUBenchmarkJob))
      | ManagedJob cr \<Rightarrow>
          if observed_id cr = '''' then ([], mg, no_observation, None)
          else
            (let req = get_request e (observed_id cr)
             in case new_request E ''GET'' (reqURL req) of
                  Some err \<Rightarrow> ([], mg, no_observation, Some (WrapError errObserveBenchmark err))
                | None \<Rightarrow>
                    (case http_Do E req of
                       Inl err \<Rightarrow> ([DoRequest req], mg, no_observation, Some (WrapError errObserveBenchmark err))
                     | Inr resp \<Rightarrow>
                         if StatusCode resp = StatusNotFound then ([DoRequest req], mg, no_observation, None)
                         else
                           (case Decode api_fields (Body resp) zero_api of
                              None \<Rightarrow> ([DoRequest req], mg, no_observation,
                                        Some (WrapError errObserveBenchmark (decode_error E resp)))
                            | Some result \<Rightarrow>
                                ([DoRequest req], ManagedJob (reflect E result cr),
                                 \<lparr>ResourceExists = True, ResourceUpToDate = True\<rparr>, None)))))"

section \<open>Create, Update and Delete\<close>

definition create_payload :: "('dp, 'mp, 'pd, 'sr, 'cs) gpu_job \<Rightarrow> json" where
  "create_payload cr =
     Marshal
       [(''gpu_model'', GoString (forGPUModel (ForProvider (mgSpec cr)))),
        (''workload_type'', GoString (forWorkloadType (ForProvider (mgSpec cr)))),
        (''batch_size'', GoInt (forBatchSize (ForProvider (mgSpec cr)))),
        (''idempotency_key'', GoString (idempotency_key (Namespace (mgMeta cr)) (Name (mgMeta cr))))]"

definition create_request :: "external \<Rightarrow> ('dp, 'mp, 'pd, 'sr, 'cs) gpu_job \<Rightarrow> http_request" where
  "create_request e cr =
     \<lparr>reqMethod = ''POST'', reqURL = schedulerURL e @ ''/benchmarks'',
      reqHeader = [(''Content-Type'', ''application/json'')],
      reqBody = Some (create_payload cr)\<rparr>"

definition Create ::
  "('cs, 'c, 'us) provider_env \<Rightarrow> external \<Rightarrow> ('dp, 'mp, 'pd, 'sr, 'cs) Managed
    \<Rightarrow> provider_call list \<times> ('dp, 'mp, 'pd, 'sr, 'cs) Managed \<times> go_error option" where
  "Create E e mg =
     (case mg of
        OtherManaged \<Rightarrow> ([], mg, Some (PlainError errNotGPUBenchmarkJob))
      | ManagedJob cr \<Rightarrow>
          (let req = create_request e cr
           in case new_request E ''POST'' (reqURL req) of
                Some err \<Rightarrow> ([], mg, Some (WrapError errCreateBenchmark err))
              | None \<Rightarrow>
                  (case http_Do E req of
                     Inl err \<Rightarrow> ([DoRequest req], mg, Some (WrapError errCreateBenchmark err))
                   | Inr resp \<Rightarrow>
                       if StatusCode resp \<noteq> StatusAccepted \<and> StatusCode resp \<noteq> StatusOK then
                         ([DoRequest req], mg,
                          Some (PlainError (errCreateBenchmark @ '': unexpected status ''
                                            @ show_int (StatusCode resp) @ '' from backend'')))
                       else
                         (case Decode created_fields (Body resp) '''' of
                            None \<Rightarrow> ([DoRequest req], mg, Some (WrapError errCreateBenchmark (decode_error E resp)))
                          | Some jobID \<Rightarrow>
                              ([DoRequest req],
                               ManagedJob
                                 (SetConditions (set_conditions E) [Creating E]
                                   (map_observation (\<lambda>ob. ob\<lparr>atJobID := jobID, atPhase := ''queued''\<rparr>) cr)),
                               None)))))"

definition Update ::
  "('cs, 'c, 'us) provider_env \<Rightarrow> external \<Rightarrow> ('dp, 'mp, 'pd, 'sr, 'cs) Managed
    \<Rightarrow> provider_call list \<times> ('dp, 'mp, 'pd, 'sr, 'cs) Managed \<times> go_error option" where
  "Update E e mg = ([], mg, None)"

definition delete_request :: "external \<Rightarrow> string \<Rightarrow> http_request" where
  "delete_request e i = \<lparr>reqMethod = ''DELETE'', reqURL = job_url (schedulerURL e) i, reqHeader = [], reqBody = None\<rparr>"

definition Delete ::
  "('cs, 'c, 'us) provider_env \<Rightarrow> external \<Rightarrow> ('dp, 'mp, 'pd, 'sr, 'cs) Managed
    \<Rightarrow> provider_call list \<times> ('dp, 'mp, 'pd, 'sr, 'cs) Managed \<times> go_error option" where
  "Delete E e mg =
     (case mg of
        OtherManaged \<Rightarrow> ([], mg, Some (PlainError errNotGPUBenchmarkJob))
      | ManagedJob cr \<Rightarrow>
          if observed_id cr = '''' then ([], mg, None)
          else
            (let req = delete_request e (observed_id cr)
             in case new_request E ''DELETE'' (reqURL req) of
                  Some err \<Rightarrow> ([], mg, None)
                | None \<Rightarrow>
                    (case http_Do E req of
                       Inl err \<Rightarrow> ([DoRequest req], mg, None)
                     | Inr resp \<Rightarrow> ([DoRequest req], mg, None))))"

lemmas provider_ops [handler_defs] =
  Observe_def Create_def Update_def Delete_def Connect_def

end
