(* ===== verification/GPUBenchmarkJob_Properties.thy ===== *)
theory GPUBenchmarkJob_Properties
  imports GPUBenchmarkJob_Controller Submission Transition_System
begin

text \<open>
  What the external client of the provider guarantees: when it reports a resource absent, what an
  observation writes, when a creation succeeds, and what every sequence of calls keeps.
\<close>

section \<open>Facts on the operations\<close>

lemma SetConditions_simps [simp]:
  "mgSpec (SetConditions f c cr) = mgSpec cr"
  "mgMeta (SetConditions f c cr) = mgMeta cr"
  "mgTypeMeta (SetConditions f c cr) = mgTypeMeta cr"
  "AtProvider (mgStatus (SetConditions f c cr)) = AtProvider (mgStatus cr)"
  "ConditionedStatus (mgStatus (SetConditions f c cr)) = f c (ConditionedStatus (mgStatus cr))"
  by (simp_all add: SetConditions_def)

lemma observe_metrics_simps [simp]:
  "atJobID (observe_metrics r ob) = atJobID ob"
  "atPhase (observe_metrics r ob) = atPhase ob"
  "atRetryCount (observe_metrics r ob) = atRetryCount ob"
  by (simp_all add: observe_metrics_def split: option.split)

lemma get_request_url [simp]: "reqURL (get_request e i) = job_url (schedulerURL e) i"
  by (simp add: get_request_def)

lemma delete_request_url [simp]: "reqURL (delete_request e i) = job_url (schedulerURL e) i"
  by (simp add: delete_request_def)

lemma create_request_url [simp]: "reqURL (create_request e cr) = schedulerURL e @ ''/benchmarks''"
  by (simp add: create_request_def)

lemma no_observation_simps [simp]: "\<not> ResourceExists no_observation" "\<not> ResourceUpToDate no_observation"
  by (simp_all add: no_observation_def)

text \<open>What both controllers never touch of a resource.\<close>

definition same_frame :: "('dp, 'mp, 'pd, 'sr, 'cs) gpu_job \<Rightarrow> ('dp, 'mp, 'pd, 'sr, 'cs) gpu_job \<Rightarrow> bool" where
  "same_frame s t \<longleftrightarrow>
     mgTypeMeta t = mgTypeMeta s \<and> mgMeta t = mgMeta s \<and> mgSpec t = mgSpec s \<and>
     atRetryCount (AtProvider (mgStatus t)) = atRetryCount (AtProvider (mgStatus s))"

lemma same_frame_refl [simp]: "same_frame s s"
  by (simp add: same_frame_def)

lemma same_frame_trans: "same_frame s t \<Longrightarrow> same_frame t u \<Longrightarrow> same_frame s u"
  by (simp add: same_frame_def)

lemma reflect_frame: "same_frame cr (reflect E r cr)" "observed_id (reflect E r cr) = observed_id cr"
  by (simp_all add: same_frame_def reflect_def Let_def)

text \<open>The answer of the backend to an observation, if it came through and was understood.\<close>

definition backend_answer ::
  "('cs, 'c, 'us) provider_env \<Rightarrow> external \<Rightarrow> string \<Rightarrow> benchmarkAPIResult option" where
  "backend_answer E e i =
     (if new_request E ''GET'' (job_url (schedulerURL e) i) \<noteq> None then None
      else case http_Do E (get_request e i) of
             Inl err \<Rightarrow> None
           | Inr resp \<Rightarrow> if StatusCode resp = StatusNotFound then None
                          else Decode api_fields (Body resp) zero_api)"

lemma Observe_answered:
  assumes "observed_id cr \<noteq> ''''" and "backend_answer E e (observed_id cr) = Some r"
  shows "Observe E e (ManagedJob cr) =
     ([DoRequest (get_request e (observed_id cr))], ManagedJob (reflect E r cr),
      \<lparr>ResourceExists = True, ResourceUpToDate = True\<rparr>, None)"
  using assms
  by (auto simp: backend_answer_def Observe_def Let_def split: if_splits sum.splits option.splits)

lemma Observe_unanswered:
  assumes "observed_id cr = '''' \<or> backend_answer E e (observed_id cr) = None"
  shows "\<exists>calls err. Observe E e (ManagedJob cr) = (calls, ManagedJob cr, no_observation, err)"
  using assms
  by (auto simp: backend_answer_def Observe_def Let_def split: if_splits sum.splits option.splits)

lemma Observe_object:
  "fst (snd (Observe E e (ManagedJob cr))) =
     (if observed_id cr = '''' then ManagedJob cr
      else case backend_answer E e (observed_id cr) of
             None \<Rightarrow> ManagedJob cr | Some r \<Rightarrow> ManagedJob (reflect E r cr))"
proof (cases "observed_id cr = ''''")
  case True
  then show ?thesis using Observe_unanswered [of cr E e] by auto
next
  case False
  then show ?thesis
    using Observe_answered [of cr E e] Observe_unanswered [of cr E e]
    by (cases "backend_answer E e (observed_id cr)") auto
qed

text \<open>The job ID a creation is answered with.\<close>

definition created_id :: "('cs, 'c, 'us) provider_env \<Rightarrow> http_request \<Rightarrow> string option" where
  "created_id E req =
     (if new_request E ''POST'' (reqURL req) \<noteq> None then None
      else case http_Do E req of
             Inl err \<Rightarrow> None
           | Inr resp \<Rightarrow> if StatusCode resp \<noteq> StatusAccepted \<and> StatusCode resp \<noteq> StatusOK then None
                          else Decode created_fields (Body resp) '''')"

definition created ::
  "('cs, 'c, 'us) provider_env \<Rightarrow> string \<Rightarrow> ('dp, 'mp, 'pd, 'sr, 'cs) gpu_job \<Rightarrow> ('dp, 'mp, 'pd, 'sr, 'cs) gpu_job" where
  "created E i cr =
     SetConditions (set_conditions E) [Creating E] (map_observation (\<lambda>ob. ob\<lparr>atJobID := i, atPhase := ''queued''\<rparr>) cr)"

lemma Create_accepted:
  assumes "created_id E (create_request e cr) = Some i"
  shows "Create E e (ManagedJob cr) = ([DoRequest (create_request e cr)], ManagedJob (created E i cr), None)"
  using assms
  by (auto simp: created_id_def created_def Create_def Let_def split: if_splits sum.splits option.splits)

lemma Create_refused:
  assumes "created_id E (create_request e cr) = None"
  shows "\<exists>calls err. Create E e (ManagedJob cr) = (calls, ManagedJob cr, Some err)"
  using assms
  by (auto simp: created_id_def Create_def Let_def split: if_splits sum.splits option.splits)

lemma Create_object:
  "fst (snd (Create E e (ManagedJob cr))) =
     (case created_id E (create_request e cr) of
        None \<Rightarrow> ManagedJob cr | Some i \<Rightarrow> ManagedJob (created E i cr))"
  using Create_accepted [of E e cr] Create_refused [of E e cr]
  by (cases "created_id E (create_request e cr)") auto

lemma created_frame: "same_frame cr (created E i cr)"
  by (simp add: same_frame_def created_def)

lemma Delete_eq:
  "Delete E e (ManagedJob cr) =
     (if observed_id cr \<noteq> '''' \<and> new_request E ''DELETE'' (job_url (schedulerURL e) (observed_id cr)) = None
      then [DoRequest (delete_request e (observed_id cr))] else [], ManagedJob cr, None)"
  by (simp add: Delete_def Let_def split: sum.split option.split)

interpretation provider_submission:
  submission create_payload
    "\<lambda>cr. \<lparr>sub_gpu_model = forGPUModel (ForProvider (mgSpec cr)),
           sub_workload_type = forWorkloadType (ForProvider (mgSpec cr)),
           sub_batch_size = forBatchSize (ForProvider (mgSpec cr))\<rparr>"
    "\<lambda>cr. Namespace (mgMeta cr)" "\<lambda>cr. Name (mgMeta cr)"
proof
  fix x :: "('dp, 'mp, 'pd, 'sr, 'cs) gpu_job" and k :: string
  show "json_member (create_payload x) k =
        submission_member
          \<lparr>sub_gpu_model = forGPUModel (ForProvider (mgSpec x)),
           sub_workload_type = forWorkloadType (ForProvider (mgSpec x)),
           sub_batch_size = forBatchSize (ForProvider (mgSpec x))\<rparr>
          (idempotency_key (Namespace (mgMeta x)) (Name (mgMeta x))) k"
    unfolding create_payload_def submission_member_def by (subst json_member_Marshal) simp_all
qed

section \<open>Sequences of calls\<close>

text \<open>
  The reconciler of crossplane-runtime decides which method is called next; the relation allows
  every order, and every answer of the environments in \<open>W\<close>.
\<close>

inductive provider_step ::
  "('cs, 'c, 'us) provider_env set \<Rightarrow> external \<Rightarrow> ('dp, 'mp, 'pd, 'sr, 'cs) gpu_job
    \<Rightarrow> ('dp, 'mp, 'pd, 'sr, 'cs) gpu_job \<Rightarrow> bool" for W e where
  observe: "E \<in> W \<Longrightarrow> fst (snd (Observe E e (ManagedJob s))) = ManagedJob t \<Longrightarrow> provider_step W e s t"
| create: "E \<in> W \<Longrightarrow> fst (snd (Create E e (ManagedJob s))) = ManagedJob t \<Longrightarrow> provider_step W e s t"
| update: "E \<in> W \<Longrightarrow> fst (snd (Update E e (ManagedJob s))) = ManagedJob t \<Longrightarrow> provider_step W e s t"
| delete: "E \<in> W \<Longrightarrow> fst (snd (Delete E e (ManagedJob s))) = ManagedJob t \<Longrightarrow> provider_step W e s t"

text \<open>The metrics come as a group.\<close>

definition observation_inv :: "'f GPUBenchmarkJobObservation \<Rightarrow> bool" where
  "observation_inv ob \<longleftrightarrow>
     (atThroughput ob = None \<longleftrightarrow> atLatencyMs ob = None) \<and>
     (atLatencyMs ob = None \<longleftrightarrow> atMemoryBandwidthGbps ob = None) \<and>
     (atThroughput ob \<noteq> None \<longrightarrow> atPhase ob \<noteq> '''' \<or> atJobID ob \<noteq> '''')"

lemma reflect_inv:
  "observed_id cr \<noteq> '''' \<Longrightarrow> observation_inv (AtProvider (mgStatus cr)) \<Longrightarrow>
   observation_inv (AtProvider (mgStatus (reflect E r cr)))"
  by (auto simp: observation_inv_def reflect_def observe_metrics_def Let_def split: option.split)

lemma created_inv:
  "observation_inv (AtProvider (mgStatus cr)) \<Longrightarrow> observation_inv (AtProvider (mgStatus (created E i cr)))"
  by (auto simp: observation_inv_def created_def)

lemma provider_step_cases:
  assumes "provider_step W e s t"
  shows "t = s \<or> (\<exists>E\<in>W. \<exists>r. observed_id s \<noteq> '''' \<and> t = reflect E r s) \<or>
     (\<exists>E\<in>W. \<exists>i. t = created E i s)"
  using assms
proof cases
  case (observe E)
  then show ?thesis by (auto simp: Observe_object split: if_splits option.splits)
next
  case (create E)
  then show ?thesis by (auto simp: Create_object split: option.splits)
next
  case (update E)
  then show ?thesis by (simp add: Update_def)
next
  case (delete E)
  then show ?thesis by (simp add: Delete_eq)
qed

interpretation provider_frame: invariant_system "\<lambda>s. s = s0" "provider_step W e" "same_frame s0" for W e s0
proof
  fix s t assume "same_frame s0 s" "provider_step W e s t"
  then show "same_frame s0 t"
    using provider_step_cases [of W e s t] same_frame_trans reflect_frame(1) created_frame by metis
qed simp

interpretation provider_observation: invariant_system
  "\<lambda>s. AtProvider (mgStatus s) = zero_observation" "provider_step W e" "\<lambda>s. observation_inv (AtProvider (mgStatus s))"
  for W e
proof
  fix s t
  assume "observation_inv (AtProvider (mgStatus s))" "provider_step W e s t"
  then show "observation_inv (AtProvider (mgStatus t))"
    using provider_step_cases [of W e s t] reflect_inv created_inv by metis
qed (simp add: observation_inv_def zero_observation_def)

section \<open>A concrete provider\<close>

text \<open>
  Instances for the witnesses: conditions are a list with the newest first, which satisfies what is
  assumed of crossplane-runtime's \<^verbatim>\<open>SetConditions\<close>; the backend answers a POST with \<open>post\<close> and a
  GET with \<open>poll\<close>.
\<close>

type_synonym example_gpu_job = "(unit, unit, unit, unit, string list) gpu_job"

definition example_provider :: "http_response \<Rightarrow> http_response \<Rightarrow> (string list, string, unit) provider_env" where
  "example_provider post poll =
     \<lparr>get_ProviderConfig = \<lambda>_. Inl (PlainError ''no config''), new_request = \<lambda>_ _. None,
      http_Do = \<lambda>req. Inr (if reqMethod req = ''POST'' then post else poll),
      decode_error = \<lambda>_. PlainError ''EOF'', set_conditions = \<lambda>c cs. c @ cs,
      Available = ''Available'', Unavailable = ''Unavailable'', Creating = ''Creating''\<rparr>"

definition example_external :: external where
  "example_external = \<lparr>schedulerURL = ''http://api''\<rparr>"

definition example_mg :: "float64 GPUBenchmarkJobObservation \<Rightarrow> example_gpu_job" where
  "example_mg ob =
     \<lparr>mgTypeMeta = \<lparr>Kind = ''GPUBenchmarkJob'', APIVersion = ''gpu.platform.io/v1alpha1''\<rparr>,
      mgMeta = \<lparr>Name = ''h100'', Namespace = '''', DeletionTimestamp = None, Finalizers = []\<rparr>,
      mgSpec = \<lparr>ResourceSpec =
                  \<lparr>ProviderConfigReference = None, ProviderReference = None, DeletionPolicy = (),
                   ManagementPolicies = (), PublishConnectionDetailsTo = None,
                   WriteConnectionSecretToReference = None\<rparr>,
                ForProvider = \<lparr>forGPUModel = ''H100'', forWorkloadType = ''training'', forBatchSize = 64,
                               forMaxRetries = 3\<rparr>\<rparr>,
      mgStatus = \<lparr>ConditionedStatus = [], AtProvider = ob\<rparr>\<rparr>"

definition id_response :: "string \<Rightarrow> http_response" where
  "id_response i = \<lparr>StatusCode = 202, Body = Some (JObj [(''job_id'', JStr i), (''status'', JStr ''queued'')])\<rparr>"

definition state_response :: "string \<Rightarrow> json \<Rightarrow> http_response" where
  "state_response s res = \<lparr>StatusCode = 200, Body = Some (JObj [(''status'', JStr s), (''result'', res)])\<rparr>"

definition gone_response :: http_response where
  "gone_response = \<lparr>StatusCode = 404, Body = Some (JObj [(''detail'', JStr ''not found'')])\<rparr>"

lemmas example_provider_defs =
  example_provider_def example_external_def example_mg_def id_response_def state_response_def
  gone_response_def zero_observation_def http_codes

section \<open>Observe\<close>

text \<open>
  \<^verbatim>\<open>Observe\<close> reports a GPUBenchmarkJob as absent without an error, which makes the managed
  reconciler submit it, in exactly two cases: no job ID is stored, or the backend answered the
  request for that ID with 404. A request that could not be built or sent, or an answer that could
  not be decoded, is an error and never leads to a second submission.
\<close>

theorem Observe_absent_iff:
  "(case Observe E e (ManagedJob cr) of (calls, mg, ob, err) \<Rightarrow> err = None \<and> \<not> ResourceExists ob) \<longleftrightarrow>
     observed_id cr = '''' \<or>
     new_request E ''GET'' (job_url (schedulerURL e) (observed_id cr)) = None \<and>
     (\<exists>resp. http_Do E (get_request e (observed_id cr)) = Inr resp \<and> StatusCode resp = StatusNotFound)"
  by (simp add: Observe_def Let_def split: option.split sum.split)

text \<open>
  An observation the backend answered reports the resource as existing and up to date (so the
  no-op \<^verbatim>\<open>Update\<close> is never due), mirrors the backend status as the phase, records the three metrics
  exactly when the status is completed and a result came with it, sets the condition Available for
  completed, Unavailable for failed and Creating for every other status, and changes nothing else of
  the resource.
\<close>

theorem Observe_reflects_backend:
  assumes "observed_id cr \<noteq> ''''" and "backend_answer E e (observed_id cr) = Some r"
  shows "\<exists>cr'. Observe E e (ManagedJob cr) =
            ([DoRequest (get_request e (observed_id cr))], ManagedJob cr',
             \<lparr>ResourceExists = True, ResourceUpToDate = True\<rparr>, None) \<and>
          same_frame cr cr' \<and> observed_id cr' = observed_id cr \<and>
          atPhase (AtProvider (mgStatus cr')) = apiStatus r \<and>
          ConditionedStatus (mgStatus cr') =
            set_conditions E [if apiStatus r = ''completed'' then Available E
                              else if apiStatus r = ''failed'' then Unavailable E else Creating E]
              (ConditionedStatus (mgStatus cr)) \<and>
          (case (apiStatus r = ''completed'', apiResult r) of
             (True, Some m) \<Rightarrow>
               atThroughput (AtProvider (mgStatus cr')) = Some (apiThroughput m) \<and>
               atLatencyMs (AtProvider (mgStatus cr')) = Some (apiLatencyMs m) \<and>
               atMemoryBandwidthGbps (AtProvider (mgStatus cr')) = Some (apiMemoryBandwidthGbps m)
           | _ \<Rightarrow>
               atThroughput (AtProvider (mgStatus cr')) = atThroughput (AtProvider (mgStatus cr)) \<and>
               atLatencyMs (AtProvider (mgStatus cr')) = atLatencyMs (AtProvider (mgStatus cr)) \<and>
               atMemoryBandwidthGbps (AtProvider (mgStatus cr')) = atMemoryBandwidthGbps (AtProvider (mgStatus cr)))"
  using Observe_answered [OF assms] reflect_frame [where cr = cr and E = E and r = r]
  by (intro exI [of _ "reflect E r cr"])
     (auto simp: reflect_def observe_metrics_def Let_def split: option.split bool.split)

definition example_metrics :: json where
  "example_metrics = JObj [(''throughput'', JNum 3500), (''latency_ms'', JNum 2), (''memory_bandwidth_gbps'', JNum 3350)]"

lemma example_completed:
  "backend_answer (example_provider post (state_response ''completed'' example_metrics)) example_external i =
     Some \<lparr>apiStatus = ''completed'',
           apiResult = Some \<lparr>apiThroughput = Fin 3500, apiLatencyMs = Fin 2, apiMemoryBandwidthGbps = Fin 3350\<rparr>\<rparr>"
  by (simp add: backend_answer_def example_provider_defs example_metrics_def get_request_def decode_simps float_exact)

theorem Observe_reflects_backend_witness:
  "\<exists>cr'. Observe (example_provider gone_response (state_response ''completed'' example_metrics)) example_external
           (ManagedJob (example_mg (zero_observation\<lparr>atJobID := ''id-1''\<rparr>))) =
         ([DoRequest (get_request example_external ''id-1'')], ManagedJob cr',
          \<lparr>ResourceExists = True, ResourceUpToDate = True\<rparr>, None) \<and>
       atThroughput (AtProvider (mgStatus cr')) = Some (Fin 3500)"
  using Observe_reflects_backend [of "example_mg (zero_observation\<lparr>atJobID := ''id-1''\<rparr>)"
      "example_provider gone_response (state_response ''completed'' example_metrics)" example_external,
      unfolded example_completed]
  by (auto simp: example_mg_def)

section \<open>Create\<close>

text \<open>
  \<^verbatim>\<open>Create\<close> succeeds exactly when the request could be built and sent and was answered with 200 or
  202 and a decodable body; the ID in the body is then the stored job ID, the phase is queued and the
  resource is otherwise as before. In every other case it returns an error and leaves the resource
  unchanged, so that it is still known to be absent.
\<close>

theorem Create_outcome:
  "case created_id E (create_request e cr) of
     Some i \<Rightarrow>
       Create E e (ManagedJob cr) =
         ([DoRequest (create_request e cr)],
          ManagedJob (SetConditions (set_conditions E) [Creating E]
            (map_observation (\<lambda>ob. ob\<lparr>atJobID := i, atPhase := ''queued''\<rparr>) cr)), None)
   | None \<Rightarrow> \<exists>calls err. Create E e (ManagedJob cr) = (calls, ManagedJob cr, Some err)"
  using Create_accepted [of E e cr] Create_refused [of E e cr]
  by (cases "created_id E (create_request e cr)") (auto simp: created_def)

text \<open>
  Whatever the environment answers: a failed \<^verbatim>\<open>Observe\<close> or \<^verbatim>\<open>Create\<close> leaves the resource exactly as
  it was, for resources of any kind.
\<close>

theorem failed_calls_change_nothing:
  "(Observe E e mg = (calls, mg', ob, Some err) \<longrightarrow> mg' = mg \<and> ob = no_observation) \<and>
   (Create E e mg = (calls, mg'', Some err) \<longrightarrow> mg'' = mg)"
  by (cases mg) (auto simp: Observe_def Create_def Let_def split: if_splits option.splits sum.splits)

lemma example_code: "show_int 404 = ''404''"
  by code_simp

theorem failed_calls_change_nothing_witness:
  "Create (example_provider gone_response gone_response) example_external (ManagedJob (example_mg zero_observation)) =
     ([DoRequest (create_request example_external (example_mg zero_observation))],
      ManagedJob (example_mg zero_observation),
      Some (PlainError ''cannot create benchmark job in backend API: unexpected status 404 from backend'')) \<and>
   ManagedJob (example_mg zero_observation) = ManagedJob (example_mg zero_observation)"
  (is "?c \<and> ?e")
proof
  show c: ?c
    by (simp add: Create_def example_provider_defs create_request_def errCreateBenchmark_def example_code)
  then show ?e using failed_calls_change_nothing c by blast
qed

text \<open>
  No sequence of calls, in any order and with any answers, changes the metadata or the spec of
  the resource or its retry counter; every submission of the resource is therefore the same request,
  with the same idempotency key.
\<close>

theorem resubmission_is_identical:
  assumes "(provider_step W e)\<^sup>*\<^sup>* s t"
  shows "mgMeta t = mgMeta s \<and> mgSpec t = mgSpec s \<and> create_request e' t = create_request e' s \<and>
         atRetryCount (AtProvider (mgStatus t)) = atRetryCount (AtProvider (mgStatus s))"
proof -
  have "same_frame s t" by (rule provider_frame.inv_reachable [OF refl assms])
  then show ?thesis by (simp add: same_frame_def create_request_def create_payload_def)
qed

lemma example_created:
  "Create (example_provider (id_response ''id-1'') gone_response) example_external (ManagedJob (example_mg zero_observation)) =
     ([DoRequest (create_request example_external (example_mg zero_observation))],
      ManagedJob (created (example_provider (id_response ''id-1'') gone_response) ''id-1'' (example_mg zero_observation)), None)"
  by (rule Create_accepted)
     (simp add: created_id_def create_request_def example_provider_defs decode_simps)

lemma example_step:
  "(provider_step {example_provider (id_response ''id-1'') gone_response} example_external)\<^sup>*\<^sup>*
     (example_mg zero_observation)
     (created (example_provider (id_response ''id-1'') gone_response) ''id-1'' (example_mg zero_observation))"
proof (rule r_into_rtranclp)
  let ?E = "example_provider (id_response ''id-1'') gone_response"
  show "provider_step {?E} example_external (example_mg zero_observation) (created ?E ''id-1'' (example_mg zero_observation))"
    by (rule provider_step.create [of ?E]) (simp_all add: example_created)
qed

theorem resubmission_is_identical_witness:
  "create_request example_external
     (created (example_provider (id_response ''id-1'') gone_response) ''id-1'' (example_mg zero_observation)) =
   create_request example_external (example_mg zero_observation)"
  using resubmission_is_identical [OF example_step] by blast

section \<open>The life of a resource\<close>

text \<open>
  What is relied on of crossplane-runtime's conditions: the condition read back for the type Ready
  is the one that was set last.
\<close>

definition ready_laws :: "('ct \<Rightarrow> 'cs \<Rightarrow> 'c) \<Rightarrow> 'ct \<Rightarrow> ('cs, 'c, 'us) provider_env \<Rightarrow> bool" where
  "ready_laws getc ready E \<longleftrightarrow>
     (\<forall>c cs. c \<in> {Available E, Unavailable E, Creating E} \<longrightarrow> getc ready (set_conditions E [c] cs) = c)"

text \<open>
  After any sequence of calls on a resource that started with an empty observation, the three
  metrics are present together or not at all, and where they are present a phase or a job ID is.
\<close>

theorem observation_invariant:
  assumes "AtProvider (mgStatus s) = zero_observation" and "(provider_step W e)\<^sup>*\<^sup>* s t"
  shows "observation_inv (AtProvider (mgStatus t))"
  using assms by (rule provider_observation.inv_reachable)

theorem observation_invariant_witness:
  "observation_inv (AtProvider (mgStatus
     (created (example_provider (id_response ''id-1'') gone_response) ''id-1'' (example_mg zero_observation))))"
proof -
  have "AtProvider (mgStatus (example_mg zero_observation)) = zero_observation" by (simp add: example_mg_def)
  then show ?thesis using observation_invariant example_step by blast
qed

definition with_max_retries :: "goint \<Rightarrow> ('dp, 'mp, 'pd, 'sr, 'cs) gpu_job \<Rightarrow> ('dp, 'mp, 'pd, 'sr, 'cs) gpu_job" where
  "with_max_retries n cr =
     cr\<lparr>mgSpec := (mgSpec cr)\<lparr>ForProvider := (ForProvider (mgSpec cr))\<lparr>forMaxRetries := n\<rparr>\<rparr>\<rparr>"

fun on_managed ::
  "(('dp, 'mp, 'pd, 'sr, 'cs) gpu_job \<Rightarrow> ('dp, 'mp, 'pd, 'sr, 'cs) gpu_job) \<Rightarrow> ('dp, 'mp, 'pd, 'sr, 'cs) Managed
    \<Rightarrow> ('dp, 'mp, 'pd, 'sr, 'cs) Managed" where
  "on_managed f (ManagedJob cr) = ManagedJob (f cr)"
| "on_managed f OtherManaged = OtherManaged"

lemma with_max_retries_simps [simp]:
  "mgStatus (with_max_retries n cr) = mgStatus cr"
  "create_request e (with_max_retries n cr) = create_request e cr"
  "reflect E r (with_max_retries n cr) = with_max_retries n (reflect E r cr)"
  "created E i (with_max_retries n cr) = with_max_retries n (created E i cr)"
  by (simp_all add: with_max_retries_def create_request_def create_payload_def reflect_def created_def
      SetConditions_def Let_def)

text \<open>
  The retry budget in the spec is never read: with any other value of \<^verbatim>\<open>maxRetries\<close> every
  operation makes the same calls, returns the same result and leaves the resource the same but for
  that value.
\<close>

theorem max_retries_is_ignored:
  "Observe E e (ManagedJob (with_max_retries n cr)) =
     map_prod id (map_prod (on_managed (with_max_retries n)) id) (Observe E e (ManagedJob cr)) \<and>
   Create E e (ManagedJob (with_max_retries n cr)) =
     map_prod id (map_prod (on_managed (with_max_retries n)) id) (Create E e (ManagedJob cr)) \<and>
   Delete E e (ManagedJob (with_max_retries n cr)) =
     map_prod id (map_prod (on_managed (with_max_retries n)) id) (Delete E e (ManagedJob cr))"
proof (intro conjI)
  show "Observe E e (ManagedJob (with_max_retries n cr)) =
     map_prod id (map_prod (on_managed (with_max_retries n)) id) (Observe E e (ManagedJob cr))"
    by (simp add: Observe_def Let_def split: option.split sum.split)
  show "Create E e (ManagedJob (with_max_retries n cr)) =
     map_prod id (map_prod (on_managed (with_max_retries n)) id) (Create E e (ManagedJob cr))"
    by (simp add: Create_def Let_def split: option.split sum.split)
       (simp add: with_max_retries_def SetConditions_def)
  show "Delete E e (ManagedJob (with_max_retries n cr)) =
     map_prod id (map_prod (on_managed (with_max_retries n)) id) (Delete E e (ManagedJob cr))"
    by (simp add: Delete_eq)
qed

section \<open>Delete and Connect\<close>

text \<open>
  \<^verbatim>\<open>Delete\<close> of a GPUBenchmarkJob never fails and never changes the resource; it sends one DELETE for
  the stored job exactly when an ID is stored and the request can be built, whatever the answer.
\<close>

theorem Delete_is_best_effort:
  "Delete E e (ManagedJob cr) =
     (if observed_id cr \<noteq> '''' \<and> new_request E ''DELETE'' (job_url (schedulerURL e) (observed_id cr)) = None
      then [DoRequest (delete_request e (observed_id cr))] else [], ManagedJob cr, None)"
  by (rule Delete_eq)

text \<open>
  \<^verbatim>\<open>Connect\<close> uses of the resource only its provider-config reference: after the reference is set to a
  named configuration that configuration is fetched, after it is cleared or set to an empty name the
  one called default; the client that is returned talks to the URL in it.
\<close>

theorem Connect_resolves_reference:
  "Connect E (ManagedJob (SetProviderConfigReference r cr)) =
     (let name = (case r of Some ref \<Rightarrow> if refName ref = '''' then ''default'' else refName ref | None \<Rightarrow> ''default'')
      in ([GetProviderConfig ('''', name)],
          map_sum (WrapError errGetProviderConfig) (\<lambda>pc. \<lparr>schedulerURL = pcSchedulerAPIURL (pcSpec pc)\<rparr>)
            (get_ProviderConfig E ('''', name))))"
  by (simp add: Connect_def pcName_def Let_def split: option.split sum.split)

end
