(* ===== verification/Platform.thy ===== *)
theory Platform
  imports BenchmarkJob_Behaviour GPUBenchmarkJob_Properties Backend_Properties
begin

text \<open>
  The controllers in front of the backend: their HTTP calls are answered by the routes of the backend
  model. \<open>E\<close> is an environment in which the backend is in state \<open>s\<close>.
\<close>

section \<open>Connecting the parts\<close>

record service_params =
  sp_parse :: "json \<Rightarrow> BenchmarkCreateRequest option"
  sp_sha256 :: "string \<Rightarrow> string"
  sp_is_uuid :: "string \<Rightarrow> bool"

definition post_route :: "service_params \<Rightarrow> uuid \<Rightarrow> time \<Rightarrow> json \<Rightarrow> backend \<Rightarrow> backend \<times> http_response" where
  "post_route S newid now body s = create_benchmark_job (sp_parse S) (sp_sha256 S) newid now True body s"

definition get_route :: "service_params \<Rightarrow> backend \<Rightarrow> string \<Rightarrow> http_response" where
  "get_route S s i = get_benchmark_status (sp_is_uuid S) s i"

definition served_by :: "service_params \<Rightarrow> uuid \<Rightarrow> time \<Rightarrow> backend \<Rightarrow> string \<Rightarrow> env \<Rightarrow> bool" where
  "served_by S newid now s url E \<longleftrightarrow>
     (\<forall>body. http_Post E (url @ ''/benchmarks'') ''application/json'' body = Inr (snd (post_route S newid now body s))) \<and>
     (\<forall>i. http_Get E (job_url url i) = Inr (get_route S s i))"

text \<open>What the validation of the backend makes of a submission of the operator.\<close>

definition request_of :: "job \<Rightarrow> BenchmarkCreateRequest" where
  "request_of j =
     \<lparr>rq_gpu_model = GPUModel (Spec j), rq_workload_type = WorkloadType (Spec j), rq_batch_size = sint (BatchSize (Spec j)),
      rq_idempotency_key = Some (idempotency_key (Namespace (JobMeta j)) (Name (JobMeta j)))\<rparr>"

lemma request_of_key [simp]:
  "request_key h (request_of j) = idempotency_key (Namespace (JobMeta j)) (Name (JobMeta j))"
  by (simp add: request_key_def request_of_def idempotency_key_def)

lemma decode_create [simp]:
  "Decode submit_fields (Body (create_response b)) zero_submit =
     Some \<lparr>submit_JobID = bm_id b, submit_Status = status_text (bm_status b)\<rparr>"
  by (simp add: create_response_def decode_simps)

lemma create_response_code [simp]: "StatusCode (create_response b) = StatusAccepted"
  by (simp add: create_response_def StatusAccepted_def)

lemma get_route_found:
  assumes "backend_inv s" and "b \<in> set (benchmark_rows (database s))" and "sp_is_uuid S (bm_id b)"
  shows "Decode status_fields (Body (get_route S s (bm_id b))) '''' = Some (status_text (bm_status b))"
proof -
  have "find_by_id (database s) (bm_id b) = Some b"
    using find_distinct [OF backend_invD(1) [OF assms(1)] assms(2)] by (simp add: find_by_id_def)
  then show ?thesis using assms(3)
    by (simp add: get_route_def get_benchmark_status_def get_benchmark_def json_time_def decode_simps)
qed

section \<open>Instances for the witnesses\<close>

text \<open>An environment whose backend is in state \<open>s\<close>: the ID of a poll is what follows the prefix of its URL.\<close>

definition served_env :: "service_params \<Rightarrow> uuid \<Rightarrow> backend \<Rightarrow> env" where
  "served_env S newid s =
     (example_env example_pending (accepted_response '''') (status_response ''''))
       \<lparr>http_Post := \<lambda>_ _ body. Inr (snd (post_route S newid 0 body s)),
        http_Get := \<lambda>u. Inr (get_route S s (drop (length (job_url (apiURL example_pending) '''')) u))\<rparr>"

lemma served_env_laws:
  "served_by S newid 0 s (apiURL example_pending) (served_env S newid s)"
  "finalizer_laws (served_env S newid s)" "writes_accepted (served_env S newid s)" "driven (served_env S newid s) example_pending"
proof -
  note env = example_env_laws [of example_pending "accepted_response []" "status_response []"]
  show "served_by S newid 0 s (apiURL example_pending) (served_env S newid s)"
    by (simp add: served_by_def served_env_def job_url_def)
  show laws: "finalizer_laws (served_env S newid s)" using env(1) by (simp add: finalizer_laws_def served_env_def)
  show "writes_accepted (served_env S newid s)" using env(2) by (simp add: writes_accepted_def served_env_def)
  show "driven (served_env S newid s) example_pending"
    unfolding driven_def finalizer_laws_contains [OF laws]
    by (simp add: example_pending_def example_job_def time_is_zero_def)
qed

definition example_service :: "BenchmarkCreateRequest \<Rightarrow> service_params" where
  "example_service rq = \<lparr>sp_parse = \<lambda>_. Some rq, sp_sha256 = id, sp_is_uuid = \<lambda>_. True\<rparr>"

definition failed_backend :: backend where
  "failed_backend =
     \<lparr>database = \<lparr>gpu_model_rows = [''H100''],
                  benchmark_rows = [(new_row id ''id-1'' 0 (request_of example_pending))\<lparr>bm_status := failed, bm_attempt_count := 3\<rparr>],
                  result_rows = []\<rparr>,
      job_queue = [], dead_letters = []\<rparr>"

lemma example_pending_simps:
  "time_is_zero (DeletionTimestamp (JobMeta example_pending))" "benchmarkJobFinalizer \<in> set (Finalizers (JobMeta example_pending))"
  "start_phase (Phase (Status example_pending))" "sint (RetryCount (Status example_pending)) = 0"
  "effectiveMaxRetries example_pending = 2"
  by (simp_all add: example_pending_def example_defs time_is_zero_def start_phase_def effectiveMaxRetries_def)

section \<open>The operator and a failed backend job\<close>

text \<open>
  The situation after a retry: the object is Pending again, and the row of its key has failed.
\<close>

definition meets_failed_row :: "service_params \<Rightarrow> backend \<Rightarrow> env \<Rightarrow> job \<Rightarrow> bool" where
  "meets_failed_row S s E j \<longleftrightarrow>
     backend_inv s \<and> finalizer_laws E \<and> writes_accepted E \<and> (\<exists>newid now. served_by S newid now s (apiURL j) E) \<and>
     time_is_zero (DeletionTimestamp (JobMeta j)) \<and> benchmarkJobFinalizer \<in> set (Finalizers (JobMeta j)) \<and>
     sp_parse S (submit_payload j) = Some (request_of j) \<and>
     (\<exists>b\<in>set (benchmark_rows (database s)). bm_status b = failed \<and> sp_is_uuid S (bm_id b) \<and>
        bm_idempotency_key b = idempotency_key (Namespace (JobMeta j)) (Name (JobMeta j)))"

lemma status_free [simp]:
  "apiURL (j\<lparr>Status := st\<rparr>) = apiURL j"
  "submit_payload (j\<lparr>Status := st\<rparr>) = submit_payload j"
  "request_of (j\<lparr>Status := st\<rparr>) = request_of j"
  "effectiveMaxRetries (j\<lparr>Status := st\<rparr>) = effectiveMaxRetries j"
  by (simp_all add: submit_payload_def request_of_def apiURL_def effectiveMaxRetries_def)

lemma meets_failed_row_status:
  "meets_failed_row S s E j \<Longrightarrow> meets_failed_row S s E (j\<lparr>Status := st\<rparr>)"
  by (simp add: meets_failed_row_def)

lemma meets_failed_row_driven: "meets_failed_row S s E j \<Longrightarrow> driven E j"
  by (simp add: meets_failed_row_def driven_def finalizer_laws_contains)

lemma failed_cycle:
  assumes m: "meets_failed_row S s E j" and p: "start_phase (Phase (Status j))"
  shows "\<exists>st. reconcile_on E req (reconcile_on E req j) = j\<lparr>Status := failed_status E (j\<lparr>Status := st\<rparr>)\<rparr> \<and>
           RetryCount st = RetryCount (Status j)"
proof -
  obtain newid now b where srv: "served_by S newid now s (apiURL j) E" and parse: "sp_parse S (submit_payload j) = Some (request_of j)"
    and b: "b \<in> set (benchmark_rows (database s))" "bm_status b = failed" "sp_is_uuid S (bm_id b)"
      "bm_idempotency_key b = idempotency_key (Namespace (JobMeta j)) (Name (JobMeta j))"
    and inv: "backend_inv s" and w: "writes_accepted E"
    using m by (auto simp: meets_failed_row_def)
  have "find_by_key (database s) (request_key (sp_sha256 S) (request_of j)) = Some b"
    using find_distinct [OF backend_invD(2) [OF inv] b(1)] b(4) by (simp add: find_by_key_def)
  then have "post_route S newid now (submit_payload j) s = (s, create_response b)"
    using post_existing [of "sp_parse S"] parse by (simp add: post_route_def)
  then have post: "http_Post E (apiURL j @ ''/benchmarks'') ''application/json'' (submit_payload j) = Inr (create_response b)"
    using srv by (simp add: served_by_def)
  define st where "st = (Status j)\<lparr>JobID := bm_id b, StartTime := Some (Now E), Phase := PhaseSubmitted,
                 Message := ''submitted to backend; jobID='' @ bm_id b\<rparr>"
  have one: "reconcile_on E req j = j\<lparr>Status := st\<rparr>"
    using on_pending [OF meets_failed_row_driven [OF m] p w post] by (simp add: st_def)
  have "snd (pollBackend E (j\<lparr>Status := st\<rparr>)) = Some ''failed''"
    using srv get_route_found [OF inv b(1,3)] b(2)
    by (simp add: pollBackend_def served_by_def st_def Let_def)
  then have "reconcile_on E req (j\<lparr>Status := st\<rparr>) = j\<lparr>Status := failed_status E (j\<lparr>Status := st\<rparr>)\<rparr>"
    using on_submitted_failed [OF meets_failed_row_driven [OF meets_failed_row_status [OF m]], of st req] w
    by (simp add: st_def)
  with one show ?thesis by (auto simp: st_def)
qed

lemma exhausts:
  assumes "meets_failed_row S s E j" and "start_phase (Phase (Status j))"
    and "sint (RetryCount (Status j)) \<le> sint (effectiveMaxRetries j)"
    and "n = nat (sint (effectiveMaxRetries j) - sint (RetryCount (Status j)))"
  shows "Phase (Status (drive (replicate (2 * n + 2) E) req j)) = PhaseFailed \<and>
         sint (RetryCount (Status (drive (replicate (2 * n + 2) E) req j))) = sint (effectiveMaxRetries j)"
  using assms
proof (induction n arbitrary: j)
  case 0
  from failed_cycle [OF 0(1,2), of req] obtain st where
    st: "reconcile_on E req (reconcile_on E req j) = j\<lparr>Status := failed_status E (j\<lparr>Status := st\<rparr>)\<rparr>"
      "RetryCount st = RetryCount (Status j)" by blast
  have "\<not> retries_left (j\<lparr>Status := st\<rparr>)"
    using 0(3,4) st(2) by (simp add: retries_left_def)
  then show ?case using 0(3,4) st by (simp add: failed_status_def numeral_2_eq_2)
next
  case (Suc n)
  from failed_cycle [OF Suc.prems(1,2), of req] obtain st where
    st: "reconcile_on E req (reconcile_on E req j) = j\<lparr>Status := failed_status E (j\<lparr>Status := st\<rparr>)\<rparr>"
      "RetryCount st = RetryCount (Status j)" by blast
  let ?j = "j\<lparr>Status := failed_status E (j\<lparr>Status := st\<rparr>)\<rparr>"
  have less: "sint (RetryCount (Status j)) < sint (effectiveMaxRetries j)" using Suc.prems(3,4) by linarith
  have left: "retries_left (j\<lparr>Status := st\<rparr>)"
    using less st(2) by (simp add: retries_left_def)
  have cnt: "sint (RetryCount (Status ?j)) = sint (RetryCount (Status j)) + 1"
    using left st(2) sint_int_inc [OF less] by (simp add: failed_status_def)
  have ph: "start_phase (Phase (Status ?j))" using left by (simp add: failed_status_def start_phase_def)
  have n: "n = nat (sint (effectiveMaxRetries ?j) - sint (RetryCount (Status ?j)))"
    using Suc.prems(4) less unfolding cnt status_free by linarith
  have "sint (RetryCount (Status ?j)) \<le> sint (effectiveMaxRetries ?j)" using less unfolding cnt status_free by linarith
  from Suc.IH [OF meets_failed_row_status [OF Suc.prems(1)] ph this n]
  have "Phase (Status (drive (replicate (2 * n + 2) E) req ?j)) = PhaseFailed \<and>
      sint (RetryCount (Status (drive (replicate (2 * n + 2) E) req ?j))) = sint (effectiveMaxRetries j)"
    unfolding status_free .
  moreover have "replicate (2 * Suc n + 2) E = E # E # replicate (2 * n + 2) E" by simp
  ultimately show ?case using st(1) by (simp only: drive.simps)
qed

text \<open>
  C22. The retries of the operator do not run a failed benchmark again. While the row of an object's key
  has failed, every submission for the object is answered with that failed job and leaves the tables
  and the queue of the backend as they are, so after two reconciliations per remaining retry, and two
  more, the object is Failed with its retry budget used up.
\<close>

theorem operator_retries_are_futile:
  assumes "meets_failed_row S s E j" and "start_phase (Phase (Status j))"
    and "sint (RetryCount (Status j)) \<le> sint (effectiveMaxRetries j)"
    and "n = nat (sint (effectiveMaxRetries j) - sint (RetryCount (Status j)))"
  shows "Phase (Status (drive (replicate (2 * n + 2) E) req j)) = PhaseFailed \<and>
         sint (RetryCount (Status (drive (replicate (2 * n + 2) E) req j))) = sint (effectiveMaxRetries j) \<and>
         fst (post_route S newid now (submit_payload j) s) = s"
proof -
  obtain b where b: "b \<in> set (benchmark_rows (database s))" "backend_inv s" "sp_parse S (submit_payload j) = Some (request_of j)"
      "bm_idempotency_key b = idempotency_key (Namespace (JobMeta j)) (Name (JobMeta j))"
    using assms(1) by (auto simp: meets_failed_row_def)
  have "find_by_key (database s) (request_key (sp_sha256 S) (request_of j)) = Some b"
    using find_distinct [OF backend_invD(2) [OF b(2)] b(1)] b(4) by (simp add: find_by_key_def)
  then have "fst (post_route S newid now (submit_payload j) s) = s"
    using post_existing [of "sp_parse S"] b(3) by (simp add: post_route_def)
  with exhausts [OF assms] show ?thesis by blast
qed

theorem operator_retries_are_futile_witness:
  "Phase (Status (drive (replicate 6 (served_env (example_service (request_of example_pending)) ''id-2'' failed_backend))
     (''team'', ''h100'') example_pending)) = PhaseFailed"
proof -
  let ?S = "example_service (request_of example_pending)"
  have "backend_inv failed_backend"
    by (simp add: backend_inv_def failed_backend_def new_row_def worker_max_retries_def)
  then have "meets_failed_row ?S failed_backend (served_env ?S ''id-2'' failed_backend) example_pending"
    unfolding meets_failed_row_def using served_env_laws [of ?S "''id-2''" failed_backend] example_pending_simps
    by (auto simp: example_service_def failed_backend_def new_row_def)
  note futile = operator_retries_are_futile [OF this example_pending_simps(3), of 2 "(''team'', ''h100'')"]
  have "sint (effectiveMaxRetries example_pending) = 2" by (simp add: example_pending_simps)
  then have "sint (RetryCount (Status example_pending)) \<le> sint (effectiveMaxRetries example_pending)"
    "2 = nat (sint (effectiveMaxRetries example_pending) - sint (RetryCount (Status example_pending)))"
    by (simp_all add: example_pending_simps(4))
  note futile [OF this]
  moreover have "2 * 2 + 2 = (6 :: nat)" by simp
  ultimately show ?thesis by (simp only:)
qed

section \<open>One benchmark through the backend\<close>

text \<open>A new submission, then a worker round in which the engine succeeds.\<close>

lemma submitted_then_worked:
  assumes inv: "backend_inv s" and fresh: "newid \<notin> bm_id ` set (benchmark_rows (database s))" and idle: "job_queue s = []"
    and parse: "sp_parse S body = Some rq" and new: "find_by_key (database s) (request_key (sp_sha256 S) rq) = None"
    and fits: "fits_columns (request_key (sp_sha256 S) rq) rq" and run: "run (new_item newid rq) = Inr res"
  shows "snd (post_route S newid now body s) = create_response (new_row (sp_sha256 S) newid now rq) \<and>
         backend_inv (worker_round run (fst (post_route S newid now body s))) \<and>
         (\<exists>b\<in>set (benchmark_rows (database (worker_round run (fst (post_route S newid now body s))))).
            bm_id b = newid \<and> bm_status b = completed \<and> bm_idempotency_key b = request_key (sp_sha256 S) rq) \<and>
         map_of (result_rows (database (worker_round run (fst (post_route S newid now body s))))) newid = Some res"
proof -
  let ?b = "new_row (sp_sha256 S) newid now rq" and ?it = "new_item newid rq" and ?bs = "benchmark_rows (database s)"
  define d where "d = (database s)\<lparr>gpu_model_rows := with_model (rq_gpu_model rq) (database s), benchmark_rows := ?bs @ [?b]\<rparr>"
  have post: "post_route S newid now body s = (s\<lparr>database := d, job_queue := [?it]\<rparr>, create_response ?b)"
    using post_new [of "sp_parse S" body rq s "sp_sha256 S" newid now True] parse new fits idle by (simp add: post_route_def d_def)
  have inv1: "backend_inv (fst (post_route S newid now body s))"
    unfolding post_route_def by (rule post_inv [OF inv fresh refl])
  have ids: "distinct (map bm_id (benchmark_rows d))" "?b \<in> set (benchmark_rows d)" "bm_id ?b = newid"
    using inv1 post by (simp_all add: backend_inv_def Let_def d_def new_row_def)
  have nores: "newid \<notin> fst ` set (result_rows d)"
    using fresh backend_invD(4) [OF inv] by (auto simp: d_def)
  have "complete_benchmark newid res (mark_running newid d) =
      Some (d\<lparr>benchmark_rows := map (set_row newid completed 1) (benchmark_rows d), result_rows := result_rows d @ [(newid, res)]\<rparr>)"
    using row_updates(3) [OF ids nores, of res] by (simp add: new_row_def)
  then have w: "database (worker_round run (fst (post_route S newid now body s))) =
      d\<lparr>benchmark_rows := map (set_row newid completed 1) (benchmark_rows d), result_rows := result_rows d @ [(newid, res)]\<rparr>"
    using run by (simp add: post worker_round_def dequeue_def process_job_defs new_item_def)
  have "map_of (result_rows d) newid = None" using nores by (simp only: map_of_eq_None_iff not_False_eq_True)
  then have "map_of (result_rows d @ [(newid, res)]) newid = Some res" by (simp add: map_add_def)
  moreover have "\<exists>b\<in>set (map (set_row newid completed 1) (benchmark_rows d)).
      bm_id b = newid \<and> bm_status b = completed \<and> bm_idempotency_key b = request_key (sp_sha256 S) rq"
  proof (rule bexI)
    show "set_row newid completed 1 ?b \<in> set (map (set_row newid completed 1) (benchmark_rows d))" using ids(2) by simp
  qed (simp add: set_row_def new_row_def)
  moreover have "snd (post_route S newid now body s) = create_response ?b" by (simp add: post)
  ultimately show ?thesis unfolding w using round_inv [OF inv1, of run] by simp
qed

text \<open>What the operator is told of a settled job.\<close>

lemma driven_status: "finalizer_laws E \<Longrightarrow> driven E (j\<lparr>Status := st\<rparr>) = driven E j"
  by (simp add: driven_def finalizer_laws_contains)

text \<open>
  A benchmark that finishes between two polls is lost to the operator. The object is submitted to an
  idle backend, and before the next poll a worker executes the job successfully: the row is completed
  and its result stored, but however often the object is reconciled after that it stays Submitted.
\<close>

theorem operator_misses_fast_benchmark:
  assumes "backend_inv s" and "newid \<notin> bm_id ` set (benchmark_rows (database s))" and "job_queue s = []"
    and "sp_parse S (submit_payload j) = Some (request_of j)"
    and "find_by_key (database s) (idempotency_key (Namespace (JobMeta j)) (Name (JobMeta j))) = None"
    and "fits_columns (idempotency_key (Namespace (JobMeta j)) (Name (JobMeta j))) (request_of j)"
    and "sp_is_uuid S newid" and "run (new_item newid (request_of j)) = Inr res"
    and "driven E j" and "start_phase (Phase (Status j))" and "writes_accepted E"
    and "finalizer_laws E'" and "driven E' j" and "served_by S newid now s (apiURL j) E"
    and "served_by S newid' now' (worker_round run (fst (post_route S newid now (submit_payload j) s))) (apiURL j) E'"
  shows "map_of (result_rows (database (worker_round run (fst (post_route S newid now (submit_payload j) s))))) newid = Some res \<and>
         Phase (Status (drive (replicate n E') req (reconcile_on E req j))) = PhaseSubmitted \<and>
         JobID (Status (drive (replicate n E') req (reconcile_on E req j))) = newid"
proof -
  let ?s = "worker_round run (fst (post_route S newid now (submit_payload j) s))"
  have post: "snd (post_route S newid now (submit_payload j) s) = create_response (new_row (sp_sha256 S) newid now (request_of j))"
    and inv: "backend_inv ?s" and res: "map_of (result_rows (database ?s)) newid = Some res"
    using submitted_then_worked [of s newid S "submit_payload j" "request_of j" run res now] assms(1-6,8) by simp_all
  obtain b where b: "b \<in> set (benchmark_rows (database ?s))" "bm_id b = newid" "bm_status b = completed"
    using submitted_then_worked [of s newid S "submit_payload j" "request_of j" run res now] assms(1-6,8)
    unfolding request_of_key by metis
  define st where "st = (Status j)\<lparr>JobID := newid, StartTime := Some (Now E), Phase := PhaseSubmitted,
                 Message := ''submitted to backend; jobID='' @ newid\<rparr>"
  have "http_Post E (apiURL j @ ''/benchmarks'') ''application/json'' (submit_payload j)
      = Inr (create_response (new_row (sp_sha256 S) newid now (request_of j)))"
    using assms(14) post by (simp add: served_by_def)
  from on_pending [OF assms(9-11) this] have one: "reconcile_on E req j = j\<lparr>Status := st\<rparr>"
    by (simp add: st_def new_row_def)
  have "snd (pollBackend E' (j\<lparr>Status := st\<rparr>)) = Some ''completed''"
    using assms(15) get_route_found [OF inv b(1)] b(2,3) assms(7)
    by (simp add: pollBackend_def served_by_def st_def Let_def)
  then have "reconcile_on E' req (j\<lparr>Status := st\<rparr>) = j\<lparr>Status := st\<rparr>"
    using assms(12,13) by (intro on_submitted_other) (simp_all add: driven_status st_def)
  then show ?thesis using res one drive_fixed by (simp add: st_def)
qed

definition example_result :: BenchmarkResult where
  "example_result = \<lparr>br_throughput = 3500, br_latency_ms = 2, br_memory_bandwidth_gbps = 3350\<rparr>"

theorem operator_misses_fast_benchmark_witness:
  "let S = example_service (request_of example_pending);
       s = worker_round (\<lambda>_. Inr example_result) (fst (post_route S ''id-1'' 0 (submit_payload example_pending) example_backend))
   in Phase (Status (drive (replicate 100 (served_env S ''id-2'' s)) (''team'', ''h100'')
        (reconcile_on (served_env S ''id-1'' example_backend) (''team'', ''h100'') example_pending))) = PhaseSubmitted"
proof -
  let ?S = "example_service (request_of example_pending)"
  have "backend_inv example_backend" "''id-1'' \<notin> bm_id ` set (benchmark_rows (database example_backend))"
    "job_queue example_backend = []" "sp_parse ?S (submit_payload example_pending) = Some (request_of example_pending)"
    "find_by_key (database example_backend) k = None" "sp_is_uuid ?S ''id-1''" for k
    by (simp_all add: backend_inv_def example_backend_def find_by_key_def example_service_def)
  moreover have "fits_columns (idempotency_key (Namespace (JobMeta example_pending)) (Name (JobMeta example_pending)))
      (request_of example_pending)"
    by (simp add: fits_columns_def request_of_def idempotency_key_def example_pending_def example_job_def example_spec_def)
  ultimately show ?thesis
    using operator_misses_fast_benchmark [of example_backend "''id-1''" ?S example_pending "\<lambda>_. Inr example_result" example_result
        "served_env ?S ''id-1'' example_backend" _ 0 "''id-2''" 0 100 "(''team'', ''h100'')"]
      served_env_laws example_pending_simps(3)
    by (simp add: Let_def)
qed

section \<open>The provider in front of the backend\<close>

definition provider_served :: "service_params \<Rightarrow> uuid \<Rightarrow> time \<Rightarrow> backend \<Rightarrow> external \<Rightarrow> ('cs, 'c, 'us) provider_env \<Rightarrow> bool" where
  "provider_served S newid now s e E \<longleftrightarrow>
     (\<forall>m u. new_request E m u = None) \<and>
     (\<forall>hd body. http_Do E \<lparr>reqMethod = ''POST'', reqURL = schedulerURL e @ ''/benchmarks'', reqHeader = hd, reqBody = Some body\<rparr> =
        Inr (snd (post_route S newid now body s))) \<and>
     (\<forall>i. http_Do E (get_request e i) = Inr (get_route S s i))"

definition provider_request_of :: "('dp, 'mp, 'pd, 'sr, 'cs) gpu_job \<Rightarrow> BenchmarkCreateRequest" where
  "provider_request_of cr =
     \<lparr>rq_gpu_model = forGPUModel (ForProvider (mgSpec cr)), rq_workload_type = forWorkloadType (ForProvider (mgSpec cr)),
      rq_batch_size = sint (forBatchSize (ForProvider (mgSpec cr))),
      rq_idempotency_key = Some (idempotency_key (Namespace (mgMeta cr)) (Name (mgMeta cr)))\<rparr>"

lemma provider_request_key:
  "request_key h (provider_request_of cr) = idempotency_key (Namespace (mgMeta cr)) (Name (mgMeta cr))"
  by (simp add: request_key_def provider_request_of_def idempotency_key_def)

lemma decode_created [simp]: "Decode created_fields (Body (create_response b)) '''' = Some (bm_id b)"
  by (simp add: create_response_def decode_simps)

text \<open>The numbers of a result are floats of the engine, so the decoder reads them unchanged.\<close>

definition float_result :: "BenchmarkResult \<Rightarrow> bool" where
  "float_result r \<longleftrightarrow>
     f64_round (br_throughput r) = Fin (br_throughput r) \<and> f64_round (br_latency_ms r) = Fin (br_latency_ms r) \<and>
     f64_round (br_memory_bandwidth_gbps r) = Fin (br_memory_bandwidth_gbps r)"

lemma get_route_completed:
  assumes "backend_inv s" and "b \<in> set (benchmark_rows (database s))" and "sp_is_uuid S (bm_id b)"
    and "bm_status b = completed" and "map_of (result_rows (database s)) (bm_id b) = Some r" and "float_result r"
  shows "Decode api_fields (Body (get_route S s (bm_id b))) zero_api =
     Some \<lparr>apiStatus = ''completed'',
           apiResult = Some \<lparr>apiThroughput = Fin (br_throughput r), apiLatencyMs = Fin (br_latency_ms r),
                             apiMemoryBandwidthGbps = Fin (br_memory_bandwidth_gbps r)\<rparr>\<rparr> \<and>
         StatusCode (get_route S s (bm_id b)) \<noteq> StatusNotFound"
proof -
  have "find_by_id (database s) (bm_id b) = Some b"
    using find_distinct [OF backend_invD(1) [OF assms(1)] assms(2)] by (simp add: find_by_id_def)
  then show ?thesis using assms(3-6)
    by (simp add: get_route_def get_benchmark_status_def get_benchmark_def json_time_def result_json_def decode_simps float_result_def
        StatusNotFound_def)
qed

text \<open>A provider environment whose backend is in state \<open>s\<close>.\<close>

definition served_provider :: "service_params \<Rightarrow> uuid \<Rightarrow> backend \<Rightarrow> (string list, string, unit) provider_env" where
  "served_provider S newid s =
     (example_provider gone_response gone_response)
       \<lparr>http_Do := \<lambda>req. Inr (case reqBody req of
            Some body \<Rightarrow> snd (post_route S newid 0 body s)
          | None \<Rightarrow> get_route S s (drop (length (job_url (schedulerURL example_external) '''')) (reqURL req)))\<rparr>"

lemma served_provider_laws:
  "provider_served S newid 0 s example_external (served_provider S newid s)"
  "ready_laws (\<lambda>(_ :: unit) cs. hd cs) () (served_provider S newid s)" "Available (served_provider S newid s) = ''Available''"
  by (simp_all add: provider_served_def served_provider_def example_provider_def get_request_def job_url_def ready_laws_def)

end
