(* ===== verification/Platform_Contracts.thy ===== *)
theory Platform_Contracts
  imports Platform
begin

text \<open>
  The contract between the controllers and the backend: what the backend accepts, what a poll reads
  back, and the run of a benchmark from the object to its measurements.
\<close>

section \<open>What a poll reads\<close>

definition operator_metrics :: "BenchmarkResult \<Rightarrow> poll_metrics" where
  "operator_metrics r =
     \<lparr>poll_Throughput = Fin (br_throughput r), poll_LatencyMs = Fin (br_latency_ms r),
      poll_MemoryBandwidthGbps = Fin (br_memory_bandwidth_gbps r)\<rparr>"

definition provider_metrics :: "BenchmarkResult \<Rightarrow> api_metrics" where
  "provider_metrics r =
     \<lparr>apiThroughput = Fin (br_throughput r), apiLatencyMs = Fin (br_latency_ms r),
      apiMemoryBandwidthGbps = Fin (br_memory_bandwidth_gbps r)\<rparr>"

lemma poll_decodes:
  assumes "find_by_id (database s) i = Some b" and "sp_is_uuid S i"
    and "\<And>r. map_of (result_rows (database s)) i = Some r \<Longrightarrow> float_result r"
  shows "Decode poll_fields (Body (get_route S s i)) zero_poll =
           Some \<lparr>poll_Status = status_text (bm_status b), poll_Result = map_option operator_metrics (map_of (result_rows (database s)) i)\<rparr>"
    and "Decode api_fields (Body (get_route S s i)) zero_api =
           Some \<lparr>apiStatus = status_text (bm_status b), apiResult = map_option provider_metrics (map_of (result_rows (database s)) i)\<rparr>"
    and "Decode status_fields (Body (get_route S s i)) '''' = Some (status_text (bm_status b))"
  using assms
  by (auto simp: get_route_def get_benchmark_status_def get_benchmark_def json_time_def result_json_def decode_simps float_result_def
      operator_metrics_def provider_metrics_def split: option.splits)

text \<open>
  C17. What is stored is what is read: for every row of the table, the answer of the status route, decoded
  by the operator or by the provider, holds the status of the row and the numbers of its result, and no
  result where none is stored.
\<close>

theorem poll_round_trip:
  assumes "backend_inv s" and "b \<in> set (benchmark_rows (database s))" and "sp_is_uuid S (bm_id b)"
    and "\<And>r. map_of (result_rows (database s)) (bm_id b) = Some r \<Longrightarrow> float_result r"
  shows "Decode poll_fields (Body (get_route S s (bm_id b))) zero_poll =
           Some \<lparr>poll_Status = status_text (bm_status b),
                 poll_Result = map_option operator_metrics (map_of (result_rows (database s)) (bm_id b))\<rparr> \<and>
         Decode api_fields (Body (get_route S s (bm_id b))) zero_api =
           Some \<lparr>apiStatus = status_text (bm_status b),
                 apiResult = map_option provider_metrics (map_of (result_rows (database s)) (bm_id b))\<rparr>"
proof -
  have "find_by_id (database s) (bm_id b) = Some b"
    using find_distinct [OF backend_invD(1) [OF assms(1)] assms(2)] by (simp add: find_by_id_def)
  from poll_decodes(1,2) [of s _ b S, OF this assms(3,4)] show ?thesis by simp
qed

section \<open>What is accepted\<close>

text \<open>
  What is relied on of the validation of \<^verbatim>\<open>BenchmarkCreateRequest\<close>: a body with the four members, the
  texts and the number of the declared types, is accepted as it is when the batch size is positive and
  the key has at most 128 characters, and refused otherwise. A character is one byte here, as in all names
  Kubernetes admits, and no member occurs twice, as in every body the controllers marshal.
\<close>

definition validates :: "(json \<Rightarrow> BenchmarkCreateRequest option) \<Rightarrow> bool" where
  "validates parse \<longleftrightarrow>
     (\<forall>body g w n k.
        json_member body ''gpu_model'' = Some (JStr g) \<and> json_member body ''workload_type'' = Some (JStr w) \<and>
        json_member body ''batch_size'' = Some (JNum (of_int n)) \<and> json_member body ''idempotency_key'' = Some (JStr k) \<longrightarrow>
        parse body = (if 0 < n \<and> length k \<le> 128
                      then Some \<lparr>rq_gpu_model = g, rq_workload_type = w, rq_batch_size = n, rq_idempotency_key = Some k\<rparr> else None))"

abbreviation job_key :: "job \<Rightarrow> string" where
  "job_key j \<equiv> idempotency_key (Namespace (JobMeta j)) (Name (JobMeta j))"

lemma validates_submit:
  assumes "validates parse"
  shows "parse (submit_payload j) = (if 0 < sint (BatchSize (Spec j)) \<and> length (job_key j) \<le> 128 then Some (request_of j) else None)"
  using assms [unfolded validates_def, rule_format,
      of "submit_payload j" "GPUModel (Spec j)" "WorkloadType (Spec j)" "sint (BatchSize (Spec j))" "job_key j"]
  by (simp add: operator_submission.members submission_member_def request_of_def del: of_int_sint)

lemma admitted_fits:
  assumes "spec_admitted (Spec j)" and "length (job_key j) \<le> 128"
  shows "fits_columns (job_key j) (request_of j)"
proof -
  have "\<forall>m\<in>set gpu_models. length m \<le> 64" "\<forall>w\<in>set workload_types. length w \<le> 64"
    by (simp_all add: gpu_models_def workload_types_def)
  then show ?thesis using assms by (auto simp: fits_columns_def request_of_def spec_admitted_def)
qed

text \<open>
  C18. A submission for an admitted object is well-typed for the backend: with a key of at most 128
  characters, in every state of the backend that takes the push, it is answered with 202 and a body from
  which the operator decodes a job ID and one of the four states.
\<close>

theorem admitted_submission_is_accepted:
  assumes "validates (sp_parse S)" and "spec_admitted (Spec j)" and "length (job_key j) \<le> 128"
  shows "StatusCode (snd (post_route S newid now (submit_payload j) s)) = StatusAccepted \<and>
         (\<exists>i st. Decode submit_fields (Body (snd (post_route S newid now (submit_payload j) s))) zero_submit =
                   Some \<lparr>submit_JobID = i, submit_Status = status_text st\<rparr>)"
proof -
  have parse: "sp_parse S (submit_payload j) = Some (request_of j)"
    using validates_submit [OF assms(1)] assms(2,3) by (simp add: spec_admitted_def)
  show ?thesis
  proof (cases "find_by_key (database s) (job_key j)")
    case None
    then have "post_route S newid now (submit_payload j) s =
        (fst (post_route S newid now (submit_payload j) s), create_response (new_row (sp_sha256 S) newid now (request_of j)))"
      using post_new [of "sp_parse S" "submit_payload j" "request_of j" s "sp_sha256 S" newid now True] parse admitted_fits [OF assms(2,3)]
      by (simp add: post_route_def Let_def)
    then show ?thesis by (metis create_response_code decode_create snd_conv)
  next
    case (Some b)
    then have "post_route S newid now (submit_payload j) s = (s, create_response b)"
      using post_existing [of "sp_parse S" "submit_payload j" "request_of j" s "sp_sha256 S" b] parse by (simp add: post_route_def)
    then show ?thesis by auto
  qed
qed

text \<open>A validation that satisfies what is assumed.\<close>

definition example_parse :: "json \<Rightarrow> BenchmarkCreateRequest option" where
  "example_parse body =
     (case (json_member body ''gpu_model'', json_member body ''workload_type'', json_member body ''batch_size'',
            json_member body ''idempotency_key'') of
        (Some (JStr g), Some (JStr w), Some (JNum q), Some (JStr k)) \<Rightarrow>
          if of_int \<lfloor>q\<rfloor> = q \<and> 0 < \<lfloor>q\<rfloor> \<and> length k \<le> 128
          then Some \<lparr>rq_gpu_model = g, rq_workload_type = w, rq_batch_size = \<lfloor>q\<rfloor>, rq_idempotency_key = Some k\<rparr> else None
      | _ \<Rightarrow> None)"

lemma example_parse_validates: "validates example_parse"
  by (simp add: validates_def example_parse_def)

definition contract_service :: service_params where
  "contract_service = \<lparr>sp_parse = example_parse, sp_sha256 = id, sp_is_uuid = \<lambda>_. True\<rparr>"

lemma contract_service_laws: "validates (sp_parse contract_service)" "sp_is_uuid contract_service i"
  by (simp_all add: contract_service_def example_parse_validates)

lemma example_pending_admitted: "spec_admitted (Spec example_pending)" "length (job_key example_pending) \<le> 128"
  by (simp_all add: example_pending_def example_job_def example_spec_def spec_admitted_def gpu_models_def workload_types_def
      idempotency_key_def)

definition measured_row_backend :: backend where
  "measured_row_backend =
     \<lparr>database = \<lparr>gpu_model_rows = [''H100''],
                  benchmark_rows = [(new_row id ''id-1'' 0 (request_of example_pending))\<lparr>bm_status := completed, bm_attempt_count := 1\<rparr>],
                  result_rows = [(''id-1'', example_result)]\<rparr>,
      job_queue = [], dead_letters = []\<rparr>"

theorem poll_round_trip_witness:
  "Decode poll_fields (Body (get_route contract_service measured_row_backend ''id-1'')) zero_poll =
     Some \<lparr>poll_Status = ''completed'', poll_Result = Some (operator_metrics example_result)\<rparr> \<and>
   Decode api_fields (Body (get_route contract_service measured_row_backend ''id-1'')) zero_api =
     Some \<lparr>apiStatus = ''completed'', apiResult = Some (provider_metrics example_result)\<rparr>"
proof -
  let ?b = "(new_row id ''id-1'' 0 (request_of example_pending))\<lparr>bm_status := completed, bm_attempt_count := 1\<rparr>"
  have "backend_inv measured_row_backend" "?b \<in> set (benchmark_rows (database measured_row_backend))" "bm_id ?b = ''id-1''"
    "map_of (result_rows (database measured_row_backend)) ''id-1'' = Some example_result" "float_result example_result"
    by (simp_all add: backend_inv_def measured_row_backend_def new_row_def worker_max_retries_def Collect_conv_if float_result_def
        example_result_def float_exact)
  then show ?thesis using poll_round_trip [of measured_row_backend ?b contract_service] contract_service_laws(2) by simp
qed

theorem admitted_submission_is_accepted_witness:
  "StatusCode (snd (post_route contract_service ''id-1'' 0 (submit_payload example_pending) example_backend)) = StatusAccepted"
  using admitted_submission_is_accepted [OF contract_service_laws(1) example_pending_admitted] by blast

section \<open>Names that are too long\<close>

text \<open>
  C27. An object whose namespace and name are longer than 127 characters together is never submitted:
  the backend refuses the key with 422 in every state, and however often the object is reconciled
  nothing is written to it, so the refusal shows nowhere. Kubernetes admits names of 253 characters.
\<close>

theorem long_names_are_never_submitted:
  assumes "validates (sp_parse S)" and "127 < length (Namespace (JobMeta j)) + length (Name (JobMeta j))"
    and "driven E j" and "start_phase (Phase (Status j))" and "served_by S newid now s (apiURL j) E"
  shows "StatusCode (snd (post_route S newid now (submit_payload j) s)) = 422 \<and> drive (replicate n E) req j = j"
proof -
  have "\<not> length (job_key j) \<le> 128" using assms(2) by (simp add: idempotency_key_def)
  then have "sp_parse S (submit_payload j) = None" using validates_submit [OF assms(1)] by simp
  then have post: "snd (post_route S newid now (submit_payload j) s) = error_response 422 ''invalid request''"
    by (simp add: post_route_def create_benchmark_job_def)
  then have "http_Post E (apiURL j @ ''/benchmarks'') ''application/json'' (submit_payload j) = Inr (error_response 422 ''invalid request'')"
    using assms(5) by (simp add: served_by_def)
  then have "reconcile_on E req j = j"
    using on_pending_refused [OF assms(3,4)] by (simp add: error_response_def http_codes)
  then show ?thesis using post drive_fixed by (simp add: error_response_def)
qed

definition long_name_job :: job where
  "long_name_job = example_pending\<lparr>JobMeta := (JobMeta example_pending)\<lparr>Name := replicate 253 (CHR ''a'')\<rparr>\<rparr>"

theorem long_names_are_never_submitted_witness:
  "drive (replicate 100 (served_env contract_service ''id-1'' example_backend)) (''team'', ''h100'') long_name_job = long_name_job"
proof -
  let ?E = "served_env contract_service ''id-1'' example_backend"
  have "127 < length (Namespace (JobMeta long_name_job)) + length (Name (JobMeta long_name_job))"
    "start_phase (Phase (Status long_name_job))" "apiURL long_name_job = apiURL example_pending"
    using example_pending_simps(3) by (simp_all add: long_name_job_def apiURL_def)
  moreover have "driven ?E long_name_job"
    using example_pending_simps(1,2) finalizer_laws_contains [OF served_env_laws(2)] by (simp add: driven_def long_name_job_def)
  ultimately show ?thesis
    using long_names_are_never_submitted [OF contract_service_laws(1), of long_name_job ?E "''id-1''" 0 example_backend 100] served_env_laws(1)
    by simp
qed

section \<open>From the object to its measurements\<close>

text \<open>While a worker executes the job: taken from the queue and marked as running.\<close>

definition while_running :: "uuid \<Rightarrow> backend \<Rightarrow> backend" where
  "while_running i s = s\<lparr>job_queue := butlast (job_queue s), database := mark_running i (database s)\<rparr>"

lemma running_row:
  assumes "backend_inv s" and "b \<in> set (benchmark_rows (database s))"
  shows "\<exists>c. find_by_id (database (while_running (bm_id b) s)) (bm_id b) = Some c \<and> bm_status c = running"
proof -
  let ?f = "set_row (bm_id b) running (bm_attempt_count b + 1)" and ?d = "mark_running (bm_id b) (database s)"
  have rows: "benchmark_rows ?d = map ?f (benchmark_rows (database s))"
    by (rule row_updates(1) [OF backend_invD(1) [OF assms(1)] assms(2) refl])
  have "find (\<lambda>c. bm_id c = bm_id (?f b)) (benchmark_rows ?d) = Some (?f b)"
    using backend_invD(1) [OF assms(1)] assms(2) unfolding rows by (intro find_distinct) (simp_all only: map_set_row set_map imageI)
  then show ?thesis by (simp add: while_running_def find_by_id_def set_row_def)
qed

lemma post_row:
  assumes "sp_parse S body = Some rq" and "find_by_key (database s) (request_key (sp_sha256 S) rq) = None"
    and "fits_columns (request_key (sp_sha256 S) rq) rq"
  shows "\<exists>c\<in>set (benchmark_rows (database (fst (post_route S newid now body s)))). bm_id c = newid"
  using post_new [of "sp_parse S" body rq s "sp_sha256 S" newid now True] assms by (simp add: post_route_def Let_def new_row_def)

lemma running_no_result:
  assumes "backend_inv s" and "newid \<notin> bm_id ` set (benchmark_rows (database s))"
    and "s\<^sub>1 = fst (post_route S newid now body s)"
  shows "map_of (result_rows (database (while_running newid s\<^sub>1))) newid = None"
proof -
  have "result_rows (database s\<^sub>1) = result_rows (database s)"
    using post_result [of s\<^sub>1 "sp_parse S" "sp_sha256 S" newid now True body s] assms(3) by (auto simp: post_route_def)
  moreover have "newid \<notin> fst ` set (result_rows (database s))" using assms(2) backend_invD(4) [OF assms(1)] by auto
  ultimately show ?thesis by (simp add: while_running_def map_of_eq_None_iff)
qed

definition ready_object :: "env \<Rightarrow> job \<Rightarrow> bool" where
  "ready_object E j \<longleftrightarrow> finalizer_laws E \<and> writes_accepted E \<and> time_is_zero (DeletionTimestamp (JobMeta j)) \<and>
     benchmarkJobFinalizer \<in> set (Finalizers (JobMeta j))"

lemma ready_objectD: "ready_object E j \<Longrightarrow> driven E (j\<lparr>Status := st\<rparr>) \<and> driven E j \<and> writes_accepted E"
  by (simp add: ready_object_def driven_def finalizer_laws_contains)

text \<open>
  C5. From a BenchmarkJob to its measurements: an admitted object is submitted to an idle backend, polled
  once while a worker executes it and once afterwards; it is then Completed, under the job ID the backend
  gave it, with exactly the numbers the engine measured.
\<close>

theorem operator_end_to_end:
  assumes "validates (sp_parse S)" and "spec_admitted (Spec j)" and "length (job_key j) \<le> 128"
    and "backend_inv s" and "newid \<notin> bm_id ` set (benchmark_rows (database s))" and "job_queue s = []"
    and "find_by_key (database s) (job_key j) = None" and "sp_is_uuid S newid"
    and "s\<^sub>1 = fst (post_route S newid now (submit_payload j) s)"
    and "run (new_item newid (request_of j)) = Inr res" and "float_result res"
    and "start_phase (Phase (Status j))"
    and "ready_object E\<^sub>0 j" and "ready_object E\<^sub>1 j" and "ready_object E\<^sub>2 j"
    and "served_by S newid now s (apiURL j) E\<^sub>0" and "served_by S i\<^sub>1 t\<^sub>1 (while_running newid s\<^sub>1) (apiURL j) E\<^sub>1"
    and "served_by S i\<^sub>2 t\<^sub>2 (worker_round run s\<^sub>1) (apiURL j) E\<^sub>2"
  shows "\<exists>st. drive [E\<^sub>0, E\<^sub>1, E\<^sub>2] req j = j\<lparr>Status := st\<rparr> \<and> Phase st = PhaseCompleted \<and> JobID st = newid \<and>
           RetryCount st = RetryCount (Status j) \<and> CompletionTime st = Some (Now E\<^sub>2) \<and>
           Throughput st = Some (Fin (br_throughput res)) \<and> LatencyMs st = Some (Fin (br_latency_ms res)) \<and>
           MemoryBandwidthGbps st = Some (Fin (br_memory_bandwidth_gbps res))"
proof -
  let ?s\<^sub>2 = "worker_round run s\<^sub>1"
  have parse: "sp_parse S (submit_payload j) = Some (request_of j)"
    using validates_submit [OF assms(1)] assms(2,3) by (simp add: spec_admitted_def)
  note worked = submitted_then_worked [of s newid S "submit_payload j" "request_of j" run res now, unfolded request_of_key,
      OF assms(4-6) parse assms(7) admitted_fits [OF assms(2,3)] assms(10), folded assms(9)]
  obtain b where b: "b \<in> set (benchmark_rows (database ?s\<^sub>2))" "bm_id b = newid" "bm_status b = completed"
    using worked by metis
  define st\<^sub>0 where "st\<^sub>0 = (Status j)\<lparr>JobID := newid, StartTime := Some (Now E\<^sub>0), Phase := PhaseSubmitted,
                 Message := ''submitted to backend; jobID='' @ newid\<rparr>"
  define st\<^sub>1 where "st\<^sub>1 = st\<^sub>0\<lparr>Phase := PhaseRunning, Message := ''execution in progress''\<rparr>"
  have "http_Post E\<^sub>0 (apiURL j @ ''/benchmarks'') ''application/json'' (submit_payload j)
      = Inr (create_response (new_row (sp_sha256 S) newid now (request_of j)))"
    using assms(16) worked by (simp add: served_by_def)
  from on_pending [OF _ assms(12) _ this] have one: "reconcile_on E\<^sub>0 req j = j\<lparr>Status := st\<^sub>0\<rparr>"
    using ready_objectD [OF assms(13)] by (simp add: st\<^sub>0_def new_row_def)
  have "snd (pollBackend E\<^sub>1 (j\<lparr>Status := st\<^sub>0\<rparr>)) = Some ''running''"
  proof -
    have "backend_inv s\<^sub>1" unfolding assms(9) post_route_def by (rule post_inv [OF assms(4,5) refl])
    moreover obtain c where c: "c \<in> set (benchmark_rows (database s\<^sub>1))" "bm_id c = newid"
      using post_row [OF parse, unfolded request_of_key, OF assms(7) admitted_fits [OF assms(2,3)]] assms(9) by metis
    ultimately obtain c' where "find_by_id (database (while_running newid s\<^sub>1)) newid = Some c'" "bm_status c' = running"
      using running_row [of s\<^sub>1 c] by metis
    then show ?thesis using poll_decodes(3) [of "while_running newid s\<^sub>1" newid c' S] assms(8,17) running_no_result [OF assms(4,5,9)]
      by (simp add: pollBackend_def served_by_def st\<^sub>0_def Let_def)
  qed
  then have two: "reconcile_on E\<^sub>1 req (j\<lparr>Status := st\<^sub>0\<rparr>) = j\<lparr>Status := st\<^sub>1\<rparr>"
    using on_submitted_running [of E\<^sub>1 "j\<lparr>Status := st\<^sub>0\<rparr>" req] ready_objectD [OF assms(14), of st\<^sub>0] by (simp add: st\<^sub>0_def st\<^sub>1_def)
  have "find_by_id (database ?s\<^sub>2) newid = Some b"
    using find_distinct [OF backend_invD(1) b(1)] worked b(2) by (simp add: find_by_id_def)
  from poll_decodes(1) [of ?s\<^sub>2 newid b S, OF this assms(8)]
  have "poll_answer E\<^sub>2 (j\<lparr>Status := st\<^sub>1\<rparr>) = Some \<lparr>poll_Status = ''completed'', poll_Result = Some (operator_metrics res)\<rparr>"
    using assms(11,18) worked b(3) by (simp add: poll_answer_def served_by_def st\<^sub>0_def st\<^sub>1_def)
  from on_running_completed [OF _ _ _ this, of req] have three: "reconcile_on E\<^sub>2 req (j\<lparr>Status := st\<^sub>1\<rparr>) =
      j\<lparr>Status := (record_metrics (Some (operator_metrics res)) (st\<^sub>1\<lparr>CompletionTime := Some (Now E\<^sub>2)\<rparr>))
                    \<lparr>Phase := PhaseCompleted, Message := ''benchmark execution successful''\<rparr>\<rparr>"
    using ready_objectD [OF assms(15), of st\<^sub>1] by (simp add: st\<^sub>1_def)
  show ?thesis
    unfolding drive.simps one two three
    by (rule exI, rule conjI [OF refl]) (simp add: record_metrics_def operator_metrics_def st\<^sub>1_def st\<^sub>0_def)
qed

theorem operator_end_to_end_witness:
  "let s = fst (post_route contract_service ''id-1'' 0 (submit_payload example_pending) example_backend);
       served = served_env contract_service ''id-1''
   in Phase (Status (drive [served example_backend, served (while_running ''id-1'' s), served (worker_round (\<lambda>_. Inr example_result) s)]
        (''team'', ''h100'') example_pending)) = PhaseCompleted"
proof -
  let ?s = "fst (post_route contract_service ''id-1'' 0 (submit_payload example_pending) example_backend)"
  let ?E = "served_env contract_service ''id-1''"
  have ready: "ready_object (?E x) example_pending" for x
    using served_env_laws(2,3) example_pending_simps(1,2) by (simp add: ready_object_def)
  have "backend_inv example_backend" "''id-1'' \<notin> bm_id ` set (benchmark_rows (database example_backend))"
    "job_queue example_backend = []" "find_by_key (database example_backend) (job_key example_pending) = None"
    by (simp_all add: backend_inv_def example_backend_def find_by_key_def)
  moreover have "(\<lambda>_. Inr example_result) (new_item ''id-1'' (request_of example_pending)) = (Inr example_result :: string + BenchmarkResult)"
    "float_result example_result"
    by (simp_all add: float_result_def example_result_def float_exact)
  ultimately obtain st where "drive [?E example_backend, ?E (while_running ''id-1'' ?s), ?E (worker_round (\<lambda>_. Inr example_result) ?s)]
      (''team'', ''h100'') example_pending = example_pending\<lparr>Status := st\<rparr>" "Phase st = PhaseCompleted"
    using operator_end_to_end [of contract_service example_pending example_backend "''id-1''" ?s 0 "\<lambda>_. Inr example_result" example_result
        "?E example_backend" "?E (while_running ''id-1'' ?s)" "?E (worker_round (\<lambda>_. Inr example_result) ?s)" "''id-1''" 0 "''id-1''" 0
        "(''team'', ''h100'')"]
      contract_service_laws example_pending_admitted ready served_env_laws(1) example_pending_simps(3) by blast
  then show ?thesis by (simp add: Let_def del: drive.simps)
qed

end
