(* ===== verification/Crash_Safety.thy ===== *)
theory Crash_Safety
  imports Platform_Contracts
begin

text \<open>
  Lost writes and stale reads: what the idempotency keys of the backend make of a reconciliation whose
  status write is refused, or that runs on an old version of the object.
\<close>

section \<open>Refused writes\<close>

definition writes_refused :: "env \<Rightarrow> bool" where
  "writes_refused E \<longleftrightarrow> (\<forall>j. client_Update E j \<noteq> None) \<and> (\<forall>j. status_Update E j \<noteq> None)"

lemma writes_refusedD: "writes_refused E \<Longrightarrow> client_Update E j \<noteq> None \<and> status_Update E j \<noteq> None"
  by (simp add: writes_refused_def)

lemma persist_refused: "writes_refused E \<Longrightarrow> persist E calls j = j"
  by (induction E calls j rule: persist.induct) (simp_all add: writes_refusedD)

lemma reconcile_refused: "writes_refused E \<Longrightarrow> reconcile_on E req j = j"
  by (simp add: reconcile_on_persist persist_refused)

section \<open>The calls of a reconciliation on the backend\<close>

text \<open>What the backend makes of the requests of a reconciliation; only a POST changes it.\<close>

fun backend_after :: "service_params \<Rightarrow> uuid \<Rightarrow> time \<Rightarrow> effect list \<Rightarrow> backend \<Rightarrow> backend" where
  "backend_after S newid now [] s = s"
| "backend_after S newid now (PostBenchmark u body # calls) s =
     backend_after S newid now calls (fst (post_route S newid now body s))"
| "backend_after S newid now (c # calls) s = backend_after S newid now calls s"

lemma backend_after_unchanged:
  assumes "\<forall>u body. PostBenchmark u body \<in> set calls \<longrightarrow> fst (post_route S newid now body s) = s"
  shows "backend_after S newid now calls s = s"
  using assms
proof (induction S newid now calls s rule: backend_after.induct)
  case (2 S newid now u body calls s)
  then have "fst (post_route S newid now body s) = s" by simp
  then show ?case using 2 by simp
qed simp_all

lemma known_key_post:
  assumes "validates (sp_parse S)" and "find_by_key (database s) (job_key j) = Some b"
  shows "fst (post_route S newid now (submit_payload j) s) = s"
proof (cases "sp_parse S (submit_payload j)")
  case None
  then show ?thesis by (simp add: post_route_def create_benchmark_job_def)
next
  case (Some rq)
  then have "rq = request_of j" using validates_submit [OF assms(1), of j] by (simp split: if_splits)
  then show ?thesis using Some assms(2) post_existing [of "sp_parse S" "submit_payload j" rq s] by (simp add: post_route_def)
qed

text \<open>
  C38. A stale reconciliation does no harm: when the API server refuses its writes, a reconciliation of any
  old version of an object that the backend knows leaves the object and the backend as they are,
  whatever it was answered.
\<close>

theorem stale_reconciliation_is_harmless:
  assumes "validates (sp_parse S)" and "find_by_key (database s) (job_key old) = Some b" and "writes_refused E"
    and "client_Get E req = Inr old"
  shows "persist E (fst (Reconcile E req)) j = j \<and> backend_after S newid now (fst (Reconcile E req)) s = s"
proof -
  have "fst (post_route S newid now body s) = s" if "PostBenchmark u body \<in> set (fst (Reconcile E req))" for u body
  proof -
    have "PostBenchmark u body \<in> set (body_calls E old)" using that assms(4) by (simp add: Reconcile_calls)
    then show ?thesis using body_calls_post known_key_post [OF assms(1,2)] by blast
  qed
  then show ?thesis using persist_refused [OF assms(3)] backend_after_unchanged by blast
qed

definition refusing_env :: "backend \<Rightarrow> env" where
  "refusing_env s =
     (served_env contract_service ''id-1'' s)
       \<lparr>client_Update := \<lambda>_. Some (StatusError ''Conflict'' ''the object has been modified''),
        status_Update := \<lambda>_. Some (StatusError ''Conflict'' ''the object has been modified''),
        client_Get := \<lambda>_. Inr example_pending\<rparr>"

lemma refusing_env_laws:
  "writes_refused (refusing_env s)" "client_Get (refusing_env s) req = Inr example_pending"
  "served_by contract_service ''id-1'' 0 s (apiURL example_pending) (refusing_env s)"
  using served_env_laws(1) [of contract_service "''id-1''" s] by (simp_all add: writes_refused_def refusing_env_def served_by_def)

theorem stale_reconciliation_is_harmless_witness:
  "backend_after contract_service ''id-2'' 0 (fst (Reconcile (refusing_env failed_backend) (''team'', ''h100''))) failed_backend = failed_backend"
proof -
  let ?b = "(new_row id ''id-1'' 0 (request_of example_pending))\<lparr>bm_status := failed, bm_attempt_count := 3\<rparr>"
  have "find_by_key (database failed_backend) (job_key example_pending) = Some ?b"
    by (simp add: find_by_key_def failed_backend_def new_row_def)
  from stale_reconciliation_is_harmless [OF contract_service_laws(1) this refusing_env_laws(1,2)] show ?thesis by blast
qed

text \<open>
  C13. Submission survives a lost write: the backend accepts a submission, and the write of the job ID into
  the object is refused or the operator stops before it. After anything else the backend may do, the
  next reconciliation submits again, gets the same job ID, creates no second benchmark, and the object
  is Submitted under that ID.
\<close>

theorem submission_survives_lost_write:
  assumes "validates (sp_parse S)" and "spec_admitted (Spec j)" and "length (job_key j) \<le> 128"
    and "backend_inv s" and "newid \<notin> bm_id ` set (benchmark_rows (database s))" and "find_by_key (database s) (job_key j) = None"
    and "start_phase (Phase (Status j))" and "writes_refused E" and "served_by S newid now s (apiURL j) E"
    and "(backend_step (sp_parse S) (sp_sha256 S))\<^sup>*\<^sup>* (fst (post_route S newid now (submit_payload j) s)) t"
    and "ready_object E' j" and "served_by S newid' now' t (apiURL j) E'"
  shows "reconcile_on E req j = j \<and>
         (\<exists>st. reconcile_on E' req (reconcile_on E req j) = j\<lparr>Status := st\<rparr> \<and> Phase st = PhaseSubmitted \<and> JobID st = newid) \<and>
         fst (post_route S newid' now' (submit_payload j) t) = t"
proof -
  let ?s = "fst (post_route S newid now (submit_payload j) s)"
  have parse: "sp_parse S (submit_payload j) = Some (request_of j)"
    using validates_submit [OF assms(1)] assms(2,3) by (simp add: spec_admitted_def)
  have "find_by_key (database ?s) (job_key j) = Some (new_row (sp_sha256 S) newid now (request_of j))"
    using post_new [of "sp_parse S" "submit_payload j" "request_of j" s "sp_sha256 S" newid now True] parse
      admitted_fits [OF assms(2,3)] assms(6)
    by (simp add: post_route_def Let_def find_by_key_def find_append new_row_def)
  moreover have "backend_inv ?s" unfolding post_route_def by (rule post_inv [OF assms(4,5) refl])
  ultimately obtain b where b: "find_by_key (database t) (job_key j) = Some b" "bm_id b = newid"
    using key_kept_steps [OF assms(10), of "job_key j" "new_row (sp_sha256 S) newid now (request_of j)"] by (auto simp: new_row_def)
  have again: "post_route S newid' now' (submit_payload j) t = (t, create_response b)"
    using post_existing [of "sp_parse S" "submit_payload j" "request_of j" t "sp_sha256 S" b] parse b(1) by (simp add: post_route_def)
  have "http_Post E' (apiURL j @ ''/benchmarks'') ''application/json'' (submit_payload j) = Inr (create_response b)"
    using assms(12) again by (simp add: served_by_def)
  from on_pending [OF _ assms(7) _ this] ready_objectD [OF assms(11)] b(2)
  have "\<exists>st. reconcile_on E' req j = j\<lparr>Status := st\<rparr> \<and> Phase st = PhaseSubmitted \<and> JobID st = newid"
    by (intro exI [of _ "(Status j)\<lparr>JobID := newid, StartTime := Some (Now E'), Phase := PhaseSubmitted,
                 Message := ''submitted to backend; jobID='' @ newid\<rparr>"]) simp
  then show ?thesis using reconcile_refused [OF assms(8)] again by simp
qed

theorem submission_survives_lost_write_witness:
  "let s = fst (post_route contract_service ''id-1'' 0 (submit_payload example_pending) example_backend);
       t = worker_round (\<lambda>_. Inl ''error'') s
   in JobID (Status (reconcile_on (served_env contract_service ''id-2'' t) (''team'', ''h100'')
        (reconcile_on (refusing_env example_backend) (''team'', ''h100'') example_pending))) = ''id-1''"
proof -
  let ?s = "fst (post_route contract_service ''id-1'' 0 (submit_payload example_pending) example_backend)"
  let ?t = "worker_round (\<lambda>_. Inl ''error'') ?s"
  have "backend_inv example_backend" "''id-1'' \<notin> bm_id ` set (benchmark_rows (database example_backend))"
    "find_by_key (database example_backend) (job_key example_pending) = None"
    by (simp_all add: backend_inv_def example_backend_def find_by_key_def)
  moreover have "(backend_step (sp_parse contract_service) (sp_sha256 contract_service))\<^sup>*\<^sup>* ?s ?t"
    by (rule r_into_rtranclp, rule backend_step.worker)
  moreover have "ready_object (served_env contract_service ''id-2'' ?t) example_pending"
    using served_env_laws(2,3) example_pending_simps(1,2) by (simp add: ready_object_def)
  ultimately obtain st where "reconcile_on (served_env contract_service ''id-2'' ?t) (''team'', ''h100'')
      (reconcile_on (refusing_env example_backend) (''team'', ''h100'') example_pending) = example_pending\<lparr>Status := st\<rparr>" "JobID st = ''id-1''"
    using submission_survives_lost_write [OF contract_service_laws(1) example_pending_admitted, of example_backend "''id-1''"
        "refusing_env example_backend" 0 ?t "served_env contract_service ''id-2'' ?t" "''id-2''" 0 "(''team'', ''h100'')"]
      example_pending_simps(3) refusing_env_laws(1,3) served_env_laws(1) by blast
  then show ?thesis by (simp add: Let_def)
qed

end
