(* ===== verification/Managed_Rounds.thy ===== *)
theory Managed_Rounds
  imports Platform
begin

text \<open>
  The external client under the managed reconciler of crossplane-runtime
  (\<^verbatim>\<open>provider/internal/controller/gpubenchmarkjob_controller.go\<close>, \<^verbatim>\<open>managed.NewReconciler\<close>). The reconciler is
  a parameter \<open>R\<close>: \<open>R E e cr calls cr'\<close> says that a completed reconciliation of the stored resource \<open>cr\<close>,
  neither deleted nor paused, made the requests \<open>calls\<close> under the environment \<open>E\<close>, and that the API server
  holds \<open>cr'\<close> after it. What is relied on is the predicate \<open>managed_contract\<close>.
\<close>

section \<open>What is relied on of the managed reconciler\<close>

text \<open>
  The documented contract of \<^verbatim>\<open>managed.ExternalClient\<close>: the identity and the spec of the resource are not
  changed; the modifications of the status by \<^verbatim>\<open>Observe\<close> are persisted (the reconciler itself adds the
  condition Synced, so Ready reads as \<^verbatim>\<open>Observe\<close> left it); \<^verbatim>\<open>Create\<close> is called exactly when \<^verbatim>\<open>Observe\<close>
  reports without an error that the resource does not exist. Of what \<^verbatim>\<open>Create\<close> does to the resource only
  changes of annotations are persisted, and all other updates are discarded: that is \<open>keeps = False\<close>.
  With \<open>keeps = True\<close> the predicate describes a reconciler that also stores the observation \<^verbatim>\<open>Create\<close>
  writes, which is what the comments of the source expect.
\<close>

definition managed_contract ::
  "bool \<Rightarrow> ('ct \<Rightarrow> 'cs \<Rightarrow> 'c) \<Rightarrow> 'ct
    \<Rightarrow> (('cs, 'c, 'us) provider_env \<Rightarrow> external \<Rightarrow> ('dp, 'mp, 'pd, 'sr, 'cs) gpu_job \<Rightarrow> provider_call list
        \<Rightarrow> ('dp, 'mp, 'pd, 'sr, 'cs) gpu_job \<Rightarrow> bool) \<Rightarrow> bool" where
  "managed_contract keeps getc ready R \<longleftrightarrow>
     (\<forall>E e cr calls cr'. R E e cr calls cr' \<longrightarrow>
        Name (mgMeta cr') = Name (mgMeta cr) \<and> Namespace (mgMeta cr') = Namespace (mgMeta cr) \<and> mgSpec cr' = mgSpec cr \<and>
        (\<forall>asked seen ob err. Observe E e (ManagedJob cr) = (asked, ManagedJob seen, ob, err) \<longrightarrow>
           (if err \<noteq> None \<or> ResourceExists ob
            then calls = asked \<and> AtProvider (mgStatus cr') = AtProvider (mgStatus seen) \<and>
                 GetCondition getc ready cr' = GetCondition getc ready seen
            else \<forall>posted made err'. Create E e (ManagedJob seen) = (posted, ManagedJob made, err') \<longrightarrow>
                 calls = asked @ posted \<and>
                 AtProvider (mgStatus cr') = AtProvider (mgStatus (if keeps then made else seen)))))"

lemma round_same_request:
  assumes "managed_contract keeps getc ready R" and "R E e cr calls cr'"
  shows "create_request e' cr' = create_request e' cr" "create_payload cr' = create_payload cr"
  using assms unfolding managed_contract_def by (auto simp: create_request_def create_payload_def)

lemma round_answered:
  assumes "managed_contract keeps getc ready R" and "R E e cr calls cr'"
    and "observed_id cr \<noteq> ''''" and "backend_answer E e (observed_id cr) = Some r"
  shows "calls = [DoRequest (get_request e (observed_id cr))] \<and>
         AtProvider (mgStatus cr') = AtProvider (mgStatus (reflect E r cr)) \<and>
         GetCondition getc ready cr' = GetCondition getc ready (reflect E r cr)"
  using assms(1) [unfolded managed_contract_def, rule_format, OF assms(2)] Observe_answered [OF assms(3,4)] by simp

lemma round_absent:
  assumes "managed_contract keeps getc ready R" and "R E e cr calls cr'"
    and "observed_id cr = ''''" and "Create E e (ManagedJob cr) = (posted, ManagedJob made, err)"
  shows "calls = posted \<and> AtProvider (mgStatus cr') = AtProvider (mgStatus (if keeps then made else cr))"
proof -
  have "Observe E e (ManagedJob cr) = ([], ManagedJob cr, no_observation, None)" using assms(3) by (simp add: Observe_def)
  then show ?thesis using assms(1) [unfolded managed_contract_def, rule_format, OF assms(2)] assms(4) by simp
qed

lemma round_submits:
  assumes "managed_contract keeps getc ready R" and "R E e cr calls cr'"
    and "observed_id cr = ''''" and "created_id E (create_request e cr) = Some i"
  shows "calls = [DoRequest (create_request e cr)] \<and>
         AtProvider (mgStatus cr') = AtProvider (mgStatus (if keeps then created E i cr else cr))"
  by (rule round_absent [OF assms(1-3) Create_accepted [OF assms(4)]])

text \<open>Under the documented contract a resource without a job ID stays without one, whatever is answered.\<close>

lemma round_forgets:
  assumes "managed_contract False getc ready R" and "R E e cr calls cr'" and "observed_id cr = ''''"
  shows "AtProvider (mgStatus cr') = AtProvider (mgStatus cr)"
proof -
  obtain posted made err where "Create E e (ManagedJob cr) = (posted, ManagedJob made, err)"
    using Create_accepted [of E e cr] Create_refused [of E e cr] by (cases "created_id E (create_request e cr)") auto
  from round_absent [OF assms this] show ?thesis by simp
qed

section \<open>Rounds against the backend\<close>

text \<open>What the backend makes of the requests of a round; only a POST changes it.\<close>

fun requests_on :: "service_params \<Rightarrow> uuid \<Rightarrow> time \<Rightarrow> provider_call list \<Rightarrow> backend \<Rightarrow> backend" where
  "requests_on S newid now [] s = s"
| "requests_on S newid now (DoRequest req # calls) s =
     requests_on S newid now calls
       (case reqBody req of Some body \<Rightarrow> fst (post_route S newid now body s) | None \<Rightarrow> s)"
| "requests_on S newid now (GetProviderConfig k # calls) s = requests_on S newid now calls s"

lemma request_bodies [simp]: "reqBody (create_request e cr) = Some (create_payload cr)" "reqBody (get_request e i) = None"
  by (simp_all add: create_request_def get_request_def)

lemma served_created_id:
  assumes "provider_served S newid now s e E" and "snd (post_route S newid now (create_payload cr) s) = create_response b"
  shows "created_id E (create_request e cr) = Some (bm_id b)"
  using assms by (simp add: created_id_def create_request_def provider_served_def)

lemma known_resource_post:
  assumes "sp_parse S (create_payload cr) = Some (provider_request_of cr)"
    and "find_by_key (database s) (idempotency_key (Namespace (mgMeta cr)) (Name (mgMeta cr))) = Some b"
  shows "post_route S newid now (create_payload cr) s = (s, create_response b)"
  using assms post_existing [of "sp_parse S" "create_payload cr" "provider_request_of cr" s "sp_sha256 S" b]
  by (simp add: post_route_def provider_request_key)

text \<open>
  The provider beside the backend: rounds whose requests reach the backend, rounds with any other
  answers whose requests do not reach it, and steps of the backend on its own (workers, submissions of
  other clients, and the POST of a reconciliation that was cut off after it).
\<close>

inductive managed_step ::
  "service_params \<Rightarrow> external
    \<Rightarrow> (('cs, 'c, 'us) provider_env \<Rightarrow> external \<Rightarrow> ('dp, 'mp, 'pd, 'sr, 'cs) gpu_job \<Rightarrow> provider_call list
        \<Rightarrow> ('dp, 'mp, 'pd, 'sr, 'cs) gpu_job \<Rightarrow> bool)
    \<Rightarrow> backend \<times> ('dp, 'mp, 'pd, 'sr, 'cs) gpu_job \<Rightarrow> backend \<times> ('dp, 'mp, 'pd, 'sr, 'cs) gpu_job \<Rightarrow> bool" for S e R where
  served: "provider_served S newid now s e E \<Longrightarrow> newid \<notin> bm_id ` set (benchmark_rows (database s)) \<Longrightarrow>
     R E e cr calls cr' \<Longrightarrow> managed_step S e R (s, cr) (requests_on S newid now calls s, cr')"
| unserved: "R E e cr calls cr' \<Longrightarrow> managed_step S e R (s, cr) (s, cr')"
| backend: "backend_step (sp_parse S) (sp_sha256 S) s t \<Longrightarrow> managed_step S e R (s, cr) (t, cr)"

lemma round_posts:
  assumes "managed_contract keeps getc ready R" and "R E e cr calls cr'" and "observed_id cr = ''''"
    and "provider_served S newid now s e E"
  shows "calls = [DoRequest (create_request e cr)]"
proof -
  have "new_request E m u = None" for m u using assms(4) by (simp add: provider_served_def)
  then have "\<exists>made err. Create E e (ManagedJob cr) = ([DoRequest (create_request e cr)], ManagedJob made, err)"
    by (simp add: Create_def Let_def split: sum.split option.split)
  then obtain made err where "Create E e (ManagedJob cr) = ([DoRequest (create_request e cr)], ManagedJob made, err)" by blast
  from round_absent [OF assms(1-3) this] show ?thesis by simp
qed

text \<open>
  What a run keeps of a resource without a job ID, and that the backend under it makes steps of its own
  only.
\<close>

lemma managed_runs:
  assumes "managed_contract False getc ready R" and "(managed_step S e R)\<^sup>*\<^sup>* a b" and "observed_id (snd a) = ''''"
  shows "(backend_step (sp_parse S) (sp_sha256 S))\<^sup>*\<^sup>* (fst a) (fst b) \<and>
         AtProvider (mgStatus (snd b)) = AtProvider (mgStatus (snd a)) \<and>
         create_request e (snd b) = create_request e (snd a)"
  using assms(2)
proof (induction rule: rtranclp_induct)
  case (step b c)
  from step(2) show ?case
  proof cases
    case (served newid now s E cr calls cr')
    have id: "observed_id cr = ''''" using step(3) assms(3) served(1) by simp
    have "backend_step (sp_parse S) (sp_sha256 S) s (requests_on S newid now calls s)"
      using round_posts [OF assms(1) served(5) id served(3)] backend_step.posted [OF served(4)] by (simp add: post_route_def)
    moreover have "(backend_step (sp_parse S) (sp_sha256 S))\<^sup>*\<^sup>* (fst a) s" using step(3) served(1) by simp
    ultimately have "(backend_step (sp_parse S) (sp_sha256 S))\<^sup>*\<^sup>* (fst a) (requests_on S newid now calls s)" by simp
    then show ?thesis
      using step(3) served(1,2) round_forgets [OF assms(1) served(5) id] round_same_request(1) [OF assms(1) served(5)]
      by simp
  next
    case (unserved E cr calls cr' s)
    have id: "observed_id cr = ''''" using step(3) assms(3) unserved(1) by simp
    then show ?thesis
      using step(3) unserved(1,2) round_forgets [OF assms(1) unserved(3) id] round_same_request(1) [OF assms(1) unserved(3)] by simp
  next
    case (backend s t cr)
    then show ?thesis using step(3) rtranclp.rtrancl_into_rtrancl [of "backend_step (sp_parse S) (sp_sha256 S)" "fst a" s t] by simp
  qed
qed simp

section \<open>Instances for the witnesses\<close>

text \<open>
  An instance of the contract: the resource of \<open>Observe\<close> is stored, and that of \<open>Create\<close> if \<open>keeps\<close>.
\<close>

definition example_runtime ::
  "bool \<Rightarrow> ('cs, 'c, 'us) provider_env \<Rightarrow> external \<Rightarrow> ('dp, 'mp, 'pd, 'sr, 'cs) gpu_job \<Rightarrow> provider_call list
    \<Rightarrow> ('dp, 'mp, 'pd, 'sr, 'cs) gpu_job \<Rightarrow> bool" where
  "example_runtime keeps E e cr calls cr' \<longleftrightarrow>
     (case Observe E e (ManagedJob cr) of (asked, seen, ob, err) \<Rightarrow>
        if err \<noteq> None \<or> ResourceExists ob then calls = asked \<and> ManagedJob cr' = seen
        else case Create E e seen of (posted, made, err') \<Rightarrow>
               calls = asked @ posted \<and> ManagedJob cr' = (if keeps then made else seen))"

lemma Observe_same_frame:
  assumes "Observe E e (ManagedJob cr) = (calls, ManagedJob seen, ob, err)"
  shows "same_frame cr seen"
proof -
  have "ManagedJob seen = fst (snd (Observe E e (ManagedJob cr)))" using assms by simp
  then show ?thesis unfolding Observe_object by (auto simp: reflect_frame split: if_splits option.splits)
qed

lemma Create_same_frame:
  assumes "Create E e (ManagedJob cr) = (calls, ManagedJob made, err)"
  shows "same_frame cr made"
proof -
  have "ManagedJob made = fst (snd (Create E e (ManagedJob cr)))" using assms by simp
  then show ?thesis unfolding Create_object by (auto simp: created_frame split: option.splits)
qed

lemma example_runtime_frame:
  assumes "example_runtime keeps E e cr calls cr'"
  shows "same_frame cr cr'"
proof -
  obtain asked seen ob err where o: "Observe E e (ManagedJob cr) = (asked, ManagedJob seen, ob, err)"
    using Observe_object [of E e cr] by (cases "Observe E e (ManagedJob cr)") (auto split: if_splits option.splits)
  obtain posted made err' where c: "Create E e (ManagedJob seen) = (posted, ManagedJob made, err')"
    using Create_object [of E e seen] by (cases "Create E e (ManagedJob seen)") (auto split: option.splits)
  have "cr' = seen \<or> cr' = made" using assms o c by (auto simp: example_runtime_def split: if_splits)
  then show ?thesis using Observe_same_frame [OF o] Create_same_frame [OF c] same_frame_trans by blast
qed

lemma example_runtime_contract:
  fixes getc :: "'ct \<Rightarrow> 'cs \<Rightarrow> 'c"
  shows "managed_contract keeps getc ready
    (example_runtime keeps :: ('cs, 'c, 'us) provider_env \<Rightarrow> external \<Rightarrow> ('dp, 'mp, 'pd, 'sr, 'cs) gpu_job \<Rightarrow> _)"
  unfolding managed_contract_def
proof (intro allI impI conjI)
  fix E :: "('cs, 'c, 'us) provider_env" and e and cr :: "('dp, 'mp, 'pd, 'sr, 'cs) gpu_job" and calls cr'
  assume r: "example_runtime keeps E e cr calls cr'"
  show "Name (mgMeta cr') = Name (mgMeta cr)" "Namespace (mgMeta cr') = Namespace (mgMeta cr)" "mgSpec cr' = mgSpec cr"
    using example_runtime_frame [OF r] by (simp_all add: same_frame_def)
  fix asked seen ob err assume "Observe E e (ManagedJob cr) = (asked, ManagedJob seen, ob, err)"
  then show "if err \<noteq> None \<or> ResourceExists ob
      then calls = asked \<and> AtProvider (mgStatus cr') = AtProvider (mgStatus seen) \<and>
           GetCondition getc ready cr' = GetCondition getc ready seen
      else \<forall>posted made err'. Create E e (ManagedJob seen) = (posted, ManagedJob made, err') \<longrightarrow>
           calls = asked @ posted \<and> AtProvider (mgStatus cr') = AtProvider (mgStatus (if keeps then made else seen))"
    using r by (auto simp: example_runtime_def split: if_splits)
qed

lemma example_runtime_total: "\<exists>calls cr'. example_runtime keeps E e cr calls cr'"
proof -
  obtain asked seen ob err where o: "Observe E e (ManagedJob cr) = (asked, ManagedJob seen, ob, err)"
    using Observe_object [of E e cr] by (cases "Observe E e (ManagedJob cr)") (auto split: if_splits option.splits)
  obtain posted made err' where c: "Create E e (ManagedJob seen) = (posted, ManagedJob made, err')"
    using Create_object [of E e seen] by (cases "Create E e (ManagedJob seen)") (auto split: option.splits)
  show ?thesis
    using o c
    by (intro exI [of _ "if err \<noteq> None \<or> ResourceExists ob then asked else asked @ posted"]
          exI [of _ "if err \<noteq> None \<or> ResourceExists ob \<or> \<not> keeps then seen else made"])
       (simp add: example_runtime_def)
qed

definition example_resource :: example_gpu_job where
  "example_resource = example_mg zero_observation"

abbreviation resource_service :: service_params where
  "resource_service \<equiv> example_service (provider_request_of example_resource)"

lemma example_resource_laws:
  "observed_id example_resource = ''''" "AtProvider (mgStatus example_resource) = zero_observation"
  "backend_inv example_backend" "''id-1'' \<notin> bm_id ` set (benchmark_rows (database example_backend))"
  "job_queue example_backend = []"
  "sp_parse resource_service (create_payload example_resource) = Some (provider_request_of example_resource)"
  "find_by_key (database example_backend)
     (idempotency_key (Namespace (mgMeta example_resource)) (Name (mgMeta example_resource))) = None"
  "fits_columns (idempotency_key (Namespace (mgMeta example_resource)) (Name (mgMeta example_resource)))
     (provider_request_of example_resource)"
  "sp_is_uuid resource_service ''id-1''" "float_result example_result"
  by (simp_all add: backend_inv_def example_backend_def find_by_key_def example_service_def example_resource_def
      fits_columns_def provider_request_of_def idempotency_key_def example_mg_def zero_observation_def
      float_result_def example_result_def float_exact)

text \<open>The backend after the first submission, and after a worker has executed it.\<close>

definition posted_backend :: backend where
  "posted_backend = fst (post_route resource_service ''id-1'' 0 (create_payload example_resource) example_backend)"

definition measured_backend :: backend where
  "measured_backend = worker_round (\<lambda>_. Inr example_result) posted_backend"

abbreviation first_env :: "(string list, string, unit) provider_env" where
  "first_env \<equiv> served_provider resource_service ''id-1'' example_backend"

abbreviation later_env :: "(string list, string, unit) provider_env" where
  "later_env \<equiv> served_provider resource_service ''id-2'' measured_backend"

abbreviation example_get :: "unit \<Rightarrow> string list \<Rightarrow> string" where
  "example_get \<equiv> \<lambda>_ cs. hd cs"

lemma example_first_round:
  assumes "example_runtime keeps first_env example_external example_resource calls cr'"
  shows "requests_on resource_service ''id-1'' 0 calls example_backend = posted_backend"
  using round_posts [OF example_runtime_contract [of keeps example_get "()"] assms example_resource_laws(1) served_provider_laws(1)]
  by (simp add: posted_backend_def)

section \<open>From a managed resource to its measurements\<close>

text \<open>
  C9. What the provider makes of one benchmark, for every reconciler that meets the contract. A new
  resource is reconciled once on an idle backend, which accepts the submission; a worker executes the job,
  the engine succeeds and the result is stored; then the resource is reconciled again. If the reconciler
  stored the observation \<open>Create\<close> wrote, this round polls the job, makes the resource Available and
  records exactly the numbers the engine measured. Under the documented contract, which discards it, this
  round posts the same submission again, which changes nothing in the backend, and the resource shows
  nothing of the benchmark.
\<close>

theorem provider_end_to_end:
  assumes "managed_contract keeps getc ready R" and "ready_laws getc ready E" and "observed_id cr = ''''"
    and "backend_inv s" and "newid \<notin> bm_id ` set (benchmark_rows (database s))" and "job_queue s = []"
    and "sp_parse S (create_payload cr) = Some (provider_request_of cr)"
    and "find_by_key (database s) (idempotency_key (Namespace (mgMeta cr)) (Name (mgMeta cr))) = None"
    and "fits_columns (idempotency_key (Namespace (mgMeta cr)) (Name (mgMeta cr))) (provider_request_of cr)"
    and "sp_is_uuid S newid" and "newid \<noteq> ''''" and "run (new_item newid (provider_request_of cr)) = Inr res" and "float_result res"
    and "provider_served S newid now s e E\<^sub>0" and "R E\<^sub>0 e cr calls\<^sub>0 cr\<^sub>1"
    and "t = worker_round run (requests_on S newid now calls\<^sub>0 s)"
    and "provider_served S newid' now' t e E" and "R E e cr\<^sub>1 calls\<^sub>1 cr\<^sub>2"
  shows "calls\<^sub>0 = [DoRequest (create_request e cr)] \<and> map_of (result_rows (database t)) newid = Some res \<and>
     requests_on S newid' now' calls\<^sub>1 t = t \<and>
     (if keeps
      then calls\<^sub>1 = [DoRequest (get_request e newid)] \<and> GetCondition getc ready cr\<^sub>2 = Available E \<and>
           AtProvider (mgStatus cr\<^sub>2) =
             \<lparr>atJobID = newid, atPhase = ''completed'', atRetryCount = atRetryCount (AtProvider (mgStatus cr)),
              atThroughput = Some (Fin (br_throughput res)), atLatencyMs = Some (Fin (br_latency_ms res)),
              atMemoryBandwidthGbps = Some (Fin (br_memory_bandwidth_gbps res))\<rparr>
      else calls\<^sub>1 = [DoRequest (create_request e cr)] \<and> AtProvider (mgStatus cr\<^sub>2) = AtProvider (mgStatus cr))"
proof -
  let ?r = "\<lparr>apiStatus = ''completed'',
           apiResult = Some \<lparr>apiThroughput = Fin (br_throughput res), apiLatencyMs = Fin (br_latency_ms res),
                             apiMemoryBandwidthGbps = Fin (br_memory_bandwidth_gbps res)\<rparr>\<rparr>"
  have calls: "calls\<^sub>0 = [DoRequest (create_request e cr)]" by (rule round_posts [OF assms(1,15,3,14)])
  have t: "t = worker_round run (fst (post_route S newid now (create_payload cr) s))" using assms(16) calls by simp
  note worked = submitted_then_worked [of s newid S "create_payload cr" "provider_request_of cr" run res now,
      unfolded provider_request_key, OF assms(4-9,12), folded t]
  then obtain b where b: "b \<in> set (benchmark_rows (database t))" "bm_id b = newid" "bm_status b = completed"
      "bm_idempotency_key b = idempotency_key (Namespace (mgMeta cr)) (Name (mgMeta cr))" by metis
  have "created_id E\<^sub>0 (create_request e cr) = Some newid"
    using served_created_id [OF assms(14), of cr "new_row (sp_sha256 S) newid now (provider_request_of cr)"] worked by (simp add: new_row_def)
  from round_submits [OF assms(1,15,3) this]
  have one: "AtProvider (mgStatus cr\<^sub>1) = AtProvider (mgStatus (if keeps then created E\<^sub>0 newid cr else cr))" by simp
  have body: "create_request e cr\<^sub>1 = create_request e cr" by (rule round_same_request(1) [OF assms(1,15)])
  show ?thesis
  proof (cases keeps)
    case True
    then have id: "observed_id cr\<^sub>1 = newid" using one by (simp add: created_def)
    have "backend_answer E e newid = Some ?r"
      using get_route_completed [of t b S res] worked b assms(10,13,17) by (simp add: backend_answer_def provider_served_def)
    from round_answered [OF assms(1,18)] this id assms(11)
    have two: "calls\<^sub>1 = [DoRequest (get_request e newid)] \<and> AtProvider (mgStatus cr\<^sub>2) = AtProvider (mgStatus (reflect E ?r cr\<^sub>1)) \<and>
        GetCondition getc ready cr\<^sub>2 = GetCondition getc ready (reflect E ?r cr\<^sub>1)" by simp
    have "GetCondition getc ready (reflect E ?r cr\<^sub>1) = Available E"
      using assms(2) by (simp add: reflect_def GetCondition_def ready_laws_def)
    then show ?thesis using True two one worked calls by (simp add: reflect_def created_def observe_metrics_def)
  next
    case False
    then have id: "observed_id cr\<^sub>1 = ''''" "AtProvider (mgStatus cr\<^sub>1) = AtProvider (mgStatus cr)" using one assms(3) by simp_all
    have two: "calls\<^sub>1 = [DoRequest (create_request e cr)]" using round_posts [OF assms(1,18) id(1) assms(17)] body by simp
    have "find_by_key (database t) (idempotency_key (Namespace (mgMeta cr)) (Name (mgMeta cr))) = Some b"
      using find_distinct [OF backend_invD(2) b(1)] worked b(4) by (simp add: find_by_key_def)
    then have "fst (post_route S newid' now' (create_payload cr) t) = t" using known_resource_post [OF assms(7)] by simp
    moreover have "managed_contract False getc ready R" using assms(1) False by simp
    note round_forgets [OF this assms(18) id(1)]
    ultimately show ?thesis using False two id(2) worked calls by simp
  qed
qed

theorem provider_end_to_end_witness:
  "(\<exists>calls cr\<^sub>1 calls' cr\<^sub>2.
      example_runtime True first_env example_external example_resource calls cr\<^sub>1 \<and>
      example_runtime True later_env example_external cr\<^sub>1 calls' cr\<^sub>2 \<and>
      GetCondition example_get () cr\<^sub>2 = ''Available'' \<and> atThroughput (AtProvider (mgStatus cr\<^sub>2)) = Some (Fin 3500)) \<and>
   (\<exists>calls cr\<^sub>1 calls' cr\<^sub>2.
      example_runtime False first_env example_external example_resource calls cr\<^sub>1 \<and>
      example_runtime False later_env example_external cr\<^sub>1 calls' cr\<^sub>2 \<and>
      calls' = [DoRequest (create_request example_external example_resource)] \<and> AtProvider (mgStatus cr\<^sub>2) = zero_observation)"
proof -
  have "\<exists>calls cr\<^sub>1 calls' cr\<^sub>2. example_runtime keeps first_env example_external example_resource calls cr\<^sub>1 \<and>
      example_runtime keeps later_env example_external cr\<^sub>1 calls' cr\<^sub>2 \<and>
      (if keeps then GetCondition example_get () cr\<^sub>2 = ''Available'' \<and> atThroughput (AtProvider (mgStatus cr\<^sub>2)) = Some (Fin 3500)
       else calls' = [DoRequest (create_request example_external example_resource)] \<and> AtProvider (mgStatus cr\<^sub>2) = zero_observation)"
    for keeps
  proof -
    obtain calls cr\<^sub>1 where one: "example_runtime keeps first_env example_external example_resource calls cr\<^sub>1"
      using example_runtime_total by blast
    obtain calls' cr\<^sub>2 where two: "example_runtime keeps later_env example_external cr\<^sub>1 calls' cr\<^sub>2"
      using example_runtime_total by blast
    have "measured_backend = worker_round (\<lambda>_. Inr example_result) (requests_on resource_service ''id-1'' 0 calls example_backend)"
      by (simp add: measured_backend_def example_first_round [OF one])
    from provider_end_to_end [of keeps example_get "()" "example_runtime keeps" later_env example_resource example_backend "''id-1''"
        resource_service "\<lambda>_. Inr example_result" example_result 0 example_external first_env calls cr\<^sub>1 measured_backend "''id-2''" 0 calls' cr\<^sub>2,
        OF example_runtime_contract served_provider_laws(2) example_resource_laws(1,3-9) _ refl example_resource_laws(10)
          served_provider_laws(1) one this served_provider_laws(1) two]
    show ?thesis using one two
      by (intro exI [of _ calls] exI [of _ cr\<^sub>1] exI [of _ calls'] exI [of _ cr\<^sub>2])
         (simp add: served_provider_laws(3) example_result_def example_resource_laws(2) split: if_splits)
  qed
  from this [of True] this [of False] show ?thesis by simp
qed

section \<open>The resource under the documented contract\<close>

text \<open>
  C19. Under the documented contract the provider never sees its benchmark. The first reconciliation of a
  new resource submits it and the backend accepts it as a new job. Then, whatever the backend does (execute
  the job and store its result included) and however often the resource is reconciled, with any answers,
  the next reconciliation posts the very same submission again instead of polling; the backend answers
  with the job it accepted first and is left unchanged; and the resource shows the observation it had
  before the first submission.
\<close>

theorem provider_never_sees_its_benchmark:
  assumes "managed_contract False getc ready R" and "observed_id cr = ''''"
    and "backend_inv s" and "newid \<notin> bm_id ` set (benchmark_rows (database s))"
    and "sp_parse S (create_payload cr) = Some (provider_request_of cr)"
    and "find_by_key (database s) (idempotency_key (Namespace (mgMeta cr)) (Name (mgMeta cr))) = None"
    and "fits_columns (idempotency_key (Namespace (mgMeta cr)) (Name (mgMeta cr))) (provider_request_of cr)"
    and "provider_served S newid now s e E\<^sub>0" and "R E\<^sub>0 e cr calls\<^sub>0 cr\<^sub>0"
    and "(managed_step S e R)\<^sup>*\<^sup>* (requests_on S newid now calls\<^sub>0 s, cr\<^sub>0) (t, cr\<^sub>1)"
    and "provider_served S newid' now' t e E" and "R E e cr\<^sub>1 calls cr\<^sub>2"
  shows "calls\<^sub>0 = [DoRequest (create_request e cr)] \<and> created_id E\<^sub>0 (create_request e cr) = Some newid \<and>
         calls = [DoRequest (create_request e cr)] \<and> created_id E (create_request e cr) = Some newid \<and>
         requests_on S newid' now' calls t = t \<and>
         AtProvider (mgStatus cr\<^sub>2) = AtProvider (mgStatus cr)"
proof -
  let ?k = "idempotency_key (Namespace (mgMeta cr)) (Name (mgMeta cr))" and ?row = "new_row (sp_sha256 S) newid now (provider_request_of cr)"
  have calls: "calls\<^sub>0 = [DoRequest (create_request e cr)]" by (rule round_posts [OF assms(1,9,2,8)])
  let ?s = "fst (post_route S newid now (create_payload cr) s)"
  have post: "find_by_key (database ?s) ?k = Some ?row" "snd (post_route S newid now (create_payload cr) s) = create_response ?row"
    using post_new [of "sp_parse S" "create_payload cr" "provider_request_of cr" s "sp_sha256 S" newid now True] assms(5-7)
    by (simp_all add: post_route_def Let_def find_by_key_def find_append new_row_def provider_request_key)
  have inv: "backend_inv ?s" unfolding post_route_def by (rule post_inv [OF assms(3,4) refl])
  have id: "observed_id cr\<^sub>0 = ''''" "AtProvider (mgStatus cr\<^sub>0) = AtProvider (mgStatus cr)"
    using round_forgets [OF assms(1,9,2)] assms(2) by simp_all
  have run: "(backend_step (sp_parse S) (sp_sha256 S))\<^sup>*\<^sup>* ?s t" "AtProvider (mgStatus cr\<^sub>1) = AtProvider (mgStatus cr)"
      "create_request e cr\<^sub>1 = create_request e cr"
    using managed_runs [OF assms(1,10)] id calls round_same_request(1) [OF assms(1,9), of e] by simp_all
  obtain b where b: "find_by_key (database t) ?k = Some b" "bm_id b = newid"
    using key_kept_steps [OF run(1) inv post(1)] by (auto simp: new_row_def)
  have again: "post_route S newid' now' (create_payload cr) t = (t, create_response b)" by (rule known_resource_post [OF assms(5) b(1)])
  have id1: "observed_id cr\<^sub>1 = ''''" using run(2) assms(2) by simp
  have two: "calls = [DoRequest (create_request e cr)]" using round_posts [OF assms(1,12) id1 assms(11)] run(3) by simp
  have ids: "created_id E\<^sub>0 (create_request e cr) = Some newid" "created_id E (create_request e cr) = Some newid"
    using served_created_id [OF assms(8) post(2)] served_created_id [OF assms(11), of cr b] again b(2) by (simp_all add: new_row_def)
  have "AtProvider (mgStatus cr\<^sub>2) = AtProvider (mgStatus cr)" using round_forgets [OF assms(1,12) id1] run(2) by simp
  then show ?thesis using calls ids two again by simp
qed

theorem provider_never_sees_its_benchmark_witness:
  "map_of (result_rows (database measured_backend)) ''id-1'' = Some example_result \<and>
   (\<exists>calls\<^sub>0 cr\<^sub>0 calls\<^sub>1 cr\<^sub>1 calls cr\<^sub>2.
      example_runtime False first_env example_external example_resource calls\<^sub>0 cr\<^sub>0 \<and>
      example_runtime False later_env example_external cr\<^sub>0 calls\<^sub>1 cr\<^sub>1 \<and>
      example_runtime False later_env example_external cr\<^sub>1 calls cr\<^sub>2 \<and>
      calls = [DoRequest (create_request example_external example_resource)] \<and>
      created_id later_env (create_request example_external example_resource) = Some ''id-1'' \<and>
      requests_on resource_service ''id-2'' 0 calls measured_backend = measured_backend \<and>
      AtProvider (mgStatus cr\<^sub>2) = zero_observation)"
proof
  show "map_of (result_rows (database measured_backend)) ''id-1'' = Some example_result"
    using submitted_then_worked [of example_backend "''id-1''" resource_service "create_payload example_resource"
        "provider_request_of example_resource" "\<lambda>_. Inr example_result" example_result 0, unfolded provider_request_key,
        OF example_resource_laws(3-8) refl]
    by (simp add: measured_backend_def posted_backend_def)
  let ?step = "managed_step resource_service example_external
      (example_runtime False :: (string list, string, unit) provider_env \<Rightarrow> external \<Rightarrow> example_gpu_job \<Rightarrow> _)"
  obtain calls\<^sub>0 cr\<^sub>0 where zero: "example_runtime False first_env example_external example_resource calls\<^sub>0 cr\<^sub>0"
    using example_runtime_total by blast
  obtain calls\<^sub>1 cr\<^sub>1 where one: "example_runtime False later_env example_external cr\<^sub>0 calls\<^sub>1 cr\<^sub>1" using example_runtime_total by blast
  obtain calls cr\<^sub>2 where two: "example_runtime False later_env example_external cr\<^sub>1 calls cr\<^sub>2" using example_runtime_total by blast
  have "?step (posted_backend, cr\<^sub>0) (measured_backend, cr\<^sub>0)"
    unfolding measured_backend_def by (intro managed_step.backend backend_step.worker)
  moreover have "?step (measured_backend, cr\<^sub>0) (measured_backend, cr\<^sub>1)" using one by (rule managed_step.unserved)
  ultimately have "?step\<^sup>*\<^sup>* (requests_on resource_service ''id-1'' 0 calls\<^sub>0 example_backend, cr\<^sub>0) (measured_backend, cr\<^sub>1)"
    unfolding example_first_round [OF zero] by simp
  from provider_never_sees_its_benchmark [of example_get "()" "example_runtime False" example_resource example_backend "''id-1''"
      resource_service 0 example_external first_env calls\<^sub>0 cr\<^sub>0 measured_backend cr\<^sub>1 "''id-2''" 0 later_env calls cr\<^sub>2,
      OF example_runtime_contract example_resource_laws(1,3,4,6-8) served_provider_laws(1) zero this served_provider_laws(1) two]
  show "\<exists>calls\<^sub>0 cr\<^sub>0 calls\<^sub>1 cr\<^sub>1 calls cr\<^sub>2.
      example_runtime False first_env example_external example_resource calls\<^sub>0 cr\<^sub>0 \<and>
      example_runtime False later_env example_external cr\<^sub>0 calls\<^sub>1 cr\<^sub>1 \<and>
      example_runtime False later_env example_external cr\<^sub>1 calls cr\<^sub>2 \<and>
      calls = [DoRequest (create_request example_external example_resource)] \<and>
      created_id later_env (create_request example_external example_resource) = Some ''id-1'' \<and>
      requests_on resource_service ''id-2'' 0 calls measured_backend = measured_backend \<and>
      AtProvider (mgStatus cr\<^sub>2) = zero_observation"
    unfolding example_resource_laws(2) using zero one two by metis
qed

end
