(* ===== verification/Backend_Answers.thy ===== *)
theory Backend_Answers
  imports Platform_Contracts Backend_Promises
begin

text \<open>
  What a client of the concurrent backend can be told at a given time, and how it relates to the ledger.
\<close>

section \<open>Answers\<close>

text \<open>Rows are never removed and keep identifier and key: what an earlier statement saw is still there.\<close>

definition earlier :: "db \<Rightarrow> db \<Rightarrow> bool" where
  "earlier d d' \<longleftrightarrow>
     (\<forall>b\<in>set (benchmark_rows d). \<exists>b'\<in>set (benchmark_rows d'). bm_id b' = bm_id b \<and> bm_idempotency_key b' = bm_idempotency_key b)"

text \<open>
  A submission is answered by \<open>create_benchmark\<close>, whose statements ran at some times before the answer, or
  it is refused, or the answer is lost. A poll is answered by the route, by a proxy in
  between with a body that is no JSON, or not at all.
\<close>

definition post_answer :: "service_params \<Rightarrow> db \<Rightarrow> json \<Rightarrow> go_error + http_response \<Rightarrow> bool" where
  "post_answer S d body a \<longleftrightarrow>
     (\<forall>resp. a = Inr resp \<longrightarrow>
        (StatusCode resp \<noteq> StatusAccepted \<and> StatusCode resp \<noteq> StatusOK) \<or>
        (\<exists>rq newid now snap b. sp_parse S body = Some rq \<and> (\<forall>i. earlier (snap i) d) \<and> resp = create_response b \<and>
           (fst (create_benchmark (sp_sha256 S) newid now rq snap) = Existing b \<or>
            (\<exists>d'. create_benchmark (sp_sha256 S) newid now rq snap = (Created b, Some d') \<and> earlier d' d))))"

definition get_answer :: "service_params \<Rightarrow> backend \<Rightarrow> string \<Rightarrow> go_error + http_response \<Rightarrow> bool" where
  "get_answer S s i a \<longleftrightarrow> (\<forall>resp. a = Inr resp \<longrightarrow> resp = get_route S s i \<or> Body resp = None)"

section \<open>Entries of the ledger\<close>

definition begun :: "job_state \<Rightarrow> bool" where
  "begun x \<longleftrightarrow> (\<forall>n. x = Waiting n \<longrightarrow> 0 < n)"

lemma ledger_progress:
  assumes "service_ledger_step L L'" and "L k = Some (i, x)"
  shows "\<exists>y. L' k = Some (i, y) \<and> (begun x \<longrightarrow> begun y)"
  using assms by cases (auto simp: begun_def)

lemma entry_row:
  assumes "backend_inv s" and "ledger_of s k = Some (i, x)"
  obtains b where "b \<in> set (benchmark_rows (database s))" "bm_id b = i" "bm_idempotency_key b = k"
    "find_by_id (database s) i = Some b" "x = state_of (result_rows (database s)) b"
proof -
  obtain b where b: "find_by_key (database s) k = Some b" "bm_id b = i" "x = state_of (result_rows (database s)) b"
    using assms(2) by (auto simp: ledger_of_def)
  then have row: "b \<in> set (benchmark_rows (database s))" "bm_idempotency_key b = k"
    by (auto simp: find_by_key_def dest: find_SomeD)
  have "find_by_id (database s) i = Some b"
    using find_distinct [OF backend_invD(1) [OF assms(1)] row(1)] b(2) by (simp add: find_by_id_def)
  then show thesis using that row b(2,3) by blast
qed

text \<open>A row that is not queued has been started.\<close>

definition rows_begun :: "backend \<Rightarrow> bool" where
  "rows_begun s \<longleftrightarrow> (\<forall>b\<in>set (benchmark_rows (database s)). bm_status b \<noteq> queued \<longrightarrow> 0 < bm_attempt_count b)"

lemma row_changed_begun: "row_changed i st n new s t \<Longrightarrow> 0 < n \<Longrightarrow> rows_begun s \<Longrightarrow> rows_begun t"
  by (auto simp: row_changed_def rows_begun_def set_row_def)

lemma rows_begun_step:
  assumes inv: "service_inv s" and step: "service_step parse sha256 s t" and "rows_begun (core s)"
  shows "rows_begun (core t)"
  using step
proof cases
  case (committed body rq newid snap now b d)
  obtain ms where "d = (database (core s))\<lparr>gpu_model_rows := ms,
      benchmark_rows := benchmark_rows (database (core s)) @ [new_row sha256 newid now rq]\<rparr>"
    using Backend_Workers.created [OF committed(5)] committed(4) by metis
  then show ?thesis using committed(1) assms(3) by (simp add: rows_begun_def new_row_def)
next
  case (started it)
  have ok: "item_ok (benchmark_rows (database (core s))) it" using service_invD(3) [OF inv, of it] started(2) by simp
  then have "0 < q_attempt it + 1" by (simp add: item_ok_def)
  then show ?thesis using row_changed_begun [OF started_row [OF service_invD(1) [OF inv] ok]] started(1) assms(3) by simp
next
  case (finished it run)
  have ok: "exec_ok (benchmark_rows (database (core s))) it" using service_invD(4) [OF inv] finished(2) by simp
  then have "0 < q_attempt it + 1" by (simp add: exec_ok_def)
  then show ?thesis using row_changed_begun [OF finished_row(1) [OF service_invD(1) [OF inv] ok, of run]] finished(1) assms(3) by simp
qed (use assms(3) in \<open>simp_all add: rows_begun_def\<close>)

lemma running_begun:
  assumes "rows_begun s" and "b \<in> set (benchmark_rows (database s))" and "bm_status b = running"
  shows "begun (state_of rs b)"
  using assms by (auto simp: rows_begun_def state_of_def begun_def)

lemma completed_done:
  assumes inv: "backend_inv s" and b: "b \<in> set (benchmark_rows (database s))" "bm_id b = i" "bm_status b = completed"
  obtains r where "map_of (result_rows (database s)) i = Some r" "state_of (result_rows (database s)) b = Done r"
proof -
  have "bm_id b \<in> bm_id ` {b \<in> set (benchmark_rows (database s)). bm_status b = completed}" using b(1,3) by blast
  then have "bm_id b \<in> fst ` set (result_rows (database s))" unfolding backend_invD(4) [OF inv] .
  then obtain r where r: "map_of (result_rows (database s)) i = Some r"
    using b(2) by (metis map_of_eq_None_iff option.exhaust)
  then show thesis using that b(2,3) by (simp add: state_of_def)
qed

text \<open>An accepted submission names the job of its key.\<close>

lemma post_answer_entry:
  assumes inv: "backend_inv s" and "post_answer S (database s) body (Inr resp)" and "StatusCode resp \<in> {StatusAccepted, StatusOK}"
    and key: "\<And>rq. sp_parse S body = Some rq \<Longrightarrow> request_key (sp_sha256 S) rq = key"
  obtains b x where "resp = create_response b" "ledger_of s key = Some (bm_id b, x)"
proof -
  obtain rq newid now snap b where parse: "sp_parse S body = Some rq" and snap: "\<And>i. earlier (snap i) (database s)"
    and resp: "resp = create_response b"
    and out: "fst (create_benchmark (sp_sha256 S) newid now rq snap) = Existing b \<or>
      (\<exists>d'. create_benchmark (sp_sha256 S) newid now rq snap = (Created b, Some d') \<and> earlier d' (database s))"
    using assms(2,3) unfolding post_answer_def by blast
  have "\<exists>d. earlier d (database s) \<and> b \<in> set (benchmark_rows d) \<and> bm_idempotency_key b = key"
    using out
  proof
    assume "fst (create_benchmark (sp_sha256 S) newid now rq snap) = Existing b"
    then have "find_by_key (snap 0) key = Some b \<or> find_by_key (snap 4) key = Some b"
      by (auto simp: create_benchmark_def Let_def key [OF parse] split: option.splits if_splits)
    then obtain n where "find_by_key (snap n) key = Some b" by blast
    then have "b \<in> set (benchmark_rows (snap n))" "bm_idempotency_key b = key"
      by (auto simp: find_by_key_def dest: find_SomeD)
    then show ?thesis using snap by blast
  next
    assume "\<exists>d'. create_benchmark (sp_sha256 S) newid now rq snap = (Created b, Some d') \<and> earlier d' (database s)"
    then obtain d' where d': "create_benchmark (sp_sha256 S) newid now rq snap = (Created b, Some d')" "earlier d' (database s)" by blast
    obtain ms where "b = new_row (sp_sha256 S) newid now rq"
      "d' = (snap 3)\<lparr>gpu_model_rows := ms, benchmark_rows := benchmark_rows (snap 3) @ [new_row (sp_sha256 S) newid now rq]\<rparr>"
      using Backend_Workers.created [OF d'(1)] by metis
    then have "b \<in> set (benchmark_rows d')" "bm_idempotency_key b = key" by (simp_all add: key [OF parse] new_row_def)
    then show ?thesis using d'(2) by blast
  qed
  then obtain b' where b': "b' \<in> set (benchmark_rows (database s))" "bm_id b' = bm_id b" "bm_idempotency_key b' = key"
    unfolding earlier_def by metis
  have "ledger_of s key = Some (bm_id b, state_of (result_rows (database s)) b')"
    using ledger_of_row [OF inv b'(1)] b'(2,3) by simp
  then show thesis using that resp by blast
qed

text \<open>The backend with its processes, as the service behind the objects.\<close>

definition service_ok :: "service \<Rightarrow> bool" where
  "service_ok s \<longleftrightarrow> service_inv s \<and> rows_begun (core s)"

lemma service_okD: "service_ok s \<Longrightarrow> service_inv s" "service_ok s \<Longrightarrow> backend_inv (core s)" "service_ok s \<Longrightarrow> rows_begun (core s)"
  by (simp_all add: service_ok_def service_inv_def)

lemma service_ok_init: "empty_service s \<Longrightarrow> service_ok s"
  using workers.inv_init [of s] by (simp add: service_ok_def rows_begun_def empty_service_def empty_backend_def)

lemma service_ok_step: "service_ok s \<Longrightarrow> service_step parse sha256 s t \<Longrightarrow> service_ok t"
  using service_inv_step rows_begun_step unfolding service_ok_def by blast

end
