(* ===== verification/Cluster_Operator.thy ===== *)
theory Cluster_Operator
  imports Backend_Answers
begin

text \<open>
  One reconciliation of the operator against the concurrent backend: the status it writes is genuine, that
  is, what the backend keeps under the key of the object.
\<close>

section \<open>Genuine statuses\<close>

definition genuine :: "ledger \<Rightarrow> job \<Rightarrow> bool" where
  "genuine L j \<longleftrightarrow>
     (let st = Status j; e = L (job_key j) in
      (Phase st = PhaseSubmitted \<longrightarrow> (\<exists>x. e = Some (JobID st, x))) \<and>
      (Phase st = PhaseRunning \<longrightarrow> (\<exists>x. e = Some (JobID st, x) \<and> begun x)) \<and>
      (Phase st = PhaseCompleted \<longrightarrow>
         (\<exists>r. e = Some (JobID st, Done r) \<and> Throughput st = Some (f64_round (br_throughput r)) \<and>
              LatencyMs st = Some (f64_round (br_latency_ms r)) \<and>
              MemoryBandwidthGbps st = Some (f64_round (br_memory_bandwidth_gbps r)))) \<and>
      (Phase st = PhaseFailed \<longrightarrow> e = Some (JobID st, Dead)))"

lemma genuine_start: "start_phase (Phase (Status j)) \<Longrightarrow> genuine L j"
  by (auto simp: genuine_def start_phase_def)

lemma genuine_step:
  assumes "service_ledger_step L L'" and "genuine L j"
  shows "genuine L' j"
  using assms(2) ledger_progress [OF assms(1), of "job_key j"] service_ledger_final [OF assms(1), of "job_key j"]
  unfolding genuine_def Let_def by (auto; metis job_state.distinct(1,3))

section \<open>What is read\<close>

definition answered :: "service_params \<Rightarrow> backend \<Rightarrow> job \<Rightarrow> env \<Rightarrow> bool" where
  "answered S s j E \<longleftrightarrow>
     post_answer S (database s) (submit_payload j) (http_Post E (apiURL j @ ''/benchmarks'') ''application/json'' (submit_payload j)) \<and>
     get_answer S s (JobID (Status j)) (http_Get E (job_url (apiURL j) (JobID (Status j))))"

definition rounded_metrics :: "BenchmarkResult \<Rightarrow> poll_metrics" where
  "rounded_metrics r =
     \<lparr>poll_Throughput = f64_round (br_throughput r), poll_LatencyMs = f64_round (br_latency_ms r),
      poll_MemoryBandwidthGbps = f64_round (br_memory_bandwidth_gbps r)\<rparr>"

lemma route_status:
  assumes "find_by_id (database s) i = Some b" and "Decode status_fields (Body (get_route S s i)) '''' = Some t"
  shows "t = status_text (bm_status b) \<or> t = ''''"
  using assms
  by (auto simp: get_route_def get_benchmark_status_def get_benchmark_def json_time_def error_response_def decode_simps
      split: if_splits option.splits)

lemma route_poll:
  assumes "find_by_id (database s) i = Some b" and "Decode poll_fields (Body (get_route S s i)) zero_poll = Some p"
  shows "p = \<lparr>poll_Status = status_text (bm_status b), poll_Result = map_option rounded_metrics (map_of (result_rows (database s)) i)\<rparr>
     \<or> poll_Status p = ''''"
  using assms
  by (auto simp: get_route_def get_benchmark_status_def get_benchmark_def json_time_def error_response_def result_json_def
      rounded_metrics_def decode_simps split: if_splits option.splits float64.splits)

section \<open>What a reconciliation writes\<close>

lemma undriven_frame:
  assumes "finalizer_laws E" and "\<not> driven E j"
  shows "\<exists>fs. reconcile_on E req j = j\<lparr>JobMeta := (JobMeta j)\<lparr>Finalizers := fs\<rparr>\<rparr>"
proof -
  obtain fs gs where laws: "AddFinalizer E j benchmarkJobFinalizer = j\<lparr>JobMeta := (JobMeta j)\<lparr>Finalizers := fs\<rparr>\<rparr>"
    "RemoveFinalizer E j benchmarkJobFinalizer = j\<lparr>JobMeta := (JobMeta j)\<lparr>Finalizers := gs\<rparr>\<rparr>"
    using assms(1) unfolding finalizer_laws_def by metis
  have "j = j\<lparr>JobMeta := (JobMeta j)\<lparr>Finalizers := Finalizers (JobMeta j)\<rparr>\<rparr>" by simp
  then have same: "\<exists>fs. j = j\<lparr>JobMeta := (JobMeta j)\<lparr>Finalizers := fs\<rparr>\<rparr>" by blast
  show ?thesis
    using assms(2) laws same
    by (auto simp: reconcile_on_persist body_calls_def driven_def handleDeletion_def Let_def)
qed

lemma on_pending_lost:
  assumes "driven E j" "start_phase (Phase (Status j))"
    and "http_Post E (apiURL j @ ''/benchmarks'') ''application/json'' (submit_payload j) = Inl err"
  shows "reconcile_on E req j = j"
  using assms by (auto simp: reconcile_on_persist body_calls_def driven_def handlePending_def Let_def)

lemma on_ended: "driven E j \<Longrightarrow> terminal_phase (Phase (Status j)) \<Longrightarrow> reconcile_on E req j = j"
  by (auto simp: reconcile_on_persist body_calls_def driven_def phase_classes)

lemma on_unknown:
  assumes "driven E j" "\<not> known_phase (Phase (Status j))" "writes_accepted E"
  shows "\<exists>st. reconcile_on E req j = j\<lparr>Status := st\<rparr> \<and> Phase st = PhasePending"
  using assms by (auto simp: reconcile_on_persist body_calls_def driven_def known_phase_def active_phase_def setPhase_def Let_def
      writes_accepted_def)

text \<open>What a poll of the job of an entry can say.\<close>

lemma told_status:
  assumes "get_answer S s (JobID (Status j)) (http_Get E (job_url (apiURL j) (JobID (Status j))))"
    and "find_by_id (database s) (JobID (Status j)) = Some b"
  shows "snd (pollBackend E j) \<in> {None, Some '''', Some (status_text (bm_status b))}"
proof (cases "http_Get E (job_url (apiURL j) (JobID (Status j)))")
  case (Inl err)
  then show ?thesis by (simp add: pollBackend_def Let_def)
next
  case (Inr resp)
  then have "resp = get_route S s (JobID (Status j)) \<or> Body resp = None" using assms(1) by (simp add: get_answer_def)
  then show ?thesis
    using Inr route_status [OF assms(2), of S] by (cases "snd (pollBackend E j)") (auto simp: pollBackend_def Let_def Decode_def)
qed

lemma told_poll:
  assumes "get_answer S s (JobID (Status j)) (http_Get E (job_url (apiURL j) (JobID (Status j))))"
    and "find_by_id (database s) (JobID (Status j)) = Some b" and "poll_answer E j = Some p"
  shows "poll_Status p = '''' \<or> p = \<lparr>poll_Status = status_text (bm_status b),
           poll_Result = map_option rounded_metrics (map_of (result_rows (database s)) (JobID (Status j)))\<rparr>"
proof (cases "http_Get E (job_url (apiURL j) (JobID (Status j)))")
  case (Inl err)
  then show ?thesis using assms(3) by (simp add: poll_answer_def)
next
  case (Inr resp)
  then have "resp = get_route S s (JobID (Status j)) \<or> Body resp = None" using assms(1) by (simp add: get_answer_def)
  moreover have "Decode poll_fields (Body resp) zero_poll = Some p" using Inr assms(3) by (simp add: poll_answer_def)
  ultimately show ?thesis using route_poll [OF assms(2), of S p] by (auto simp: Decode_def)
qed

lemma genuine_failed:
  assumes "ledger_of s (job_key j) = Some (JobID (Status j), Dead)"
  shows "genuine (ledger_of s) (j\<lparr>Status := failed_status E j\<rparr>)"
  using assms by (simp add: failed_status_def genuine_def)

lemma genuine_pending:
  assumes "driven E j" "start_phase (Phase (Status j))" "writes_accepted E" "validates (sp_parse S)" "backend_inv s" "answered S s j E"
  shows "genuine (ledger_of s) (reconcile_on E req j)"
proof (cases "http_Post E (apiURL j @ ''/benchmarks'') ''application/json'' (submit_payload j)")
  case (Inl err)
  then show ?thesis using on_pending_lost [OF assms(1,2)] genuine_start [OF assms(2)] by simp
next
  case (Inr resp)
  show ?thesis
  proof (cases "StatusCode resp \<in> {StatusAccepted, StatusOK}")
    case True
    have "request_key (sp_sha256 S) rq = job_key j" if "sp_parse S (submit_payload j) = Some rq" for rq
      using that validates_submit [OF assms(4), of j] by (auto split: if_splits)
    moreover have "post_answer S (database s) (submit_payload j) (Inr resp)" using assms(6) Inr by (simp add: answered_def)
    ultimately obtain b x where b: "resp = create_response b" "ledger_of s (job_key j) = Some (bm_id b, x)"
      using post_answer_entry [OF assms(5) _ True] by metis
    then show ?thesis using on_pending [OF assms(1-3) Inr True, of _ req] by (simp add: genuine_def)
  next
    case False
    then show ?thesis using on_pending_refused [OF assms(1,2) Inr] genuine_start [OF assms(2)] by simp
  qed
qed

lemma genuine_submitted:
  assumes "driven E j" and p: "Phase (Status j) = PhaseSubmitted" and "writes_accepted E" and inv: "backend_inv s" "rows_begun s"
    and "answered S s j E" and gen: "genuine (ledger_of s) j"
  shows "genuine (ledger_of s) (reconcile_on E req j)"
proof -
  obtain x where x: "ledger_of s (job_key j) = Some (JobID (Status j), x)" using gen p by (auto simp: genuine_def)
  obtain b where b: "b \<in> set (benchmark_rows (database s))" "find_by_id (database s) (JobID (Status j)) = Some b"
      "x = state_of (result_rows (database s)) b"
    using entry_row [OF inv(1) x] by metis
  have told: "snd (pollBackend E j) \<in> {None, Some '''', Some (status_text (bm_status b))}"
    using assms(6) unfolding answered_def by (elim conjE) (rule told_status [OF _ b(2)])
  consider "snd (pollBackend E j) = Some ''running''" "bm_status b = running"
    | "snd (pollBackend E j) = Some ''failed''" "bm_status b = failed"
    | "snd (pollBackend E j) \<noteq> Some ''running''" "snd (pollBackend E j) \<noteq> Some ''failed''"
    using told by (cases "bm_status b") auto
  then show ?thesis
  proof cases
    case 1
    then have "begun x" using running_begun [OF inv(2) b(1)] b(3) by simp
    then show ?thesis using x by (simp add: on_submitted_running [OF assms(1) p assms(3) 1(1)] genuine_def)
  next
    case 2
    then have "x = Dead" using b(3) by (simp add: state_of_def)
    then show ?thesis using on_submitted_failed [OF assms(1) p assms(3) 2(1)] genuine_failed x by simp
  next
    case 3
    then show ?thesis using on_submitted_other [OF assms(1) p] gen by simp
  qed
qed

lemma genuine_running:
  assumes "driven E j" and p: "Phase (Status j) = PhaseRunning" and "writes_accepted E" and inv: "backend_inv s"
    and "answered S s j E" and gen: "genuine (ledger_of s) j"
  shows "genuine (ledger_of s) (reconcile_on E req j)"
proof -
  obtain x where x: "ledger_of s (job_key j) = Some (JobID (Status j), x)" using gen p by (auto simp: genuine_def)
  obtain b where b: "b \<in> set (benchmark_rows (database s))" "bm_id b = JobID (Status j)"
      "find_by_id (database s) (JobID (Status j)) = Some b" "x = state_of (result_rows (database s)) b"
    using entry_row [OF inv x] by metis
  note told = told_poll [OF _ b(3)]
  have get: "get_answer S s (JobID (Status j)) (http_Get E (job_url (apiURL j) (JobID (Status j))))"
    using assms(5) by (simp add: answered_def)
  consider q where "poll_answer E j = Some q" "poll_Status q = ''completed''" "bm_status b = completed"
      "poll_Result q = map_option rounded_metrics (map_of (result_rows (database s)) (JobID (Status j)))"
    | q where "poll_answer E j = Some q" "poll_Status q = ''failed''" "bm_status b = failed"
    | "\<And>q. poll_answer E j = Some q \<Longrightarrow> poll_Status q \<noteq> ''completed'' \<and> poll_Status q \<noteq> ''failed''"
    using told [OF get] by (cases "poll_answer E j"; cases "bm_status b") force+
  then show ?thesis
  proof cases
    case (1 q)
    obtain r where r: "map_of (result_rows (database s)) (JobID (Status j)) = Some r" "state_of (result_rows (database s)) b = Done r"
      using completed_done [OF inv b(1,2) 1(3)] .
    then have "x = Done r" using b(4) by simp
    then show ?thesis
      using x 1(4) r by (simp add: on_running_completed [OF assms(1) p assms(3) 1(1,2)] genuine_def record_metrics_def rounded_metrics_def)
  next
    case (2 q)
    then have "x = Dead" using b(4) by (simp add: state_of_def)
    then show ?thesis using on_running_failed [OF assms(1) p assms(3) 2(1,2)] genuine_failed x by simp
  next
    case 3
    then show ?thesis using on_running_other [OF assms(1) p] gen by simp
  qed
qed

lemma genuine_meta: "genuine L (j\<lparr>JobMeta := (JobMeta j)\<lparr>Finalizers := fs\<rparr>\<rparr>) \<longleftrightarrow> genuine L j"
  by (simp add: genuine_def)

lemma genuine_reconciled:
  assumes "validates (sp_parse S)" and "backend_inv s" and "rows_begun s" and "finalizer_laws E" and "writes_accepted E"
    and "answered S s j E" and "genuine (ledger_of s) j"
  shows "genuine (ledger_of s) (reconcile_on E req j)"
proof (cases "driven E j")
  case False
  then obtain fs where "reconcile_on E req j = j\<lparr>JobMeta := (JobMeta j)\<lparr>Finalizers := fs\<rparr>\<rparr>"
    using undriven_frame [OF assms(4)] by blast
  then show ?thesis using assms(7) by (simp only: genuine_meta)
next
  case d: True
  show ?thesis
  proof (cases "Phase (Status j)" rule: phase_cases)
    case start
    then show ?thesis using genuine_pending [OF d _ assms(5,1,2,6)] by simp
  next
    case submitted
    then show ?thesis using genuine_submitted [OF d _ assms(5,2,3,6,7)] by simp
  next
    case running
    then show ?thesis using genuine_running [OF d _ assms(5,2,6,7)] by simp
  next
    case ended
    then show ?thesis using on_ended [OF d] assms(7) by simp
  next
    case unknown
    then obtain st where "reconcile_on E req j = j\<lparr>Status := st\<rparr>" "Phase st = PhasePending" using on_unknown [OF d _ assms(5)] by blast
    then show ?thesis using genuine_start [of "j\<lparr>Status := st\<rparr>"] by simp
  qed
qed

lemma reconcile_key:
  assumes "finalizer_laws E"
  shows "job_key (reconcile_on E req j) = job_key j"
proof (cases "driven E j")
  case False
  then show ?thesis using undriven_frame [OF assms, of j req] by auto
next
  case True
  have "JobMeta (persist E es x) = JobMeta x" if "\<forall>n. UpdateJob n \<notin> set es" for es x
    using that by (induction E es x rule: persist.induct) auto
  moreover have "UpdateJob n \<notin> set (body_calls E j)" for n
    using True by (auto simp: body_calls_def driven_def handlePending_def handleSubmitted_def handleRunning_def pollBackend_def
        handleFailure_status setPhase_effects Let_def case_prod_unfold split: sum.split option.split)
  ultimately show ?thesis by (simp add: reconcile_on_persist)
qed

text \<open>Statuses before an execution was seen.\<close>

definition waiting_status :: "job_status \<Rightarrow> bool" where
  "waiting_status st \<longleftrightarrow> start_phase (Phase st) \<or> Phase st = PhaseSubmitted"

lemma waiting_reconciled:
  assumes inv: "backend_inv s" and over: "ledger_of s (job_key j) = Some (i, Done r)" and gen: "genuine (ledger_of s) j"
    and wait: "waiting_status (Status j)" and "finalizer_laws E" and "writes_accepted E" and ans: "answered S s j E"
  shows "waiting_status (Status (reconcile_on E req j))"
proof (cases "driven E j")
  case False
  then show ?thesis using undriven_frame [OF assms(5), of j req] wait by auto
next
  case d: True
  show ?thesis
  proof (cases "start_phase (Phase (Status j))")
    case True
    then show ?thesis
      using reconcile_on_status [of E req j]
      by (auto simp: waiting_status_def elim!: phase_move.cases dest: phase_class_disjoint simp: known_phase_def)
  next
    case False
    then have p: "Phase (Status j) = PhaseSubmitted" using wait by (simp add: waiting_status_def)
    then have "ledger_of s (job_key j) = Some (JobID (Status j), Done r)" using gen over by (auto simp: genuine_def)
    then obtain b where "find_by_id (database s) (JobID (Status j)) = Some b" "Done r = state_of (result_rows (database s)) b"
      using entry_row [OF inv] by metis
    moreover from this(2) have "bm_status b = completed" by (cases "bm_status b") (simp_all add: state_of_def)
    ultimately have "snd (pollBackend E j) \<in> {None, Some '''', Some ''completed''}"
      using told_status [of S s j E b] ans by (simp add: answered_def)
    then show ?thesis using on_submitted_other [OF d p, of req] wait by auto
  qed
qed

text \<open>What the operator may write back for a version it read.\<close>

definition operator_reconcile :: "service_params \<Rightarrow> service \<Rightarrow> job \<Rightarrow> job \<Rightarrow> bool" where
  "operator_reconcile S s old new \<longleftrightarrow>
     (\<exists>E req. finalizer_laws E \<and> writes_accepted E \<and> answered S (core s) old E \<and> new = reconcile_on E req old)"

end
