(* ===== verification/Cluster_Provider.thy ===== *)
theory Cluster_Provider
  imports Backend_Answers
begin

text \<open>
  The calls of the provider against the concurrent backend: the observation in a GPUBenchmarkJob is
  genuine after any of them.
\<close>

section \<open>Genuine observations\<close>

abbreviation resource_key :: "('dp, 'mp, 'pd, 'sr, 'cs) gpu_job \<Rightarrow> string" where
  "resource_key cr \<equiv> idempotency_key (Namespace (mgMeta cr)) (Name (mgMeta cr))"

abbreviation observation :: "('dp, 'mp, 'pd, 'sr, 'cs) gpu_job \<Rightarrow> float64 GPUBenchmarkJobObservation" where
  "observation cr \<equiv> AtProvider (mgStatus cr)"

definition genuine_observation :: "(uuid \<times> job_state) option \<Rightarrow> float64 GPUBenchmarkJobObservation \<Rightarrow> bool" where
  "genuine_observation e ob \<longleftrightarrow>
     (atJobID ob \<noteq> '''' \<longrightarrow> (\<exists>x. e = Some (atJobID ob, x))) \<and>
     (atPhase ob = ''running'' \<longrightarrow> (\<exists>x. e = Some (atJobID ob, x) \<and> begun x)) \<and>
     (atPhase ob = ''completed'' \<longrightarrow> (\<exists>r. e = Some (atJobID ob, Done r)) \<and> atThroughput ob \<noteq> None) \<and>
     (atPhase ob = ''failed'' \<longrightarrow> e = Some (atJobID ob, Dead)) \<and>
     (atThroughput ob \<noteq> None \<longrightarrow>
        (\<exists>i r. e = Some (i, Done r) \<and> atThroughput ob = Some (f64_round (br_throughput r)) \<and>
             atLatencyMs ob = Some (f64_round (br_latency_ms r)) \<and>
             atMemoryBandwidthGbps ob = Some (f64_round (br_memory_bandwidth_gbps r))))"

lemma genuine_zero: "genuine_observation e zero_observation"
  by (simp add: genuine_observation_def zero_observation_def)

lemma genuine_observation_step:
  assumes "service_ledger_step L L'" and "genuine_observation (L k) ob"
  shows "genuine_observation (L' k) ob"
proof (cases "L k")
  case None
  then show ?thesis using assms(2) by (simp add: genuine_observation_def)
next
  case (Some e)
  obtain i x where e: "L k = Some (i, x)" using Some by (cases e) simp
  obtain y where y: "L' k = Some (i, y)" "begun x \<Longrightarrow> begun y" using ledger_progress [OF assms(1) e] by blast
  have "y = x" if "\<forall>n. x \<noteq> Waiting n" using service_ledger_final [OF assms(1) e that] y(1) by simp
  then show ?thesis using assms(2) y e unfolding genuine_observation_def by (cases x) simp_all
qed

section \<open>What is read\<close>

definition provider_answered ::
  "service_params \<Rightarrow> backend \<Rightarrow> external \<Rightarrow> ('dp, 'mp, 'pd, 'sr, 'cs) gpu_job \<Rightarrow> ('cs, 'c, 'us) provider_env \<Rightarrow> bool" where
  "provider_answered S s e cr E \<longleftrightarrow>
     post_answer S (database s) (create_payload cr) (http_Do E (create_request e cr)) \<and>
     get_answer S s (observed_id cr) (http_Do E (get_request e (observed_id cr)))"

definition rounded_api :: "BenchmarkResult \<Rightarrow> api_metrics" where
  "rounded_api r =
     \<lparr>apiThroughput = f64_round (br_throughput r), apiLatencyMs = f64_round (br_latency_ms r),
      apiMemoryBandwidthGbps = f64_round (br_memory_bandwidth_gbps r)\<rparr>"

lemma route_api:
  assumes "find_by_id (database s) i = Some b" and "Decode api_fields (Body (get_route S s i)) zero_api = Some p"
  shows "p = \<lparr>apiStatus = status_text (bm_status b), apiResult = map_option rounded_api (map_of (result_rows (database s)) i)\<rparr>
     \<or> apiStatus p = ''''"
  using assms
  by (auto simp: get_route_def get_benchmark_status_def get_benchmark_def json_time_def error_response_def result_json_def
      rounded_api_def decode_simps split: if_splits option.splits float64.splits)

lemma told_api:
  assumes "get_answer S s i (http_Do E (get_request e i))" and "find_by_id (database s) i = Some b" and "backend_answer E e i = Some p"
  shows "apiStatus p = '''' \<or>
     p = \<lparr>apiStatus = status_text (bm_status b), apiResult = map_option rounded_api (map_of (result_rows (database s)) i)\<rparr>"
proof (cases "http_Do E (get_request e i)")
  case (Inl err)
  then show ?thesis using assms(3) by (simp add: backend_answer_def split: if_splits)
next
  case (Inr resp)
  then have "resp = get_route S s i \<or> Body resp = None" using assms(1) by (simp add: get_answer_def)
  moreover have "Decode api_fields (Body resp) zero_api = Some p" using Inr assms(3) by (simp add: backend_answer_def split: if_splits)
  ultimately show ?thesis using route_api [OF assms(2), of S p] by (auto simp: Decode_def)
qed

lemma validates_create:
  assumes "validates parse" and "parse (create_payload cr) = Some rq"
  shows "request_key h rq = resource_key cr"
proof -
  have "parse (create_payload cr) = (if 0 < sint (forBatchSize (ForProvider (mgSpec cr))) \<and> length (resource_key cr) \<le> 128
      then Some (provider_request_of cr) else None)"
    using assms(1) [unfolded validates_def, rule_format,
        of "create_payload cr" "forGPUModel (ForProvider (mgSpec cr))" "forWorkloadType (ForProvider (mgSpec cr))"
           "sint (forBatchSize (ForProvider (mgSpec cr)))" "resource_key cr"]
    by (simp add: provider_submission.members submission_member_def provider_request_of_def del: of_int_sint)
  then show ?thesis using assms(2) provider_request_key [of h cr] by (simp split: if_splits)
qed

section \<open>What the calls write\<close>

lemma genuine_observed:
  assumes inv: "backend_inv s" "rows_begun s" and "get_answer S s (observed_id cr) (http_Do E (get_request e (observed_id cr)))"
    and gen: "genuine_observation (ledger_of s (resource_key cr)) (observation cr)" and id: "observed_id cr \<noteq> ''''"
    and p: "backend_answer E e (observed_id cr) = Some p"
  shows "genuine_observation (ledger_of s (resource_key cr)) (observation (reflect E p cr))"
proof -
  obtain x where x: "ledger_of s (resource_key cr) = Some (observed_id cr, x)" using gen id by (auto simp: genuine_observation_def)
  obtain b where b: "b \<in> set (benchmark_rows (database s))" "bm_id b = observed_id cr"
      "find_by_id (database s) (observed_id cr) = Some b" "x = state_of (result_rows (database s)) b"
    using entry_row [OF inv(1) x] by metis
  from told_api [OF assms(3) b(3) p] show ?thesis
  proof
    assume "apiStatus p = ''''"
    then show ?thesis using gen x by (simp add: genuine_observation_def reflect_def Let_def)
  next
    assume p: "p = \<lparr>apiStatus = status_text (bm_status b),
        apiResult = map_option rounded_api (map_of (result_rows (database s)) (observed_id cr))\<rparr>"
    show ?thesis
    proof (cases "bm_status b")
      case completed
      obtain r where r: "map_of (result_rows (database s)) (observed_id cr) = Some r" "state_of (result_rows (database s)) b = Done r"
        using completed_done [OF inv(1) b(1,2) completed] .
      then show ?thesis
        using x b(4) p completed by (simp add: genuine_observation_def reflect_def observe_metrics_def rounded_api_def Let_def)
    next
      case running
      then show ?thesis
        using gen x b(4) p running_begun [OF inv(2) b(1)] by (simp add: genuine_observation_def reflect_def Let_def)
    next
      case failed
      then have "x = Dead" using b(4) by (simp add: state_of_def)
      then show ?thesis using gen x p failed by (simp add: genuine_observation_def reflect_def Let_def)
    next
      case queued
      then show ?thesis using gen x p by (simp add: genuine_observation_def reflect_def Let_def)
    qed
  qed
qed

lemma genuine_created:
  assumes "validates (sp_parse S)" and inv: "backend_inv s" and post: "post_answer S (database s) (create_payload cr) (http_Do E (create_request e cr))"
    and gen: "genuine_observation (ledger_of s (resource_key cr)) (observation cr)" and i: "created_id E (create_request e cr) = Some i"
  shows "genuine_observation (ledger_of s (resource_key cr)) (observation (created E i cr))"
proof -
  obtain resp where resp: "http_Do E (create_request e cr) = Inr resp" "StatusCode resp \<in> {StatusAccepted, StatusOK}"
      "Decode created_fields (Body resp) '''' = Some i"
    using i by (auto simp: created_id_def split: if_splits sum.splits)
  have "post_answer S (database s) (create_payload cr) (Inr resp)" using post resp(1) by simp
  then obtain b x where "resp = create_response b" "ledger_of s (resource_key cr) = Some (bm_id b, x)"
    using post_answer_entry [OF inv _ resp(2)] validates_create [OF assms(1)] by metis
  then show ?thesis using gen resp(3) by (auto simp: genuine_observation_def created_def)
qed

text \<open>What the provider may write back for a version it read: the result of any of its calls.\<close>

definition provider_reconcile ::
  "service_params \<Rightarrow> ('cs, 'c, 'us) provider_env set \<Rightarrow> external \<Rightarrow> service \<Rightarrow> ('dp, 'mp, 'pd, 'sr, 'cs) gpu_job
    \<Rightarrow> ('dp, 'mp, 'pd, 'sr, 'cs) gpu_job \<Rightarrow> bool" where
  "provider_reconcile S W e s old new \<longleftrightarrow> (\<exists>E\<in>W. provider_answered S (core s) e old E \<and> provider_step {E} e old new)"

lemma provider_key:
  fixes W :: "('cs, 'c, 'us) provider_env set" and old :: "('dp, 'mp, 'pd, 'sr, 'cs) gpu_job"
  assumes "provider_reconcile S W e s old new"
  shows "resource_key new = resource_key old"
proof -
  obtain E :: "('cs, 'c, 'us) provider_env" where "provider_step {E} e old new"
    using assms by (auto simp: provider_reconcile_def)
  then have "same_frame old new" using provider_frame.inv_step [of old old "{E}" e new] by simp
  then show ?thesis by (simp add: same_frame_def)
qed

lemma provider_genuine:
  fixes W :: "('cs, 'c, 'us) provider_env set" and old :: "('dp, 'mp, 'pd, 'sr, 'cs) gpu_job"
  assumes "validates (sp_parse S)" and "backend_inv (core s)" and "rows_begun (core s)" and "provider_reconcile S W e s old new"
    and "genuine_observation (ledger_of (core s) (resource_key old)) (observation old)"
  shows "genuine_observation (ledger_of (core s) (resource_key new)) (observation new)"
proof -
  obtain E :: "('cs, 'c, 'us) provider_env" where E: "provider_answered S (core s) e old E" "provider_step {E} e old new"
    using assms(4) by (auto simp: provider_reconcile_def)
  have "genuine_observation (ledger_of (core s) (resource_key old)) (observation new)"
    using E(2)
  proof cases
    case (observe E')
    then show ?thesis
      using genuine_observed [OF assms(2,3), of S old E e] E(1) assms(5)
      by (auto simp: Observe_object provider_answered_def split: if_splits option.splits)
  next
    case (create E')
    then show ?thesis
      using genuine_created [OF assms(1,2), of old E e] E(1) assms(5)
      by (auto simp: Create_object provider_answered_def split: option.splits)
  next
    case (update E')
    then show ?thesis using assms(5) by (simp add: Update_def)
  next
    case (delete E')
    then show ?thesis using assms(5) by (simp add: Delete_eq)
  qed
  then show ?thesis using provider_key [OF assms(4)] by simp
qed

end
