(* ===== verification/Object_Store.thy ===== *)
theory Object_Store
  imports Transition_System
begin

text \<open>
  Objects in an API server, controllers that read an object, ask a service and write it back, and users. A
  controller may read any version that was ever stored (caches are stale), any number of writes may be
  on their way, and the API server accepts a write only for the version that was read. What
  a controller does is a parameter; two interfaces say what follows for all reachable states.
\<close>

section \<open>State and steps\<close>

text \<open>A write is the version that was read and the one to be stored.\<close>

record ('k, 'o, 's) object_store =
  st_objects :: "'k \<rightharpoonup> 'o"
  st_versions :: "'o set"
  st_writes :: "('o \<times> 'o) set"
  st_service :: 's

inductive store_step ::
  "('s \<Rightarrow> 's \<Rightarrow> bool) \<Rightarrow> ('s \<Rightarrow> 'o \<Rightarrow> 'o \<Rightarrow> bool) \<Rightarrow> ('o \<Rightarrow> bool) \<Rightarrow> ('o \<Rightarrow> 'o \<Rightarrow> bool)
    \<Rightarrow> ('k, 'o, 's) object_store \<Rightarrow> ('k, 'o, 's) object_store \<Rightarrow> bool" for progress reconcile fresh edit where
  progressed: "progress (st_service c) s \<Longrightarrow> store_step progress reconcile fresh edit c (c\<lparr>st_service := s\<rparr>)"
| reconciled: "old \<in> st_versions c \<Longrightarrow> reconcile (st_service c) old new \<Longrightarrow>
     store_step progress reconcile fresh edit c (c\<lparr>st_writes := insert (old, new) (st_writes c)\<rparr>)"
| accepted: "(old, new) \<in> st_writes c \<Longrightarrow> st_objects c k = Some old \<Longrightarrow>
     store_step progress reconcile fresh edit c
       (c\<lparr>st_objects := (st_objects c)(k \<mapsto> new), st_versions := insert new (st_versions c), st_writes := st_writes c - {(old, new)}\<rparr>)"
| refused: "store_step progress reconcile fresh edit c (c\<lparr>st_writes := st_writes c - {w}\<rparr>)"
| created: "st_objects c k = None \<Longrightarrow> fresh x \<Longrightarrow>
     store_step progress reconcile fresh edit c (c\<lparr>st_objects := (st_objects c)(k \<mapsto> x), st_versions := insert x (st_versions c)\<rparr>)"
| edited: "st_objects c k = Some x \<Longrightarrow> edit x y \<Longrightarrow>
     store_step progress reconcile fresh edit c (c\<lparr>st_objects := (st_objects c)(k \<mapsto> y), st_versions := insert y (st_versions c)\<rparr>)"
| deleted: "store_step progress reconcile fresh edit c (c\<lparr>st_objects := (st_objects c)(k := None)\<rparr>)"

definition empty_store :: "('s \<Rightarrow> bool) \<Rightarrow> ('k, 'o, 's) object_store \<Rightarrow> bool" where
  "empty_store init c \<longleftrightarrow> st_objects c = Map.empty \<and> st_versions c = {} \<and> st_writes c = {} \<and> init (st_service c)"

definition store_inv :: "('s \<Rightarrow> bool) \<Rightarrow> ('s \<Rightarrow> 'o \<Rightarrow> bool) \<Rightarrow> ('o \<Rightarrow> 'o \<Rightarrow> bool) \<Rightarrow> ('k, 'o, 's) object_store \<Rightarrow> bool" where
  "store_inv ok P same c \<longleftrightarrow>
     ok (st_service c) \<and> (\<forall>k x. st_objects c k = Some x \<longrightarrow> P (st_service c) x) \<and>
     (\<forall>x\<in>st_versions c. P (st_service c) x) \<and> (\<forall>w\<in>st_writes c. P (st_service c) (snd w) \<and> same (fst w) (snd w))"

lemma store_invD:
  assumes "store_inv ok P same c"
  shows "ok (st_service c)" "st_objects c k = Some x \<Longrightarrow> P (st_service c) x" "x \<in> st_versions c \<Longrightarrow> P (st_service c) x"
    and "(x, y) \<in> st_writes c \<Longrightarrow> P (st_service c) y" "(x, y) \<in> st_writes c \<Longrightarrow> same x y"
  using assms unfolding store_inv_def by (blast, blast, blast, force, force)

lemma store_inv_put:
  assumes "store_inv ok P same c" and "P (st_service c) x" and "ws \<subseteq> st_writes c"
  shows "store_inv ok P same (c\<lparr>st_objects := (st_objects c)(k \<mapsto> x), st_versions := insert x (st_versions c), st_writes := ws\<rparr>)"
  using assms unfolding store_inv_def by (auto simp: subset_iff)

section \<open>A property of every version\<close>

text \<open>
  \<open>P\<close> relates an object to the service. It survives what the service does, and a reconciliation of an
  object that has it yields one that has it.
\<close>

locale object_property =
  fixes progress :: "'s \<Rightarrow> 's \<Rightarrow> bool" and reconcile :: "'s \<Rightarrow> 'o \<Rightarrow> 'o \<Rightarrow> bool" and fresh :: "'o \<Rightarrow> bool" and edit :: "'o \<Rightarrow> 'o \<Rightarrow> bool"
    and init :: "'s \<Rightarrow> bool" and ok :: "'s \<Rightarrow> bool" and P :: "'s \<Rightarrow> 'o \<Rightarrow> bool" and same :: "'o \<Rightarrow> 'o \<Rightarrow> bool"
  assumes ok_init: "init s \<Longrightarrow> ok s"
    and ok_progress: "ok s \<Longrightarrow> progress s t \<Longrightarrow> ok t"
    and P_progress: "ok s \<Longrightarrow> progress s t \<Longrightarrow> P s x \<Longrightarrow> P t x"
    and P_reconcile: "ok s \<Longrightarrow> P s x \<Longrightarrow> reconcile s x y \<Longrightarrow> P s y"
    and same_reconcile: "reconcile s x y \<Longrightarrow> same x y"
    and P_fresh: "fresh x \<Longrightarrow> P s x"
    and P_edit: "P s x \<Longrightarrow> edit x y \<Longrightarrow> P s y"
begin

lemma store_inv_step:
  assumes inv: "store_inv ok P same c" and step: "store_step progress reconcile fresh edit c c'"
  shows "store_inv ok P same c'"
  using step
proof cases
  case (progressed s)
  have "P s x" if "P (st_service c) x" for x using P_progress [OF store_invD(1) [OF inv] progressed(2) that] .
  then show ?thesis using inv ok_progress [OF store_invD(1) [OF inv] progressed(2)] progressed(1) by (simp add: store_inv_def)
next
  case (reconciled old new)
  have "P (st_service c) new" using P_reconcile [OF store_invD(1) [OF inv] store_invD(3) [OF inv reconciled(2)] reconciled(3)] .
  then show ?thesis using inv same_reconcile [OF reconciled(3)] reconciled(1) by (simp add: store_inv_def)
next
  case (accepted old new k)
  then show ?thesis using store_inv_put [OF inv store_invD(4) [OF inv accepted(2)], of "st_writes c - {(old, new)}" k] by auto
next
  case (created k x)
  then show ?thesis using store_inv_put [OF inv P_fresh [OF created(3)], of "st_writes c" k] by simp
next
  case (edited k x y)
  then show ?thesis using store_inv_put [OF inv P_edit [OF store_invD(2) [OF inv edited(2)] edited(3)], of "st_writes c" k] by simp
qed (use inv in \<open>auto simp: store_inv_def\<close>)

end

sublocale object_property \<subseteq> store: invariant_system "empty_store init" "store_step progress reconcile fresh edit" "store_inv ok P same"
proof
  show "store_inv ok P same c" if "empty_store init c" for c :: "('k, 'o, 's) object_store"
    using that ok_init by (simp add: empty_store_def store_inv_def)
qed (rule store_inv_step)

section \<open>A property of the stored objects\<close>

text \<open>
  \<open>Q\<close> holds of what is stored now, not of every old version; a write that is on its way keeps it. \<open>here\<close> is
  what the service has to satisfy for this.
\<close>

locale stored_property = object_property +
  fixes here :: "'s \<Rightarrow> bool" and Q :: "'o \<Rightarrow> bool"
  assumes here_progress: "ok s \<Longrightarrow> here s \<Longrightarrow> progress s t \<Longrightarrow> here t"
    and Q_reconcile: "ok s \<Longrightarrow> here s \<Longrightarrow> P s x \<Longrightarrow> Q x \<Longrightarrow> reconcile s x y \<Longrightarrow> Q y"
    and Q_fresh: "fresh x \<Longrightarrow> Q x"
    and Q_edit: "Q x \<Longrightarrow> edit x y \<Longrightarrow> Q y"
begin

definition settled :: "('k, 'o, 's) object_store \<Rightarrow> bool" where
  "settled c \<longleftrightarrow>
     store_inv ok P same c \<and> here (st_service c) \<and> (\<forall>k x. st_objects c k = Some x \<longrightarrow> Q x) \<and>
     (\<forall>w\<in>st_writes c. Q (fst w) \<longrightarrow> Q (snd w))"

lemma settled_step:
  assumes st: "settled c" and step: "store_step progress reconcile fresh edit c c'"
  shows "settled c'"
proof -
  have inv: "store_inv ok P same c" and h: "here (st_service c)" and objs: "\<And>k x. st_objects c k = Some x \<Longrightarrow> Q x"
    and writes: "\<And>x y. (x, y) \<in> st_writes c \<Longrightarrow> Q x \<Longrightarrow> Q y"
    using st unfolding settled_def by (blast, blast, blast, force)
  note inv' = store_inv_step [OF inv step]
  show ?thesis using step
  proof cases
    case (progressed s)
    then show ?thesis using st inv' here_progress [OF store_invD(1) [OF inv] h progressed(2)] by (simp add: settled_def)
  next
    case (reconciled old new)
    have "Q new" if "Q old"
      using Q_reconcile [OF store_invD(1) [OF inv] h store_invD(3) [OF inv reconciled(2)] that reconciled(3)] .
    then show ?thesis using st inv' reconciled(1) by (simp add: settled_def)
  next
    case (accepted old new k)
    then show ?thesis using st inv' writes [OF accepted(2) objs [OF accepted(3)]] by (simp add: settled_def)
  next
    case (created k x)
    then show ?thesis using st inv' Q_fresh by (simp add: settled_def)
  next
    case (edited k x y)
    then show ?thesis using st inv' Q_edit [OF objs [OF edited(2)] edited(3)] by (simp add: settled_def)
  qed (use st inv' in \<open>simp_all add: settled_def\<close>)
qed

lemma settled_steps: "(store_step progress reconcile fresh edit)\<^sup>*\<^sup>* c c' \<Longrightarrow> settled c \<Longrightarrow> settled c'"
  by (induction rule: rtranclp_induct) (auto intro: settled_step)

end

end
