(* ===== verification/Cluster.thy ===== *)
theory Cluster
  imports Cluster_Operator Cluster_Provider Object_Store
begin

text \<open>
  The whole platform as one transition system: BenchmarkJobs and GPUBenchmarkJobs in the API server, any
  number of concurrent and possibly stale reconciliations of operator and provider, users who create, edit,
  delete and re-create objects, and the concurrent backend behind both.
\<close>

section \<open>State and steps\<close>

datatype ('dp, 'mp, 'pd, 'sr, 'cs) platform_object = JobObject job | ResourceObject "('dp, 'mp, 'pd, 'sr, 'cs) gpu_job"

text \<open>Objects are stored under their kind and name.\<close>

type_synonym ('dp, 'mp, 'pd, 'sr, 'cs) cluster =
  "(string \<times> NamespacedName, ('dp, 'mp, 'pd, 'sr, 'cs) platform_object, service) object_store"

fun object_key :: "('dp, 'mp, 'pd, 'sr, 'cs) platform_object \<Rightarrow> string" where
  "object_key (JobObject j) = job_key j"
| "object_key (ResourceObject cr) = resource_key cr"

fun platform_reconcile ::
  "service_params \<Rightarrow> ('cs, 'c, 'us) provider_env set \<Rightarrow> external \<Rightarrow> service \<Rightarrow> ('dp, 'mp, 'pd, 'sr, 'cs) platform_object
    \<Rightarrow> ('dp, 'mp, 'pd, 'sr, 'cs) platform_object \<Rightarrow> bool" where
  "platform_reconcile S W e s (JobObject old) (JobObject new) \<longleftrightarrow> operator_reconcile S s old new"
| "platform_reconcile S W e s (ResourceObject old) (ResourceObject new) \<longleftrightarrow> provider_reconcile S W e s old new"
| "platform_reconcile S W e s _ _ \<longleftrightarrow> False"

text \<open>There is one backend: every BenchmarkJob names its URL \<open>url\<close>, and \<open>e\<close> is the provider's client for it.\<close>

fun platform_fresh :: "string \<Rightarrow> ('dp, 'mp, 'pd, 'sr, 'cs) platform_object \<Rightarrow> bool" where
  "platform_fresh url (JobObject j) \<longleftrightarrow> Status j = zero_status \<and> apiURL j = url"
| "platform_fresh url (ResourceObject cr) \<longleftrightarrow> observation cr = zero_observation"

text \<open>Users change specification and metadata, not the name and not the status.\<close>

fun platform_edit :: "string \<Rightarrow> ('dp, 'mp, 'pd, 'sr, 'cs) platform_object \<Rightarrow> ('dp, 'mp, 'pd, 'sr, 'cs) platform_object \<Rightarrow> bool" where
  "platform_edit url (JobObject j) (JobObject j') \<longleftrightarrow> job_key j' = job_key j \<and> Status j' = Status j \<and> apiURL j' = url"
| "platform_edit url (ResourceObject cr) (ResourceObject cr') \<longleftrightarrow> resource_key cr' = resource_key cr \<and> observation cr' = observation cr"
| "platform_edit url _ _ \<longleftrightarrow> False"

definition cluster_step ::
  "service_params \<Rightarrow> ('cs, 'c, 'us) provider_env set \<Rightarrow> external \<Rightarrow> string \<Rightarrow> ('dp, 'mp, 'pd, 'sr, 'cs) cluster
    \<Rightarrow> ('dp, 'mp, 'pd, 'sr, 'cs) cluster \<Rightarrow> bool" where
  "cluster_step S W e url =
     store_step (service_step (sp_parse S) (sp_sha256 S)) (platform_reconcile S W e) (platform_fresh url) (platform_edit url)"

definition empty_cluster :: "('dp, 'mp, 'pd, 'sr, 'cs) cluster \<Rightarrow> bool" where
  "empty_cluster = empty_store empty_service"

section \<open>The invariant\<close>

fun genuine_object :: "ledger \<Rightarrow> ('dp, 'mp, 'pd, 'sr, 'cs) platform_object \<Rightarrow> bool" where
  "genuine_object L (JobObject j) \<longleftrightarrow> genuine L j"
| "genuine_object L (ResourceObject cr) \<longleftrightarrow> genuine_observation (L (resource_key cr)) (observation cr)"

lemma genuine_object_step: "service_ledger_step L L' \<Longrightarrow> genuine_object L x \<Longrightarrow> genuine_object L' x"
  by (cases x) (auto intro: genuine_step genuine_observation_step)

lemma operator_key: "operator_reconcile S s old new \<Longrightarrow> job_key new = job_key old"
  using reconcile_key by (auto simp: operator_reconcile_def)

lemma genuine_object_reconcile:
  assumes "validates (sp_parse S)" and "service_ok s" and "genuine_object (ledger_of (core s)) x" and "platform_reconcile S W e s x y"
  shows "genuine_object (ledger_of (core s)) y"
proof (cases x)
  case (JobObject old)
  then obtain new where "y = JobObject new" "operator_reconcile S s old new" using assms(4) by (cases y) auto
  then show ?thesis
    using genuine_reconciled [OF assms(1) service_okD(2,3) [OF assms(2)]] assms(3) JobObject by (auto simp: operator_reconcile_def)
next
  case (ResourceObject old)
  then obtain new where "y = ResourceObject new" "provider_reconcile S W e s old new" using assms(4) by (cases y) auto
  then show ?thesis
    using provider_genuine [OF assms(1) service_okD(2,3) [OF assms(2)]] assms(3) ResourceObject by auto
qed

lemma platform_reconcile_key: "platform_reconcile S W e s x y \<Longrightarrow> object_key y = object_key x"
  by (cases x; cases y) (auto dest: operator_key provider_key)

lemma genuine_object_fresh: "platform_fresh url x \<Longrightarrow> genuine_object L x"
  by (cases x) (simp_all add: genuine_zero genuine_start zero_status_def)

lemma genuine_object_edit: "genuine_object L x \<Longrightarrow> platform_edit url x y \<Longrightarrow> genuine_object L y"
  by (cases x; cases y) (auto simp: genuine_def)

interpretation cluster: object_property "service_step (sp_parse S) (sp_sha256 S)" "platform_reconcile S W e" "platform_fresh url"
    "platform_edit url" "\<lambda>s. empty_service s \<and> validates (sp_parse S)" "\<lambda>s. service_ok s \<and> validates (sp_parse S)"
    "\<lambda>s. genuine_object (ledger_of (core s))" "\<lambda>x y. object_key y = object_key x" for S W e url
proof
  show "genuine_object (ledger_of (core t)) x" if "service_ok s \<and> validates (sp_parse S)" "service_step (sp_parse S) (sp_sha256 S) s t"
    "genuine_object (ledger_of (core s)) x" for s t x
    using genuine_object_step [OF service_refines [OF service_okD(1) that(2)] that(3)] that(1) by blast
  show "genuine_object (ledger_of (core s)) y" if "service_ok s \<and> validates (sp_parse S)" "genuine_object (ledger_of (core s)) x"
    "platform_reconcile S W e s x y" for s x y
    using genuine_object_reconcile [OF _ _ that(2,3)] that(1) by blast
  show "object_key y = object_key x" if "platform_reconcile S W e s x y" for s x y
    using platform_reconcile_key [OF that] .
qed (auto intro: service_ok_init service_ok_step genuine_object_fresh genuine_object_edit)

lemma cluster_inv:
  assumes "validates (sp_parse S)" and "empty_cluster c\<^sub>0" and "(cluster_step S W e url)\<^sup>*\<^sup>* c\<^sub>0 c"
  shows "store_inv (\<lambda>s. service_ok s \<and> validates (sp_parse S)) (\<lambda>s. genuine_object (ledger_of (core s)))
           (\<lambda>x y. object_key y = object_key x) c"
  by (rule cluster.store.inv_reachable [OF _ assms(3) [unfolded cluster_step_def]])
     (use assms(1,2) in \<open>simp add: empty_cluster_def empty_store_def\<close>)

lemma stored_genuine:
  assumes "validates (sp_parse S)" and "empty_cluster c\<^sub>0" and "(cluster_step S W e url)\<^sup>*\<^sup>* c\<^sub>0 c" and "st_objects c k = Some x"
  shows "genuine_object (ledger_of (core (st_service c))) x" and "backend_inv (core (st_service c))"
  using store_invD(1,2) [OF cluster_inv [OF assms(1-3)]] assms(4) service_okD(2) by blast+

section \<open>Runs\<close>

text \<open>A cluster with one object and no write on its way.\<close>

definition holding ::
  "string \<times> NamespacedName \<Rightarrow> ('dp, 'mp, 'pd, 'sr, 'cs) platform_object \<Rightarrow> ('dp, 'mp, 'pd, 'sr, 'cs) platform_object set \<Rightarrow> service
    \<Rightarrow> ('dp, 'mp, 'pd, 'sr, 'cs) cluster" where
  "holding k x vs s = \<lparr>st_objects = [k \<mapsto> x], st_versions = vs, st_writes = {}, st_service = s\<rparr>"

definition empty_run :: "('dp, 'mp, 'pd, 'sr, 'cs) cluster" where
  "empty_run = \<lparr>st_objects = Map.empty, st_versions = {}, st_writes = {}, st_service = idle_service\<rparr>"

lemma holding_simps [simp]:
  "st_objects (holding k x vs s) = [k \<mapsto> x]" "st_writes (holding k x vs s) = {}" "st_service (holding k x vs s) = s"
  by (simp_all add: holding_def)

lemma empty_run_empty: "empty_cluster empty_run"
  using idle_service_empty by (simp add: empty_cluster_def empty_store_def empty_run_def)

lemma run_create: "platform_fresh url x \<Longrightarrow> cluster_step S W e url empty_run (holding k x {x} idle_service)"
  using store_step.created [of empty_run k "platform_fresh url" x] by (simp add: cluster_step_def empty_run_def holding_def)

lemma run_service:
  assumes "(service_step (sp_parse S) (sp_sha256 S))\<^sup>*\<^sup>* s t"
  shows "(cluster_step S W e url)\<^sup>*\<^sup>* (holding k x vs s) (holding k x vs t)"
  using assms
proof (induction rule: rtranclp_induct)
  case (step t u)
  have "cluster_step S W e url (holding k x vs t) (holding k x vs u)"
    using store_step.progressed [of "service_step (sp_parse S) (sp_sha256 S)" "holding k x vs t" u] step(2)
    by (simp add: cluster_step_def holding_def)
  then show ?case using step(3) by simp
qed simp

lemma store_write:
  assumes "st_objects c k = Some x" and "x \<in> st_versions c" and "st_writes c = {}" and "platform_reconcile S W e (st_service c) x y"
  shows "(cluster_step S W e url)\<^sup>*\<^sup>* c (c\<lparr>st_objects := (st_objects c)(k \<mapsto> y), st_versions := insert y (st_versions c)\<rparr>)"
proof -
  let ?c = "c\<lparr>st_writes := {(x, y)}\<rparr>"
  have "cluster_step S W e url c ?c"
    using store_step.reconciled [of x c "platform_reconcile S W e" y] assms by (simp add: cluster_step_def)
  moreover have "?c\<lparr>st_objects := (st_objects c)(k \<mapsto> y), st_versions := insert y (st_versions c), st_writes := {}\<rparr> =
      c\<lparr>st_objects := (st_objects c)(k \<mapsto> y), st_versions := insert y (st_versions c)\<rparr>"
    using assms(3) by (cases c) simp
  then have "cluster_step S W e url ?c (c\<lparr>st_objects := (st_objects c)(k \<mapsto> y), st_versions := insert y (st_versions c)\<rparr>)"
    using store_step.accepted [of x y ?c k] assms(1) by (simp add: cluster_step_def)
  ultimately show ?thesis by (meson converse_rtranclp_into_rtranclp r_into_rtranclp)
qed

lemma run_write:
  assumes "x \<in> vs" and "platform_reconcile S W e s x y"
  shows "(cluster_step S W e url)\<^sup>*\<^sup>* (holding k x vs s) (holding k y (insert y vs) s)"
  using store_write [of "holding k x vs s" k x S W e y url] assms by (simp add: holding_def)

text \<open>The answers of the backend's routes are answers a client can get.\<close>

lemma earlier_refl: "earlier d d"
  by (auto simp: earlier_def)

lemma route_answers:
  assumes "sp_parse S body = Some rq" and "find_by_key (database s) (request_key (sp_sha256 S) rq) = Some b"
  shows "snd (post_route S newid now body s) = create_response b"
    and "post_answer S (database s) body (Inr (create_response b))" and "get_answer S s i (Inr (get_route S s i))"
proof -
  show "snd (post_route S newid now body s) = create_response b"
    using post_existing [of "sp_parse S" body rq s "sp_sha256 S" b] assms by (simp add: post_route_def)
  have "fst (create_benchmark (sp_sha256 S) newid now rq (\<lambda>_. database s)) = Existing b"
    using assms(2) by (simp add: create_benchmark_def)
  then show "post_answer S (database s) body (Inr (create_response b))"
    using assms(1) earlier_refl unfolding post_answer_def
    by (intro allI impI disjI2 exI [of _ rq] exI [of _ newid] exI [of _ now] exI [of _ "\<lambda>_. database s"] exI [of _ b]) simp
  show "get_answer S s i (Inr (get_route S s i))" by (simp add: get_answer_def)
qed

lemma taken_key: "find_by_key (database (core (taken_service rq))) (request_key id rq) = Some (new_row id ''id-1'' 0 rq)"
  by (simp add: find_by_key_def taken_service_def new_row_def)

subsection \<open>A run of the operator\<close>

text \<open>
  An object is created, its submission is committed and taken by a worker, the operator records the job ID,
  and the worker finishes before the next poll.
\<close>

abbreviation run_request :: BenchmarkCreateRequest where
  "run_request \<equiv> request_of example_pending"

definition run_env :: env where
  "run_env = served_env contract_service ''id-2'' (core (taken_service run_request))"

definition run_submitted :: job where
  "run_submitted = reconcile_on run_env (''team'', ''h100'') example_pending"

definition run_cluster :: "service \<Rightarrow> ('dp, 'mp, 'pd, 'sr, 'cs) cluster" where
  "run_cluster s = holding (''BenchmarkJob'', ''team'', ''h100'') (JobObject run_submitted) {JobObject run_submitted, JobObject example_pending} s"

lemma run_request_parsed: "sp_parse contract_service (submit_payload example_pending) = Some run_request"
  using validates_submit [OF contract_service_laws(1)] example_pending_admitted by (simp add: spec_admitted_def)

lemmas run_laws = served_env_laws [of contract_service "''id-2''" "core (taken_service run_request)", folded run_env_def]

lemma run_answers:
  "http_Post run_env (apiURL example_pending @ ''/benchmarks'') ''application/json'' (submit_payload example_pending) =
     Inr (create_response (new_row id ''id-1'' 0 run_request))"
  "answered contract_service (core (taken_service run_request)) example_pending run_env"
proof -
  have "find_by_key (database (core (taken_service run_request))) (request_key (sp_sha256 contract_service) run_request) =
      Some (new_row id ''id-1'' 0 run_request)"
    using taken_key [of run_request] by (simp add: contract_service_def)
  note ans = route_answers [of contract_service, OF run_request_parsed this]
  show "http_Post run_env (apiURL example_pending @ ''/benchmarks'') ''application/json'' (submit_payload example_pending) =
     Inr (create_response (new_row id ''id-1'' 0 run_request))"
    using run_laws(1) ans(1) by (simp add: served_by_def)
  then show "answered contract_service (core (taken_service run_request)) example_pending run_env"
    using run_laws(1) ans(2,3) by (simp add: answered_def served_by_def)
qed

lemma run_submitted_status:
  "job_key run_submitted = job_key example_pending" "Phase (Status run_submitted) = PhaseSubmitted" "JobID (Status run_submitted) = ''id-1''"
  "JobMeta run_submitted = JobMeta example_pending"
proof -
  show "job_key run_submitted = job_key example_pending" unfolding run_submitted_def by (rule reconcile_key [OF run_laws(2)])
  show "Phase (Status run_submitted) = PhaseSubmitted" "JobID (Status run_submitted) = ''id-1''" "JobMeta run_submitted = JobMeta example_pending"
    using on_pending [OF run_laws(4) example_pending_simps(3) run_laws(3) run_answers(1), of _ "(''team'', ''h100'')"]
    by (simp_all add: run_submitted_def new_row_def)
qed

lemma run_taken: "(service_step (sp_parse contract_service) (sp_sha256 contract_service))\<^sup>*\<^sup>* idle_service (taken_service run_request)"
  using taken_service_reachable [of "sp_parse contract_service" "submit_payload example_pending" run_request, OF run_request_parsed]
    admitted_fits [OF example_pending_admitted] by (simp add: contract_service_def)

lemma run_reachable:
  "(cluster_step contract_service W e (apiURL example_pending))\<^sup>*\<^sup>* empty_run (run_cluster (taken_service run_request))"
proof -
  let ?S = contract_service and ?k = "(''BenchmarkJob'', ''team'', ''h100'')" and ?u = "apiURL example_pending" and ?x = "JobObject example_pending"
  have "platform_fresh ?u ?x" by (simp add: example_pending_def example_job_def)
  then have a: "cluster_step ?S W e ?u empty_run (holding ?k ?x {?x} idle_service)" by (rule run_create)
  note b = run_service [OF run_taken, of W e ?u ?k ?x "{?x}"]
  have "operator_reconcile ?S (taken_service run_request) example_pending run_submitted"
    using run_laws(2,3) run_answers(2) by (auto simp: operator_reconcile_def run_submitted_def)
  then have c: "(cluster_step ?S W e ?u)\<^sup>*\<^sup>* (holding ?k ?x {?x} (taken_service run_request)) (run_cluster (taken_service run_request))"
    unfolding run_cluster_def by (intro run_write) simp_all
  show ?thesis using a b c by (meson converse_rtranclp_into_rtranclp rtranclp_trans)
qed

section \<open>Properties\<close>

text \<open>
  C3. Every status in the cluster is genuine, where all BenchmarkJobs name the URL of one backend, which is also the
  provider's. Starting from nothing, with any number of objects of both kinds, stale
  and concurrent reconciliations, lost answers, refused writes, edits, deletions and re-creations, racing
  submissions and stopping workers: the job ID of a BenchmarkJob that is past submission is the one the
  backend keeps under the key of the object; a Running object was begun; a Completed object's job is done, and its three
  numbers are the stored ones, rounded to a float; the job of a Failed object has failed for good.
\<close>

theorem cluster_statuses_are_genuine:
  assumes "validates (sp_parse S)" and "empty_cluster c\<^sub>0" and "(cluster_step S W e url)\<^sup>*\<^sup>* c\<^sub>0 c" and "st_objects c k = Some (JobObject j)"
  shows "(Phase (Status j) = PhaseSubmitted \<longrightarrow> (\<exists>x. ledger_of (core (st_service c)) (job_key j) = Some (JobID (Status j), x)))
     \<and> (Phase (Status j) = PhaseRunning \<longrightarrow>
          (\<exists>x. ledger_of (core (st_service c)) (job_key j) = Some (JobID (Status j), x) \<and> (\<forall>n. x = Waiting n \<longrightarrow> 0 < n)))
     \<and> (Phase (Status j) = PhaseCompleted \<longrightarrow>
          (\<exists>r. ledger_of (core (st_service c)) (job_key j) = Some (JobID (Status j), Done r)
             \<and> Throughput (Status j) = Some (f64_round (br_throughput r)) \<and> LatencyMs (Status j) = Some (f64_round (br_latency_ms r))
             \<and> MemoryBandwidthGbps (Status j) = Some (f64_round (br_memory_bandwidth_gbps r))))
     \<and> (Phase (Status j) = PhaseFailed \<longrightarrow> ledger_of (core (st_service c)) (job_key j) = Some (JobID (Status j), Dead))"
  using stored_genuine(1) [OF assms] unfolding genuine_object.simps genuine_def Let_def begun_def .

theorem cluster_statuses_are_genuine_witness:
  "\<exists>x. ledger_of (core (taken_service run_request)) (job_key example_pending) = Some (''id-1'', x)"
proof -
  let ?c = "run_cluster (taken_service run_request) :: (unit, unit, unit, unit, string list) cluster"
  have "st_objects ?c (''BenchmarkJob'', ''team'', ''h100'') = Some (JobObject run_submitted)" by (simp add: run_cluster_def)
  from cluster_statuses_are_genuine [OF contract_service_laws(1) empty_run_empty run_reachable this] run_submitted_status
  show ?thesis by (simp add: run_cluster_def)
qed

subsection \<open>Managed resources\<close>

text \<open>
  C4. Every observation in the cluster is genuine, with the same single backend and under the same interference, and
  whether or not the managed reconciler stores what \<open>Create\<close> wrote: the job ID of a GPUBenchmarkJob is
  the one the backend keeps under its key; in phase running the job was begun, in phase failed it has failed for good,
  in phase completed it is done; and whenever the resource shows measurements, in this or a later phase, they
  are the stored numbers of the job of its key, rounded to a float.
\<close>

theorem cluster_observations_are_genuine:
  assumes "validates (sp_parse S)" and "empty_cluster c\<^sub>0" and "(cluster_step S W e url)\<^sup>*\<^sup>* c\<^sub>0 c" and "st_objects c k = Some (ResourceObject cr)"
  shows "(observed_id cr \<noteq> '''' \<longrightarrow> (\<exists>x. ledger_of (core (st_service c)) (resource_key cr) = Some (observed_id cr, x)))
     \<and> (atPhase (observation cr) = ''running'' \<longrightarrow>
          (\<exists>x. ledger_of (core (st_service c)) (resource_key cr) = Some (observed_id cr, x) \<and> (\<forall>n. x = Waiting n \<longrightarrow> 0 < n)))
     \<and> (atPhase (observation cr) = ''completed'' \<longrightarrow>
          (\<exists>r. ledger_of (core (st_service c)) (resource_key cr) = Some (observed_id cr, Done r)) \<and> atThroughput (observation cr) \<noteq> None)
     \<and> (atPhase (observation cr) = ''failed'' \<longrightarrow> ledger_of (core (st_service c)) (resource_key cr) = Some (observed_id cr, Dead))
     \<and> (atThroughput (observation cr) \<noteq> None \<longrightarrow>
          (\<exists>i r. ledger_of (core (st_service c)) (resource_key cr) = Some (i, Done r)
             \<and> atThroughput (observation cr) = Some (f64_round (br_throughput r))
             \<and> atLatencyMs (observation cr) = Some (f64_round (br_latency_ms r))
             \<and> atMemoryBandwidthGbps (observation cr) = Some (f64_round (br_memory_bandwidth_gbps r))))"
  using stored_genuine(1) [OF assms] unfolding genuine_object.simps genuine_observation_def begun_def .

text \<open>A run of the provider: creation of the resource, submission, execution, observation.\<close>

abbreviation run_resource :: example_gpu_job where
  "run_resource \<equiv> example_mg zero_observation"

abbreviation resource_request :: BenchmarkCreateRequest where
  "resource_request \<equiv> provider_request_of run_resource"

definition run_created :: example_gpu_job where
  "run_created = created (served_provider contract_service ''id-2'' (core (taken_service resource_request))) ''id-1'' run_resource"

definition run_done :: service where
  "run_done = finished_service example_result resource_request"

definition run_observed :: example_gpu_job where
  "run_observed = reflect (served_provider contract_service ''id-2'' (core run_done))
     \<lparr>apiStatus = ''completed'', apiResult = Some (rounded_api example_result)\<rparr> run_created"

lemma resource_parsed: "sp_parse contract_service (create_payload run_resource) = Some resource_request"
  using contract_service_laws(1) [unfolded validates_def, rule_format,
      of "create_payload run_resource" "''H100''" "''training''" 64 "resource_key run_resource"]
  by (simp add: provider_submission.members submission_member_def provider_request_of_def example_mg_def idempotency_key_def)

lemma done_row:
  "find_by_id (database (core run_done)) ''id-1'' = Some ((new_row id ''id-1'' 0 resource_request)\<lparr>bm_status := completed, bm_attempt_count := 1\<rparr>)"
  "find_by_key (database (core run_done)) (request_key id resource_request) =
     Some ((new_row id ''id-1'' 0 resource_request)\<lparr>bm_status := completed, bm_attempt_count := 1\<rparr>)"
  "map_of (result_rows (database (core run_done))) ''id-1'' = Some example_result"
  by (simp_all add: run_done_def finished_service_def taken_service_def Let_def finish_job_def start_job_def complete_benchmark_def
      mark_running_def update_row_def find_by_id_def find_by_key_def new_row_def new_item_def)

lemma resource_created:
  "provider_reconcile contract_service {served_provider contract_service ''id-2'' (core (taken_service resource_request)), E}
     example_external (taken_service resource_request) run_resource run_created"
proof -
  let ?E = "served_provider contract_service ''id-2'' (core (taken_service resource_request))"
  have "find_by_key (database (core (taken_service resource_request))) (request_key (sp_sha256 contract_service) resource_request) =
      Some (new_row id ''id-1'' 0 resource_request)"
    using taken_key [of resource_request] by (simp add: contract_service_def)
  note ans = route_answers [of contract_service, OF resource_parsed this]
  have post: "http_Do ?E (create_request example_external run_resource) = Inr (create_response (new_row id ''id-1'' 0 resource_request))"
    using served_provider_laws(1) [of contract_service "''id-2''" "core (taken_service resource_request)"] ans(1)
    by (simp add: provider_served_def create_request_def)
  then have "provider_answered contract_service (core (taken_service resource_request)) example_external run_resource ?E"
    using ans(2,3) served_provider_laws(1) [of contract_service "''id-2''" "core (taken_service resource_request)"]
    by (simp add: provider_answered_def provider_served_def)
  moreover have "created_id ?E (create_request example_external run_resource) = Some ''id-1''"
    using post served_provider_laws(1) [of contract_service "''id-2''" "core (taken_service resource_request)"]
    by (simp add: created_id_def provider_served_def new_row_def)
  then have "provider_step {?E} example_external run_resource run_created"
    by (intro provider_step.create [of ?E]) (simp_all add: Create_object run_created_def)
  ultimately show ?thesis unfolding provider_reconcile_def by blast
qed

lemma resource_observed:
  "provider_reconcile contract_service {E, served_provider contract_service ''id-2'' (core run_done)}
     example_external run_done run_created run_observed"
proof -
  let ?E = "served_provider contract_service ''id-2'' (core run_done)"
  note serve = served_provider_laws(1) [of contract_service "''id-2''" "core run_done"]
  have i: "observed_id run_created = ''id-1''" by (simp add: run_created_def created_def)
  have payload: "create_payload run_created = create_payload run_resource"
    by (simp add: run_created_def created_def create_payload_def)
  have "find_by_key (database (core run_done)) (request_key (sp_sha256 contract_service) resource_request) =
      Some ((new_row id ''id-1'' 0 resource_request)\<lparr>bm_status := completed, bm_attempt_count := 1\<rparr>)"
    using done_row(2) by (simp add: contract_service_def)
  note ans = route_answers [of contract_service, OF resource_parsed this]
  have "http_Do ?E (create_request example_external run_created) =
      Inr (snd (post_route contract_service ''id-2'' 0 (create_payload run_resource) (core run_done)))"
    using serve by (simp add: provider_served_def create_request_def payload)
  then have answered: "provider_answered contract_service (core run_done) example_external run_created ?E"
    using ans serve by (simp add: provider_answered_def provider_served_def payload)
  have "float_result example_result" by (simp add: float_result_def example_result_def float_exact)
  then have "rounded_api example_result = provider_metrics example_result"
    by (simp add: rounded_api_def provider_metrics_def float_result_def)
  moreover have "Decode api_fields (Body (get_route contract_service (core run_done) ''id-1'')) zero_api =
      Some \<lparr>apiStatus = ''completed'', apiResult = Some (provider_metrics example_result)\<rparr>"
    using poll_decodes(2) [OF done_row(1) contract_service_laws(2)] done_row(3) \<open>float_result example_result\<close> by simp
  moreover have "StatusCode (get_route contract_service (core run_done) ''id-1'') \<noteq> StatusNotFound"
    using done_row(1) contract_service_laws(2) by (simp add: get_route_def get_benchmark_status_def get_benchmark_def StatusNotFound_def)
  ultimately have "backend_answer ?E example_external ''id-1'' = Some \<lparr>apiStatus = ''completed'', apiResult = Some (rounded_api example_result)\<rparr>"
    using serve by (simp add: backend_answer_def provider_served_def)
  then have "provider_step {?E} example_external run_created run_observed"
    by (intro provider_step.observe [of ?E]) (simp_all add: Observe_object i run_observed_def)
  then show ?thesis using answered unfolding provider_reconcile_def by blast
qed

definition run_worlds :: "(string list, string, unit) provider_env set" where
  "run_worlds = {served_provider contract_service ''id-2'' (core (taken_service resource_request)),
                 served_provider contract_service ''id-2'' (core run_done)}"

lemma resource_run:
  "\<exists>vs. (cluster_step contract_service run_worlds example_external url)\<^sup>*\<^sup>* empty_run
     (holding (''GPUBenchmarkJob'', '''', ''h100'') (ResourceObject run_observed) vs run_done)"
proof -
  let ?S = contract_service and ?k = "(''GPUBenchmarkJob'', '''', ''h100'')" and ?x = "ResourceObject run_resource" and ?y = "ResourceObject run_created"
  let ?step = "cluster_step ?S run_worlds example_external url"
  have a: "?step empty_run (holding ?k ?x {?x} idle_service)" by (rule run_create) (simp add: example_mg_def)
  have "fits_columns (request_key id resource_request) resource_request"
    by (simp add: fits_columns_def request_key_def provider_request_of_def example_mg_def idempotency_key_def)
  from taken_service_reachable [of "sp_parse ?S" "create_payload run_resource" resource_request, OF resource_parsed this]
  have b: "?step\<^sup>*\<^sup>* (holding ?k ?x {?x} idle_service) (holding ?k ?x {?x} (taken_service resource_request))"
    by (intro run_service) (simp add: contract_service_def)
  have c: "?step\<^sup>*\<^sup>* (holding ?k ?x {?x} (taken_service resource_request)) (holding ?k ?y {?y, ?x} (taken_service resource_request))"
    using resource_created by (intro run_write) (simp_all add: run_worlds_def)
  have d: "?step\<^sup>*\<^sup>* (holding ?k ?y {?y, ?x} (taken_service resource_request)) (holding ?k ?y {?y, ?x} run_done)"
    unfolding run_done_def by (intro run_service finished_service_reachable)
  have e: "?step\<^sup>*\<^sup>* (holding ?k ?y {?y, ?x} run_done)
      (holding ?k (ResourceObject run_observed) {ResourceObject run_observed, ?y, ?x} run_done)"
    using resource_observed by (intro run_write) (simp_all add: run_worlds_def)
  show ?thesis using a b c d e by (meson converse_rtranclp_into_rtranclp rtranclp_trans)
qed

theorem cluster_observations_are_genuine_witness:
  "atPhase (observation run_observed) = ''completed'' \<and>
   (\<exists>i r. ledger_of (core run_done) (resource_key run_observed) = Some (i, Done r)
      \<and> atThroughput (observation run_observed) = Some (f64_round (br_throughput r)))"
proof -
  obtain vs where reach: "(cluster_step contract_service run_worlds example_external '''')\<^sup>*\<^sup>* empty_run
      (holding (''GPUBenchmarkJob'', '''', ''h100'') (ResourceObject run_observed) vs run_done)"
    using resource_run by blast
  have phase: "atPhase (observation run_observed) = ''completed''"
    by (simp add: run_observed_def reflect_def observe_metrics_def Let_def)
  have "st_objects (holding (''GPUBenchmarkJob'', '''', ''h100'') (ResourceObject run_observed) vs run_done)
      (''GPUBenchmarkJob'', '''', ''h100'') = Some (ResourceObject run_observed)" by simp
  from cluster_observations_are_genuine [OF contract_service_laws(1) empty_run_empty reach this]
  show ?thesis using phase by auto
qed

section \<open>A key that is used up\<close>

fun not_past_submission :: "string \<Rightarrow> ('dp, 'mp, 'pd, 'sr, 'cs) platform_object \<Rightarrow> bool" where
  "not_past_submission key (JobObject j) \<longleftrightarrow> (job_key j = key \<longrightarrow> waiting_status (Status j))"
| "not_past_submission key (ResourceObject cr) \<longleftrightarrow> True"

lemma waiting_object:
  assumes "service_ok s" and "ledger_of (core s) key = Some (i, Done r)" and "genuine_object (ledger_of (core s)) x"
    and "not_past_submission key x" and "platform_reconcile S W e s x y"
  shows "not_past_submission key y"
proof (cases x)
  case (ResourceObject cr)
  then show ?thesis using assms(5) by (cases y) simp_all
next
  case (JobObject j)
  then obtain E req where y: "y = JobObject (reconcile_on E req j)" "finalizer_laws E" "writes_accepted E" "answered S (core s) j E"
    using assms(5) by (cases y) (auto simp: operator_reconcile_def)
  have "waiting_status (Status (reconcile_on E req j))" if "job_key j = key"
    by (rule waiting_reconciled [OF service_okD(2) [OF assms(1)] _ _ _ y(2-4)]) (use assms(2-4) JobObject that in simp_all)
  then show ?thesis using y(1) reconcile_key [OF y(2), of req j] by simp
qed

lemma fresh_waits: "platform_fresh url x \<Longrightarrow> not_past_submission key x"
  by (cases x) (simp_all add: waiting_status_def zero_status_def)

lemma edit_waits: "not_past_submission key x \<Longrightarrow> platform_edit url x y \<Longrightarrow> not_past_submission key y"
  by (cases x; cases y) simp_all

interpretation used_key: stored_property "service_step (sp_parse S) (sp_sha256 S)" "platform_reconcile S W e" "platform_fresh url"
    "platform_edit url" "\<lambda>s. empty_service s \<and> validates (sp_parse S)" "\<lambda>s. service_ok s \<and> validates (sp_parse S)"
    "\<lambda>s. genuine_object (ledger_of (core s))" "\<lambda>x y. object_key y = object_key x"
    "\<lambda>s. ledger_of (core s) key = Some (i, Done r)" "not_past_submission key" for S W e url key i r
proof
  show "ledger_of (core t) key = Some (i, Done r)" if "service_ok s \<and> validates (sp_parse S)" "ledger_of (core s) key = Some (i, Done r)"
    "service_step (sp_parse S) (sp_sha256 S) s t" for s t
    using service_ledger_final [OF service_refines [OF service_okD(1) that(3)] that(2)] that(1) by simp
  show "not_past_submission key y" if "service_ok s \<and> validates (sp_parse S)" "ledger_of (core s) key = Some (i, Done r)"
    "genuine_object (ledger_of (core s)) x" "not_past_submission key x" "platform_reconcile S W e s x y" for s x y
    using waiting_object [OF _ that(2-5)] that(1) by blast
qed (auto intro: fresh_waits edit_waits)

text \<open>
  C24. A key is good for one execution, where all BenchmarkJobs name the URL of one backend: once the job of a key has its result while the BenchmarkJob of this key, if
  there is one, is not past Submitted and none of its writes is on its way, no BenchmarkJob of that key is ever
  Running, Completed or Failed again. This holds for an object whose benchmark finished between two polls, and for an
  object that is deleted and created anew under its name, with whatever parameters: it stays
  Submitted, whatever the controllers and the users do, while the result of the first execution stays stored.
\<close>

theorem used_key_never_completes:
  assumes "validates (sp_parse S)" and "empty_cluster c\<^sub>0" and "(cluster_step S W e url)\<^sup>*\<^sup>* c\<^sub>0 c"
    and "ledger_of (core (st_service c)) key = Some (i, Done r)"
    and "\<And>k j. st_objects c k = Some (JobObject j) \<Longrightarrow> job_key j = key \<Longrightarrow> start_phase (Phase (Status j)) \<or> Phase (Status j) = PhaseSubmitted"
    and "\<And>old new. (old, new) \<in> st_writes c \<Longrightarrow> object_key old \<noteq> key"
    and "(cluster_step S W e url)\<^sup>*\<^sup>* c c'" and "st_objects c' k = Some (JobObject j)" and "job_key j = key"
  shows "(start_phase (Phase (Status j)) \<or> Phase (Status j) = PhaseSubmitted) \<and> ledger_of (core (st_service c')) key = Some (i, Done r)"
proof -
  note inv = cluster_inv [OF assms(1-3)]
  have "not_past_submission key x" if "st_objects c k = Some x" for k x
    using that assms(5) by (cases x) (simp_all add: waiting_status_def)
  moreover have "not_past_submission key y" if "(x, y) \<in> st_writes c" for x y
    using assms(6) [OF that] store_invD(5) [OF inv that] by (cases y) auto
  ultimately have "used_key.settled S key i r c" unfolding used_key.settled_def using inv assms(4) by force
  then have "used_key.settled S key i r c'" by (rule used_key.settled_steps [OF assms(7) [unfolded cluster_step_def]])
  then have "waiting_status (Status j)" "ledger_of (core (st_service c')) key = Some (i, Done r)"
    unfolding used_key.settled_def using assms(8,9) not_past_submission.simps(1) by (metis, blast)
  then show ?thesis by (simp add: waiting_status_def)
qed

theorem used_key_never_completes_witness:
  "Phase (Status run_submitted) = PhaseSubmitted \<and>
   ledger_of (core (finished_service example_result run_request)) (job_key example_pending) = Some (''id-1'', Done example_result)"
proof -
  let ?c = "run_cluster (finished_service example_result run_request) :: (unit, unit, unit, unit, string list) cluster"
  let ?step = "cluster_step contract_service run_worlds example_external (apiURL example_pending)
    :: (unit, unit, unit, unit, string list) cluster \<Rightarrow> _"
  have "?step\<^sup>*\<^sup>* (run_cluster (taken_service run_request)) ?c"
    unfolding run_cluster_def by (rule run_service [OF finished_service_reachable])
  then have reach: "?step\<^sup>*\<^sup>* empty_run ?c" using run_reachable by (rule rtranclp_trans [rotated])
  have over: "ledger_of (core (st_service ?c)) (job_key example_pending) = Some (''id-1'', Done example_result)"
    using finished_service_ledger [of example_result run_request] by (simp add: run_cluster_def)
  have objs: "start_phase (Phase (Status j)) \<or> Phase (Status j) = PhaseSubmitted" if "st_objects ?c k = Some (JobObject j)" for k j
    using that run_submitted_status(2) by (simp add: run_cluster_def split: if_splits)
  have none: "object_key old \<noteq> job_key example_pending" if "(old, new) \<in> st_writes ?c" for old new
    using that by (simp add: run_cluster_def)
  have obj: "st_objects ?c (''BenchmarkJob'', ''team'', ''h100'') = Some (JobObject run_submitted)" by (simp add: run_cluster_def)
  from used_key_never_completes [OF contract_service_laws(1) empty_run_empty reach over objs none rtranclp.rtrancl_refl obj
      run_submitted_status(1)]
  show ?thesis using run_submitted_status(2) by (simp add: run_cluster_def)
qed

section \<open>Control planes\<close>

lemma ledger_id_key:
  assumes "backend_inv s" and "ledger_of s k = Some (i, x)" and "ledger_of s k' = Some (i, y)"
  shows "k = k'"
proof -
  obtain b b' where "find_by_id (database s) i = Some b" "bm_idempotency_key b = k" "find_by_id (database s) i = Some b'" "bm_idempotency_key b' = k'"
    using entry_row [OF assms(1,2)] entry_row [OF assms(1,3)] by metis
  then show ?thesis by simp
qed

text \<open>
  C23. The control planes share no benchmark, where all BenchmarkJobs name the URL of one backend, which is also the
  provider's: a BenchmarkJob in a namespace (whose name holds no slash) and a
  cluster-scoped GPUBenchmarkJob never record the same backend job, even with equal names and parameters; nor do
  two BenchmarkJobs in such namespaces unless they have the same namespace and name.
\<close>

theorem control_planes_share_no_benchmark:
  assumes "validates (sp_parse S)" and "empty_cluster c\<^sub>0" and "(cluster_step S W e url)\<^sup>*\<^sup>* c\<^sub>0 c"
    and "st_objects c k = Some (JobObject j)" and "known_phase (Phase (Status j))" and "\<not> start_phase (Phase (Status j))"
    and "Namespace (JobMeta j) \<noteq> ''''" and "CHR ''/'' \<notin> set (Namespace (JobMeta j))"
  shows "(\<forall>k' cr. st_objects c k' = Some (ResourceObject cr) \<and> Namespace (mgMeta cr) = '''' \<and> observed_id cr \<noteq> '''' \<longrightarrow>
            observed_id cr \<noteq> JobID (Status j))
     \<and> (\<forall>k' j'. st_objects c k' = Some (JobObject j') \<and> known_phase (Phase (Status j')) \<and> \<not> start_phase (Phase (Status j'))
            \<and> CHR ''/'' \<notin> set (Namespace (JobMeta j')) \<and> JobID (Status j') = JobID (Status j) \<longrightarrow>
            Namespace (JobMeta j') = Namespace (JobMeta j) \<and> Name (JobMeta j') = Name (JobMeta j))"
proof -
  let ?L = "ledger_of (core (st_service c))"
  note genuine = stored_genuine [OF assms(1-3)]
  have entry: "\<exists>x. ?L (job_key j') = Some (JobID (Status j'), x)"
    if "st_objects c k' = Some (JobObject j')" "known_phase (Phase (Status j'))" "\<not> start_phase (Phase (Status j'))" for k' j'
    using genuine(1) [OF that(1)] that(2,3) by (auto simp: genuine_def Let_def phase_classes)
  obtain x where x: "?L (job_key j) = Some (JobID (Status j), x)" using entry [OF assms(4-6)] by blast
  note same = ledger_id_key [OF genuine(2) [OF assms(4)] x]
  have "observed_id cr \<noteq> JobID (Status j)"
    if cr: "st_objects c k' = Some (ResourceObject cr)" "Namespace (mgMeta cr) = ''''" "observed_id cr \<noteq> ''''" for k' cr
  proof
    assume "observed_id cr = JobID (Status j)"
    then have "job_key j = resource_key cr" using genuine(1) [OF cr(1)] cr(3) same by (auto simp: genuine_observation_def)
    then show False using assms(7,8) cr(2) by (simp add: idempotency_key_inject)
  qed
  moreover have "Namespace (JobMeta j') = Namespace (JobMeta j) \<and> Name (JobMeta j') = Name (JobMeta j)"
    if j': "st_objects c k' = Some (JobObject j')" "known_phase (Phase (Status j'))" "\<not> start_phase (Phase (Status j'))"
      "CHR ''/'' \<notin> set (Namespace (JobMeta j'))" "JobID (Status j') = JobID (Status j)" for k' j'
  proof -
    have "job_key j = job_key j'" using entry [OF j'(1-3)] j'(5) same by auto
    then show ?thesis using assms(8) j'(4) by (simp add: idempotency_key_inject)
  qed
  ultimately show ?thesis by blast
qed

text \<open>A run with both: after the run of the operator a resource is created, submitted and given its own job.\<close>

abbreviation second_row :: Benchmark where
  "second_row \<equiv> new_row id ''id-2'' 0 resource_request"

definition second_service :: service where
  "second_service =
     (let s = taken_service run_request
      in s\<lparr>core := (core s)\<lparr>database := (database (core s))\<lparr>benchmark_rows := [new_row id ''id-1'' 0 run_request, second_row]\<rparr>\<rparr>,
           unpushed := [new_item ''id-2'' resource_request]\<rparr>)"

lemma run_keys: "request_key h run_request = ''team/h100''" "request_key h resource_request = ''/h100''"
  by (simp_all add: request_key_def request_of_def provider_request_of_def idempotency_key_def example_pending_def example_job_def example_mg_def)

lemma second_committed: "service_step (sp_parse contract_service) (sp_sha256 contract_service) (taken_service run_request) second_service"
proof -
  let ?s = "taken_service run_request"
  have "fits_columns ''/h100'' resource_request" "rq_gpu_model resource_request = rq_gpu_model run_request"
    by (simp_all add: fits_columns_def provider_request_of_def request_of_def example_mg_def example_pending_def example_job_def example_spec_def)
  then have made: "create_benchmark id ''id-2'' 0 resource_request (\<lambda>_. database (core ?s)) = (Created second_row, Some (database (core second_service)))"
    using run_keys by (simp add: create_benchmark_def get_or_create_gpu_model_def find_by_key_def taken_service_def second_service_def new_row_def Let_def)
  have "''id-2'' \<notin> bm_id ` set (benchmark_rows (database (core ?s)))" by (simp add: taken_service_def new_row_def)
  from service_step.committed [of "sp_parse contract_service", OF resource_parsed this _ made]
  show ?thesis by (simp add: contract_service_def second_service_def taken_service_def Let_def)
qed

definition both_env :: "(string list, string, unit) provider_env" where
  "both_env = served_provider contract_service ''id-3'' (core second_service)"

definition both_resource :: example_gpu_job where
  "both_resource = created both_env ''id-2'' run_resource"

lemma both_created: "provider_reconcile contract_service {both_env} example_external second_service run_resource both_resource"
proof -
  note serve = served_provider_laws(1) [of contract_service "''id-3''" "core second_service", folded both_env_def]
  have "find_by_key (database (core second_service)) (request_key (sp_sha256 contract_service) resource_request) = Some second_row"
    using run_keys by (simp add: find_by_key_def second_service_def taken_service_def new_row_def Let_def)
  note ans = route_answers [of contract_service, OF resource_parsed this]
  have post: "http_Do both_env (create_request example_external run_resource) = Inr (create_response second_row)"
    using serve ans(1) by (simp add: provider_served_def create_request_def)
  then have "provider_answered contract_service (core second_service) example_external run_resource both_env"
    using ans(2,3) serve by (simp add: provider_answered_def provider_served_def)
  moreover have "created_id both_env (create_request example_external run_resource) = Some ''id-2''"
    using post serve by (simp add: created_id_def provider_served_def new_row_def)
  then have "provider_step {both_env} example_external run_resource both_resource"
    by (intro provider_step.create [of both_env]) (simp_all add: Create_object both_resource_def)
  ultimately show ?thesis unfolding provider_reconcile_def by blast
qed

lemma both_run:
  "\<exists>c :: (unit, unit, unit, unit, string list) cluster.
     (cluster_step contract_service {both_env} example_external (apiURL example_pending))\<^sup>*\<^sup>* empty_run c \<and>
     st_objects c (''BenchmarkJob'', ''team'', ''h100'') = Some (JobObject run_submitted) \<and>
     st_objects c (''GPUBenchmarkJob'', '''', ''h100'') = Some (ResourceObject both_resource)"
proof -
  let ?u = "apiURL example_pending" and ?k = "(''GPUBenchmarkJob'', '''', ''h100'')" and ?x = "ResourceObject run_resource"
  let ?step = "cluster_step contract_service {both_env} example_external ?u :: (unit, unit, unit, unit, string list) cluster \<Rightarrow> _"
  let ?c0 = "run_cluster (taken_service run_request) :: (unit, unit, unit, unit, string list) cluster"
  let ?c1 = "?c0\<lparr>st_objects := (st_objects ?c0)(?k \<mapsto> ?x), st_versions := insert ?x (st_versions ?c0)\<rparr>"
  let ?c2 = "?c1\<lparr>st_service := second_service\<rparr>"
  let ?c3 = "?c2\<lparr>st_objects := (st_objects ?c2)(?k \<mapsto> ResourceObject both_resource), st_versions := insert (ResourceObject both_resource) (st_versions ?c2)\<rparr>"
  have a: "?step ?c0 ?c1"
    unfolding cluster_step_def by (rule store_step.created) (simp_all add: run_cluster_def example_mg_def)
  have b: "?step ?c1 ?c2"
    unfolding cluster_step_def by (rule store_step.progressed) (use second_committed in \<open>simp add: run_cluster_def\<close>)
  have c: "?step\<^sup>*\<^sup>* ?c2 ?c3"
    by (rule store_write [where x = ?x]) (use both_created in \<open>simp_all add: run_cluster_def\<close>)
  have "?step\<^sup>*\<^sup>* empty_run ?c3"
    using run_reachable a b c by (meson rtranclp.rtrancl_into_rtrancl rtranclp_trans)
  moreover have "st_objects ?c3 (''BenchmarkJob'', ''team'', ''h100'') = Some (JobObject run_submitted)"
    "st_objects ?c3 ?k = Some (ResourceObject both_resource)" by (simp_all add: run_cluster_def)
  ultimately show ?thesis by blast
qed

theorem control_planes_share_no_benchmark_witness:
  "observed_id both_resource = ''id-2'' \<and> JobID (Status run_submitted) = ''id-1'' \<and> observed_id both_resource \<noteq> JobID (Status run_submitted)"
proof -
  obtain c :: "(unit, unit, unit, unit, string list) cluster" where
    reach: "(cluster_step contract_service {both_env} example_external (apiURL example_pending))\<^sup>*\<^sup>* empty_run c"
    and job: "st_objects c (''BenchmarkJob'', ''team'', ''h100'') = Some (JobObject run_submitted)"
    and res: "st_objects c (''GPUBenchmarkJob'', '''', ''h100'') = Some (ResourceObject both_resource)"
    using both_run by blast
  have "Namespace (JobMeta run_submitted) = ''team''" by (simp add: run_submitted_status(4) example_pending_def example_job_def)
  then have ns: "Namespace (JobMeta run_submitted) \<noteq> ''''" "CHR ''/'' \<notin> set (Namespace (JobMeta run_submitted))" by simp_all
  have phase: "known_phase (Phase (Status run_submitted))" "\<not> start_phase (Phase (Status run_submitted))"
    using run_submitted_status(2) by (simp_all add: phase_classes)
  have id: "observed_id both_resource = ''id-2''" "Namespace (mgMeta both_resource) = ''''"
    by (simp_all add: both_resource_def created_def example_mg_def)
  then have "observed_id both_resource \<noteq> ''''" by simp
  then have "observed_id both_resource \<noteq> JobID (Status run_submitted)"
    using control_planes_share_no_benchmark [OF contract_service_laws(1) empty_run_empty reach job phase ns] res id(2) by blast
  then show ?thesis using id(1) run_submitted_status(3) by blast
qed

end
