(* ===== verification/Spec2Isabelle.thy ===== *)
theory Spec2Isabelle
  imports Sizing_Properties DeepCopy_Properties Startup Backend_Engines Backend_History Backend_Progress Crash_Safety Managed_Rounds Cluster
begin

text \<open>
  \<^bold>\<open>Verification development of the GPU benchmark platform.\<close>

  The platform runs GPU benchmarks that are declared as Kubernetes objects. Its parts, with the
  sources under \<^verbatim>\<open>src/\<close>:

  \<^item> the \<^emph>\<open>operator\<close> (\<^verbatim>\<open>operator/\<close>): a reconciler that drives a BenchmarkJob through its phases by
    submitting it to the backend and polling it;
  \<^item> the \<^emph>\<open>Crossplane provider\<close> (\<^verbatim>\<open>provider/\<close>): an external client (observe, create, update, delete)
    that crossplane-runtime's managed reconciler calls for GPUBenchmarkJob resources;
  \<^item> the \<^emph>\<open>sizing function\<close> (\<^verbatim>\<open>crossplane/functions/benchmark-sizing/\<close>): a composition function that
    validates a request and annotates it with a runtime estimate;
  \<^item> the \<^emph>\<open>backend\<close> (\<^verbatim>\<open>backend/\<close>): the HTTP service both controllers talk to, with a table of benchmarks, a
    queue, and workers that execute the queued benchmarks with an engine;
  \<^item> the generated deep-copy and accessor code of both API groups, and the entry points.

  \<^bold>\<open>How code is modelled.\<close> A handler is a function of an environment that answers every call it makes
  into a library (API server, HTTP client, clock, conditions); it yields the calls made in their
  order and what it returns, errors and panics included. An \<^verbatim>\<open>int\<close> is a 64-bit word, a \<^verbatim>\<open>float64\<close> is
  computed with IEEE rounding, JSON bodies are decoded with the rules of \<^verbatim>\<open>encoding/json\<close>, pointers that
  can alias are addresses. Nothing is assumed of a library except where a theorem says so
  (\<open>finalizer_laws\<close>, \<open>writes_accepted\<close>, \<open>ready_laws\<close>, \<open>managed_contract\<close> for the managed reconciler, \<open>deep_copier\<close> for library structs, \<open>validates\<close> for the
  validation of requests, \<open>orders_desc\<close> for \<^verbatim>\<open>ORDER BY\<close>, \<open>refuses_inner_space\<close> for \<^verbatim>\<open>float()\<close>); each such theorem
  has a witness in which the assumption holds. Functions are total, so no fuel is used anywhere: the
  loops of the code are the recursions over slices and string lists, and the endless reconcile loop is
  a relation whose runs are bounded by a rank. The worker loop is a list of rounds; three per queued job
  are enough, because a job is tried three times. Where processes run at the same time the model is a step
  relation, and what holds is proved of every reachable state.

  \<^bold>\<open>Shared theories.\<close>

  \<^item> \<open>Go_Prelude\<close>: collections of simplification rules, \<^verbatim>\<open>int\<close>, decimal printing and reading, errors.
  \<^item> \<open>Go_Float64\<close>: \<^verbatim>\<open>float64\<close> arithmetic and when it is exact.
  \<^item> \<open>Go_Json\<close>: decoding into structs and marshalling of maps.
  \<^item> \<open>Kube_Types\<close>: metadata, reconcile results, HTTP responses, job URLs and idempotency keys.
  \<^item> \<open>Transition_System\<close>: locales for systems with an invariant, for systems with a rank and for systems that
    implement a specification.
  \<^item> \<open>Object_Store\<close>: objects in an API server that controllers read, possibly stale, and write back under
    optimistic concurrency, for any controller and any service behind it; locales for properties of every version
    and for properties of what is stored now.
  \<^item> \<open>Submission\<close>: the locale both controllers' submissions interpret.
  \<^item> \<open>Go_Memory\<close>, \<open>Go_Cells\<close>: memory, the locale of deep copies and its combinators, slices.

  \<^bold>\<open>Operator\<close> (\<^verbatim>\<open>benchmarkjob_controller.go\<close>, \<^verbatim>\<open>benchmarkjob_types.go\<close>).

  \<^item> \<open>BenchmarkJob_Types\<close>: the structs and the admission schema.
  \<^item> \<open>BenchmarkJob_Controller\<close>: \<^verbatim>\<open>Reconcile\<close> and its handlers.
  \<^item> \<open>BenchmarkJob_Phases\<close>: the phase machine as an inductive relation; every status write of a
    handler is a move of it.
  \<^item> \<open>BenchmarkJob_Lifecycle\<close>: an object under any interleaving of reconciliations and edits, with the
    invariant of its status, the bound on the number of writes and the retry budget.
  \<^item> \<open>BenchmarkJob_Properties\<close>, \<open>BenchmarkJob_Behaviour\<close>: refinement, invariants, errors, panics, requeueing,
    the successful run, retries, deletion, and the situations without progress.

  \<^bold>\<open>Provider\<close> (\<^verbatim>\<open>gpubenchmarkjob_controller.go\<close>, \<^verbatim>\<open>gpubenchmarkjob_types.go\<close>, \<^verbatim>\<open>providerconfig_types.go\<close>,
  \<^verbatim>\<open>zz_generated.managed.go\<close>).

  \<^item> \<open>GPUBenchmarkJob_Types\<close>: the structs and the accessors, with the locale of an accessor pair.
  \<^item> \<open>GPUBenchmarkJob_Controller\<close>: \<^verbatim>\<open>Connect\<close>, \<^verbatim>\<open>Observe\<close>, \<^verbatim>\<open>Create\<close>, \<^verbatim>\<open>Update\<close>, \<^verbatim>\<open>Delete\<close>.
  \<^item> \<open>GPUBenchmarkJob_Properties\<close>: when a resource counts as absent, what is reflected, what any order of
    calls keeps.

  \<^bold>\<open>Backend\<close> (\<^verbatim>\<open>benchmark_service.py\<close>, \<^verbatim>\<open>queue_service.py\<close>, \<^verbatim>\<open>benchmark_worker.py\<close>, \<^verbatim>\<open>api/benchmarks.py\<close>,
  \<^verbatim>\<open>gpu_engine.py\<close>, \<^verbatim>\<open>models.py\<close>, \<^verbatim>\<open>schemas/benchmark.py\<close>).

  \<^item> \<open>Backend\<close>: tables, queue, routes, service and worker, with what concurrent sessions can commit between
    two statements.
  \<^item> \<open>Backend_Properties\<close>: the invariant of tables and queue under any interleaving, idempotent submission,
    the race of two submissions, the drained queue, the job that is lost.
  \<^item> \<open>Backend_Ledger\<close>: the specification the clients rely on, and that the backend implements it.
  \<^item> \<open>Backend_Workers\<close>: the same code as separate steps of API processes and workers that run at the same time
    and can stop between any two of them; the invariant of tables, queue and what the processes hold.
  \<^item> \<open>Backend_Promises\<close>: these steps implement a ledger as well; the jobs that are lost when a process stops.
  \<^item> \<open>Backend_Progress\<close>: processes that do not stop come to rest with every benchmark settled; the rank is ten
    steps per job, three for each of three attempts and one for the push.
  \<^item> \<open>Backend_History\<close>: the history route.
  \<^item> \<open>Engine\<close>, \<open>Engine_Properties\<close>: the simulation and the adapter of \<^verbatim>\<open>nvidia-smi\<close>; rounding to integers'
    bounds and its idempotence; the bounds of the simulated numbers.
  \<^item> \<open>Backend_Engines\<close>: workers with these engines, on a host without and on a host with several GPUs.

  \<^bold>\<open>Platform\<close>: the controllers with their HTTP calls answered by the model of the backend.

  \<^item> \<open>Platform\<close>: retries against a failed job, a job that finishes too fast, one job through the backend.
  \<^item> \<open>Platform_Contracts\<close>: what the backend accepts, what a poll reads back, the operator's run from object to
    measurements, names that are too long.
  \<^item> \<open>Managed_Rounds\<close>: the provider under the managed reconciler of crossplane-runtime, which is a parameter of
    which only its documented contract is assumed. The contract discards the job ID \<^verbatim>\<open>Create\<close> writes into the
    status, so a resource is submitted again in every round and never shows its measurements; with a reconciler
    that stored it, the next round would.
  \<^item> \<open>Crash_Safety\<close>: status writes that are lost and reconciliations of old versions of an object.
  \<^item> \<open>Backend_Answers\<close>: what a client of the concurrent backend can be told at a given time.
  \<^item> \<open>Cluster_Operator\<close>, \<open>Cluster_Provider\<close>: what one reconciliation of the operator, or one call of the provider,
    makes of an object whose status is genuine.
  \<^item> \<open>Cluster\<close>: the transition system of all objects of both kinds, concurrent and stale reconciliations, users and
    the concurrent backend, as an instance of \<open>Object_Store\<close>; every status is what the backend keeps under the
    key of the object, no two objects share a benchmark, and a key whose job is done completes no further object.

  \<^bold>\<open>Other parts.\<close>

  \<^item> \<open>Sizing\<close>, \<open>Sizing_Properties\<close>: the composition function; the estimate equals an integer formula (for
    batches below \<open>2^44\<close>, where every intermediate result fits the 53 bits of a \<^verbatim>\<open>float64\<close>), its bounds,
    the annotations that are written, lost or refused.
  \<^item> \<open>DeepCopy\<close>, \<open>DeepCopy_Properties\<close>: all generated copiers are deep copiers.
  \<^item> \<open>Startup\<close>: group versions, scheme registration and the three \<^verbatim>\<open>main\<close> functions as sequences of calls.
  \<^item> this theory: what holds between the parts.

  \<^bold>\<open>Not modelled.\<close> Logging and metrics endpoints; the text syntax of JSON and HTTP; goroutines of
  controller-runtime (\<open>Cluster\<close> lets any number of reconciliations of an object overlap, more than the work queue
  does); the API server beyond the acceptance of writes to the version that was read; of the backend its health routes,
  wiring, configuration and telemetry, timestamps other than the creation of a row, the raw metrics of a
  result, and failures of the database other than those its indexes and column widths cause;
  manifests, charts and policies.
\<close>

section \<open>Properties across components\<close>

text \<open>
  The operator and the provider never submit under the same idempotency key: the operator's objects
  live in a namespace (whose name holds no slash), the provider's are cluster-scoped and have none.
\<close>

theorem control_planes_use_different_keys:
  assumes "Namespace (JobMeta j) \<noteq> ''''" and "CHR ''/'' \<notin> set (Namespace (JobMeta j))"
    and "Namespace (mgMeta cr) = ''''"
  shows "json_member (submit_payload j) ''idempotency_key'' \<noteq> json_member (create_payload cr) ''idempotency_key''"
  using assms by (simp add: operator_submission.payload_key provider_submission.payload_key idempotency_key_inject)

theorem control_planes_use_different_keys_witness:
  "json_member (submit_payload (example_job [] zero_status)) ''idempotency_key'' \<noteq>
   json_member (create_payload (example_mg zero_observation)) ''idempotency_key''"
proof -
  have "Namespace (JobMeta (example_job [] zero_status)) = ''team''" "Namespace (mgMeta (example_mg zero_observation)) = ''''"
    by (simp_all add: example_job_def example_mg_def)
  then show ?thesis using control_planes_use_different_keys [of "example_job [] zero_status" "example_mg zero_observation"]
    by simp
qed

text \<open>
  C36. The tables of the sizing function and the admission schema of the operator's type agree: the
  function knows exactly the GPU models and the workloads the schema admits, so a specification that
  was admitted is sized, with an estimate between 30 and 1710 seconds.
\<close>

theorem sizing_covers_admitted_specs:
  "dom tierTable = set gpu_models \<and> Collect validWorkloads = set workload_types \<and>
   (spec_admitted sp \<longrightarrow>
      (\<exists>tier. tierTable (GPUModel sp) = Some tier \<and> validWorkloads (WorkloadType sp) \<and>
         30 \<le> sint (estimatedSec conv tier (WorkloadType sp) (BatchSize sp)) \<and>
         sint (estimatedSec conv tier (WorkloadType sp) (BatchSize sp)) \<le> 1710))"
proof -
  have d: "dom tierTable = set gpu_models"
    by (auto simp: tierTable_def gpu_models_def split: if_splits)
  have w: "Collect validWorkloads = set workload_types"
    by (auto simp: validWorkloads_def workload_types_def split: if_splits)
  have "\<exists>tier. tierTable (GPUModel sp) = Some tier \<and> validWorkloads (WorkloadType sp) \<and>
         30 \<le> sint (estimatedSec conv tier (WorkloadType sp) (BatchSize sp)) \<and>
         sint (estimatedSec conv tier (WorkloadType sp) (BatchSize sp)) \<le> 1710"
    if a: "spec_admitted sp"
  proof -
    obtain tier where tier: "tierTable (GPUModel sp) = Some tier"
      using a d by (auto simp: spec_admitted_def)
    then have "estimate (sint (estimatedRuntimeSec tier)) (workload_factor (WorkloadType sp)) (sint (BatchSize sp))
        = sint (estimatedSec conv tier (WorkloadType sp) (BatchSize sp))"
      using tierTable_runtime a by (intro estimatedSec_int [symmetric]) (auto simp: spec_admitted_def)
    moreover have "validWorkloads (WorkloadType sp)" using a w by (auto simp: spec_admitted_def)
    ultimately show ?thesis
      using tier tierTable_runtime [OF tier] a
        estimate_bounds [of "sint (estimatedRuntimeSec tier)" "sint (BatchSize sp)" "WorkloadType sp"]
      by (auto simp: spec_admitted_def)
  qed
  with d w show ?thesis by blast
qed

theorem sizing_covers_admitted_specs_witness:
  "spec_admitted example_spec \<and> (\<exists>tier. tierTable (GPUModel example_spec) = Some tier)"
proof -
  have "spec_admitted example_spec"
    by (simp add: spec_admitted_def example_spec_def gpu_models_def workload_types_def)
  then show ?thesis using sizing_covers_admitted_specs [of example_spec] by blast
qed

end
